(* ===== verification/Prelude.thy ===== *)
theory Prelude
  imports Main "HOL-Library.Word" "HOL-Library.Monad_Syntax"
begin

unbundle bit_operations_syntax

text \<open>
  Shared vocabulary of the development: the machine types of the C++ sources, the outcome of a
  call that may throw, and the generic list and option lemmas the component theories use.

  \<^item> \<open>wchar\<close> is \<^verbatim>\<open>wchar_t\<close> on Windows, an unsigned 16-bit code unit;
    \<open>wstring\<close> is \<^verbatim>\<open>std::wstring\<close> and \<^verbatim>\<open>std::wstring_view\<close>.
  \<^item> \<open>byte\<close> is \<^verbatim>\<open>BYTE\<close>; \<^verbatim>\<open>uint64_t\<close> is \<open>64 word\<close>; \<^verbatim>\<open>size_t\<close> is \<open>nat\<close>
    where it only counts elements that are in memory; \<^verbatim>\<open>VTInt\<close> (\<^verbatim>\<open>int32_t\<close>) is \<open>int\<close>, with
    the bounds that keep it inside 32 bits proved where the code computes with it.
  \<^item> A function whose C++ counterpart can run into undefined behaviour (\<^verbatim>\<open>back()\<close> on an empty
    vector), an escaping exception or an endless recursion returns an \<open>option\<close>, with
    \<open>None\<close> for that failure.
\<close>

section \<open>Machine types\<close>

type_synonym wchar = "16 word"
type_synonym wstring = "wchar list"
type_synonym byte = "8 word"
type_synonym u64 = "64 word"

text \<open>The result of a C++ call that may throw: the value, or the exception.\<close>

datatype 'a outcome = Returned 'a | Threw

section \<open>Collections of rewrite rules\<close>

named_theorems sm_defs \<open>definitions of the state machine's actions and state changes\<close>
named_theorems char_defs \<open>definitions of the character classes\<close>

section \<open>Generic lemmas\<close>

lemma bind_eq_Some_iff [simp]:
  "(m \<bind> f = Some y) = (\<exists>x. m = Some x \<and> f x = Some (y :: 'b))"
  by (cases m) auto

lemma ex_Some_bind:
  "(\<exists>y. m \<bind> f = Some y \<and> P y) = (\<exists>x. m = Some x \<and> (\<exists>y. f x = Some y \<and> P y))"
  by auto

lemma list_update_last:
  "xs \<noteq> [] \<Longrightarrow> butlast xs @ [y] = xs[length xs - 1 := y]"
  by (induction xs rule: rev_induct) auto

lemma last_snoc_butlast [simp]: "last (butlast xs @ [y]) = y"
  by simp

lemma sorted_wrt_take_drop_concat:
  "i \<le> j \<Longrightarrow> j \<le> length xs \<Longrightarrow> take i xs @ drop i (take j xs) @ drop j xs = xs"
  by (metis append.assoc append_take_drop_id min.absorb1 take_take)

lemma mult_add_less:
  fixes a b c k :: nat
  assumes "a < b" "c < k"
  shows "a * k + c < b * k"
proof -
  from assms(1) have "Suc a * k \<le> b * k" by (intro mult_le_mono1) simp
  with assms(2) show ?thesis by simp
qed

section \<open>Words\<close>

text \<open>A 16-bit character that fits in one byte, shifted into a 64-bit accumulator, stays within it.\<close>

lemma unat_wchar_less [simp]: "unat (c :: wchar) < 65536"
  using unsigned_less [of c] by simp

lemma ucast_wchar_bound: "unat (ucast (c :: wchar) :: u64) = unat c"
proof -
  have "unat c < 2 ^ 64" by (rule less_trans [OF unat_wchar_less]) simp
  then show ?thesis by (simp add: unsigned_ucast_eq take_bit_nat_eq_self)
qed

lemma unat_add_no_wrap:
  fixes a b :: "'a::len word"
  assumes "unat a + unat b < 2 ^ LENGTH('a)"
  shows "unat (a + b) = unat a + unat b"
  using assms by (simp add: unat_word_ariths)

lemma unat_push_bit_no_wrap:
  fixes a :: "'a::len word"
  assumes "unat a * 2 ^ n < 2 ^ LENGTH('a)"
  shows "unat (push_bit n a) = unat a * 2 ^ n"
proof -
  have "unat (push_bit n a) = take_bit LENGTH('a) (push_bit n (unat a))"
    by (rule unsigned_push_bit_eq)
  also have "\<dots> = unat a * 2 ^ n"
    using assms by (simp add: push_bit_eq_mult take_bit_nat_eq_self)
  finally show ?thesis .
qed

lemma unat_low_byte:
  fixes a :: u64
  shows "unat (take_bit 8 a) = unat a mod 256"
  by (subst unsigned_take_bit_eq) (simp add: take_bit_eq_mod)

lemma low_byte_push_bit_add:
  fixes x c :: u64
  shows "take_bit 8 (push_bit 8 x + c) = take_bit 8 c"
proof -
  have dvd: "(256 :: nat) dvd 2 ^ 64" by simp
  have "unat (push_bit 8 x) mod 256 = 0"
    by (subst unsigned_push_bit_eq)
      (simp add: take_bit_eq_mod push_bit_eq_mult mod_mod_cancel [OF dvd, simplified])
  moreover have "unat (push_bit 8 x + c) mod 256 = (unat (push_bit 8 x) + unat c) mod 256"
    by (simp add: unat_word_ariths mod_mod_cancel [OF dvd, simplified])
  ultimately have "unat (push_bit 8 x + c) mod 256 = unat c mod 256"
    by (metis add_0 mod_add_left_eq)
  then show ?thesis by (simp add: word_unat_eq_iff unat_low_byte)
qed

lemma word_in_upt: "unat (c :: 'a::len word) \<in> {a..<b} \<Longrightarrow> c \<in> set (map word_of_nat [a..<b])"
  unfolding set_map set_upt by (rule image_eqI [where x = "unat c"]) simp_all

end
