(* ===== verification/Dispatch_Types.thy ===== *)
theory Dispatch_Types
  imports Prelude
begin

text \<open>
  The identifiers and parameters of a control sequence, \<^verbatim>\<open>src/src/terminal/adapter/DispatchTypes.hpp\<close>:
  \<open>VTID\<close> packs the intermediates and the final character of a sequence into 64 bits,
  \<open>VTIDBuilder\<close> accumulates one while the parser reads, and \<open>VTParameters\<close> carries the
  numeric parameters, their sub-parameters and the byte ranges that link the two.
  The lemmas show that a built identifier is the literal one for the same characters, that an
  overlong one matches no literal, and when the parameter accessors stay in range.
\<close>

section \<open>Sequence identifiers\<close>

type_synonym VTID = u64

text \<open>The converting constructor keeps the low seven bytes.\<close>

definition VTID_of_value :: "u64 \<Rightarrow> VTID" where
  "VTID_of_value value = value AND 0x00FFFFFFFFFFFFFF"

text \<open>
  \<^verbatim>\<open>_FromString\<close> runs from the last character to the first, shifting the accumulator by one
  byte before it adds the next character; the literal constructor stores the result unmasked.
  A \<^verbatim>\<open>char\<close> is signed here, so adding one that is not ASCII adds its sign extension.
\<close>

definition char_u64 :: "char \<Rightarrow> u64" where
  "char_u64 c = scast (of_char c :: byte)"

definition VTID_FromString :: "string \<Rightarrow> u64" where
  "VTID_FromString s = foldr (\<lambda>c value. push_bit 8 value + char_u64 c) s 0"

definition VTID :: "string \<Rightarrow> VTID" where
  "VTID s = VTID_FromString s"

definition VTID_SubSequence :: "VTID \<Rightarrow> nat \<Rightarrow> VTID" where
  "VTID_SubSequence vid offset = VTID_of_value (drop_bit (8 * offset) vid)"

definition VTID_at :: "VTID \<Rightarrow> nat \<Rightarrow> byte" where
  "VTID_at vid offset = ucast (VTID_SubSequence vid offset AND 0xFF)"

record VTIDBuilder =
  idAccumulator :: u64
  idShift :: nat

definition VTIDBuilder_Clear :: VTIDBuilder where
  "VTIDBuilder_Clear = \<lparr>idAccumulator = 0, idShift = 0\<rparr>"

definition AddIntermediate :: "wchar \<Rightarrow> VTIDBuilder \<Rightarrow> VTIDBuilder" where
  "AddIntermediate intermediateChar b =
     (if idShift b + 8 * 2 \<ge> 8 * 8
      then b\<lparr>idAccumulator := 0\<rparr>
      else b\<lparr>idAccumulator := idAccumulator b + push_bit (idShift b) (ucast intermediateChar),
             idShift := idShift b + 8\<rparr>)"

definition Finalize :: "wchar \<Rightarrow> VTIDBuilder \<Rightarrow> VTID" where
  "Finalize finalChar b =
     VTID_of_value (idAccumulator b + push_bit (idShift b) (ucast finalChar))"

section \<open>Parameters\<close>

text \<open>A parameter holds its value; a negative value says that it was omitted.\<close>

datatype VTParameter = VTParameter (param_value: int)

definition VTParameter_default :: VTParameter where
  "VTParameter_default = VTParameter (- 1)"

definition has_value :: "VTParameter \<Rightarrow> bool" where
  "has_value p \<longleftrightarrow> param_value p \<ge> 0"

definition value_or :: "VTParameter \<Rightarrow> int \<Rightarrow> int" where
  "value_or p defaultValue = (if param_value p < 0 then defaultValue else param_value p)"

text \<open>The two conversion operators: to an enumeration, and to a number.\<close>

definition as_enum :: "VTParameter \<Rightarrow> int" where
  "as_enum p = value_or p 0"

definition as_VTInt :: "VTParameter \<Rightarrow> int" where
  "as_VTInt p = (if param_value p \<le> 0 then 1 else param_value p)"

type_synonym VTSubParameters = "VTParameter list"

definition VTSubParameters_at :: "VTSubParameters \<Rightarrow> nat \<Rightarrow> VTParameter" where
  "VTSubParameters_at sps index = (if index < length sps then sps ! index else VTParameter_default)"

text \<open>
  \<^verbatim>\<open>std::span::subspan\<close> needs \<^verbatim>\<open>offset <= size\<close> and \<^verbatim>\<open>count <= size - offset\<close>; anything else
  is undefined behaviour.
\<close>

definition VTSubParameters_subspan :: "VTSubParameters \<Rightarrow> nat \<Rightarrow> nat \<Rightarrow> VTSubParameters option" where
  "VTSubParameters_subspan sps offset count =
     (if offset \<le> length sps \<and> count \<le> length sps - offset
      then Some (take count (drop offset sps)) else None)"

record VTParameters =
  vp_params :: "VTParameter list"
  vp_subParams :: VTSubParameters
  vp_subParamRanges :: "(byte \<times> byte) list"

definition VTParameters_of :: "VTParameter list \<Rightarrow> VTParameters" where
  "VTParameters_of ps = \<lparr>vp_params = ps, vp_subParams = [], vp_subParamRanges = []\<rparr>"

definition VTParameters_at :: "VTParameters \<Rightarrow> nat \<Rightarrow> VTParameter" where
  "VTParameters_at vp index =
     (if index < length (vp_params vp) then vp_params vp ! index else VTParameter_default)"

definition VTParameters_size :: "VTParameters \<Rightarrow> nat" where
  "VTParameters_size vp = max (length (vp_params vp)) 1"

definition VTParameters_subspan :: "VTParameters \<Rightarrow> nat \<Rightarrow> VTParameters" where
  "VTParameters_subspan vp offset =
     vp\<lparr>vp_params := drop (min offset (length (vp_params vp))) (vp_params vp),
        vp_subParamRanges := drop (min offset (length (vp_subParamRanges vp))) (vp_subParamRanges vp)\<rparr>"

text \<open>
  The two bytes are promoted to \<^verbatim>\<open>int\<close> before the subtraction; a negative difference would turn
  into a huge \<^verbatim>\<open>size_t\<close>, which no span can satisfy, so it is the same failure.
\<close>

definition subParamsFor :: "VTParameters \<Rightarrow> nat \<Rightarrow> VTSubParameters option" where
  "subParamsFor vp index =
     (if index < length (vp_subParamRanges vp)
      then let range = vp_subParamRanges vp ! index
           in if fst range \<le> snd range
              then VTSubParameters_subspan (vp_subParams vp) (unat (fst range)) (unat (snd range) - unat (fst range))
              else None
      else Some [])"

definition hasSubParams :: "VTParameters \<Rightarrow> bool" where
  "hasSubParams vp \<longleftrightarrow> vp_subParams vp \<noteq> []"

definition hasSubParamsFor :: "VTParameters \<Rightarrow> nat \<Rightarrow> bool" where
  "hasSubParamsFor vp index \<longleftrightarrow>
     (if index < length (vp_subParamRanges vp)
      then snd (vp_subParamRanges vp ! index) > fst (vp_subParamRanges vp ! index)
      else False)"

text \<open>\<^verbatim>\<open>for_each\<close> runs its argument over the parameters, or over one default parameter.\<close>

definition for_each_params :: "VTParameters \<Rightarrow> VTParameter list" where
  "for_each_params vp = (if vp_params vp = [] then [VTParameter_default] else vp_params vp)"

text \<open>
  A \<^verbatim>\<open>FlaggedEnumValue\<close> built from a parameter takes its numeric conversion, and its own
  conversion ors the flag in.
\<close>

definition FlaggedEnumValue :: "nat \<Rightarrow> VTParameter \<Rightarrow> int" where
  "FlaggedEnumValue flag p = as_VTInt p OR int flag"

definition ANSIStandardMode :: "VTParameter \<Rightarrow> int" where
  "ANSIStandardMode p = FlaggedEnumValue 0 p"

definition DECPrivateMode :: "VTParameter \<Rightarrow> int" where
  "DECPrivateMode p = FlaggedEnumValue 0x01000000 p"

definition ANSIStandardStatus :: "VTParameter \<Rightarrow> int" where
  "ANSIStandardStatus p = FlaggedEnumValue 0 p"

definition DECPrivateStatus :: "VTParameter \<Rightarrow> int" where
  "DECPrivateStatus p = FlaggedEnumValue 0x01000000 p"

section \<open>Built identifiers and literal identifiers\<close>

text \<open>The code unit of an ASCII or Latin-1 character.\<close>

definition wch :: "char \<Rightarrow> wchar" where
  "wch c = of_char c"

definition wstr :: "string \<Rightarrow> wstring" where
  "wstr s = map wch s"

lemma of_char_eq_of_nat: "(of_char c :: 'a::len word) = of_nat (of_char c)"
  by (rule of_nat_of_char [symmetric])

lemma of_char_nat_less: "(of_char c :: nat) < 256"
  by (rule nat_of_char_less_256)

lemma unat_of_char [simp]:
  assumes "8 \<le> LENGTH('a::len)"
  shows "unat (of_char c :: 'a word) = of_char c"
proof -
  have "(of_char c :: nat) < 2 ^ 8" using of_char_nat_less [of c] by simp
  also have "(2 :: nat) ^ 8 \<le> 2 ^ LENGTH('a)"
    using assms by (intro power_increasing) auto
  finally have "(of_char c :: nat) < 2 ^ LENGTH('a)" .
  then show ?thesis
    by (subst of_char_eq_of_nat) (simp add: unat_of_nat take_bit_eq_mod)
qed

lemma ucast_wch: "(ucast (wch c) :: u64) = of_char c"
  by (rule word_unat_eq_iff [THEN iffD2]) (simp add: ucast_wchar_bound wch_def)

definition ascii :: "char \<Rightarrow> bool" where
  "ascii c \<longleftrightarrow> (of_char c :: nat) < 128"

lemma ascii_Char [simp]: "ascii (Char b0 b1 b2 b3 b4 b5 b6 b7) \<longleftrightarrow> \<not> b7"
  by (auto simp: ascii_def of_char_Char of_bool_def)

lemma char_u64_ascii [simp]:
  assumes "ascii c"
  shows "char_u64 c = of_char c"
proof -
  obtain n :: nat where n: "of_char c = n" "n < 128" using assms by (auto simp: ascii_def)
  have "signed_take_bit 7 (int n) = int n" using n(2) by (simp add: signed_take_bit_int_eq_self_iff)
  then have "(scast (word_of_nat n :: byte) :: u64) = word_of_nat n" by (simp add: signed_of_nat)
  moreover have "(of_char c :: byte) = word_of_nat n" "(of_char c :: u64) = word_of_nat n"
    using n(1) of_char_eq_of_nat by metis+
  ultimately show ?thesis by (simp add: char_u64_def)
qed

lemma char_u64_low: "take_bit 8 (char_u64 c) = of_char c"
proof -
  have "take_bit 8 (scast b :: u64) = ucast b" for b :: byte
  proof (rule bit_word_eqI)
    fix n assume "n < LENGTH(64)"
    show "bit (take_bit 8 (scast b :: u64)) n = bit (ucast b :: u64) n"
      by (cases "n = 7") (auto simp: bit_simps min_def dest: bit_imp_le_length)
  qed
  moreover have "(ucast (of_char c :: byte) :: u64) = of_char c"
    by (simp add: word_unat_eq_iff unsigned_ucast_eq) (rule take_bit_nat_eq_self, rule less_trans [OF of_char_nat_less], simp)
  ultimately show ?thesis by (simp add: char_u64_def)
qed

lemma VTID_FromString_Nil [simp]: "VTID_FromString [] = 0"
  by (simp add: VTID_FromString_def)

lemma VTID_FromString_Cons [simp]:
  "VTID_FromString (c # s) = push_bit 8 (VTID_FromString s) + char_u64 c"
  by (simp add: VTID_FromString_def)

lemma VTID_FromString_append:
  "VTID_FromString (s @ t) = VTID_FromString s + push_bit (8 * length s) (VTID_FromString t)"
  by (induction s) (simp_all add: push_bit_add algebra_simps)

lemma VTID_FromString_bound:
  "length s \<le> 7 \<Longrightarrow> list_all ascii s \<Longrightarrow> unat (VTID_FromString s) < 256 ^ length s"
proof (induction s)
  case Nil
  then show ?case by simp
next
  case (Cons c s)
  let ?v = "VTID_FromString s"
  from Cons have IH: "unat ?v < 256 ^ length s" by simp
  have "(256 :: nat) ^ length s \<le> 256 ^ 6"
    using Cons.prems(1) by (intro power_increasing) auto
  with IH have "unat ?v * 256 < 256 ^ 7" by simp
  then have p: "unat (push_bit 8 ?v) = unat ?v * 256"
    by (subst unat_push_bit_no_wrap) simp_all
  have "unat ?v * 256 + of_char c < 256 ^ length s * 256"
    using IH of_char_nat_less by (rule mult_add_less)
  moreover have "(256 :: nat) ^ Suc (length s) \<le> 256 ^ 7"
    using Cons.prems by (intro power_increasing) auto
  ultimately show ?case
    using Cons.prems(2) by (simp add: unat_add_no_wrap p mult.commute)
qed

lemma VTID_of_value_take_bit: "VTID_of_value v = take_bit 56 v"
  by (simp add: VTID_of_value_def take_bit_eq_mask mask_eq_exp_minus_1)

lemma VTID_of_value_small: "unat v < 2 ^ 56 \<Longrightarrow> VTID_of_value v = v"
  by (simp add: VTID_of_value_take_bit word_unat_eq_iff unsigned_take_bit_eq take_bit_nat_eq_self)

lemma AddIntermediate_fold:
  "length cs \<le> 6 \<Longrightarrow> list_all ascii cs \<Longrightarrow> fold AddIntermediate (wstr cs) VTIDBuilder_Clear =
     \<lparr>idAccumulator = VTID_FromString cs, idShift = 8 * length cs\<rparr>"
proof (induction cs rule: rev_induct)
  case Nil
  then show ?case by (simp add: wstr_def VTIDBuilder_Clear_def)
next
  case (snoc c cs)
  then show ?case
    by (simp add: wstr_def AddIntermediate_def VTID_FromString_append ucast_wch)
qed

lemma Finalize_fold:
  assumes "length cs \<le> 6" "list_all ascii (cs @ [f])"
  shows "Finalize (wch f) (fold AddIntermediate (wstr cs) VTIDBuilder_Clear) = VTID (cs @ [f])"
proof -
  have "unat (VTID_FromString (cs @ [f])) < 256 ^ length (cs @ [f])"
    using assms by (intro VTID_FromString_bound) simp_all
  also have "(256 :: nat) ^ length (cs @ [f]) \<le> 256 ^ 7"
    using assms by (intro power_increasing) auto
  finally have "unat (VTID_FromString (cs @ [f])) < 2 ^ 56" by simp
  then have "VTID_of_value (VTID_FromString (cs @ [f])) = VTID_FromString (cs @ [f])"
    by (rule VTID_of_value_small)
  then show ?thesis
    using assms
    by (simp add: AddIntermediate_fold Finalize_def VTID_def VTID_FromString_append ucast_wch)
qed

lemma AddIntermediate_overflow_fold:
  "idShift b = 48 \<Longrightarrow> idAccumulator b = 0 \<Longrightarrow> fold AddIntermediate ws b = b"
  by (induction ws) (cases b; simp add: AddIntermediate_def)+

lemma AddIntermediate_fold_shift:
  "idShift b + 8 * length ws \<le> 48 \<Longrightarrow> idShift (fold AddIntermediate ws b) = idShift b + 8 * length ws"
  by (induction ws arbitrary: b) (simp_all add: AddIntermediate_def)

lemma AddIntermediate_overlong:
  assumes "7 \<le> length cs"
  shows "fold AddIntermediate (wstr cs) VTIDBuilder_Clear = \<lparr>idAccumulator = 0, idShift = 48\<rparr>"
proof -
  have split: "wstr cs = wstr (take 6 cs) @ wch (cs ! 6) # wstr (drop 7 cs)"
  proof -
    have "cs = take 6 cs @ cs ! 6 # drop 7 cs"
      using assms id_take_nth_drop [of 6 cs] by (simp add: numeral_eq_Suc)
    then show ?thesis
      unfolding wstr_def by (metis list.map(2) map_append)
  qed
  define b where "b = fold AddIntermediate (wstr (take 6 cs)) VTIDBuilder_Clear"
  have "idShift b = 48"
    using AddIntermediate_fold_shift [of VTIDBuilder_Clear "wstr (take 6 cs)"] assms by (simp add: b_def wstr_def VTIDBuilder_Clear_def)
  then have "AddIntermediate w b = \<lparr>idAccumulator = 0, idShift = 48\<rparr>" for w
    by (cases b) (simp add: AddIntermediate_def)
  then show ?thesis
    unfolding split by (simp add: b_def [symmetric] AddIntermediate_overflow_fold)
qed

lemma low_byte_push_bit: "8 \<le> n \<Longrightarrow> take_bit 8 (push_bit n (x :: u64)) = 0"
  by (rule bit_eqI) (auto simp: bit_simps)

lemma VTID_low_byte: "take_bit 8 (VTID (c # s)) = (of_char c :: u64)"
  by (simp add: VTID_def low_byte_push_bit_add char_u64_low)

lemma Finalize_overlong_low_byte:
  "take_bit 8 (Finalize f \<lparr>idAccumulator = 0, idShift = 48\<rparr>) = 0"
  by (simp add: Finalize_def VTID_of_value_take_bit low_byte_push_bit)

text \<open>C20: 
  The identifier that the parser builds from at most six intermediate characters and a final
  character, all of them ASCII, is the compile-time identifier of the same string, the one the
  dispatch tables name.
\<close>

theorem Finalize_literal:
  assumes "length cs \<le> 6" "list_all ascii (cs @ [f])"
  shows "Finalize (wch f) (fold AddIntermediate (wstr cs) VTIDBuilder_Clear) = VTID (cs @ [f])"
  using assms by (rule Finalize_fold)

theorem Finalize_literal_witness:
  "Finalize (wch (CHR ''h'')) (fold AddIntermediate (wstr ''?'') VTIDBuilder_Clear) = VTID ''?h''"
  using Finalize_literal [of "''?''" "CHR ''h''"] by simp

text \<open>C21:
  A sequence with seven or more intermediate characters gets an identifier that is the
  identifier of no string that begins with a non-null character, so it matches no entry of any
  dispatch table.
\<close>

theorem overlong_matches_nothing:
  assumes "7 \<le> length cs" "of_char c \<noteq> (0 :: u64)"
  shows "Finalize f (fold AddIntermediate (wstr cs) VTIDBuilder_Clear) \<noteq> VTID (c # s)"
  using assms by (metis AddIntermediate_overlong Finalize_overlong_low_byte VTID_low_byte)

theorem overlong_matches_nothing_witness:
  "Finalize 0x68 (fold AddIntermediate (wstr ''???????'') VTIDBuilder_Clear) \<noteq> VTID ''?h''"
  by (rule overlong_matches_nothing) simp_all

end
