(* ===== verification/Vt_Utils.thy ===== *)
theory Vt_Utils
  imports Dispatch_Types
begin

text \<open>
  The search for the next control character, \<^verbatim>\<open>Utils::FindActionableControlCharacter\<close> of
  \<^verbatim>\<open>src/src/types/utils.cpp\<close>: the scalar loop over \<open>isActionableFromGround\<close>, the SSE2 path that
  looks at eight characters at a time with saturating 16-bit arithmetic, and the lemma that both
  find the same position. The path for ARM NEON is left out.
\<close>

section \<open>The scalar predicate and loop\<close>

definition isActionableFromGround :: "wchar \<Rightarrow> bool" where
  "isActionableFromGround wc \<longleftrightarrow> wc \<le> 0x1f \<or> wc - 0x7f \<le> 0x20"

text \<open>
  The loop \<^verbatim>\<open>for (; it < end && !isActionableFromGround(*it); ++it)\<close>, as the distance it
  moves from the start of its input.
\<close>

fun plainSearch :: "wstring \<Rightarrow> nat" where
  "plainSearch [] = 0"
| "plainSearch (wc # rest) = (if isActionableFromGround wc then 0 else Suc (plainSearch rest))"

section \<open>The vectorised loop\<close>

text \<open>\<^verbatim>\<open>_mm_subs_epu16\<close>: unsigned subtraction that stops at zero, on one lane.\<close>

definition subs_epu16 :: "wchar \<Rightarrow> wchar \<Rightarrow> wchar" where
  "subs_epu16 a b = (if b \<le> a then a - b else 0)"

text \<open>\<^verbatim>\<open>_mm_cmpeq_epi16\<close>: all bits of the lane set, or none.\<close>

definition cmpeq_epi16 :: "wchar \<Rightarrow> wchar \<Rightarrow> wchar" where
  "cmpeq_epi16 a b = (if a = b then 0xffff else 0)"

definition sse_lane :: "wchar \<Rightarrow> wchar" where
  "sse_lane wc =
     (let a = cmpeq_epi16 (subs_epu16 wc 0x1f) 0;
          b = cmpeq_epi16 (subs_epu16 (wc + 0xff81) 0x20) 0
      in a OR b)"

text \<open>
  \<^verbatim>\<open>_mm_movemask_epi8\<close> collects the top bit of every byte, so each 16-bit lane contributes two
  bits: that of its low byte and that of its high byte.
\<close>

definition movemask_epi8 :: "wchar list \<Rightarrow> bool list" where
  "movemask_epi8 lanes = concat (map (\<lambda>l. [bit l 7, bit l 15]) lanes)"

text \<open>\<^verbatim>\<open>_BitScanForward\<close>: the index of the lowest set bit, \<open>None\<close> if the mask is zero.\<close>

fun BitScanForward :: "bool list \<Rightarrow> nat option" where
  "BitScanForward [] = None"
| "BitScanForward (b # bs) = (if b then Some 0 else map_option Suc (BitScanForward bs))"

text \<open>
  The loop body looks at a block of eight characters; \<open>blocks\<close> is \<^verbatim>\<open>len / 8\<close>, the number of
  blocks up to \<^verbatim>\<open>beg + (len & ~7)\<close>. What remains goes to the scalar loop.
\<close>

fun sseSearch :: "nat \<Rightarrow> wstring \<Rightarrow> nat" where
  "sseSearch 0 str = plainSearch str"
| "sseSearch (Suc blocks) str =
     (case BitScanForward (movemask_epi8 (map sse_lane (take 8 str))) of
        Some offset \<Rightarrow> offset div 2
      | None \<Rightarrow> 8 + sseSearch blocks (drop 8 str))"

definition FindActionableControlCharacter :: "wstring \<Rightarrow> nat" where
  "FindActionableControlCharacter str = sseSearch (length str div 8) str"

section \<open>Both paths agree\<close>

lemma plainSearch_takeWhile: "plainSearch str = length (takeWhile (\<lambda>wc. \<not> isActionableFromGround wc) str)"
  by (induction str) auto

lemma plainSearch_le: "plainSearch str \<le> length str"
  by (simp add: plainSearch_takeWhile length_takeWhile_le)

lemma subs_epu16_eq_0: "(subs_epu16 a b = 0) = (a \<le> b)"
  by (auto simp: subs_epu16_def)

lemma sse_lane_eq: "sse_lane wc = (if isActionableFromGround wc then 0xffff else 0)"
proof -
  have "wc + 0xff81 = wc - 0x7f"
    by simp
  then have "(subs_epu16 (wc + 0xff81) 0x20 = 0) = (wc - 0x7f \<le> 0x20)"
    by (simp only: subs_epu16_eq_0)
  then show ?thesis
    unfolding sse_lane_def cmpeq_epi16_def isActionableFromGround_def Let_def
    by (simp only: subs_epu16_eq_0) simp
qed

lemma movemask_lane:
  "[bit (sse_lane wc) 7, bit (sse_lane wc) 15] = [isActionableFromGround wc, isActionableFromGround wc]"
  by (simp add: sse_lane_eq bit_simps)

lemma BitScanForward_lanes:
  "BitScanForward (movemask_epi8 (map sse_lane str)) =
     (if list_ex isActionableFromGround str then Some (2 * plainSearch str) else None)"
proof (induction str)
  case Nil
  then show ?case by (simp add: movemask_epi8_def)
next
  case (Cons wc str)
  have "movemask_epi8 (map sse_lane (wc # str)) =
      [isActionableFromGround wc, isActionableFromGround wc] @ movemask_epi8 (map sse_lane str)"
    by (simp only: movemask_epi8_def list.map concat.simps movemask_lane)
  with Cons show ?case by simp
qed

lemma plainSearch_append:
  "plainSearch (xs @ ys) =
     (if list_ex isActionableFromGround xs then plainSearch xs else length xs + plainSearch ys)"
  by (induction xs) auto

lemma sseSearch_eq: "8 * blocks \<le> length str \<Longrightarrow> sseSearch blocks str = plainSearch str"
proof (induction blocks arbitrary: str)
  case 0
  then show ?case by simp
next
  case (Suc blocks)
  have IH: "sseSearch blocks (drop 8 str) = plainSearch (drop 8 str)"
    using Suc.prems by (intro Suc.IH) simp
  have "plainSearch (take 8 str @ drop 8 str) = plainSearch str" by simp
  with IH Suc.prems show ?case
    by (simp add: BitScanForward_lanes plainSearch_append del: append_take_drop_id split: if_splits)
qed

lemma FindActionableControlCharacter_plain:
  "FindActionableControlCharacter str = plainSearch str"
  by (simp add: FindActionableControlCharacter_def sseSearch_eq)

text \<open>C18: 
  The vectorised search, eight characters at a time with saturating arithmetic and a bit scan,
  returns the length of the longest prefix without a C0, DEL or C1 character, for every string.
\<close>

theorem FindActionableControlCharacter_takeWhile:
  "FindActionableControlCharacter str = length (takeWhile (\<lambda>wc. \<not> isActionableFromGround wc) str)"
  by (simp add: FindActionableControlCharacter_plain plainSearch_takeWhile)

end
