(* ===== verification/State_Machine.thy ===== *)
theory State_Machine
  imports Vt_Utils
begin

text \<open>
  The virtual terminal parser, \<^verbatim>\<open>src/src/terminal/parser/stateMachine.cpp\<close> and \<^verbatim>\<open>stateMachine.hpp\<close>:
  its state, its character classes, the actions, the state changes, one event function per parser
  state, and the entry points \<open>ProcessCharacter\<close>, \<open>ProcessString\<close> and \<open>FlushToTerminal\<close>.

  The parser owns an \<^verbatim>\<open>IStateMachineEngine\<close> and calls it while it runs; the engine holds a
  reference back to the parser and may change it (its modes, its injections, its pending
  callback). So an engine is a record of operations, each of which takes the whole parser state,
  the engine's own state included, and returns the new one. Everything the engine may do is
  therefore visible, and what a well-behaved engine does is a locale of another theory.

  The event tracing calls (\<^verbatim>\<open>_trace\<close>) are diagnostics and are left out. Running out of memory
  is not modelled.
\<close>

section \<open>State\<close>

datatype VTStates =
    Ground | Escape | EscapeIntermediate
  | CsiEntry | CsiIntermediate | CsiIgnore | CsiParam | CsiSubParam
  | OscParam | OscString | OscTermination
  | Ss3Entry | Ss3Param | Vt52Param
  | DcsEntry | DcsIgnore | DcsIntermediate | DcsParam | DcsPassThrough
  | SosPmApcString

datatype Mode = AcceptC1 | Ansi

datatype InjectionType = RIS | DECSET_FOCUS | W32IM

record Injection =
  inj_type :: InjectionType
  inj_offset :: nat

definition MAX_PARAMETER_VALUE :: int where
  "MAX_PARAMETER_VALUE = 65535"

definition MAX_PARAMETER_COUNT :: nat where
  "MAX_PARAMETER_COUNT = 32"

definition MAX_SUBPARAMETER_COUNT :: nat where
  "MAX_SUBPARAMETER_COUNT = 6"

text \<open>
  \<open>'e\<close> is the engine's state, \<open>'h\<close> names the string handlers an engine hands out for
  DCS sequences (a \<^verbatim>\<open>std::function<bool(wchar_t)>\<close> in the source), \<open>'c\<close> the callbacks it registers.
\<close>

record ('e, 'h, 'c) state_machine =
  sm_engine :: 'e
  sm_isEngineForInput :: bool
  sm_state :: VTStates
  sm_parserMode :: "Mode set"
  sm_currentString :: wstring
  sm_runOffset :: nat
  sm_runSize :: nat
  sm_identifier :: VTIDBuilder
  sm_parameters :: "VTParameter list"
  sm_parameterLimitOverflowed :: bool
  sm_subParameters :: "VTParameter list"
  sm_subParameterRanges :: "(byte \<times> byte) list"
  sm_subParameterLimitOverflowed :: bool
  sm_subParameterCounter :: byte
  sm_oscString :: wstring
  sm_oscParameter :: int
  sm_dcsStringHandler :: "'h option"
  sm_cachedSequence :: "wstring option"
  sm_injections :: "Injection list"
  sm_processingLastCharacter :: bool
  sm_onCsiCompleteCallback :: "'c option"

type_synonym ('e, 'h, 'c) sm = "('e, 'h, 'c) state_machine"

text \<open>
  The virtual functions of \<^verbatim>\<open>IStateMachineEngine\<close>, the invocation of a string handler and of a
  callback. An action or a handler reports its boolean result, or that it threw.
\<close>

record ('e, 'h, 'c) engine_ops =
  op_EncounteredWin32InputModeSequence :: "('e, 'h, 'c) sm \<Rightarrow> bool"
  op_ActionExecute :: "wchar \<Rightarrow> ('e, 'h, 'c) sm \<Rightarrow> bool outcome \<times> ('e, 'h, 'c) sm"
  op_ActionExecuteFromEscape :: "wchar \<Rightarrow> ('e, 'h, 'c) sm \<Rightarrow> bool outcome \<times> ('e, 'h, 'c) sm"
  op_ActionPrint :: "wchar \<Rightarrow> ('e, 'h, 'c) sm \<Rightarrow> bool outcome \<times> ('e, 'h, 'c) sm"
  op_ActionPrintString :: "wstring \<Rightarrow> ('e, 'h, 'c) sm \<Rightarrow> bool outcome \<times> ('e, 'h, 'c) sm"
  op_ActionPassThroughString :: "wstring \<Rightarrow> ('e, 'h, 'c) sm \<Rightarrow> bool outcome \<times> ('e, 'h, 'c) sm"
  op_ActionEscDispatch :: "VTID \<Rightarrow> ('e, 'h, 'c) sm \<Rightarrow> bool outcome \<times> ('e, 'h, 'c) sm"
  op_ActionVt52EscDispatch :: "VTID \<Rightarrow> VTParameters \<Rightarrow> ('e, 'h, 'c) sm \<Rightarrow> bool outcome \<times> ('e, 'h, 'c) sm"
  op_ActionCsiDispatch :: "VTID \<Rightarrow> VTParameters \<Rightarrow> ('e, 'h, 'c) sm \<Rightarrow> bool outcome \<times> ('e, 'h, 'c) sm"
  op_ActionDcsDispatch :: "VTID \<Rightarrow> VTParameters \<Rightarrow> ('e, 'h, 'c) sm \<Rightarrow> 'h option outcome \<times> ('e, 'h, 'c) sm"
  op_ActionOscDispatch :: "int \<Rightarrow> wstring \<Rightarrow> ('e, 'h, 'c) sm \<Rightarrow> bool outcome \<times> ('e, 'h, 'c) sm"
  op_ActionSs3Dispatch :: "wchar \<Rightarrow> VTParameters \<Rightarrow> ('e, 'h, 'c) sm \<Rightarrow> bool outcome \<times> ('e, 'h, 'c) sm"
  op_StringHandler :: "'h \<Rightarrow> wchar \<Rightarrow> ('e, 'h, 'c) sm \<Rightarrow> bool outcome \<times> ('e, 'h, 'c) sm"
  op_CsiComplete :: "'c \<Rightarrow> ('e, 'h, 'c) sm \<Rightarrow> ('e, 'h, 'c) sm option"

definition SetParserMode :: "Mode \<Rightarrow> bool \<Rightarrow> ('e, 'h, 'c) sm \<Rightarrow> ('e, 'h, 'c) sm" where
  "SetParserMode mode enabled s =
     s\<lparr>sm_parserMode := (if enabled then insert mode (sm_parserMode s) else sm_parserMode s - {mode})\<rparr>"

definition GetParserMode :: "Mode \<Rightarrow> ('e, 'h, 'c) sm \<Rightarrow> bool" where
  "GetParserMode mode s \<longleftrightarrow> mode \<in> sm_parserMode s"

section \<open>Character classes\<close>

abbreviation AC_NUL :: wchar where "AC_NUL \<equiv> 0x0"
abbreviation AC_ENQ :: wchar where "AC_ENQ \<equiv> 0x5"
abbreviation AC_BEL :: wchar where "AC_BEL \<equiv> 0x7"
abbreviation AC_BS :: wchar where "AC_BS \<equiv> 0x8"
abbreviation AC_TAB :: wchar where "AC_TAB \<equiv> 0x9"
abbreviation AC_LF :: wchar where "AC_LF \<equiv> 0xA"
abbreviation AC_VT :: wchar where "AC_VT \<equiv> 0xB"
abbreviation AC_FF :: wchar where "AC_FF \<equiv> 0xC"
abbreviation AC_CR :: wchar where "AC_CR \<equiv> 0xD"
abbreviation AC_SO :: wchar where "AC_SO \<equiv> 0xE"
abbreviation AC_SI :: wchar where "AC_SI \<equiv> 0xF"
abbreviation AC_ETB :: wchar where "AC_ETB \<equiv> 0x17"
abbreviation AC_CAN :: wchar where "AC_CAN \<equiv> 0x18"
abbreviation AC_EM :: wchar where "AC_EM \<equiv> 0x19"
abbreviation AC_SUB :: wchar where "AC_SUB \<equiv> 0x1A"
abbreviation AC_ESC :: wchar where "AC_ESC \<equiv> 0x1B"
abbreviation AC_FS :: wchar where "AC_FS \<equiv> 0x1C"
abbreviation AC_US :: wchar where "AC_US \<equiv> 0x1F"
abbreviation AC_SPC :: wchar where "AC_SPC \<equiv> 0x20"
abbreviation AC_DEL :: wchar where "AC_DEL \<equiv> 0x7F"

definition isNumericParamValue :: "wchar \<Rightarrow> bool" where [char_defs]:
  "isNumericParamValue wc \<longleftrightarrow> wc \<ge> 0x30 \<and> wc \<le> 0x39"

definition isC0Code :: "wchar \<Rightarrow> bool" where [char_defs]:
  "isC0Code wc \<longleftrightarrow> (wc \<ge> AC_NUL \<and> wc \<le> AC_ETB) \<or> wc = AC_EM \<or> (wc \<ge> AC_FS \<and> wc \<le> AC_US)"

definition isC1ControlCharacter :: "wchar \<Rightarrow> bool" where [char_defs]:
  "isC1ControlCharacter wc \<longleftrightarrow> wc \<ge> 0x80 \<and> wc \<le> 0x9F"

definition c1To7Bit :: "wchar \<Rightarrow> wchar" where
  "c1To7Bit wc = wc - 0x40"

definition isIntermediate :: "wchar \<Rightarrow> bool" where [char_defs]:
  "isIntermediate wc \<longleftrightarrow> wc \<ge> 0x20 \<and> wc \<le> 0x2F"

definition isDelete :: "wchar \<Rightarrow> bool" where [char_defs]:
  "isDelete wc \<longleftrightarrow> wc = AC_DEL"

definition isEscape :: "wchar \<Rightarrow> bool" where [char_defs]:
  "isEscape wc \<longleftrightarrow> wc = AC_ESC"

definition isParameterDelimiter :: "wchar \<Rightarrow> bool" where [char_defs]:
  "isParameterDelimiter wc \<longleftrightarrow> wc = 0x3B"

definition isSubParameterDelimiter :: "wchar \<Rightarrow> bool" where [char_defs]:
  "isSubParameterDelimiter wc \<longleftrightarrow> wc = 0x3A"

definition isCsiIndicator :: "wchar \<Rightarrow> bool" where [char_defs]:
  "isCsiIndicator wc \<longleftrightarrow> wc = 0x5B"

definition isCsiPrivateMarker :: "wchar \<Rightarrow> bool" where [char_defs]:
  "isCsiPrivateMarker wc \<longleftrightarrow> wc = 0x3C \<or> wc = 0x3D \<or> wc = 0x3E \<or> wc = 0x3F"

definition isIntermediateInvalid :: "wchar \<Rightarrow> bool" where [char_defs]:
  "isIntermediateInvalid wc \<longleftrightarrow>
     isNumericParamValue wc \<or> isSubParameterDelimiter wc \<or> isParameterDelimiter wc \<or> isCsiPrivateMarker wc"

definition isParameterInvalid :: "wchar \<Rightarrow> bool" where [char_defs]:
  "isParameterInvalid wc \<longleftrightarrow> isCsiPrivateMarker wc"

definition isStringTerminatorIndicator :: "wchar \<Rightarrow> bool" where [char_defs]:
  "isStringTerminatorIndicator wc \<longleftrightarrow> wc = 0x5C"

definition isSs3Indicator :: "wchar \<Rightarrow> bool" where [char_defs]:
  "isSs3Indicator wc \<longleftrightarrow> wc = 0x4F"

definition isVt52CursorAddress :: "wchar \<Rightarrow> bool" where [char_defs]:
  "isVt52CursorAddress wc \<longleftrightarrow> wc = 0x59"

definition isOscIndicator :: "wchar \<Rightarrow> bool" where [char_defs]:
  "isOscIndicator wc \<longleftrightarrow> wc = 0x5D"

definition isOscDelimiter :: "wchar \<Rightarrow> bool" where [char_defs]:
  "isOscDelimiter wc \<longleftrightarrow> wc = 0x3B"

definition isOscInvalid :: "wchar \<Rightarrow> bool" where [char_defs]:
  "isOscInvalid wc \<longleftrightarrow> wc \<le> 0x17 \<or> wc = 0x19 \<or> (wc \<ge> 0x1C \<and> wc \<le> 0x1F)"

definition isOscTerminator :: "wchar \<Rightarrow> bool" where [char_defs]:
  "isOscTerminator wc \<longleftrightarrow> wc = AC_BEL"

definition isDcsIndicator :: "wchar \<Rightarrow> bool" where [char_defs]:
  "isDcsIndicator wc \<longleftrightarrow> wc = 0x50"

definition isDcsPassThroughValid :: "wchar \<Rightarrow> bool" where [char_defs]:
  "isDcsPassThroughValid wc \<longleftrightarrow> wc \<ge> AC_SPC \<and> wc < AC_DEL"

definition isSosIndicator :: "wchar \<Rightarrow> bool" where [char_defs]:
  "isSosIndicator wc \<longleftrightarrow> wc = 0x58"

definition isPmIndicator :: "wchar \<Rightarrow> bool" where [char_defs]:
  "isPmIndicator wc \<longleftrightarrow> wc = 0x5E"

definition isApcIndicator :: "wchar \<Rightarrow> bool" where [char_defs]:
  "isApcIndicator wc \<longleftrightarrow> wc = 0x5F"

section \<open>Passing an unhandled sequence through\<close>

text \<open>\<^verbatim>\<open>string_view::substr\<close> throws when the offset is past the end, and clips the length.\<close>

definition CurrentRun :: "('e, 'h, 'c) sm \<Rightarrow> wstring option" where
  "CurrentRun s =
     (if sm_runOffset s \<le> length (sm_currentString s)
      then Some (take (sm_runSize s) (drop (sm_runOffset s) (sm_currentString s))) else None)"

text \<open>
  \<open>_SafeExecute\<close> and \<open>FlushToTerminal\<close> call each other: an action that returns false is
  followed by a flush, and the flush runs its own engine calls under \<open>_SafeExecute\<close>. The body
  of \<open>_SafeExecute\<close> takes the flush as an argument, and the flush is a partial function, so an
  engine that keeps refusing to pass a string through gives \<open>None\<close>: the recursion never returns.
\<close>

definition SafeExecute_with ::
  "(('e, 'h, 'c) sm \<Rightarrow> (bool \<times> ('e, 'h, 'c) sm) option) \<Rightarrow>
   (('e, 'h, 'c) sm \<Rightarrow> bool outcome \<times> ('e, 'h, 'c) sm) \<Rightarrow>
   ('e, 'h, 'c) sm \<Rightarrow> (bool \<times> ('e, 'h, 'c) sm) option" where
  "SafeExecute_with flush lambda s =
     (case lambda s of
        (Returned ok, s') \<Rightarrow>
          if ok then Some (True, s')
          else flush s' \<bind> (\<lambda>(_, s''). Some (False, s''))
      | (Threw, s') \<Rightarrow> Some (False, s'))"

lemma SafeExecute_with_mono [partial_function_mono]:
  assumes "\<And>s. mono_option (\<lambda>f. F f s)"
  shows "mono_option (\<lambda>f. SafeExecute_with (F f) lambda s)"
  unfolding SafeExecute_with_def
  by (cases "lambda s"; cases "fst (lambda s)"; cases "\<exists>b. fst (lambda s) = Returned b \<and> b")
    (auto intro!: partial_function_mono assms simp: split_beta)

partial_function (option) FlushToTerminal ::
  "('e, 'h, 'c) engine_ops \<Rightarrow> ('e, 'h, 'c) sm \<Rightarrow> (bool \<times> ('e, 'h, 'c) sm) option" where
  "FlushToTerminal ops s =
     (case sm_cachedSequence s of
        None \<Rightarrow> Some (True, s)
      | Some cached \<Rightarrow>
          SafeExecute_with (FlushToTerminal ops) (op_ActionPassThroughString ops cached) s
            \<bind> (\<lambda>(success, s1). Some (success, s1\<lparr>sm_cachedSequence := None\<rparr>)))
     \<bind> (\<lambda>(success, s2).
        if success
        then SafeExecute_with (FlushToTerminal ops)
               (\<lambda>t. case CurrentRun t of
                      None \<Rightarrow> (Threw, t)
                    | Some run \<Rightarrow> op_ActionPassThroughString ops run t) s2
        else Some (success, s2))"

definition SafeExecute ::
  "('e, 'h, 'c) engine_ops \<Rightarrow> (('e, 'h, 'c) sm \<Rightarrow> bool outcome \<times> ('e, 'h, 'c) sm) \<Rightarrow>
   ('e, 'h, 'c) sm \<Rightarrow> (bool \<times> ('e, 'h, 'c) sm) option" where
  "SafeExecute ops lambda s = SafeExecute_with (FlushToTerminal ops) lambda s"

section \<open>Actions\<close>

text \<open>The parser only traces the result of an engine call and goes on with the state.\<close>

definition execute_action ::
  "('e, 'h, 'c) engine_ops \<Rightarrow> (('e, 'h, 'c) sm \<Rightarrow> bool outcome \<times> ('e, 'h, 'c) sm) \<Rightarrow>
   ('e, 'h, 'c) sm \<Rightarrow> ('e, 'h, 'c) sm option" where
  "execute_action ops lambda s = SafeExecute ops lambda s \<bind> (\<lambda>(_, s'). Some s')"

definition ActionExecute ::
  "('e, 'h, 'c) engine_ops \<Rightarrow> wchar \<Rightarrow> ('e, 'h, 'c) sm \<Rightarrow> ('e, 'h, 'c) sm option" where
  "ActionExecute ops wc s = execute_action ops (op_ActionExecute ops wc) s"

definition ActionExecuteFromEscape ::
  "('e, 'h, 'c) engine_ops \<Rightarrow> wchar \<Rightarrow> ('e, 'h, 'c) sm \<Rightarrow> ('e, 'h, 'c) sm option" where
  "ActionExecuteFromEscape ops wc s = execute_action ops (op_ActionExecuteFromEscape ops wc) s"

definition ActionPrint ::
  "('e, 'h, 'c) engine_ops \<Rightarrow> wchar \<Rightarrow> ('e, 'h, 'c) sm \<Rightarrow> ('e, 'h, 'c) sm option" where
  "ActionPrint ops wc s = execute_action ops (op_ActionPrint ops wc) s"

definition ActionPrintString ::
  "('e, 'h, 'c) engine_ops \<Rightarrow> wstring \<Rightarrow> ('e, 'h, 'c) sm \<Rightarrow> ('e, 'h, 'c) sm option" where
  "ActionPrintString ops str s = execute_action ops (op_ActionPrintString ops str) s"

definition ActionEscDispatch ::
  "('e, 'h, 'c) engine_ops \<Rightarrow> wchar \<Rightarrow> ('e, 'h, 'c) sm \<Rightarrow> ('e, 'h, 'c) sm option" where
  "ActionEscDispatch ops wc s =
     execute_action ops (op_ActionEscDispatch ops (Finalize wc (sm_identifier s))) s"

definition ActionVt52EscDispatch ::
  "('e, 'h, 'c) engine_ops \<Rightarrow> wchar \<Rightarrow> ('e, 'h, 'c) sm \<Rightarrow> ('e, 'h, 'c) sm option" where
  "ActionVt52EscDispatch ops wc s =
     execute_action ops
       (op_ActionVt52EscDispatch ops (Finalize wc (sm_identifier s)) (VTParameters_of (sm_parameters s))) s"

definition CsiParameters :: "('e, 'h, 'c) sm \<Rightarrow> VTParameters" where
  "CsiParameters s =
     \<lparr>vp_params = sm_parameters s, vp_subParams = sm_subParameters s,
      vp_subParamRanges = sm_subParameterRanges s\<rparr>"

definition ActionCsiDispatch ::
  "('e, 'h, 'c) engine_ops \<Rightarrow> wchar \<Rightarrow> ('e, 'h, 'c) sm \<Rightarrow> ('e, 'h, 'c) sm option" where
  "ActionCsiDispatch ops wc s =
     execute_action ops (op_ActionCsiDispatch ops (Finalize wc (sm_identifier s)) (CsiParameters s)) s"

definition ActionCollect :: "wchar \<Rightarrow> ('e, 'h, 'c) sm \<Rightarrow> ('e, 'h, 'c) sm" where
  "ActionCollect wc s = s\<lparr>sm_identifier := AddIntermediate wc (sm_identifier s)\<rparr>"

text \<open>The accumulation is done in \<^verbatim>\<open>int32_t\<close>; its inputs keep it far from overflow.\<close>

definition AccumulateTo :: "wchar \<Rightarrow> int \<Rightarrow> int" where
  "AccumulateTo wc value =
     (let digit = int (unat wc) - 0x30;
          value' = value * 10 + digit
      in if value' > MAX_PARAMETER_VALUE then MAX_PARAMETER_VALUE else value')"

text \<open>
  Both parameter actions start the same way: with no parameter yet, an empty one is added, with
  a sub-parameter range that begins and ends at the current number of sub-parameters, narrowed
  to a byte.
\<close>

definition new_range :: "('e, 'h, 'c) sm \<Rightarrow> byte \<times> byte" where
  "new_range s = (let rangeStart = word_of_nat (length (sm_subParameters s)) in (rangeStart, rangeStart))"

definition ensure_parameter :: "('e, 'h, 'c) sm \<Rightarrow> ('e, 'h, 'c) sm" where
  "ensure_parameter s =
     (if sm_parameters s = []
      then s\<lparr>sm_parameters := [VTParameter_default],
             sm_subParameterRanges := sm_subParameterRanges s @ [new_range s]\<rparr>
      else s)"

definition ActionParam :: "wchar \<Rightarrow> ('e, 'h, 'c) sm \<Rightarrow> ('e, 'h, 'c) sm" where
  "ActionParam wc s =
     (if sm_parameterLimitOverflowed s then s
      else let s1 = ensure_parameter s
           in if isParameterDelimiter wc
              then if length (sm_parameters s1) \<ge> MAX_PARAMETER_COUNT
                   then s1\<lparr>sm_parameterLimitOverflowed := True\<rparr>
                   else s1\<lparr>sm_parameters := sm_parameters s1 @ [VTParameter_default],
                           sm_subParameterCounter := 0,
                           sm_subParameterLimitOverflowed := False,
                           sm_subParameterRanges := sm_subParameterRanges s1 @ [new_range s1]\<rparr>
              else s1\<lparr>sm_parameters := butlast (sm_parameters s1) @
                        [VTParameter (AccumulateTo wc (value_or (last (sm_parameters s1)) 0))]\<rparr>)"

text \<open>\<open>None\<close> is \<^verbatim>\<open>back()\<close> on an empty vector.\<close>

definition ActionSubParam :: "wchar \<Rightarrow> ('e, 'h, 'c) sm \<Rightarrow> ('e, 'h, 'c) sm option" where
  "ActionSubParam wc s =
     (if sm_subParameterLimitOverflowed s then Some s
      else let s1 = ensure_parameter s
           in if isSubParameterDelimiter wc
              then if unat (sm_subParameterCounter s1) \<ge> MAX_SUBPARAMETER_COUNT
                   then Some (s1\<lparr>sm_subParameterLimitOverflowed := True\<rparr>)
                   else if sm_subParameterRanges s1 = [] then None
                   else let range = last (sm_subParameterRanges s1)
                        in Some (s1\<lparr>sm_subParameters := sm_subParameters s1 @ [VTParameter_default],
                                 sm_subParameterRanges :=
                                   butlast (sm_subParameterRanges s1) @ [(fst range, snd range + 1)],
                                 sm_subParameterCounter := sm_subParameterCounter s1 + 1\<rparr>)
              else if sm_subParameters s1 = [] then None
              else Some (s1\<lparr>sm_subParameters := butlast (sm_subParameters s1) @
                        [VTParameter (AccumulateTo wc (value_or (last (sm_subParameters s1)) 0))]\<rparr>))"

definition ActionClear :: "('e, 'h, 'c) sm \<Rightarrow> ('e, 'h, 'c) sm" where
  "ActionClear s =
     s\<lparr>sm_identifier := VTIDBuilder_Clear,
       sm_parameters := [], sm_parameterLimitOverflowed := False,
       sm_subParameters := [], sm_subParameterRanges := [],
       sm_subParameterCounter := 0, sm_subParameterLimitOverflowed := False,
       sm_oscString := [], sm_oscParameter := 0,
       sm_dcsStringHandler := None\<rparr>"

definition ActionIgnore :: "('e, 'h, 'c) sm \<Rightarrow> ('e, 'h, 'c) sm" where [sm_defs]:
  "ActionIgnore s = s"

text \<open>
  The string handler is called without a guard around it. \<open>None\<close> is the call of an empty
  \<^verbatim>\<open>std::function\<close>, which throws, and an exception thrown by the handler, which leaves the parser.
\<close>

definition ActionInterrupt ::
  "('e, 'h, 'c) engine_ops \<Rightarrow> ('e, 'h, 'c) sm \<Rightarrow> ('e, 'h, 'c) sm option" where
  "ActionInterrupt ops s =
     (if sm_state s = DcsPassThrough
      then case sm_dcsStringHandler s of
             None \<Rightarrow> None
           | Some h \<Rightarrow>
               (case op_StringHandler ops h AC_ESC s of
                  (Threw, _) \<Rightarrow> None
                | (Returned _, s1) \<Rightarrow> Some (s1\<lparr>sm_dcsStringHandler := None\<rparr>))
      else Some s)"

definition ActionOscParam :: "wchar \<Rightarrow> ('e, 'h, 'c) sm \<Rightarrow> ('e, 'h, 'c) sm" where
  "ActionOscParam wc s = s\<lparr>sm_oscParameter := AccumulateTo wc (sm_oscParameter s)\<rparr>"

definition ActionOscPut :: "wchar \<Rightarrow> ('e, 'h, 'c) sm \<Rightarrow> ('e, 'h, 'c) sm" where
  "ActionOscPut wc s = s\<lparr>sm_oscString := sm_oscString s @ [wc]\<rparr>"

definition ActionOscDispatch ::
  "('e, 'h, 'c) engine_ops \<Rightarrow> ('e, 'h, 'c) sm \<Rightarrow> ('e, 'h, 'c) sm option" where
  "ActionOscDispatch ops s =
     execute_action ops (op_ActionOscDispatch ops (sm_oscParameter s) (sm_oscString s)) s"

definition ActionSs3Dispatch ::
  "('e, 'h, 'c) engine_ops \<Rightarrow> wchar \<Rightarrow> ('e, 'h, 'c) sm \<Rightarrow> ('e, 'h, 'c) sm option" where
  "ActionSs3Dispatch ops wc s =
     execute_action ops (op_ActionSs3Dispatch ops wc (VTParameters_of (sm_parameters s))) s"

section \<open>State changes\<close>

definition EnterGround :: "('e, 'h, 'c) sm \<Rightarrow> ('e, 'h, 'c) sm" where [sm_defs]:
  "EnterGround s = s\<lparr>sm_state := Ground, sm_cachedSequence := None\<rparr>"

definition EnterEscape :: "('e, 'h, 'c) sm \<Rightarrow> ('e, 'h, 'c) sm" where [sm_defs]:
  "EnterEscape s = ActionClear (s\<lparr>sm_state := Escape\<rparr>)"

definition EnterEscapeIntermediate :: "('e, 'h, 'c) sm \<Rightarrow> ('e, 'h, 'c) sm" where [sm_defs]:
  "EnterEscapeIntermediate s = s\<lparr>sm_state := EscapeIntermediate\<rparr>"

definition EnterCsiEntry :: "('e, 'h, 'c) sm \<Rightarrow> ('e, 'h, 'c) sm" where [sm_defs]:
  "EnterCsiEntry s = ActionClear (s\<lparr>sm_state := CsiEntry\<rparr>)"

definition EnterCsiParam :: "('e, 'h, 'c) sm \<Rightarrow> ('e, 'h, 'c) sm" where [sm_defs]:
  "EnterCsiParam s = s\<lparr>sm_state := CsiParam\<rparr>"

definition EnterCsiSubParam :: "('e, 'h, 'c) sm \<Rightarrow> ('e, 'h, 'c) sm" where [sm_defs]:
  "EnterCsiSubParam s = s\<lparr>sm_state := CsiSubParam\<rparr>"

definition EnterCsiIgnore :: "('e, 'h, 'c) sm \<Rightarrow> ('e, 'h, 'c) sm" where [sm_defs]:
  "EnterCsiIgnore s = s\<lparr>sm_state := CsiIgnore\<rparr>"

definition EnterCsiIntermediate :: "('e, 'h, 'c) sm \<Rightarrow> ('e, 'h, 'c) sm" where [sm_defs]:
  "EnterCsiIntermediate s = s\<lparr>sm_state := CsiIntermediate\<rparr>"

definition EnterOscParam :: "('e, 'h, 'c) sm \<Rightarrow> ('e, 'h, 'c) sm" where [sm_defs]:
  "EnterOscParam s = s\<lparr>sm_state := OscParam\<rparr>"

definition EnterOscString :: "('e, 'h, 'c) sm \<Rightarrow> ('e, 'h, 'c) sm" where [sm_defs]:
  "EnterOscString s = s\<lparr>sm_state := OscString\<rparr>"

definition EnterOscTermination :: "('e, 'h, 'c) sm \<Rightarrow> ('e, 'h, 'c) sm" where [sm_defs]:
  "EnterOscTermination s = s\<lparr>sm_state := OscTermination\<rparr>"

definition EnterSs3Entry :: "('e, 'h, 'c) sm \<Rightarrow> ('e, 'h, 'c) sm" where [sm_defs]:
  "EnterSs3Entry s = ActionClear (s\<lparr>sm_state := Ss3Entry\<rparr>)"

definition EnterSs3Param :: "('e, 'h, 'c) sm \<Rightarrow> ('e, 'h, 'c) sm" where [sm_defs]:
  "EnterSs3Param s = s\<lparr>sm_state := Ss3Param\<rparr>"

definition EnterVt52Param :: "('e, 'h, 'c) sm \<Rightarrow> ('e, 'h, 'c) sm" where [sm_defs]:
  "EnterVt52Param s = s\<lparr>sm_state := Vt52Param\<rparr>"

definition EnterDcsEntry :: "('e, 'h, 'c) sm \<Rightarrow> ('e, 'h, 'c) sm" where [sm_defs]:
  "EnterDcsEntry s = ActionClear (s\<lparr>sm_state := DcsEntry\<rparr>)"

definition EnterDcsParam :: "('e, 'h, 'c) sm \<Rightarrow> ('e, 'h, 'c) sm" where [sm_defs]:
  "EnterDcsParam s = s\<lparr>sm_state := DcsParam\<rparr>"

definition EnterDcsIgnore :: "('e, 'h, 'c) sm \<Rightarrow> ('e, 'h, 'c) sm" where [sm_defs]:
  "EnterDcsIgnore s = s\<lparr>sm_state := DcsIgnore, sm_cachedSequence := None\<rparr>"

definition EnterDcsIntermediate :: "('e, 'h, 'c) sm \<Rightarrow> ('e, 'h, 'c) sm" where [sm_defs]:
  "EnterDcsIntermediate s = s\<lparr>sm_state := DcsIntermediate\<rparr>"

definition EnterDcsPassThrough :: "('e, 'h, 'c) sm \<Rightarrow> ('e, 'h, 'c) sm" where [sm_defs]:
  "EnterDcsPassThrough s = s\<lparr>sm_state := DcsPassThrough, sm_cachedSequence := None\<rparr>"

definition EnterSosPmApcString :: "('e, 'h, 'c) sm \<Rightarrow> ('e, 'h, 'c) sm" where [sm_defs]:
  "EnterSosPmApcString s = s\<lparr>sm_state := SosPmApcString, sm_cachedSequence := None\<rparr>"

text \<open>
  \<open>_ActionDcsDispatch\<close> stores the handler the engine returns and moves to one of two states.
  The assignment happens inside the guarded lambda, so an engine that throws leaves it as it was.
\<close>

definition ActionDcsDispatch ::
  "('e, 'h, 'c) engine_ops \<Rightarrow> wchar \<Rightarrow> ('e, 'h, 'c) sm \<Rightarrow> ('e, 'h, 'c) sm option" where
  "ActionDcsDispatch ops wc s =
     execute_action ops
       (\<lambda>t. case op_ActionDcsDispatch ops (Finalize wc (sm_identifier t)) (VTParameters_of (sm_parameters t)) t of
              (Returned handler, t1) \<Rightarrow> (Returned True, t1\<lparr>sm_dcsStringHandler := handler\<rparr>)
            | (Threw, t1) \<Rightarrow> (Threw, t1)) s
     \<bind> (\<lambda>s1. Some (if sm_dcsStringHandler s1 \<noteq> None then EnterDcsPassThrough s1 else EnterDcsIgnore s1))"

text \<open>
  The pending callback is taken out of the parser before it runs, and the string being processed
  is put back afterwards.
\<close>

definition ExecuteCsiCompleteCallback ::
  "('e, 'h, 'c) engine_ops \<Rightarrow> ('e, 'h, 'c) sm \<Rightarrow> ('e, 'h, 'c) sm option" where
  "ExecuteCsiCompleteCallback ops s =
     (case sm_onCsiCompleteCallback s of
        None \<Rightarrow> Some s
      | Some callback \<Rightarrow>
          op_CsiComplete ops callback (s\<lparr>sm_onCsiCompleteCallback := None\<rparr>)
            \<bind> (\<lambda>s1. Some (s1\<lparr>sm_currentString := sm_currentString s,
                                sm_runOffset := sm_runOffset s,
                                sm_runSize := sm_runSize s\<rparr>)))"

section \<open>Events, one per parser state\<close>

definition EventGround ::
  "('e, 'h, 'c) engine_ops \<Rightarrow> wchar \<Rightarrow> ('e, 'h, 'c) sm \<Rightarrow> ('e, 'h, 'c) sm option" where
  "EventGround ops wc s =
     (if isC0Code wc \<or> isDelete wc then ActionExecute ops wc s
      else ActionPrint ops wc s)"

definition EventEscape ::
  "('e, 'h, 'c) engine_ops \<Rightarrow> wchar \<Rightarrow> ('e, 'h, 'c) sm \<Rightarrow> ('e, 'h, 'c) sm option" where
  "EventEscape ops wc s =
     (if isC0Code wc then
        if sm_isEngineForInput s then map_option EnterGround (ActionExecuteFromEscape ops wc s)
        else ActionExecute ops wc s
      else if isDelete wc then Some (ActionIgnore s)
      else if isIntermediate wc then
        if sm_isEngineForInput s then map_option EnterGround (ActionEscDispatch ops wc s)
        else Some (EnterEscapeIntermediate (ActionCollect wc s))
      else if Ansi \<in> sm_parserMode s then
        if isCsiIndicator wc then Some (EnterCsiEntry s)
        else if isOscIndicator wc then Some (EnterOscParam s)
        else if isSs3Indicator wc \<and> sm_isEngineForInput s then Some (EnterSs3Entry s)
        else if isDcsIndicator wc then Some (EnterDcsEntry s)
        else if isSosIndicator wc \<or> isPmIndicator wc \<or> isApcIndicator wc then Some (EnterSosPmApcString s)
        else map_option EnterGround (ActionEscDispatch ops wc s)
      else if isVt52CursorAddress wc then Some (EnterVt52Param s)
      else map_option EnterGround (ActionVt52EscDispatch ops wc s))"

definition EventEscapeIntermediate ::
  "('e, 'h, 'c) engine_ops \<Rightarrow> wchar \<Rightarrow> ('e, 'h, 'c) sm \<Rightarrow> ('e, 'h, 'c) sm option" where
  "EventEscapeIntermediate ops wc s =
     (if isC0Code wc then ActionExecute ops wc s
      else if isIntermediate wc then Some (ActionCollect wc s)
      else if isDelete wc then Some (ActionIgnore s)
      else if Ansi \<in> sm_parserMode s then map_option EnterGround (ActionEscDispatch ops wc s)
      else if isVt52CursorAddress wc then Some (EnterVt52Param s)
      else map_option EnterGround (ActionVt52EscDispatch ops wc s))"

definition EventCsiEntry ::
  "('e, 'h, 'c) engine_ops \<Rightarrow> wchar \<Rightarrow> ('e, 'h, 'c) sm \<Rightarrow> ('e, 'h, 'c) sm option" where
  "EventCsiEntry ops wc s =
     (if isC0Code wc then ActionExecute ops wc s
      else if isDelete wc then Some (ActionIgnore s)
      else if isIntermediate wc then Some (EnterCsiIntermediate (ActionCollect wc s))
      else if isNumericParamValue wc \<or> isParameterDelimiter wc then Some (EnterCsiParam (ActionParam wc s))
      else if isSubParameterDelimiter wc then map_option EnterCsiSubParam (ActionSubParam wc s)
      else if isCsiPrivateMarker wc then Some (EnterCsiParam (ActionCollect wc s))
      else do {
        s1 \<leftarrow> ActionCsiDispatch ops wc s;
        ExecuteCsiCompleteCallback ops (EnterGround s1)
      })"

definition EventCsiIntermediate ::
  "('e, 'h, 'c) engine_ops \<Rightarrow> wchar \<Rightarrow> ('e, 'h, 'c) sm \<Rightarrow> ('e, 'h, 'c) sm option" where
  "EventCsiIntermediate ops wc s =
     (if isC0Code wc then ActionExecute ops wc s
      else if isIntermediate wc then Some (ActionCollect wc s)
      else if isDelete wc then Some (ActionIgnore s)
      else if isIntermediateInvalid wc then Some (EnterCsiIgnore s)
      else do {
        s1 \<leftarrow> ActionCsiDispatch ops wc s;
        ExecuteCsiCompleteCallback ops (EnterGround s1)
      })"

definition EventCsiIgnore ::
  "('e, 'h, 'c) engine_ops \<Rightarrow> wchar \<Rightarrow> ('e, 'h, 'c) sm \<Rightarrow> ('e, 'h, 'c) sm option" where
  "EventCsiIgnore ops wc s =
     (if isC0Code wc then ActionExecute ops wc s
      else if isDelete wc then Some (ActionIgnore s)
      else if isIntermediate wc then Some (ActionIgnore s)
      else if isIntermediateInvalid wc then Some (ActionIgnore s)
      else Some (EnterGround s))"

definition EventCsiParam ::
  "('e, 'h, 'c) engine_ops \<Rightarrow> wchar \<Rightarrow> ('e, 'h, 'c) sm \<Rightarrow> ('e, 'h, 'c) sm option" where
  "EventCsiParam ops wc s =
     (if isC0Code wc then ActionExecute ops wc s
      else if isDelete wc then Some (ActionIgnore s)
      else if isNumericParamValue wc \<or> isParameterDelimiter wc then Some (ActionParam wc s)
      else if isSubParameterDelimiter wc then map_option EnterCsiSubParam (ActionSubParam wc s)
      else if isIntermediate wc then Some (EnterCsiIntermediate (ActionCollect wc s))
      else if isParameterInvalid wc then Some (EnterCsiIgnore s)
      else do {
        s1 \<leftarrow> ActionCsiDispatch ops wc s;
        ExecuteCsiCompleteCallback ops (EnterGround s1)
      })"

definition EventCsiSubParam ::
  "('e, 'h, 'c) engine_ops \<Rightarrow> wchar \<Rightarrow> ('e, 'h, 'c) sm \<Rightarrow> ('e, 'h, 'c) sm option" where
  "EventCsiSubParam ops wc s =
     (if isC0Code wc then ActionExecute ops wc s
      else if isDelete wc then Some (ActionIgnore s)
      else if isNumericParamValue wc \<or> isSubParameterDelimiter wc then ActionSubParam wc s
      else if isParameterDelimiter wc then Some (EnterCsiParam (ActionParam wc s))
      else if isIntermediate wc then Some (EnterCsiIntermediate (ActionCollect wc s))
      else if isParameterInvalid wc then Some (EnterCsiIgnore s)
      else do {
        s1 \<leftarrow> ActionCsiDispatch ops wc s;
        ExecuteCsiCompleteCallback ops (EnterGround s1)
      })"

definition EventOscParam ::
  "('e, 'h, 'c) engine_ops \<Rightarrow> wchar \<Rightarrow> ('e, 'h, 'c) sm \<Rightarrow> ('e, 'h, 'c) sm option" where
  "EventOscParam ops wc s =
     (if isOscTerminator wc then map_option EnterGround (ActionOscDispatch ops s)
      else if isEscape wc then Some (EnterOscTermination s)
      else if isNumericParamValue wc then Some (ActionOscParam wc s)
      else if isOscDelimiter wc then Some (EnterOscString s)
      else Some (ActionIgnore s))"

definition EventOscString ::
  "('e, 'h, 'c) engine_ops \<Rightarrow> wchar \<Rightarrow> ('e, 'h, 'c) sm \<Rightarrow> ('e, 'h, 'c) sm option" where
  "EventOscString ops wc s =
     (if isOscTerminator wc then map_option EnterGround (ActionOscDispatch ops s)
      else if isEscape wc then Some (EnterOscTermination s)
      else if isOscInvalid wc then Some (ActionIgnore s)
      else Some (ActionOscPut wc s))"

definition EventOscTermination ::
  "('e, 'h, 'c) engine_ops \<Rightarrow> wchar \<Rightarrow> ('e, 'h, 'c) sm \<Rightarrow> ('e, 'h, 'c) sm option" where
  "EventOscTermination ops wc s =
     (if isStringTerminatorIndicator wc then map_option EnterGround (ActionOscDispatch ops s)
      else EventEscape ops wc (EnterEscape s))"

definition EventSs3Entry ::
  "('e, 'h, 'c) engine_ops \<Rightarrow> wchar \<Rightarrow> ('e, 'h, 'c) sm \<Rightarrow> ('e, 'h, 'c) sm option" where
  "EventSs3Entry ops wc s =
     (if isC0Code wc then ActionExecute ops wc s
      else if isDelete wc then Some (ActionIgnore s)
      else if isSubParameterDelimiter wc then Some (EnterCsiIgnore s)
      else if isNumericParamValue wc \<or> isParameterDelimiter wc then Some (EnterSs3Param (ActionParam wc s))
      else map_option EnterGround (ActionSs3Dispatch ops wc s))"

definition EventSs3Param ::
  "('e, 'h, 'c) engine_ops \<Rightarrow> wchar \<Rightarrow> ('e, 'h, 'c) sm \<Rightarrow> ('e, 'h, 'c) sm option" where
  "EventSs3Param ops wc s =
     (if isC0Code wc then ActionExecute ops wc s
      else if isDelete wc then Some (ActionIgnore s)
      else if isNumericParamValue wc \<or> isParameterDelimiter wc then Some (ActionParam wc s)
      else if isParameterInvalid wc \<or> isSubParameterDelimiter wc then Some (EnterCsiIgnore s)
      else map_option EnterGround (ActionSs3Dispatch ops wc s))"

definition EventVt52Param ::
  "('e, 'h, 'c) engine_ops \<Rightarrow> wchar \<Rightarrow> ('e, 'h, 'c) sm \<Rightarrow> ('e, 'h, 'c) sm option" where
  "EventVt52Param ops wc s =
     (if isC0Code wc then ActionExecute ops wc s
      else if isDelete wc then Some (ActionIgnore s)
      else let s1 = s\<lparr>sm_parameters := sm_parameters s @ [VTParameter (int (unat wc))]\<rparr>
           in if length (sm_parameters s1) = 2
              then map_option EnterGround (ActionVt52EscDispatch ops 0x59 s1)
              else Some s1)"

definition EventDcsEntry ::
  "('e, 'h, 'c) engine_ops \<Rightarrow> wchar \<Rightarrow> ('e, 'h, 'c) sm \<Rightarrow> ('e, 'h, 'c) sm option" where
  "EventDcsEntry ops wc s =
     (if isC0Code wc then Some (ActionIgnore s)
      else if isDelete wc then Some (ActionIgnore s)
      else if isSubParameterDelimiter wc then Some (EnterDcsIgnore s)
      else if isNumericParamValue wc \<or> isParameterDelimiter wc then Some (EnterDcsParam (ActionParam wc s))
      else if isIntermediate wc then Some (EnterDcsIntermediate (ActionCollect wc s))
      else ActionDcsDispatch ops wc s)"

definition EventDcsIgnore :: "('e, 'h, 'c) sm \<Rightarrow> ('e, 'h, 'c) sm option" where
  "EventDcsIgnore s = Some (ActionIgnore s)"

definition EventDcsIntermediate ::
  "('e, 'h, 'c) engine_ops \<Rightarrow> wchar \<Rightarrow> ('e, 'h, 'c) sm \<Rightarrow> ('e, 'h, 'c) sm option" where
  "EventDcsIntermediate ops wc s =
     (if isC0Code wc then Some (ActionIgnore s)
      else if isDelete wc then Some (ActionIgnore s)
      else if isIntermediate wc then Some (ActionCollect wc s)
      else if isIntermediateInvalid wc then Some (EnterDcsIgnore s)
      else ActionDcsDispatch ops wc s)"

text \<open>
  In the source the first test of \<^verbatim>\<open>_EventDcsParam\<close> (C0 code or delete: ignore) is not followed by
  an \<^verbatim>\<open>else\<close>, so the chain below it runs for those characters too.
\<close>

definition EventDcsParam ::
  "('e, 'h, 'c) engine_ops \<Rightarrow> wchar \<Rightarrow> ('e, 'h, 'c) sm \<Rightarrow> ('e, 'h, 'c) sm option" where
  "EventDcsParam ops wc s =
     (let s1 = (if isC0Code wc then ActionIgnore s else if isDelete wc then ActionIgnore s else s)
      in if isNumericParamValue wc \<or> isParameterDelimiter wc then Some (ActionParam wc s1)
         else if isIntermediate wc then Some (EnterDcsIntermediate (ActionCollect wc s1))
         else if isParameterInvalid wc \<or> isSubParameterDelimiter wc then Some (EnterDcsIgnore s1)
         else ActionDcsDispatch ops wc s1)"

definition EventDcsPassThrough ::
  "('e, 'h, 'c) engine_ops \<Rightarrow> wchar \<Rightarrow> ('e, 'h, 'c) sm \<Rightarrow> ('e, 'h, 'c) sm option" where
  "EventDcsPassThrough ops wc s =
     (if isC0Code wc \<or> isDcsPassThroughValid wc
      then case sm_dcsStringHandler s of
             None \<Rightarrow> None
           | Some h \<Rightarrow>
               (case op_StringHandler ops h wc s of
                  (Threw, _) \<Rightarrow> None
                | (Returned ok, s1) \<Rightarrow> Some (if ok then s1 else EnterDcsIgnore s1))
      else Some (ActionIgnore s))"

definition EventSosPmApcString :: "('e, 'h, 'c) sm \<Rightarrow> ('e, 'h, 'c) sm option" where
  "EventSosPmApcString s = Some (ActionIgnore s)"

section \<open>Entry points\<close>

lemma isC1_ESC [simp]: "\<not> isC1ControlCharacter AC_ESC"
  by (simp add: isC1ControlCharacter_def)

lemma isC1_c1To7Bit:
  assumes "isC1ControlCharacter wc"
  shows "\<not> isC1ControlCharacter (c1To7Bit wc)"
  using assms by (simp add: isC1ControlCharacter_def c1To7Bit_def) unat_arith

function ProcessCharacter ::
  "('e, 'h, 'c) engine_ops \<Rightarrow> wchar \<Rightarrow> ('e, 'h, 'c) sm \<Rightarrow> ('e, 'h, 'c) sm option" where
  "ProcessCharacter ops wc s =
     (if (wc = AC_CAN \<or> wc = AC_SUB) \<and> \<not> (sm_state s = Escape \<and> sm_isEngineForInput s) then
        do {
          s1 \<leftarrow> ActionInterrupt ops s;
          s2 \<leftarrow> ActionExecute ops wc s1;
          Some (EnterGround s2)
        }
      else if isC1ControlCharacter wc then
        if AcceptC1 \<in> sm_parserMode s then
          ProcessCharacter ops AC_ESC s \<bind> ProcessCharacter ops (c1To7Bit wc)
        else Some s
      else if isEscape wc \<and> sm_state s \<noteq> OscString \<and> sm_state s \<noteq> OscParam then
        map_option EnterEscape (ActionInterrupt ops s)
      else
        (case sm_state s of
           Ground \<Rightarrow> EventGround ops wc s
         | Escape \<Rightarrow> EventEscape ops wc s
         | EscapeIntermediate \<Rightarrow> EventEscapeIntermediate ops wc s
         | CsiEntry \<Rightarrow> EventCsiEntry ops wc s
         | CsiIntermediate \<Rightarrow> EventCsiIntermediate ops wc s
         | CsiIgnore \<Rightarrow> EventCsiIgnore ops wc s
         | CsiParam \<Rightarrow> EventCsiParam ops wc s
         | CsiSubParam \<Rightarrow> EventCsiSubParam ops wc s
         | OscParam \<Rightarrow> EventOscParam ops wc s
         | OscString \<Rightarrow> EventOscString ops wc s
         | OscTermination \<Rightarrow> EventOscTermination ops wc s
         | Ss3Entry \<Rightarrow> EventSs3Entry ops wc s
         | Ss3Param \<Rightarrow> EventSs3Param ops wc s
         | Vt52Param \<Rightarrow> EventVt52Param ops wc s
         | DcsEntry \<Rightarrow> EventDcsEntry ops wc s
         | DcsIgnore \<Rightarrow> EventDcsIgnore s
         | DcsIntermediate \<Rightarrow> EventDcsIntermediate ops wc s
         | DcsParam \<Rightarrow> EventDcsParam ops wc s
         | DcsPassThrough \<Rightarrow> EventDcsPassThrough ops wc s
         | SosPmApcString \<Rightarrow> EventSosPmApcString s))"
  by pat_completeness auto
termination
  by (relation "measure (\<lambda>(ops, wc, s). if isC1ControlCharacter wc then 1 else 0)")
    (auto simp: isC1_c1To7Bit)

declare ProcessCharacter.simps [simp del]

text \<open>
  The inner \<^verbatim>\<open>do ... while\<close> loop of \<open>ProcessString\<close>: characters go through the parser one by one
  until it is back in the ground state or the string ends. It returns the index reached.
\<close>

function ProcessString_chars ::
  "('e, 'h, 'c) engine_ops \<Rightarrow> wstring \<Rightarrow> nat \<Rightarrow> ('e, 'h, 'c) sm \<Rightarrow> (nat \<times> ('e, 'h, 'c) sm) option" where
  "ProcessString_chars ops str i s =
     (if i < length str then
        ProcessCharacter ops (str ! i)
          (s\<lparr>sm_runSize := sm_runSize s + 1, sm_processingLastCharacter := (i + 1 \<ge> length str)\<rparr>)
        \<bind> (\<lambda>s1. if i + 1 < length str \<and> sm_state s1 \<noteq> Ground
                   then ProcessString_chars ops str (i + 1) s1
                   else Some (i + 1, s1))
      else None)"
  by pat_completeness auto
termination
  by (relation "measure (\<lambda>(ops, str, i, s). length str - i)") auto

declare ProcessString_chars.simps [simp del]

lemma ProcessString_chars_index:
  "ProcessString_chars ops str i s = Some (j, s') \<Longrightarrow> i < j \<and> j \<le> length str"
proof (induction ops str i s arbitrary: j s' rule: ProcessString_chars.induct)
  case (1 ops str i s)
  from "1.prems" obtain s1 where i: "i < length str"
    and step: "ProcessCharacter ops (str ! i)
      (s\<lparr>sm_runSize := sm_runSize s + 1, sm_processingLastCharacter := (i + 1 \<ge> length str)\<rparr>) = Some s1"
    and r: "(if i + 1 < length str \<and> sm_state s1 \<noteq> Ground
             then ProcessString_chars ops str (i + 1) s1 else Some (i + 1, s1)) = Some (j, s')"
    unfolding ProcessString_chars.simps [of ops str i s]
    by (simp only: bind_eq_Some_iff split: if_splits) auto
  show ?case
  proof (cases "i + 1 < length str \<and> sm_state s1 \<noteq> Ground")
    case True
    with r have "ProcessString_chars ops str (i + 1) s1 = Some (j, s')" by simp
    from "1.IH" [OF i step True this] show ?thesis by simp
  next
    case False
    with r i show ?thesis by auto
  qed
qed

text \<open>
  The outer \<^verbatim>\<open>while\<close> loop: print the run up to the next control character, then, unless the
  string is used up, hand control characters to the inner loop.
\<close>

definition ProcessString_print ::
  "('e, 'h, 'c) engine_ops \<Rightarrow> wstring \<Rightarrow> nat \<Rightarrow> ('e, 'h, 'c) sm \<Rightarrow> (nat \<times> ('e, 'h, 'c) sm) option" where
  "ProcessString_print ops str i s =
     (let runSize = FindActionableControlCharacter (drop i str);
          s1 = s\<lparr>sm_runOffset := i, sm_runSize := runSize\<rparr>
      in if runSize \<noteq> 0 then
           do {
             run \<leftarrow> CurrentRun s1;
             s2 \<leftarrow> ActionPrintString ops run s1;
             Some (i + runSize, s2\<lparr>sm_runOffset := i + runSize, sm_runSize := 0\<rparr>)
           }
         else Some (i, s1))"

lemma ProcessString_print_index:
  "ProcessString_print ops str i s = Some (j, s') \<Longrightarrow> i \<le> j"
  by (auto simp: ProcessString_print_def Let_def split: if_splits)

function ProcessString_loop ::
  "('e, 'h, 'c) engine_ops \<Rightarrow> wstring \<Rightarrow> nat \<Rightarrow> ('e, 'h, 'c) sm \<Rightarrow> ('e, 'h, 'c) sm option" where
  "ProcessString_loop ops str i s =
     (if i < length str then
        ProcessString_print ops str i s
        \<bind> (\<lambda>(j, s1).
           if j \<ge> length str then Some s1
           else ProcessString_chars ops str j s1
                \<bind> (\<lambda>(k, s2). ProcessString_loop ops str k s2))
      else Some s)"
  by pat_completeness auto
termination
  by (relation "measure (\<lambda>(ops, str, i, s). length str - i)")
    (use ProcessString_chars_index ProcessString_print_index in fastforce)+

declare ProcessString_loop.simps [simp del]

text \<open>The part of \<open>ProcessString\<close> after the loops, when the string ends inside a sequence.\<close>

definition ProcessString_end ::
  "('e, 'h, 'c) engine_ops \<Rightarrow> ('e, 'h, 'c) sm \<Rightarrow> ('e, 'h, 'c) sm option" where
  "ProcessString_end ops s =
     (if sm_state s \<noteq> Ground then
        do {
          run \<leftarrow> CurrentRun s;
          (cacheUnusedRun, s1) \<leftarrow>
            (if sm_isEngineForInput s then
               if \<not> op_EncounteredWin32InputModeSequence ops s \<and> length run \<le> 2 then
                 if run = [] then None
                 else if hd run = 0x1B then
                   do {
                     t \<leftarrow> (if length run = 1 then ActionExecute ops 0x1B (EnterGround s)
                           else ActionEscDispatch ops (last run) (EnterEscape (EnterGround s)));
                     Some (False, EnterGround t)
                   }
                 else Some (True, s)
               else Some (True, s)
             else if sm_state s = SosPmApcString \<or> sm_state s = DcsPassThrough \<or> sm_state s = DcsIgnore
             then Some (False, s)
             else Some (True, s));
          Some (if cacheUnusedRun
                then s1\<lparr>sm_cachedSequence :=
                       Some ((case sm_cachedSequence s1 of None \<Rightarrow> [] | Some cached \<Rightarrow> cached) @ run)\<rparr>
                else s1)
        }
      else Some s)"

definition ProcessString ::
  "('e, 'h, 'c) engine_ops \<Rightarrow> wstring \<Rightarrow> ('e, 'h, 'c) sm \<Rightarrow> ('e, 'h, 'c) sm option" where
  "ProcessString ops str s =
     (let s0 = s\<lparr>sm_currentString := str, sm_runOffset := 0, sm_runSize := 0, sm_injections := []\<rparr>
      in (if sm_state s0 \<noteq> Ground then
            if 0 \<ge> length str then Some s0
            else ProcessString_chars ops str 0 s0 \<bind> (\<lambda>(k, s1). ProcessString_loop ops str k s1)
          else ProcessString_loop ops str 0 s0)
         \<bind> ProcessString_end ops)"

definition IsProcessingLastCharacter :: "('e, 'h, 'c) sm \<Rightarrow> bool" where
  "IsProcessingLastCharacter s = sm_processingLastCharacter s"

definition InjectSequence :: "InjectionType \<Rightarrow> ('e, 'h, 'c) sm \<Rightarrow> ('e, 'h, 'c) sm" where
  "InjectSequence type s =
     s\<lparr>sm_injections := sm_injections s @ [\<lparr>inj_type = type, inj_offset = sm_runOffset s + sm_runSize s\<rparr>]\<rparr>"

definition OnCsiComplete :: "'c \<Rightarrow> ('e, 'h, 'c) sm \<Rightarrow> ('e, 'h, 'c) sm" where
  "OnCsiComplete callback s = s\<lparr>sm_onCsiCompleteCallback := Some callback\<rparr>"

definition ResetState :: "('e, 'h, 'c) sm \<Rightarrow> ('e, 'h, 'c) sm" where
  "ResetState s = EnterGround s"

text \<open>
  The constructor leaves \<^verbatim>\<open>_runOffset\<close>, \<^verbatim>\<open>_runSize\<close> and \<^verbatim>\<open>_processingLastCharacter\<close>
  uninitialised, so their first values are arguments.
\<close>

definition StateMachine :: "'e \<Rightarrow> bool \<Rightarrow> nat \<Rightarrow> nat \<Rightarrow> bool \<Rightarrow> ('e, 'h, 'c) sm" where
  "StateMachine engine isEngineForInput garbageOffset garbageSize garbageLast =
     ActionClear (SetParserMode AcceptC1 isEngineForInput
       \<lparr>sm_engine = engine, sm_isEngineForInput = isEngineForInput, sm_state = Ground,
        sm_parserMode = {Ansi}, sm_currentString = [],
        sm_runOffset = garbageOffset, sm_runSize = garbageSize,
        sm_identifier = VTIDBuilder_Clear, sm_parameters = [], sm_parameterLimitOverflowed = False,
        sm_subParameters = [], sm_subParameterRanges = [], sm_subParameterLimitOverflowed = False,
        sm_subParameterCounter = 0, sm_oscString = [], sm_oscParameter = 0,
        sm_dcsStringHandler = None, sm_cachedSequence = None, sm_injections = [],
        sm_processingLastCharacter = garbageLast, sm_onCsiCompleteCallback = None\<rparr>)"

end
