(* ===== verification/Vt_Engine.thy ===== *)
theory Vt_Engine
  imports State_Machine
begin

text \<open>
  The contract between the parser and its engine. \<open>sm_inv\<close> is the invariant of the parser's own
  state; the locale \<open>vt_engine\<close> fixes an engine's operations and assumes what the parser relies
  on: an engine touches only its own state, the parser modes, the injections and the pending
  callback; it never refuses to pass a string through; a string handler does not throw; a
  completion callback returns and keeps the invariant. Inside the locale every action, event and entry point of the parser is shown to
  return, without undefined behaviour, and to keep the invariant.
\<close>

section \<open>The parser invariant\<close>

definition param_ok :: "VTParameter \<Rightarrow> bool" where
  "param_ok p \<longleftrightarrow> - 1 \<le> param_value p \<and> param_value p \<le> MAX_PARAMETER_VALUE"

definition id_ok :: "VTIDBuilder \<Rightarrow> bool" where
  "id_ok b \<longleftrightarrow> 8 dvd idShift b \<and> idShift b \<le> 48"

text \<open>The sub-parameter ranges cut the sub-parameters from \<open>a\<close> to \<open>n\<close> into consecutive pieces.\<close>

fun ranges_from :: "nat \<Rightarrow> (byte \<times> byte) list \<Rightarrow> nat \<Rightarrow> bool" where
  "ranges_from a [] n \<longleftrightarrow> a = n"
| "ranges_from a (r # rs) n \<longleftrightarrow>
     unat (fst r) = a \<and> a \<le> unat (snd r) \<and> unat (snd r) \<le> a + MAX_SUBPARAMETER_COUNT
     \<and> ranges_from (unat (snd r)) rs n"

definition params_wf :: "('e, 'h, 'c) sm \<Rightarrow> bool" where
  "params_wf s \<longleftrightarrow>
     length (sm_subParameterRanges s) = length (sm_parameters s)
     \<and> length (sm_parameters s) \<le> MAX_PARAMETER_COUNT
     \<and> ranges_from 0 (sm_subParameterRanges s) (length (sm_subParameters s))
     \<and> unat (sm_subParameterCounter s) =
         (if sm_subParameterRanges s = [] then 0
          else unat (snd (last (sm_subParameterRanges s))) - unat (fst (last (sm_subParameterRanges s))))
     \<and> (sm_subParameterLimitOverflowed s \<longrightarrow> sm_subParameters s \<noteq> [])"

definition sm_inv :: "('e, 'h, 'c) sm \<Rightarrow> bool" where
  "sm_inv s \<longleftrightarrow>
     list_all param_ok (sm_parameters s)
     \<and> list_all param_ok (sm_subParameters s)
     \<and> 0 \<le> sm_oscParameter s \<and> sm_oscParameter s \<le> MAX_PARAMETER_VALUE
     \<and> id_ok (sm_identifier s)
     \<and> (sm_state s \<noteq> Ground \<and> sm_state s \<noteq> Vt52Param \<longrightarrow> params_wf s)
     \<and> (sm_state s = Escape \<or> sm_state s = EscapeIntermediate \<longrightarrow> sm_parameters s = [])
     \<and> (sm_state s = Vt52Param \<longrightarrow> length (sm_parameters s) < 2)
     \<and> (sm_state s = CsiSubParam \<longrightarrow> sm_subParameters s \<noteq> [])
     \<and> (sm_state s = DcsPassThrough \<longrightarrow> sm_dcsStringHandler s \<noteq> None)"

section \<open>What an engine may change\<close>

definition engine_frame :: "('e, 'h, 'c) sm \<Rightarrow> ('e, 'h, 'c) sm \<Rightarrow> bool" where
  "engine_frame s s' \<longleftrightarrow>
     s' = s\<lparr>sm_engine := sm_engine s', sm_parserMode := sm_parserMode s',
            sm_injections := sm_injections s', sm_onCsiCompleteCallback := sm_onCsiCompleteCallback s'\<rparr>"

text \<open>Under \<open>_SafeExecute\<close> the cached partial sequence may be flushed as well.\<close>

definition action_frame :: "('e, 'h, 'c) sm \<Rightarrow> ('e, 'h, 'c) sm \<Rightarrow> bool" where
  "action_frame s s' \<longleftrightarrow>
     s' = s\<lparr>sm_engine := sm_engine s', sm_parserMode := sm_parserMode s',
            sm_injections := sm_injections s', sm_onCsiCompleteCallback := sm_onCsiCompleteCallback s',
            sm_cachedSequence := sm_cachedSequence s'\<rparr>"

text \<open>What stays as it is while a string is processed.\<close>

definition run_frame :: "('e, 'h, 'c) sm \<Rightarrow> ('e, 'h, 'c) sm \<Rightarrow> bool" where
  "run_frame s s' \<longleftrightarrow>
     sm_isEngineForInput s' = sm_isEngineForInput s \<and> sm_currentString s' = sm_currentString s
     \<and> sm_runOffset s' = sm_runOffset s \<and> sm_runSize s' = sm_runSize s"

definition step_ok :: "('e, 'h, 'c) sm \<Rightarrow> ('e, 'h, 'c) sm option \<Rightarrow> bool" where
  "step_ok s r \<longleftrightarrow> (case r of None \<Rightarrow> False | Some s' \<Rightarrow> sm_inv s' \<and> run_frame s s')"

locale vt_engine =
  fixes ops :: "('e, 'h, 'c) engine_ops"
  assumes frame_Execute: "engine_frame s (snd (op_ActionExecute ops wc s))"
    and frame_ExecuteFromEscape: "engine_frame s (snd (op_ActionExecuteFromEscape ops wc s))"
    and frame_Print: "engine_frame s (snd (op_ActionPrint ops wc s))"
    and frame_PrintString: "engine_frame s (snd (op_ActionPrintString ops str s))"
    and frame_PassThroughString: "engine_frame s (snd (op_ActionPassThroughString ops str s))"
    and frame_EscDispatch: "engine_frame s (snd (op_ActionEscDispatch ops vid s))"
    and frame_Vt52EscDispatch: "engine_frame s (snd (op_ActionVt52EscDispatch ops vid ps s))"
    and frame_CsiDispatch: "engine_frame s (snd (op_ActionCsiDispatch ops vid ps s))"
    and frame_DcsDispatch: "engine_frame s (snd (op_ActionDcsDispatch ops vid ps s))"
    and frame_OscDispatch: "engine_frame s (snd (op_ActionOscDispatch ops n str s))"
    and frame_Ss3Dispatch: "engine_frame s (snd (op_ActionSs3Dispatch ops wc ps s))"
    and frame_StringHandler: "engine_frame s (snd (op_StringHandler ops h wc s))"
    and handler_returns: "fst (op_StringHandler ops h wc s) \<noteq> Threw"
    and pass_through_accepts: "fst (op_ActionPassThroughString ops str s) \<noteq> Returned False"
    and callback_ok: "sm_inv s \<Longrightarrow> sm_state s = Ground \<Longrightarrow>
      \<exists>s'. op_CsiComplete ops cb s = Some s' \<and> sm_inv s' \<and> sm_isEngineForInput s' = sm_isEngineForInput s"

section \<open>Facts that do not depend on the engine\<close>

lemma engine_frame_refl [simp]: "engine_frame s s"
  by (simp add: engine_frame_def)

lemma engine_frame_action_frame: "engine_frame s s' \<Longrightarrow> action_frame s s'"
  unfolding engine_frame_def action_frame_def by (metis (no_types, lifting) state_machine.surjective state_machine.update_convs(18))

lemma action_frame_fields:
  assumes "action_frame s s'"
  shows "sm_state s' = sm_state s" "sm_isEngineForInput s' = sm_isEngineForInput s"
    "sm_identifier s' = sm_identifier s" "sm_parameters s' = sm_parameters s"
    "sm_subParameters s' = sm_subParameters s" "sm_subParameterRanges s' = sm_subParameterRanges s"
    "sm_subParameterCounter s' = sm_subParameterCounter s"
    "sm_parameterLimitOverflowed s' = sm_parameterLimitOverflowed s"
    "sm_subParameterLimitOverflowed s' = sm_subParameterLimitOverflowed s"
    "sm_oscString s' = sm_oscString s" "sm_oscParameter s' = sm_oscParameter s"
    "sm_dcsStringHandler s' = sm_dcsStringHandler s" "sm_currentString s' = sm_currentString s"
    "sm_runOffset s' = sm_runOffset s" "sm_runSize s' = sm_runSize s"
    "sm_processingLastCharacter s' = sm_processingLastCharacter s"
  using assms unfolding action_frame_def by (cases s; cases s'; simp)+

lemma action_frame_refl [simp]: "action_frame s s"
  by (simp add: action_frame_def)

lemma action_frame_trans [trans]: "action_frame s t \<Longrightarrow> action_frame t u \<Longrightarrow> action_frame s u"
  by (cases s; cases t; cases u) (simp add: action_frame_def)

lemma action_frame_cached [simp]: "action_frame s (s\<lparr>sm_cachedSequence := c\<rparr>)"
  by (cases s) (simp add: action_frame_def)

lemma action_frame_run_frame: "action_frame s s' \<Longrightarrow> run_frame s s'"
  by (simp add: run_frame_def action_frame_fields)

lemma action_frame_inv: "action_frame s s' \<Longrightarrow> sm_inv s' = sm_inv s"
  by (simp add: sm_inv_def params_wf_def action_frame_fields)

lemma run_frame_refl [simp]: "run_frame s s"
  by (simp add: run_frame_def)

lemma run_frame_trans: "run_frame s t \<Longrightarrow> run_frame t u \<Longrightarrow> run_frame s u"
  by (simp add: run_frame_def)

lemma step_ok_Some [simp]: "step_ok s (Some s') \<longleftrightarrow> sm_inv s' \<and> run_frame s s'"
  by (simp add: step_ok_def)

lemma step_ok_iff: "step_ok s r \<longleftrightarrow> (\<exists>s'. r = Some s' \<and> sm_inv s' \<and> run_frame s s')"
  by (cases r) (simp_all add: step_ok_def)

lemma step_ok_bind:
  "step_ok s r \<Longrightarrow> (\<And>t. sm_inv t \<Longrightarrow> run_frame s t \<Longrightarrow> step_ok t (f t)) \<Longrightarrow> step_ok s (r \<bind> f)"
  unfolding step_ok_iff by (metis run_frame_trans Option.bind.bind_lunit)

subsection \<open>Parameters\<close>

lemma ranges_from_le: "ranges_from a rs n \<Longrightarrow> a \<le> n \<and> n \<le> a + MAX_SUBPARAMETER_COUNT * length rs"
proof (induction rs arbitrary: a)
  case (Cons r rs)
  then have "unat (snd r) \<le> n \<and> n \<le> unat (snd r) + MAX_SUBPARAMETER_COUNT * length rs" by simp
  with Cons.prems show ?case by simp
qed simp

lemma ranges_from_snoc:
  "ranges_from a (rs @ [r]) n \<longleftrightarrow>
     ranges_from a rs (unat (fst r)) \<and> unat (fst r) \<le> unat (snd r)
     \<and> unat (snd r) \<le> unat (fst r) + MAX_SUBPARAMETER_COUNT \<and> unat (snd r) = n"
  by (induction rs arbitrary: a) auto

lemma params_wf_count:
  assumes "params_wf s"
  shows "length (sm_subParameters s) \<le> MAX_SUBPARAMETER_COUNT * MAX_PARAMETER_COUNT"
proof -
  have "length (sm_subParameters s) \<le> MAX_SUBPARAMETER_COUNT * length (sm_parameters s)"
    using assms ranges_from_le [of 0 "sm_subParameterRanges s" "length (sm_subParameters s)"]
    by (simp add: params_wf_def)
  also have "\<dots> \<le> MAX_SUBPARAMETER_COUNT * MAX_PARAMETER_COUNT"
    using assms by (intro mult_le_mono2) (simp add: params_wf_def)
  finally show ?thesis .
qed

lemma unat_byte_of_nat: "n < 256 \<Longrightarrow> unat (word_of_nat n :: byte) = n"
  by (simp add: unat_of_nat)

lemma params_wf_new_range:
  assumes "params_wf s"
  shows "unat (fst (new_range s)) = length (sm_subParameters s)"
    "snd (new_range s) = fst (new_range s)"
proof -
  have "length (sm_subParameters s) < 256"
    using params_wf_count [OF assms] by (simp add: MAX_SUBPARAMETER_COUNT_def MAX_PARAMETER_COUNT_def)
  then show "unat (fst (new_range s)) = length (sm_subParameters s)" "snd (new_range s) = fst (new_range s)"
    by (simp_all add: new_range_def Let_def unat_byte_of_nat)
qed


lemma AccumulateTo_bounds:
  assumes "isNumericParamValue wc" "0 \<le> v"
  shows "0 \<le> AccumulateTo wc v" "AccumulateTo wc v \<le> MAX_PARAMETER_VALUE"
  using assms unfolding AccumulateTo_def Let_def isNumericParamValue_def
  by (auto simp: MAX_PARAMETER_VALUE_def word_le_def)

lemma value_or_nonneg: "param_ok p \<Longrightarrow> 0 \<le> value_or p 0"
  by (simp add: param_ok_def value_or_def)

lemma param_ok_default [simp]: "param_ok VTParameter_default"
  by (simp add: param_ok_def VTParameter_default_def MAX_PARAMETER_VALUE_def)

lemma param_ok_Accumulate:
  "isNumericParamValue wc \<Longrightarrow> param_ok p \<Longrightarrow> param_ok (VTParameter (AccumulateTo wc (value_or p 0)))"
  using AccumulateTo_bounds [OF _ value_or_nonneg, of wc p] by (simp add: param_ok_def)

text \<open>The part of the invariant the parameter actions are responsible for.\<close>

definition pinv :: "('e, 'h, 'c) sm \<Rightarrow> bool" where
  "pinv s \<longleftrightarrow> params_wf s \<and> list_all param_ok (sm_parameters s) \<and> list_all param_ok (sm_subParameters s)"

lemma list_all_last: "list_all P xs \<Longrightarrow> xs \<noteq> [] \<Longrightarrow> P (last xs)"
  by (simp add: list_all_iff)

lemma list_all_butlast: "list_all P xs \<Longrightarrow> list_all P (butlast xs)"
  by (auto simp: list_all_iff dest: in_set_butlastD)

lemma ensure_parameter_pinv:
  assumes "pinv s"
  shows "pinv (ensure_parameter s)" "sm_parameters (ensure_parameter s) \<noteq> []"
    "sm_subParameterRanges (ensure_parameter s) \<noteq> []"
    "sm_subParameters (ensure_parameter s) = sm_subParameters s"
proof -
  have wf: "params_wf s" using assms by (simp add: pinv_def)
  have "params_wf (ensure_parameter s)"
    using wf params_wf_new_range [OF wf]
    by (auto simp: ensure_parameter_def params_wf_def MAX_PARAMETER_COUNT_def)
  then show "pinv (ensure_parameter s)"
    using assms by (simp add: pinv_def) (simp add: ensure_parameter_def)
  show ne: "sm_parameters (ensure_parameter s) \<noteq> []" by (simp add: ensure_parameter_def)
  show "sm_subParameterRanges (ensure_parameter s) \<noteq> []"
    using \<open>params_wf (ensure_parameter s)\<close> ne by (auto simp: params_wf_def)
  show "sm_subParameters (ensure_parameter s) = sm_subParameters s" by (simp add: ensure_parameter_def)
qed

lemma push_parameter_wf:
  assumes "params_wf s" "length (sm_parameters s) < MAX_PARAMETER_COUNT"
  shows "params_wf (s\<lparr>sm_parameters := sm_parameters s @ [p], sm_subParameterCounter := 0,
    sm_subParameterLimitOverflowed := False, sm_subParameterRanges := sm_subParameterRanges s @ [new_range s]\<rparr>)"
  using assms params_wf_new_range [OF assms(1)] by (simp add: params_wf_def ranges_from_snoc)

lemma ActionParam_pinv:
  assumes "pinv s" "isNumericParamValue wc \<or> isParameterDelimiter wc"
  shows "pinv (ActionParam wc s)"
proof -
  define t where "t = ensure_parameter s"
  have t: "pinv t" "sm_parameters t \<noteq> []" unfolding t_def using ensure_parameter_pinv [OF assms(1)] by simp_all
  then have wf: "params_wf t" by (simp add: pinv_def)
  have num: "isNumericParamValue wc" if "\<not> isParameterDelimiter wc" using assms(2) that by simp
  show ?thesis
    unfolding ActionParam_def t_def [symmetric] Let_def
    using assms(1) t wf push_parameter_wf [OF wf] param_ok_Accumulate [OF num]
      list_all_last [of param_ok "sm_parameters t"] list_all_butlast [of param_ok "sm_parameters t"]
    by (simp add: pinv_def) (simp add: params_wf_def)
qed

lemma push_subparameter_wf:
  assumes "params_wf s" "sm_subParameterRanges s \<noteq> []" "unat (sm_subParameterCounter s) < MAX_SUBPARAMETER_COUNT"
  shows "params_wf (s\<lparr>sm_subParameters := sm_subParameters s @ [p],
    sm_subParameterRanges := butlast (sm_subParameterRanges s) @
      [(fst (last (sm_subParameterRanges s)), snd (last (sm_subParameterRanges s)) + 1)],
    sm_subParameterCounter := sm_subParameterCounter s + 1\<rparr>)"
proof -
  obtain rs f e where rs: "sm_subParameterRanges s = rs @ [(f, e)]"
    using assms(2) by (metis append_butlast_last_id surj_pair)
  have e: "unat e = length (sm_subParameters s)" "unat e < 255" "unat f \<le> unat e"
    "unat e - unat f < MAX_SUBPARAMETER_COUNT"
    using assms(1,3) params_wf_count [OF assms(1)] unfolding params_wf_def rs
    by (simp_all add: ranges_from_snoc MAX_SUBPARAMETER_COUNT_def MAX_PARAMETER_COUNT_def)
  have "unat (e + 1) = unat e + 1" using e by (simp add: unat_add_no_wrap)
  moreover have "unat (sm_subParameterCounter s + 1) = unat (sm_subParameterCounter s) + 1"
    using assms(3) by (simp add: unat_add_no_wrap MAX_SUBPARAMETER_COUNT_def)
  ultimately show ?thesis
    using assms(1) e unfolding params_wf_def rs by (simp add: ranges_from_snoc) linarith
qed


lemma ActionSubParam_pinv:
  assumes "pinv s" "isNumericParamValue wc \<and> sm_subParameters s \<noteq> [] \<or> isSubParameterDelimiter wc"
  shows "\<exists>s'. ActionSubParam wc s = Some s' \<and> pinv s' \<and> sm_subParameters s' \<noteq> []"
proof -
  define t where "t = ensure_parameter s"
  have t: "pinv t" "sm_subParameterRanges t \<noteq> []" "sm_subParameters t = sm_subParameters s"
    unfolding t_def using ensure_parameter_pinv [OF assms(1)] by simp_all
  then have wf: "params_wf t" by (simp add: pinv_def)
  show ?thesis
  proof (cases "sm_subParameterLimitOverflowed s")
    case True
    then show ?thesis using assms(1) by (auto simp: ActionSubParam_def pinv_def params_wf_def)
  next
    case False
    note body = ActionSubParam_def t_def [symmetric] Let_def
    show ?thesis
    proof (cases "isSubParameterDelimiter wc")
      case delim: True
      show ?thesis
      proof (cases "unat (sm_subParameterCounter t) < MAX_SUBPARAMETER_COUNT")
        case True
        with False delim t push_subparameter_wf [OF wf t(2) True] show ?thesis
          unfolding body by (simp add: pinv_def)
      next
        case full: False
        then have "sm_subParameters t \<noteq> []"
          using wf t(2) by (cases "sm_subParameterRanges t" rule: rev_cases)
            (auto simp: params_wf_def ranges_from_snoc MAX_SUBPARAMETER_COUNT_def)
        with False delim full t wf show ?thesis
          unfolding body by (simp add: pinv_def) (simp add: params_wf_def)
      qed
    next
      case num: False
      with assms(2) have wc: "isNumericParamValue wc" and ne: "sm_subParameters t \<noteq> []" using t(3) by auto
      with False num t wf param_ok_Accumulate [OF wc] list_all_last [of param_ok "sm_subParameters t"]
        list_all_butlast [of param_ok "sm_subParameters t"] show ?thesis
        unfolding body by (simp add: pinv_def) (simp add: params_wf_def)
    qed
  qed
qed


subsection \<open>How the parameter actions, the entries and the frames keep the invariant\<close>

definition param_frame :: "('e, 'h, 'c) sm \<Rightarrow> ('e, 'h, 'c) sm \<Rightarrow> bool" where
  "param_frame s s' \<longleftrightarrow>
     run_frame s s' \<and> sm_state s' = sm_state s \<and> sm_identifier s' = sm_identifier s
     \<and> sm_oscParameter s' = sm_oscParameter s \<and> sm_dcsStringHandler s' = sm_dcsStringHandler s"

lemma ActionParam_frame: "param_frame s (ActionParam wc s)"
  by (simp add: param_frame_def run_frame_def ActionParam_def ensure_parameter_def Let_def)

lemma ActionSubParam_frame: "ActionSubParam wc s = Some s' \<Longrightarrow> param_frame s s'"
  by (auto simp: param_frame_def run_frame_def ActionSubParam_def ensure_parameter_def Let_def split: if_splits)

definition rest_ok :: "('e, 'h, 'c) sm \<Rightarrow> bool" where
  "rest_ok s \<longleftrightarrow>
     0 \<le> sm_oscParameter s \<and> sm_oscParameter s \<le> MAX_PARAMETER_VALUE \<and> id_ok (sm_identifier s)"

lemma sm_inv_rest_ok: "sm_inv s \<Longrightarrow> rest_ok s"
  by (simp add: sm_inv_def rest_ok_def)

lemma sm_inv_pinv: "sm_inv s \<Longrightarrow> sm_state s \<notin> {Ground, Vt52Param} \<Longrightarrow> pinv s"
  by (simp add: sm_inv_def pinv_def)

lemma sm_inv_plain:
  "pinv s \<Longrightarrow> rest_ok s \<Longrightarrow> sm_state s \<notin> {Escape, EscapeIntermediate, Vt52Param, CsiSubParam, DcsPassThrough} \<Longrightarrow> sm_inv s"
  by (auto simp: sm_inv_def pinv_def rest_ok_def)

lemma rest_ok_cong:
  "sm_oscParameter s' = sm_oscParameter s \<Longrightarrow> sm_identifier s' = sm_identifier s \<Longrightarrow> rest_ok s' = rest_ok s"
  by (simp add: rest_ok_def)

lemma AddIntermediate_shift: "id_ok b \<Longrightarrow> id_ok (AddIntermediate wc b)"
  unfolding id_ok_def AddIntermediate_def by (auto elim!: dvdE)

lemma sm_inv_EnterGround: "sm_inv s \<Longrightarrow> sm_inv (EnterGround s)"
  by (simp add: sm_inv_def EnterGround_def)

lemma sm_inv_Ground_of: "action_frame s s' \<Longrightarrow> sm_inv (s\<lparr>sm_state := Ground, sm_dcsStringHandler := h\<rparr>) \<Longrightarrow> sm_inv (EnterGround s')"
  by (simp add: sm_inv_def EnterGround_def action_frame_fields)

lemma sm_inv_cleared: "sm_state s \<notin> {Vt52Param, CsiSubParam, DcsPassThrough} \<Longrightarrow> sm_inv (ActionClear s)"
  by (simp add: sm_inv_def ActionClear_def params_wf_def id_ok_def VTIDBuilder_Clear_def MAX_PARAMETER_VALUE_def)

lemma sm_inv_Enter_cleared [simp]:
  "sm_inv (EnterEscape s)" "sm_inv (EnterCsiEntry s)" "sm_inv (EnterSs3Entry s)" "sm_inv (EnterDcsEntry s)"
  by (simp_all add: sm_defs sm_inv_cleared)

lemma run_frame_Enter [simp]:
  "run_frame s (EnterGround t) \<longleftrightarrow> run_frame s t"
  "run_frame s (EnterEscape t) \<longleftrightarrow> run_frame s t"
  "run_frame s (EnterCsiEntry t) \<longleftrightarrow> run_frame s t"
  "run_frame s (EnterSs3Entry t) \<longleftrightarrow> run_frame s t"
  "run_frame s (EnterDcsEntry t) \<longleftrightarrow> run_frame s t"
  "run_frame s (EnterEscapeIntermediate t) \<longleftrightarrow> run_frame s t"
  "run_frame s (EnterCsiParam t) \<longleftrightarrow> run_frame s t"
  "run_frame s (EnterCsiSubParam t) \<longleftrightarrow> run_frame s t"
  "run_frame s (EnterCsiIgnore t) \<longleftrightarrow> run_frame s t"
  "run_frame s (EnterCsiIntermediate t) \<longleftrightarrow> run_frame s t"
  "run_frame s (EnterOscParam t) \<longleftrightarrow> run_frame s t"
  "run_frame s (EnterOscString t) \<longleftrightarrow> run_frame s t"
  "run_frame s (EnterOscTermination t) \<longleftrightarrow> run_frame s t"
  "run_frame s (EnterSs3Param t) \<longleftrightarrow> run_frame s t"
  "run_frame s (EnterVt52Param t) \<longleftrightarrow> run_frame s t"
  "run_frame s (EnterDcsParam t) \<longleftrightarrow> run_frame s t"
  "run_frame s (EnterDcsIgnore t) \<longleftrightarrow> run_frame s t"
  "run_frame s (EnterDcsIntermediate t) \<longleftrightarrow> run_frame s t"
  "run_frame s (EnterDcsPassThrough t) \<longleftrightarrow> run_frame s t"
  "run_frame s (EnterSosPmApcString t) \<longleftrightarrow> run_frame s t"
  "run_frame s (ActionCollect wc t) \<longleftrightarrow> run_frame s t"
  by (simp_all add: sm_defs run_frame_def ActionClear_def ActionCollect_def)

lemma run_frame_from_Enter [simp]:
  "run_frame (EnterGround s) t \<longleftrightarrow> run_frame s t"
  "run_frame (EnterEscape s) t \<longleftrightarrow> run_frame s t"
  by (simp_all add: sm_defs run_frame_def ActionClear_def)

lemma sm_inv_Enter_plain:
  assumes "pinv s" "rest_ok s"
  shows "sm_inv (EnterCsiParam s)" "sm_inv (EnterCsiIgnore s)" "sm_inv (EnterCsiIntermediate s)"
    "sm_inv (EnterOscParam s)" "sm_inv (EnterOscString s)" "sm_inv (EnterOscTermination s)"
    "sm_inv (EnterSs3Param s)" "sm_inv (EnterDcsParam s)" "sm_inv (EnterDcsIgnore s)"
    "sm_inv (EnterDcsIntermediate s)" "sm_inv (EnterSosPmApcString s)"
  using assms by (auto simp: sm_defs sm_inv_def pinv_def rest_ok_def params_wf_def)

lemma ActionCollect_inv: "sm_inv s \<Longrightarrow> sm_inv (ActionCollect wc s)"
  by (simp add: ActionCollect_def sm_inv_def params_wf_def AddIntermediate_shift)

lemma ActionCollect_parts: "pinv s \<Longrightarrow> rest_ok s \<Longrightarrow> pinv (ActionCollect wc s) \<and> rest_ok (ActionCollect wc s)"
  by (simp add: ActionCollect_def pinv_def rest_ok_def params_wf_def AddIntermediate_shift)

lemma ActionParam_parts:
  assumes "pinv s" "rest_ok s" "isNumericParamValue wc \<or> isParameterDelimiter wc"
  shows "pinv (ActionParam wc s)" "rest_ok (ActionParam wc s)"
  using ActionParam_pinv [OF assms(1,3)] ActionParam_frame [of s wc] assms(2)
  by (simp_all add: param_frame_def rest_ok_def)


lemma same_handler: "\<exists>h. s = s\<lparr>sm_dcsStringHandler := h\<rparr>"
  by (rule exI [of _ "sm_dcsStringHandler s"]) simp


subsection \<open>The position in the string being processed\<close>

text \<open>The run held by the parser ends at index \<open>i\<close> of the string.\<close>

definition run_at :: "wstring \<Rightarrow> nat \<Rightarrow> ('e, 'h, 'c) sm \<Rightarrow> bool" where
  "run_at str i s \<longleftrightarrow> sm_currentString s = str \<and> sm_runOffset s + sm_runSize s = i \<and> i \<le> length str"

lemma run_at_CurrentRun:
  "run_at str i s \<Longrightarrow> CurrentRun s = Some (take (sm_runSize s) (drop (sm_runOffset s) str))"
  by (auto simp: run_at_def CurrentRun_def)

lemma run_at_frame: "run_frame s t \<Longrightarrow> run_at str i t = run_at str i s"
  by (simp add: run_at_def run_frame_def)

lemma run_at_length:
  "run_at str i s \<Longrightarrow> CurrentRun s = Some run \<Longrightarrow> length run = sm_runSize s"
  by (auto simp: run_at_def CurrentRun_def)


lemma sm_inv_updates [simp]:
  "sm_inv (s\<lparr>sm_currentString := a\<rparr>) = sm_inv s" "sm_inv (s\<lparr>sm_runOffset := b\<rparr>) = sm_inv s"
  "sm_inv (s\<lparr>sm_runSize := c\<rparr>) = sm_inv s" "sm_inv (s\<lparr>sm_injections := d\<rparr>) = sm_inv s"
  "sm_inv (s\<lparr>sm_processingLastCharacter := e\<rparr>) = sm_inv s"
  "sm_inv (s\<lparr>sm_onCsiCompleteCallback := f\<rparr>) = sm_inv s"
  "sm_inv (s\<lparr>sm_cachedSequence := g\<rparr>) = sm_inv s" "sm_inv (s\<lparr>sm_engine := h\<rparr>) = sm_inv s"
  "sm_inv (s\<lparr>sm_parserMode := m\<rparr>) = sm_inv s"
  by (simp_all add: sm_inv_def params_wf_def)

end
