(* ===== verification/Term_Dispatch.thy ===== *)
theory Term_Dispatch
  imports Vt_Engine
begin

text \<open>
  The interface between the output engine and the terminal, \<^verbatim>\<open>src/src/terminal/adapter/ITermDispatch.hpp\<close>,
  and its default implementation, \<^verbatim>\<open>termDispatch.hpp\<close>.

  A call of a member function of the interface is a value: the functions are grouped by what they
  act on, one constructor each, with the arguments of the source. Enumeration arguments are the
  numbers the parameters convert to. The functions that return a string handler are a type of
  their own. An implementation is a record with one operation per kind of call; as it may reach
  the parser through its own references, it works on the whole parser state.
\<close>

section \<open>Calls\<close>

datatype LineFeedType = WithReturn | WithoutReturn | DependsOnMode

datatype LineRendition = SingleWidth | DoubleWidth | DoubleHeightTop | DoubleHeightBottom

datatype cursor_call =
    CursorUp int | CursorDown int | CursorForward int | CursorBackward int
  | CursorNextLine int | CursorPrevLine int
  | CursorHorizontalPositionAbsolute int | VerticalLinePositionAbsolute int
  | HorizontalPositionRelative int | VerticalPositionRelative int
  | CursorPosition int int | CursorSaveState | CursorRestoreState
  | CarriageReturn | LineFeed LineFeedType | ReverseLineFeed | BackIndex | ForwardIndex
  | HorizontalTabSet | ForwardTab int | BackwardsTab int | TabClear int | TabSet VTParameter

datatype text_call =
    Print wchar | PrintString wstring
  | InsertCharacter int | DeleteCharacter int | ScrollUp int | ScrollDown int
  | InsertLine int | DeleteLine int | InsertColumn int | DeleteColumn int
  | EraseInDisplay int | EraseInLine int | EraseCharacters int
  | SelectiveEraseInDisplay int | SelectiveEraseInLine int
  | ScreenAlignmentPattern | AddHyperlink wstring wstring | EndHyperlink

datatype page_call =
    NextPage int | PrecedingPage int | PagePositionAbsolute int | PagePositionRelative int
  | PagePositionBack int | RequestDisplayedExtent
  | ChangeAttributesRectangularArea int int int int VTParameters
  | ReverseAttributesRectangularArea int int int int VTParameters
  | CopyRectangularArea int int int int int int int int
  | FillRectangularArea VTParameter int int int int
  | EraseRectangularArea int int int int
  | SelectiveEraseRectangularArea int int int int
  | SelectAttributeChangeExtent int
  | RequestChecksumRectangularArea int int int int int int

datatype mode_call =
    SetKeypadMode bool | SetTopBottomScrollingMargins int int | SetLeftRightScrollingMargins int int
  | SetMode int | ResetMode int | RequestMode int
  | AcceptC1Controls bool | SendC1Controls bool | AnnounceCodeStructure int
  | SoftReset | HardReset | SetCursorStyle int
  | SetGraphicsRendition VTParameters | SetLineRendition LineRendition
  | SetCharacterProtectionAttribute VTParameters
  | PushGraphicsRendition VTParameters | PopGraphicsRendition

datatype charset_call =
    DesignateCodingSystem VTID | Designate94Charset int VTID | Designate96Charset int VTID
  | LockingShift int | LockingShiftRight int | SingleShift int | RequestUserPreferenceCharset

datatype report_call =
    EnquireAnswerback | WarningBell
  | DeviceStatusReport int VTParameter | DeviceAttributes | SecondaryDeviceAttributes
  | TertiaryDeviceAttributes | Vt52DeviceAttributes | RequestTerminalParameters int
  | RequestTerminalStateReport int VTParameter | RequestPresentationStateReport int
  | WindowManipulation int VTParameter VTParameter | InvokeMacro int | PlaySounds VTParameters

datatype osc_call =
    SetWindowTitle wstring | SetColorTableEntry nat "32 word" | RequestColorTableEntry nat
  | ResetColorTable | ResetColorTableEntry nat
  | SetXtermColorResource nat "32 word" | RequestXtermColorResource nat | ResetXtermColorResource nat
  | AssignColor int int int | SetClipboard wstring
  | DoConEmuAction wstring | DoITerm2Action wstring | DoFinalTermAction wstring
  | DoVsCodeAction wstring | DoWTAction wstring

datatype dispatch_call =
    DC_Cursor cursor_call | DC_Text text_call | DC_Page page_call | DC_Mode mode_call
  | DC_Charset charset_call | DC_Report report_call | DC_Osc osc_call

datatype dcs_call =
    DefineSixelImage int int VTParameter
  | DownloadDRCS int VTParameter int int int int VTParameter int
  | AssignUserPreferenceCharset int
  | DefineMacro int int int
  | RestoreTerminalState int
  | RequestSetting
  | RestorePresentationState int

section \<open>Implementations\<close>

text \<open>
  The engine owns the dispatcher, so the dispatcher's state is part of the engine's, next to the
  last printed character.
\<close>

record 'd output_engine =
  oe_dispatch :: 'd
  oe_lastPrintedChar :: wchar

type_synonym ('d, 'h, 'c) osm = "('d output_engine, 'h, 'c) sm"

record ('d, 'h, 'c) dispatch_ops =
  td_Call :: "dispatch_call \<Rightarrow> ('d, 'h, 'c) osm \<Rightarrow> unit outcome \<times> ('d, 'h, 'c) osm"
  td_DcsCall :: "dcs_call \<Rightarrow> ('d, 'h, 'c) osm \<Rightarrow> 'h option outcome \<times> ('d, 'h, 'c) osm"
  td_StringHandler :: "'h \<Rightarrow> wchar \<Rightarrow> ('d, 'h, 'c) osm \<Rightarrow> bool outcome \<times> ('d, 'h, 'c) osm"
  td_CsiComplete :: "'c \<Rightarrow> ('d, 'h, 'c) osm \<Rightarrow> ('d, 'h, 'c) osm option"

definition update_dispatch :: "('d \<Rightarrow> 'd) \<Rightarrow> ('d, 'h, 'c) osm \<Rightarrow> ('d, 'h, 'c) osm" where
  "update_dispatch f s =
     s\<lparr>sm_engine := (sm_engine s)\<lparr>oe_dispatch := f (oe_dispatch (sm_engine s))\<rparr>\<rparr>"

text \<open>
  The default implementation leaves printing abstract, so its two printing functions are
  arguments here; everything else does nothing, and no string handler is ever handed out.
\<close>

definition TermDispatch ::
  "(wchar \<Rightarrow> 'd \<Rightarrow> 'd) \<Rightarrow> (wstring \<Rightarrow> 'd \<Rightarrow> 'd) \<Rightarrow> ('d, 'h, 'c) dispatch_ops" where
  "TermDispatch print printString =
     \<lparr>td_Call = (\<lambda>call s.
        case call of
          DC_Text (Print wc) \<Rightarrow> (Returned (), update_dispatch (print wc) s)
        | DC_Text (PrintString str) \<Rightarrow> (Returned (), update_dispatch (printString str) s)
        | _ \<Rightarrow> (Returned (), s)),
      td_DcsCall = (\<lambda>call s. (Returned None, s)),
      td_StringHandler = (\<lambda>h wc s. (Returned False, s)),
      td_CsiComplete = (\<lambda>cb s. Some s)\<rparr>"

end
