(* ===== verification/Action_Codes.thy ===== *)
theory Action_Codes
  imports Term_Dispatch
begin

text \<open>
  The identifiers of the control functions the output engine knows, the enumerations of
  \<^verbatim>\<open>src/src/terminal/parser/OutputStateMachineEngine.hpp\<close>. Different names have different values, which
  follows from the identifiers being injective on short texts.
\<close>

named_theorems action_codes \<open>values of the identifiers of control functions\<close>

section \<open>Identifiers of short texts\<close>

lemma VTID_value_Cons:
  assumes "length (c # s) \<le> 7" "list_all ascii (c # s)"
  shows "unat (VTID (c # s)) = 256 * unat (VTID s) + of_char c"
proof -
  have "(256 :: nat) ^ length s \<le> 256 ^ 6" using assms(1) by (intro power_increasing) auto
  then have bound: "unat (VTID_FromString s) * 256 < 256 ^ 7"
    using VTID_FromString_bound [of s] assms by simp
  then have "unat (push_bit 8 (VTID_FromString s)) = unat (VTID_FromString s) * 256"
    by (subst unat_push_bit_no_wrap) simp_all
  moreover have "unat (VTID_FromString s) * 256 + of_char c < 256 ^ 7 + 256"
    using bound of_char_nat_less [of c] by linarith
  ultimately show ?thesis using assms(2) by (simp add: VTID_def unat_add_no_wrap mult.commute)
qed

lemma of_char_pos: "c \<noteq> CHR 0x00 \<Longrightarrow> 0 < (of_char c :: nat)"
  using of_char_eq_iff [of c "CHR 0x00", where 'a = nat] by simp

lemma VTID_value_inject:
  assumes "length s \<le> 7" "length t \<le> 7" "CHR 0x00 \<notin> set s" "CHR 0x00 \<notin> set t"
    "list_all ascii s" "list_all ascii t" "unat (VTID s) = unat (VTID t)"
  shows "s = t"
  using assms
proof (induction s arbitrary: t)
  case Nil
  then show ?case
  proof (cases t)
    case (Cons c cs)
    have "0 < (of_char c :: nat)" using Nil.prems(4) Cons by (intro of_char_pos) auto
    then show ?thesis using Nil.prems VTID_value_Cons [of c cs] Cons by (simp add: VTID_def)
  qed simp
next
  case (Cons c s)
  note prems = Cons.prems
  have "0 < (of_char c :: nat)" using prems(3) by (intro of_char_pos) auto
  then obtain d t' where t: "t = d # t'"
    using prems VTID_value_Cons [of c s] by (cases t) (auto simp: VTID_def)
  have eq: "256 * unat (VTID s) + of_char c = 256 * unat (VTID t') + of_char d"
    using prems(1,2,5-7) VTID_value_Cons [of c s] VTID_value_Cons [of d t'] by (simp add: t)
  from arg_cong [OF this, of "\<lambda>v. v mod 256"] have "(of_char c :: nat) = of_char d"
    using of_char_nat_less [of c] of_char_nat_less [of d] by (simp del: nat_of_char_less_256)
  then show ?case using eq prems Cons.IH [of t'] by (simp add: t of_char_eq_iff)
qed

lemma VTID_inject:
  assumes "length s \<le> 7" "length t \<le> 7" "CHR 0x00 \<notin> set s" "CHR 0x00 \<notin> set t"
    "list_all ascii s" "list_all ascii t"
  shows "VTID s = VTID t \<longleftrightarrow> s = t"
  using VTID_value_inject [OF assms] by auto

section \<open>Escape sequences\<close>

definition DECBI_BackIndex :: VTID where [action_codes]:
  "DECBI_BackIndex = VTID ''6''"

definition DECSC_CursorSave :: VTID where [action_codes]:
  "DECSC_CursorSave = VTID ''7''"

definition DECRC_CursorRestore :: VTID where [action_codes]:
  "DECRC_CursorRestore = VTID ''8''"

definition DECFI_ForwardIndex :: VTID where [action_codes]:
  "DECFI_ForwardIndex = VTID ''9''"

definition DECKPAM_KeypadApplicationMode :: VTID where [action_codes]:
  "DECKPAM_KeypadApplicationMode = VTID ''=''"

definition DECKPNM_KeypadNumericMode :: VTID where [action_codes]:
  "DECKPNM_KeypadNumericMode = VTID ''>''"

definition IND_Index :: VTID where [action_codes]:
  "IND_Index = VTID ''D''"

definition NEL_NextLine :: VTID where [action_codes]:
  "NEL_NextLine = VTID ''E''"

definition HTS_HorizontalTabSet :: VTID where [action_codes]:
  "HTS_HorizontalTabSet = VTID ''H''"

definition RI_ReverseLineFeed :: VTID where [action_codes]:
  "RI_ReverseLineFeed = VTID ''M''"

definition SS2_SingleShift :: VTID where [action_codes]:
  "SS2_SingleShift = VTID ''N''"

definition SS3_SingleShift :: VTID where [action_codes]:
  "SS3_SingleShift = VTID ''O''"

definition DECID_IdentifyDevice :: VTID where [action_codes]:
  "DECID_IdentifyDevice = VTID ''Z''"

definition ST_StringTerminator :: VTID where [action_codes]:
  "ST_StringTerminator = VTID [CHR 0x5C]"

definition RIS_ResetToInitialState :: VTID where [action_codes]:
  "RIS_ResetToInitialState = VTID ''c''"

definition LS2_LockingShift :: VTID where [action_codes]:
  "LS2_LockingShift = VTID ''n''"

definition LS3_LockingShift :: VTID where [action_codes]:
  "LS3_LockingShift = VTID ''o''"

definition LS1R_LockingShift :: VTID where [action_codes]:
  "LS1R_LockingShift = VTID ''~''"

definition LS2R_LockingShift :: VTID where [action_codes]:
  "LS2R_LockingShift = VTID ''}''"

definition LS3R_LockingShift :: VTID where [action_codes]:
  "LS3R_LockingShift = VTID ''|''"

definition DECAC1_AcceptC1Controls :: VTID where [action_codes]:
  "DECAC1_AcceptC1Controls = VTID '' 7''"

definition S7C1T_Send7bitC1Controls :: VTID where [action_codes]:
  "S7C1T_Send7bitC1Controls = VTID '' F''"

definition S8C1T_Send8bitC1Controls :: VTID where [action_codes]:
  "S8C1T_Send8bitC1Controls = VTID '' G''"

definition ACS_AnsiLevel1 :: VTID where [action_codes]:
  "ACS_AnsiLevel1 = VTID '' L''"

definition ACS_AnsiLevel2 :: VTID where [action_codes]:
  "ACS_AnsiLevel2 = VTID '' M''"

definition ACS_AnsiLevel3 :: VTID where [action_codes]:
  "ACS_AnsiLevel3 = VTID '' N''"

definition DECDHL_DoubleHeightLineTop :: VTID where [action_codes]:
  "DECDHL_DoubleHeightLineTop = VTID ''#3''"

definition DECDHL_DoubleHeightLineBottom :: VTID where [action_codes]:
  "DECDHL_DoubleHeightLineBottom = VTID ''#4''"

definition DECSWL_SingleWidthLine :: VTID where [action_codes]:
  "DECSWL_SingleWidthLine = VTID ''#5''"

definition DECDWL_DoubleWidthLine :: VTID where [action_codes]:
  "DECDWL_DoubleWidthLine = VTID ''#6''"

definition DECALN_ScreenAlignmentPattern :: VTID where [action_codes]:
  "DECALN_ScreenAlignmentPattern = VTID ''#8''"

section \<open>Control sequences\<close>

definition ICH_InsertCharacter :: VTID where [action_codes]:
  "ICH_InsertCharacter = VTID ''@''"

definition CUU_CursorUp :: VTID where [action_codes]:
  "CUU_CursorUp = VTID ''A''"

definition CUD_CursorDown :: VTID where [action_codes]:
  "CUD_CursorDown = VTID ''B''"

definition CUF_CursorForward :: VTID where [action_codes]:
  "CUF_CursorForward = VTID ''C''"

definition CUB_CursorBackward :: VTID where [action_codes]:
  "CUB_CursorBackward = VTID ''D''"

definition CNL_CursorNextLine :: VTID where [action_codes]:
  "CNL_CursorNextLine = VTID ''E''"

definition CPL_CursorPrevLine :: VTID where [action_codes]:
  "CPL_CursorPrevLine = VTID ''F''"

definition CHA_CursorHorizontalAbsolute :: VTID where [action_codes]:
  "CHA_CursorHorizontalAbsolute = VTID ''G''"

definition CUP_CursorPosition :: VTID where [action_codes]:
  "CUP_CursorPosition = VTID ''H''"

definition CHT_CursorForwardTab :: VTID where [action_codes]:
  "CHT_CursorForwardTab = VTID ''I''"

definition ED_EraseDisplay :: VTID where [action_codes]:
  "ED_EraseDisplay = VTID ''J''"

definition DECSED_SelectiveEraseDisplay :: VTID where [action_codes]:
  "DECSED_SelectiveEraseDisplay = VTID ''?J''"

definition EL_EraseLine :: VTID where [action_codes]:
  "EL_EraseLine = VTID ''K''"

definition DECSEL_SelectiveEraseLine :: VTID where [action_codes]:
  "DECSEL_SelectiveEraseLine = VTID ''?K''"

definition IL_InsertLine :: VTID where [action_codes]:
  "IL_InsertLine = VTID ''L''"

definition DL_DeleteLine :: VTID where [action_codes]:
  "DL_DeleteLine = VTID ''M''"

definition DCH_DeleteCharacter :: VTID where [action_codes]:
  "DCH_DeleteCharacter = VTID ''P''"

definition SU_ScrollUp :: VTID where [action_codes]:
  "SU_ScrollUp = VTID ''S''"

definition SD_ScrollDown :: VTID where [action_codes]:
  "SD_ScrollDown = VTID ''T''"

definition NP_NextPage :: VTID where [action_codes]:
  "NP_NextPage = VTID ''U''"

definition PP_PrecedingPage :: VTID where [action_codes]:
  "PP_PrecedingPage = VTID ''V''"

definition DECST8C_SetTabEvery8Columns :: VTID where [action_codes]:
  "DECST8C_SetTabEvery8Columns = VTID ''?W''"

definition ECH_EraseCharacters :: VTID where [action_codes]:
  "ECH_EraseCharacters = VTID ''X''"

definition CBT_CursorBackTab :: VTID where [action_codes]:
  "CBT_CursorBackTab = VTID ''Z''"

definition HPA_HorizontalPositionAbsolute :: VTID where [action_codes]:
  "HPA_HorizontalPositionAbsolute = VTID ''`''"

definition HPR_HorizontalPositionRelative :: VTID where [action_codes]:
  "HPR_HorizontalPositionRelative = VTID ''a''"

definition REP_RepeatCharacter :: VTID where [action_codes]:
  "REP_RepeatCharacter = VTID ''b''"

definition DA_DeviceAttributes :: VTID where [action_codes]:
  "DA_DeviceAttributes = VTID ''c''"

definition DA2_SecondaryDeviceAttributes :: VTID where [action_codes]:
  "DA2_SecondaryDeviceAttributes = VTID ''>c''"

definition DA3_TertiaryDeviceAttributes :: VTID where [action_codes]:
  "DA3_TertiaryDeviceAttributes = VTID ''=c''"

definition VPA_VerticalLinePositionAbsolute :: VTID where [action_codes]:
  "VPA_VerticalLinePositionAbsolute = VTID ''d''"

definition VPR_VerticalPositionRelative :: VTID where [action_codes]:
  "VPR_VerticalPositionRelative = VTID ''e''"

definition HVP_HorizontalVerticalPosition :: VTID where [action_codes]:
  "HVP_HorizontalVerticalPosition = VTID ''f''"

definition TBC_TabClear :: VTID where [action_codes]:
  "TBC_TabClear = VTID ''g''"

definition SM_SetMode :: VTID where [action_codes]:
  "SM_SetMode = VTID ''h''"

definition DECSET_PrivateModeSet :: VTID where [action_codes]:
  "DECSET_PrivateModeSet = VTID ''?h''"

definition RM_ResetMode :: VTID where [action_codes]:
  "RM_ResetMode = VTID ''l''"

definition DECRST_PrivateModeReset :: VTID where [action_codes]:
  "DECRST_PrivateModeReset = VTID ''?l''"

definition SGR_SetGraphicsRendition :: VTID where [action_codes]:
  "SGR_SetGraphicsRendition = VTID ''m''"

definition DSR_DeviceStatusReport :: VTID where [action_codes]:
  "DSR_DeviceStatusReport = VTID ''n''"

definition DSR_PrivateDeviceStatusReport :: VTID where [action_codes]:
  "DSR_PrivateDeviceStatusReport = VTID ''?n''"

definition DECSTBM_SetTopBottomMargins :: VTID where [action_codes]:
  "DECSTBM_SetTopBottomMargins = VTID ''r''"

definition DECSLRM_SetLeftRightMargins :: VTID where [action_codes]:
  "DECSLRM_SetLeftRightMargins = VTID ''s''"

definition DTTERM_WindowManipulation :: VTID where [action_codes]:
  "DTTERM_WindowManipulation = VTID ''t''"

definition ANSISYSRC_CursorRestore :: VTID where [action_codes]:
  "ANSISYSRC_CursorRestore = VTID ''u''"

definition DECREQTPARM_RequestTerminalParameters :: VTID where [action_codes]:
  "DECREQTPARM_RequestTerminalParameters = VTID ''x''"

definition PPA_PagePositionAbsolute :: VTID where [action_codes]:
  "PPA_PagePositionAbsolute = VTID '' P''"

definition PPR_PagePositionRelative :: VTID where [action_codes]:
  "PPR_PagePositionRelative = VTID '' Q''"

definition PPB_PagePositionBack :: VTID where [action_codes]:
  "PPB_PagePositionBack = VTID '' R''"

definition DECSCUSR_SetCursorStyle :: VTID where [action_codes]:
  "DECSCUSR_SetCursorStyle = VTID '' q''"

definition DECSTR_SoftReset :: VTID where [action_codes]:
  "DECSTR_SoftReset = VTID ''!p''"

definition DECSCA_SetCharacterProtectionAttribute :: VTID where [action_codes]:
  "DECSCA_SetCharacterProtectionAttribute = VTID [CHR 0x22, CHR ''q'']"

definition DECRQDE_RequestDisplayedExtent :: VTID where [action_codes]:
  "DECRQDE_RequestDisplayedExtent = VTID [CHR 0x22, CHR ''v'']"

definition XT_PushSgrAlias :: VTID where [action_codes]:
  "XT_PushSgrAlias = VTID ''#p''"

definition XT_PopSgrAlias :: VTID where [action_codes]:
  "XT_PopSgrAlias = VTID ''#q''"

definition XT_PushSgr :: VTID where [action_codes]:
  "XT_PushSgr = VTID ''#{''"

definition XT_PopSgr :: VTID where [action_codes]:
  "XT_PopSgr = VTID ''#}''"

definition DECRQM_RequestMode :: VTID where [action_codes]:
  "DECRQM_RequestMode = VTID ''$p''"

definition DECRQM_PrivateRequestMode :: VTID where [action_codes]:
  "DECRQM_PrivateRequestMode = VTID ''?$p''"

definition DECCARA_ChangeAttributesRectangularArea :: VTID where [action_codes]:
  "DECCARA_ChangeAttributesRectangularArea = VTID ''$r''"

definition DECRARA_ReverseAttributesRectangularArea :: VTID where [action_codes]:
  "DECRARA_ReverseAttributesRectangularArea = VTID ''$t''"

definition DECRQTSR_RequestTerminalStateReport :: VTID where [action_codes]:
  "DECRQTSR_RequestTerminalStateReport = VTID ''$u''"

definition DECCRA_CopyRectangularArea :: VTID where [action_codes]:
  "DECCRA_CopyRectangularArea = VTID ''$v''"

definition DECRQPSR_RequestPresentationStateReport :: VTID where [action_codes]:
  "DECRQPSR_RequestPresentationStateReport = VTID ''$w''"

definition DECFRA_FillRectangularArea :: VTID where [action_codes]:
  "DECFRA_FillRectangularArea = VTID ''$x''"

definition DECERA_EraseRectangularArea :: VTID where [action_codes]:
  "DECERA_EraseRectangularArea = VTID ''$z''"

definition DECSERA_SelectiveEraseRectangularArea :: VTID where [action_codes]:
  "DECSERA_SelectiveEraseRectangularArea = VTID ''${''"

definition DECSCPP_SetColumnsPerPage :: VTID where [action_codes]:
  "DECSCPP_SetColumnsPerPage = VTID ''$|''"

definition DECRQUPSS_RequestUserPreferenceSupplementalSet :: VTID where [action_codes]:
  "DECRQUPSS_RequestUserPreferenceSupplementalSet = VTID ''&u''"

definition DECIC_InsertColumn :: VTID where [action_codes]:
  "DECIC_InsertColumn = VTID [CHR 0x27, CHR ''}'']"

definition DECDC_DeleteColumn :: VTID where [action_codes]:
  "DECDC_DeleteColumn = VTID [CHR 0x27, CHR ''~'']"

definition DECSACE_SelectAttributeChangeExtent :: VTID where [action_codes]:
  "DECSACE_SelectAttributeChangeExtent = VTID ''*x''"

definition DECRQCRA_RequestChecksumRectangularArea :: VTID where [action_codes]:
  "DECRQCRA_RequestChecksumRectangularArea = VTID ''*y''"

definition DECINVM_InvokeMacro :: VTID where [action_codes]:
  "DECINVM_InvokeMacro = VTID ''*z''"

definition DECAC_AssignColor :: VTID where [action_codes]:
  "DECAC_AssignColor = VTID '',|''"

definition DECPS_PlaySound :: VTID where [action_codes]:
  "DECPS_PlaySound = VTID '',~''"

section \<open>Device control strings\<close>

definition SIXEL_DefineImage :: VTID where [action_codes]:
  "SIXEL_DefineImage = VTID ''q''"

definition DECDLD_DownloadDRCS :: VTID where [action_codes]:
  "DECDLD_DownloadDRCS = VTID ''{''"

definition DECAUPSS_AssignUserPreferenceSupplementalSet :: VTID where [action_codes]:
  "DECAUPSS_AssignUserPreferenceSupplementalSet = VTID ''!u''"

definition DECDMAC_DefineMacro :: VTID where [action_codes]:
  "DECDMAC_DefineMacro = VTID ''!z''"

definition DECRSTS_RestoreTerminalState :: VTID where [action_codes]:
  "DECRSTS_RestoreTerminalState = VTID ''$p''"

definition DECRQSS_RequestSetting :: VTID where [action_codes]:
  "DECRQSS_RequestSetting = VTID ''$q''"

definition DECRSPS_RestorePresentationState :: VTID where [action_codes]:
  "DECRSPS_RestorePresentationState = VTID ''$t''"

section \<open>VT52 escape sequences\<close>

definition Vt52_CursorUp :: VTID where [action_codes]:
  "Vt52_CursorUp = VTID ''A''"

definition Vt52_CursorDown :: VTID where [action_codes]:
  "Vt52_CursorDown = VTID ''B''"

definition Vt52_CursorRight :: VTID where [action_codes]:
  "Vt52_CursorRight = VTID ''C''"

definition Vt52_CursorLeft :: VTID where [action_codes]:
  "Vt52_CursorLeft = VTID ''D''"

definition Vt52_EnterGraphicsMode :: VTID where [action_codes]:
  "Vt52_EnterGraphicsMode = VTID ''F''"

definition Vt52_ExitGraphicsMode :: VTID where [action_codes]:
  "Vt52_ExitGraphicsMode = VTID ''G''"

definition Vt52_CursorToHome :: VTID where [action_codes]:
  "Vt52_CursorToHome = VTID ''H''"

definition Vt52_ReverseLineFeed :: VTID where [action_codes]:
  "Vt52_ReverseLineFeed = VTID ''I''"

definition Vt52_EraseToEndOfScreen :: VTID where [action_codes]:
  "Vt52_EraseToEndOfScreen = VTID ''J''"

definition Vt52_EraseToEndOfLine :: VTID where [action_codes]:
  "Vt52_EraseToEndOfLine = VTID ''K''"

definition Vt52_DirectCursorAddress :: VTID where [action_codes]:
  "Vt52_DirectCursorAddress = VTID ''Y''"

definition Vt52_Identify :: VTID where [action_codes]:
  "Vt52_Identify = VTID ''Z''"

definition Vt52_EnterAlternateKeypadMode :: VTID where [action_codes]:
  "Vt52_EnterAlternateKeypadMode = VTID ''=''"

definition Vt52_ExitAlternateKeypadMode :: VTID where [action_codes]:
  "Vt52_ExitAlternateKeypadMode = VTID ''>''"

definition Vt52_ExitVt52Mode :: VTID where [action_codes]:
  "Vt52_ExitVt52Mode = VTID ''<''"

end
