(* ===== verification/Til_String.thy ===== *)
theory Til_String
  imports Dispatch_Types
begin

text \<open>
  The string helpers of \<^verbatim>\<open>src/src/inc/til/string.h\<close>: control code visualisation, file name cleaning,
  prefix, suffix and case-insensitive comparisons, trimming, the splitting iterator, the integer
  parser and the font-family list splitter. The lemmas give each a reference meaning: the parser
  computes the positional value without overflow, joining the tokens of a split gives the string
  back, a cleaned path is legal, and the suffix test that ignores case leaves its string.
\<close>

section \<open>Definitions\<close>

subsection \<open>Control codes and file names\<close>

definition visualize_control_codes :: "wstring \<Rightarrow> wstring" where
  "visualize_control_codes str =
     map (\<lambda>ch. if ch < 0x20 then ch + 0x2400 else if ch = 0x20 then 0x2423
               else if ch = 0x7f then 0x2421 else ch) str"

definition visualize_nonspace_control_codes :: "wstring \<Rightarrow> wstring" where
  "visualize_nonspace_control_codes str =
     map (\<lambda>ch. if ch < 0x20 \<and> ch \<noteq> 0x08 then ch + 0x2400
               else if ch = 0x7f then 0x2421 else ch) str"

definition pathFilter :: "byte list" where
  "pathFilter =
     [0, 0, 0, 0, 0, 0, 0, 0, 0, 0, 0, 0, 0, 0, 0, 0,
      0, 0, 0, 0, 0, 0, 0, 0, 0, 0, 0, 0, 0, 0, 0, 0,
      0, 0, 3, 0, 0, 0, 0, 0, 0, 0, 3, 0, 0, 0, 0, 2,
      0, 0, 0, 0, 0, 0, 0, 0, 0, 0, 2, 0, 3, 0, 3, 3,
      0, 0, 0, 0, 0, 0, 0, 0, 0, 0, 0, 0, 0, 0, 0, 0,
      0, 0, 0, 0, 0, 0, 0, 0, 0, 0, 0, 0, 2, 0, 0, 0,
      0, 0, 0, 0, 0, 0, 0, 0, 0, 0, 0, 0, 0, 0, 0, 0,
      0, 0, 0, 0, 0, 0, 0, 0, 0, 0, 0, 0, 3, 0, 0, 0]"

definition pathFilter_hits :: "byte \<Rightarrow> wchar \<Rightarrow> bool" where
  "pathFilter_hits flag ch \<longleftrightarrow> (pathFilter ! unat (ch AND 127)) AND flag \<noteq> 0 \<and> ch < 128"

definition clean_filename :: "wstring \<Rightarrow> wstring" where
  "clean_filename str = filter (\<lambda>ch. \<not> pathFilter_hits 2 ch) str"

definition clean_path :: "wstring \<Rightarrow> wstring" where
  "clean_path str = filter (\<lambda>ch. \<not> pathFilter_hits 1 ch) str"

definition is_legal_path :: "wstring \<Rightarrow> bool" where
  "is_legal_path str \<longleftrightarrow> \<not> list_ex (pathFilter_hits 1) str"

subsection \<open>Prefixes, suffixes and case\<close>

definition starts_with :: "wstring \<Rightarrow> wstring \<Rightarrow> bool" where
  "starts_with str prefix \<longleftrightarrow> length str \<ge> length prefix \<and> take (length prefix) str = prefix"

definition ends_with :: "wstring \<Rightarrow> wstring \<Rightarrow> bool" where
  "ends_with str suffix \<longleftrightarrow>
     length str \<ge> length suffix \<and> take (length suffix) (drop (length str - length suffix) str) = suffix"

definition tolower_ascii :: "wchar \<Rightarrow> wchar" where
  "tolower_ascii c = (if c \<ge> 0x41 \<and> c \<le> 0x5A then c OR 0x20 else c)"

definition toupper_ascii :: "wchar \<Rightarrow> wchar" where
  "toupper_ascii c = (if c \<ge> 0x61 \<and> c \<le> 0x7A then c AND NOT 0x20 else c)"

definition equals_str :: "wstring \<Rightarrow> wstring \<Rightarrow> bool" where
  "equals_str lhs rhs \<longleftrightarrow> length lhs = length rhs \<and> take (length lhs) lhs = take (length lhs) rhs"

fun equals_insensitive_loop :: "wstring \<Rightarrow> wstring \<Rightarrow> bool" where
  "equals_insensitive_loop (a # as) (b # bs) =
     (if a \<noteq> b \<and> tolower_ascii a \<noteq> tolower_ascii b then False else equals_insensitive_loop as bs)"
| "equals_insensitive_loop _ _ = True"

definition equals_insensitive_ascii :: "wstring \<Rightarrow> wstring \<Rightarrow> bool" where
  "equals_insensitive_ascii str1 str2 =
     (if length str1 \<noteq> length str2 then False else equals_insensitive_loop str1 str2)"

definition starts_with_insensitive_ascii :: "wstring \<Rightarrow> wstring \<Rightarrow> bool" where
  "starts_with_insensitive_ascii str prefix \<longleftrightarrow>
     length str \<ge> length prefix \<and> equals_insensitive_ascii (take (length prefix) str) prefix"

text \<open>
  The characters from index \<open>i\<close> of a view; \<open>None\<close> when they are not all inside it. The generic
  suffix test asks for the characters that end where the view begins.
\<close>

definition view_chars :: "wstring \<Rightarrow> int \<Rightarrow> nat \<Rightarrow> wstring option" where
  "view_chars str i n =
     (if n = 0 then Some []
      else if 0 \<le> i \<and> nat i + n \<le> length str then Some (take n (drop (nat i) str)) else None)"

definition ends_with_insensitive_ascii :: "wstring \<Rightarrow> wstring \<Rightarrow> bool option" where
  "ends_with_insensitive_ascii str suffix =
     (if length str \<ge> length suffix
      then map_option (\<lambda>s. equals_insensitive_ascii s suffix)
             (view_chars str (0 - int (length suffix)) (length suffix))
      else Some False)"

definition ends_with_insensitive_ascii_wide :: "wstring \<Rightarrow> wstring \<Rightarrow> bool" where
  "ends_with_insensitive_ascii_wide str suffix = ends_with str suffix"

fun trim_beg :: "wchar \<Rightarrow> wstring \<Rightarrow> wstring" where
  "trim_beg ch [] = []"
| "trim_beg ch (c # cs) = (if c = ch then trim_beg ch cs else c # cs)"

function trim_end :: "wchar \<Rightarrow> wstring \<Rightarrow> wstring" where
  "trim_end ch s = (if s \<noteq> [] \<and> last s = ch then trim_end ch (butlast s) else s)"
  by pat_completeness auto
termination
  by (relation "measure (\<lambda>(ch, s). length s)") auto

declare trim_end.simps [simp del]

definition trim :: "wstring \<Rightarrow> wchar \<Rightarrow> wstring" where
  "trim str ch = trim_end ch (trim_beg ch str)"

subsection \<open>Splitting\<close>

text \<open>The iterators of the source are indices into the string here.\<close>

record split_iterator =
  si_str :: wstring
  si_it :: nat
  si_tok :: nat
  si_value :: wstring
  si_needle :: wchar
  si_advance :: bool

definition split_iterator_init :: "wstring \<Rightarrow> wchar \<Rightarrow> split_iterator" where
  "split_iterator_init str needle =
     \<lparr>si_str = str, si_it = 0, si_tok = 0, si_value = [], si_needle = needle, si_advance = True\<rparr>"

definition split_valid :: "split_iterator \<Rightarrow> bool" where
  "split_valid p \<longleftrightarrow> si_tok p \<noteq> length (si_str p)"

definition split_advance :: "split_iterator \<Rightarrow> split_iterator" where
  "split_advance p =
     p\<lparr>si_it := (if si_tok p = length (si_str p) then length (si_str p) else si_tok p + 1),
       si_advance := True\<rparr>"

text \<open>\<^verbatim>\<open>std::find\<close> between two iterators.\<close>

definition find_from :: "wstring \<Rightarrow> nat \<Rightarrow> wchar \<Rightarrow> nat" where
  "find_from str i needle = i + length (takeWhile (\<lambda>c. c \<noteq> needle) (drop i str))"

definition split_value :: "split_iterator \<Rightarrow> wstring \<times> split_iterator" where
  "split_value p =
     (if si_advance p
      then let tok = find_from (si_str p) (si_it p) (si_needle p);
               v = take (tok - si_it p) (drop (si_it p) (si_str p))
           in (v, p\<lparr>si_tok := tok, si_value := v, si_advance := False\<rparr>)
      else (si_value p, p))"

text \<open>
  A range-based \<^verbatim>\<open>for\<close> over the iterator collects one token per round. The fuel bounds the
  rounds; one more than the length of the string is enough.
\<close>

fun split_loop :: "nat \<Rightarrow> split_iterator \<Rightarrow> wstring list option" where
  "split_loop 0 p = (if split_valid p then None else Some [])"
| "split_loop (Suc fuel) p =
     (if split_valid p
      then case split_value p of
             (v, p1) \<Rightarrow> map_option (\<lambda>vs. v # vs) (split_loop fuel (split_advance p1))
      else Some [])"

definition split_tokens :: "wstring \<Rightarrow> wchar \<Rightarrow> wstring list option" where
  "split_tokens str needle = split_loop (length str + 1) (split_iterator_init str needle)"

subsection \<open>Integers\<close>

definition UINT64_MAX :: u64 where
  "UINT64_MAX = 0xFFFFFFFFFFFFFFFF"

text \<open>The base and the number of characters the prefix takes.\<close>

definition parse_base :: "wstring \<Rightarrow> int \<Rightarrow> u64 \<times> nat" where
  "parse_base str base =
     (if base \<le> 0 then
        if length str \<ge> 2 \<and> str ! 0 = 0x30 then
          let ch = str ! 1 OR 0x20
          in if ch = 0x62 then (2, 2) else if ch = 0x78 then (16, 2) else (8, 1)
        else (10, 0)
      else (word_of_int base, 0))"

definition digit_value :: "wchar \<Rightarrow> u64" where
  "digit_value c =
     (let ch = ucast c;
          sub = (if ch \<ge> 0x30 \<and> ch \<le> 0x39 then 0x2F AND NOT 0x20 else (0x40 AND NOT 0x20) - 10)
      in ((ch - 1) AND NOT 0x20) - sub)"

fun parse_digits :: "u64 \<Rightarrow> u64 \<Rightarrow> wstring \<Rightarrow> u64 option" where
  "parse_digits base_uint64 accumulator [] = Some accumulator"
| "parse_digits base_uint64 accumulator (c # cs) =
     (let max_before_mul = UINT64_MAX div base_uint64;
          value = digit_value c;
          acc = accumulator * base_uint64 + value
      in if value \<ge> base_uint64 \<or> accumulator > max_before_mul \<or> acc < accumulator
         then None
         else parse_digits base_uint64 acc cs)"

definition parse_u64 :: "wstring \<Rightarrow> int \<Rightarrow> u64 option" where
  "parse_u64 str base =
     (let (base_uint64, skip) = parse_base str base
      in if skip = length str \<or> base_uint64 > 36 then None
         else parse_digits base_uint64 0 (drop skip str))"

text \<open>The result type is given by its largest value.\<close>

definition parse_unsigned :: "nat \<Rightarrow> wstring \<Rightarrow> int \<Rightarrow> nat option" where
  "parse_unsigned rmax str base =
     (case parse_u64 str base of
        None \<Rightarrow> None
      | Some v \<Rightarrow> if unat v > rmax then None else Some (unat v))"

text \<open>
  The outer \<open>None\<close> is the signed overflow of \<^verbatim>\<open>-r\<close>: for the smallest value of the type, \<^verbatim>\<open>r\<close>
  has already wrapped to that value and has no negation. The result type is \<^verbatim>\<open>int\<close> or wider.
\<close>

definition parse_signed :: "nat \<Rightarrow> wstring \<Rightarrow> int \<Rightarrow> int option option" where
  "parse_signed rmax str base =
     (let hasSign = (str \<noteq> [] \<and> hd str = 0x2D);
          digits = (if hasSign then drop 1 str else str);
          limit = rmax + (if hasSign then 1 else 0)
      in case parse_u64 digits base of
           None \<Rightarrow> Some None
         | Some v \<Rightarrow>
             if unat v > limit then Some None
             else let r = (if unat v \<le> rmax then int (unat v) else int (unat v) - 2 * (int rmax + 1))
                  in if hasSign then if r = - (int rmax + 1) then None else Some (Some (- r))
                     else Some (Some r))"

subsection \<open>Font families\<close>

record font_splitter =
  ff_family :: wstring
  ff_escape :: bool
  ff_delayedSpace :: bool
  ff_stringType :: wchar
  ff_out :: "wstring list"

definition font_push :: "wchar \<Rightarrow> font_splitter \<Rightarrow> font_splitter" where
  "font_push ch f =
     (let f1 = (if ff_delayedSpace f
                then f\<lparr>ff_delayedSpace := False, ff_family := ff_family f @ [0x20]\<rparr> else f)
      in f1\<lparr>ff_family := ff_family f1 @ [ch], ff_escape := False\<rparr>)"

definition font_step :: "wchar \<Rightarrow> font_splitter \<Rightarrow> font_splitter" where
  "font_step ch f =
     (if ff_escape f then font_push ch f
      else if ch = 0x20 then
        if ff_stringType f \<noteq> 0 then font_push ch f
        else f\<lparr>ff_delayedSpace := (ff_family f \<noteq> [])\<rparr>
      else if ch = 0x22 \<or> ch = 0x27 then
        if ff_stringType f \<noteq> 0 \<and> ff_stringType f \<noteq> ch then font_push ch f
        else f\<lparr>ff_stringType := (if ff_stringType f = ch then 0 else ch)\<rparr>
      else if ch = 0x2C then
        if ff_stringType f \<noteq> 0 then font_push ch f
        else if ff_family f \<noteq> []
        then f\<lparr>ff_out := ff_out f @ [ff_family f], ff_family := [], ff_delayedSpace := False\<rparr>
        else f
      else if ch = 0x5C then f\<lparr>ff_escape := True\<rparr>
      else font_push ch f)"

definition font_init :: font_splitter where
  "font_init = \<lparr>ff_family = [], ff_escape = False, ff_delayedSpace = False, ff_stringType = 0, ff_out = []\<rparr>"

text \<open>The callback's arguments, in order.\<close>

definition iterate_font_families :: "wstring \<Rightarrow> wstring list" where
  "iterate_font_families families =
     (let f = fold font_step families font_init
      in ff_out f @ (if ff_stringType f = 0 \<and> ff_family f \<noteq> [] then [ff_family f] else []))"

section \<open>Control codes and file names\<close>

lemma visualize_control_codes_visible:
  assumes "ch \<in> set (visualize_control_codes str)"
  shows "0x20 < ch \<and> ch \<noteq> 0x7f"
proof -
  have moved: "0x7f < c + 0x2400" if "c < 0x20" for c :: wchar
  proof -
    have "unat (c + 0x2400) = unat c + 0x2400"
      using that by (simp add: unat_add_no_wrap word_less_nat_alt)
    then show ?thesis by (simp add: word_less_nat_alt)
  qed
  obtain c where c: "ch = (if c < 0x20 then c + 0x2400 else if c = 0x20 then 0x2423
      else if c = 0x7f then 0x2421 else c)"
    using assms unfolding visualize_control_codes_def set_map by (elim imageE)
  consider "c < 0x20" | "c = 0x20" | "c = 0x7f" | "0x20 < c" "c \<noteq> 0x7f"
    by (meson neqE)
  then show ?thesis
  proof cases
    case 1
    then have "0x7f < ch" using c moved by simp
    moreover from this have "0x20 < ch" by (rule less_trans [rotated]) simp
    ultimately show ?thesis by blast
  qed (use c in auto)
qed

lemma clean_path_legal: "is_legal_path (clean_path str)"
  by (simp add: is_legal_path_def clean_path_def list_ex_iff)

lemma clean_path_id: "(clean_path str = str) = is_legal_path str"
  by (auto simp: is_legal_path_def clean_path_def list_ex_iff filter_id_conv)

lemma pathFilter_table:
  "\<forall>n\<in>{..<128}. ((pathFilter ! n) AND 2 \<noteq> 0) = (n \<in> {34, 42, 47, 58, 60, 62, 63, 92, 124})"
  "\<forall>n\<in>{..<128}. ((pathFilter ! n) AND 1 \<noteq> 0) = (n \<in> {34, 42, 60, 62, 63, 124})"
  by code_simp+

lemma pathFilter_hits_unat:
  "pathFilter_hits flag ch \<longleftrightarrow> unat ch < 128 \<and> (pathFilter ! unat ch) AND flag \<noteq> 0"
proof -
  have "ch AND 127 = ch" if "unat ch < 128"
  proof -
    have "unat (take_bit 7 ch) = unat ch"
      using that by (subst unsigned_take_bit_eq) (simp add: take_bit_nat_eq_self)
    then have "take_bit 7 ch = ch" by (simp only: word_unat_eq_iff)
    then show ?thesis by (simp add: take_bit_eq_mask mask_eq_exp_minus_1)
  qed
  then show ?thesis by (auto simp: pathFilter_hits_def word_less_nat_alt)
qed

lemma clean_filename_set:
  "set (clean_filename str) = set str - {0x22, 0x2A, 0x2F, 0x3A, 0x3C, 0x3E, 0x3F, 0x5C, 0x7C}"
proof -
  have "pathFilter_hits 2 ch \<longleftrightarrow> unat ch \<in> {34, 42, 47, 58, 60, 62, 63, 92, 124}" for ch
    using pathFilter_table(1) by (auto simp: pathFilter_hits_unat)
  then have "pathFilter_hits 2 ch \<longleftrightarrow> ch \<in> {0x22, 0x2A, 0x2F, 0x3A, 0x3C, 0x3E, 0x3F, 0x5C, 0x7C}" for ch
    by (simp add: word_unat_eq_iff)
  then show ?thesis by (auto simp: clean_filename_def)
qed

section \<open>Prefixes, suffixes and case\<close>

lemma starts_with_iff: "starts_with str prefix \<longleftrightarrow> (\<exists>r. str = prefix @ r)"
proof
  assume "starts_with str prefix"
  then have "str = prefix @ drop (length prefix) str"
    using append_take_drop_id [of "length prefix" str] by (simp add: starts_with_def)
  then show "\<exists>r. str = prefix @ r" ..
qed (auto simp: starts_with_def)

lemma ends_with_iff: "ends_with str suffix \<longleftrightarrow> (\<exists>p. str = p @ suffix)"
proof
  assume "ends_with str suffix"
  then have "str = take (length str - length suffix) str @ suffix"
    using append_take_drop_id [of "length str - length suffix" str] by (simp add: ends_with_def)
  then show "\<exists>p. str = p @ suffix" ..
qed (auto simp: ends_with_def)

lemma equals_insensitive_loop_iff:
  "length a = length b \<Longrightarrow> equals_insensitive_loop a b \<longleftrightarrow> map tolower_ascii a = map tolower_ascii b"
  by (induction a b rule: equals_insensitive_loop.induct) auto

lemma equals_insensitive_ascii_iff:
  "equals_insensitive_ascii a b \<longleftrightarrow> map tolower_ascii a = map tolower_ascii b"
  using equals_insensitive_loop_iff [of a b] map_eq_imp_length_eq [of tolower_ascii a tolower_ascii b]
  by (auto simp: equals_insensitive_ascii_def)

lemma starts_with_insensitive_ascii_iff:
  "starts_with_insensitive_ascii str prefix \<longleftrightarrow>
     starts_with (map tolower_ascii str) (map tolower_ascii prefix)"
  by (simp add: starts_with_insensitive_ascii_def starts_with_def equals_insensitive_ascii_iff take_map)

text \<open>C31: 
  The generic suffix test that ignores case reads the characters before its string, outside of
  it, for every non-empty suffix that is no longer than the string.
\<close>

theorem ends_with_insensitive_ascii_faults:
  "suffix \<noteq> [] \<Longrightarrow> length suffix \<le> length str \<Longrightarrow> ends_with_insensitive_ascii str suffix = None"
  by (simp add: ends_with_insensitive_ascii_def view_chars_def)

lemma trim_beg_dropWhile: "trim_beg ch s = dropWhile (\<lambda>c. c = ch) s"
  by (induction s) simp_all

lemma trim_end_dropWhile: "trim_end ch s = rev (dropWhile (\<lambda>c. c = ch) (rev s))"
proof (induction s rule: rev_induct)
  case Nil
  show ?case by (simp add: trim_end.simps [of ch "[]"])
next
  case (snoc x xs)
  then show ?case by (simp add: trim_end.simps [of ch "xs @ [x]"])
qed

lemma run_dropWhile:
  "s = replicate (length (takeWhile (\<lambda>c. c = ch) s)) ch @ dropWhile (\<lambda>c. c = ch) s"
  by (induction s) auto

lemma trim_spec:
  "\<exists>a b. str = replicate a ch @ trim str ch @ replicate b ch"
  "trim str ch \<noteq> [] \<Longrightarrow> hd (trim str ch) \<noteq> ch \<and> last (trim str ch) \<noteq> ch"
proof -
  define m where "m = dropWhile (\<lambda>c. c = ch) str"
  define r where "r = dropWhile (\<lambda>c. c = ch) (rev m)"
  have trim: "trim str ch = rev r"
    by (simp add: trim_def trim_beg_dropWhile trim_end_dropWhile m_def r_def)
  have front: "str = replicate (length (takeWhile (\<lambda>c. c = ch) str)) ch @ m"
    unfolding m_def by (rule run_dropWhile)
  have "rev m = replicate (length (takeWhile (\<lambda>c. c = ch) (rev m))) ch @ r"
    unfolding r_def by (rule run_dropWhile)
  from arg_cong [OF this, of rev]
  have rest: "m = rev r @ replicate (length (takeWhile (\<lambda>c. c = ch) (rev m))) ch" by simp
  from front rest trim show "\<exists>a b. str = replicate a ch @ trim str ch @ replicate b ch" by metis
  show "hd (trim str ch) \<noteq> ch \<and> last (trim str ch) \<noteq> ch" if "trim str ch \<noteq> []"
  proof
    have r: "r \<noteq> []" using that trim by simp
    then have "hd r \<noteq> ch" unfolding r_def using hd_dropWhile by blast
    then show "last (trim str ch) \<noteq> ch" using trim r by (simp add: last_rev)
    have "m \<noteq> []" using r by (auto simp: r_def)
    then have "hd m \<noteq> ch" unfolding m_def using hd_dropWhile by blast
    moreover have "hd m = hd (rev r)" using rest r by (metis hd_append2 rev_is_Nil_conv)
    ultimately show "hd (trim str ch) \<noteq> ch" using trim by simp
  qed
qed

section \<open>Splitting\<close>

text \<open>The tokens between the delimiters, empty ones included, and the inverse operation.\<close>

fun tokens :: "wchar \<Rightarrow> wstring \<Rightarrow> wstring list" where
  "tokens d [] = [[]]"
| "tokens d (c # cs) =
     (if c = d then [] # tokens d cs else (c # hd (tokens d cs)) # tl (tokens d cs))"

fun join_tokens :: "wchar \<Rightarrow> wstring list \<Rightarrow> wstring" where
  "join_tokens d [] = []"
| "join_tokens d [t] = t"
| "join_tokens d (t # ts) = t @ d # join_tokens d ts"

lemma tokens_ne [simp]: "tokens d s \<noteq> []"
  by (cases s) simp_all

lemma join_tokens_Cons: "ts \<noteq> [] \<Longrightarrow> join_tokens d (t # ts) = t @ d # join_tokens d ts"
  by (cases ts) simp_all

lemma join_tokens_push: "ts \<noteq> [] \<Longrightarrow> join_tokens d ((c # hd ts) # tl ts) = c # join_tokens d ts"
  by (cases ts; cases "tl ts") simp_all

lemma join_tokens_tokens: "join_tokens d (tokens d s) = s"
  by (induction s) (simp_all add: join_tokens_Cons join_tokens_push)

lemma tokens_no_delimiter: "t \<in> set (tokens d s) \<Longrightarrow> d \<notin> set t"
proof (induction s arbitrary: t)
  case (Cons c cs)
  have "set (tl (tokens d cs)) \<subseteq> set (tokens d cs)" "hd (tokens d cs) \<in> set (tokens d cs)"
    using list.set_sel [of "tokens d cs"] by auto
  with Cons show ?case by (auto split: if_splits)
qed simp

lemma tokens_takeWhile:
  "tokens d s =
     (let n = length (takeWhile (\<lambda>c. c \<noteq> d) s)
      in take n s # (if n = length s then [] else tokens d (drop (Suc n) s)))"
  by (induction s) (auto simp: Let_def)

lemma split_loop_tokens:
  "si_advance p \<Longrightarrow> si_tok p \<noteq> length (si_str p) \<Longrightarrow> si_it p \<le> length (si_str p) \<Longrightarrow>
   length (si_str p) - si_it p < fuel \<Longrightarrow>
   split_loop fuel p = Some (tokens (si_needle p) (drop (si_it p) (si_str p)))"
proof (induction fuel arbitrary: p)
  case (Suc fuel)
  let ?s = "drop (si_it p) (si_str p)"
  define n where "n = length (takeWhile (\<lambda>c. c \<noteq> si_needle p) ?s)"
  have n: "n \<le> length ?s" unfolding n_def by (rule length_takeWhile_le)
  define p1 where "p1 = split_advance (snd (split_value p))"
  have tok: "si_tok p1 = si_it p + n" "si_str p1 = si_str p" "si_needle p1 = si_needle p" "si_advance p1"
    and it: "si_it p1 = (if n = length ?s then length (si_str p) else si_it p + n + 1)"
    and v: "fst (split_value p) = take n ?s"
    using Suc.prems unfolding p1_def by (auto simp: split_value_def split_advance_def find_from_def n_def Let_def)
  have step: "split_loop (Suc fuel) p = map_option ((#) (take n ?s)) (split_loop fuel p1)"
    using Suc.prems v unfolding p1_def by (simp add: split_valid_def split_beta)
  show ?case
  proof (cases "n = length ?s")
    case True
    then have "split_loop fuel p1 = Some []"
      using tok Suc.prems(3) by (cases fuel) (simp_all add: split_valid_def)
    then show ?thesis
      using step True tokens_takeWhile [of "si_needle p" ?s] by (simp add: n_def Let_def)
  next
    case False
    then have "n < length ?s" using n by simp
    then have "split_loop fuel p1 = Some (tokens (si_needle p1) (drop (si_it p1) (si_str p1)))"
      by (intro Suc.IH) (use tok it False Suc.prems in auto)
    then show ?thesis
      using step False tok it tokens_takeWhile [of "si_needle p" ?s] by (simp add: n_def Let_def add.commute)
  qed
qed simp

lemma split_tokens_eq: "split_tokens str needle = Some (if str = [] then [] else tokens needle str)"
  by (cases str)
    (simp_all add: split_tokens_def split_iterator_init_def split_valid_def split_loop_tokens del: split_loop.simps(2),
      simp add: split_valid_def)

section \<open>Integers\<close>

text \<open>The digit a character stands for; 36 when it is none.\<close>

definition digit_ref :: "wchar \<Rightarrow> nat" where
  "digit_ref c =
     (let n = unat c
      in if 48 \<le> n \<and> n \<le> 57 then n - 48 else if 65 \<le> n \<and> n \<le> 90 then n - 55
         else if 97 \<le> n \<and> n \<le> 122 then n - 87 else 36)"

definition digits_value :: "nat \<Rightarrow> nat \<Rightarrow> wstring \<Rightarrow> nat" where
  "digits_value b a cs = foldl (\<lambda>a c. a * b + digit_ref c) a cs"

lemma and_not_word: "(x :: 'a::len word) AND NOT m = x - (x AND m)"
proof -
  have "(x AND NOT m) + (x AND m) = (x AND NOT m) OR (x AND m)"
    by (rule disjunctive_add) (auto simp: bit_simps)
  also have "\<dots> = x" by (rule bit_eqI) (auto simp: bit_simps)
  finally show ?thesis by (simp add: algebra_simps)
qed

lemma unat_diff_le: "b \<le> a \<Longrightarrow> unat (a - b :: 'a::len word) = unat a - unat b"
  by (simp add: unat_sub)

lemma and_exp_word: "(x :: 'a::len word) AND 2 ^ n = (if bit x n then 2 ^ n else 0)"
  by (rule bit_eqI) (auto simp: bit_simps)

lemma unat_clear_bit5: "unat ((x :: u64) AND NOT 0x20) = (if odd (unat x div 32) then unat x - 32 else unat x)"
proof -
  have "x AND 2 ^ 5 = (if bit x 5 then 2 ^ 5 else 0)" by (rule and_exp_word)
  then have and5: "x AND 0x20 = (if bit x 5 then 0x20 else 0)" by simp
  have "bit x 5 = bit (unat x) 5" by (simp add: bit_unsigned_iff)
  also have "\<dots> = odd (unat x div 32)" by (simp add: bit_iff_odd)
  finally have bit: "bit x 5 = odd (unat x div 32)" .
  have le: "32 \<le> unat x" if "odd (unat x div 32)"
    using that by (metis div_less even_zero not_less)
  show ?thesis
  proof (cases "bit x 5")
    case True
    then show ?thesis
      unfolding and_not_word and5 using bit le by (simp add: unat_diff_le word_le_nat_alt)
  next
    case False
    then show ?thesis unfolding and_not_word and5 using bit by simp
  qed
qed

lemma digit_value_ref:
  "unat (digit_value c) = digit_ref c \<or> 36 \<le> unat (digit_value c) \<and> digit_ref c = 36"
proof (cases "c = 0")
  case True
  have "36 \<le> digit_value 0" by code_simp
  then show ?thesis using True by (simp add: digit_ref_def word_le_nat_alt)
next
  case False
  define n where "n = unat c"
  have n: "0 < n" using False by (simp add: n_def unat_gt_0)
  have ch: "unat (ucast c :: u64) = n" unfolding n_def by (rule ucast_wchar_bound)
  define x :: u64 where "x = ucast c - 1"
  have x: "unat x = n - 1" unfolding x_def using n ch by (subst unat_diff_le) (simp_all add: word_le_nat_alt)
  define y where "y = x AND NOT 0x20"
  have y: "unat y = (if odd ((n - 1) div 32) then n - 1 - 32 else n - 1)" unfolding y_def unat_clear_bit5 x ..
  have v: "digit_value c = (if 48 \<le> n \<and> n \<le> 57 then y - 15 else y - 54)"
    unfolding digit_value_def Let_def y_def x_def by (simp add: word_le_nat_alt ch)
  define q where "q = (n - 1) div 32"
  define r where "r = (n - 1) mod 32"
  have qr: "n = 32 * q + r + 1" "r < 32" unfolding q_def r_def using n by simp_all
  have y': "unat y = (if odd q then n - 33 else n - 1)" using y unfolding q_def by simp
  have ref: "digit_ref c = (if 48 \<le> n \<and> n \<le> 57 then n - 48 else if 65 \<le> n \<and> n \<le> 90 then n - 55
      else if 97 \<le> n \<and> n \<le> 122 then n - 87 else 36)"
    unfolding digit_ref_def n_def Let_def ..
  have sub: "unat (y - k) = (if unat k \<le> unat y then unat y - unat k else unat y + 2 ^ 64 - unat k)" for k
    by (subst unat_sub_if') simp
  consider "48 \<le> n" "n \<le> 57" | "65 \<le> n" "n \<le> 90" | "97 \<le> n" "n \<le> 122"
    | "n \<notin> {48..57}" "n \<notin> {65..90}" "n \<notin> {97..122}"
    by fastforce
  then show ?thesis
  proof cases
    case 1
    then have "q = 1" using qr by linarith
    then show ?thesis using 1 v ref y' sub by simp
  next
    case 2
    then have "q = 2" using qr by linarith
    then show ?thesis using 2 v ref y' sub by simp
  next
    case 3
    then have "q = 3" using qr by linarith
    then show ?thesis using 3 v ref y' sub by simp
  next
    case 4
    have "unat y \<notin> {54..89}"
    proof
      assume "unat y \<in> {54..89}"
      then have "if odd q then 87 \<le> n \<and> n \<le> 96 else 55 \<le> n \<and> n \<le> 64"
        using y' 4 by (auto split: if_splits)
      then have "if odd q then q = 2 else q = 1" using qr by (auto split: if_splits)
      then show False by (simp split: if_splits)
    qed
    then have "36 \<le> unat (y - 54)" unfolding sub by simp linarith
    moreover have "digit_value c = y - 54" "digit_ref c = 36" using v ref 4 by auto
    ultimately show ?thesis by simp
  qed
qed

lemma accumulate_overflow:
  fixes a b d :: nat
  assumes "0 < b" "b \<le> 36" "a < 2 ^ 64" "d < b"
  defines "acc \<equiv> (word_of_nat a * word_of_nat b + word_of_nat d :: u64)"
  shows "(UINT64_MAX div word_of_nat b < word_of_nat a \<or> acc < word_of_nat a) = (2 ^ 64 \<le> a * b + d)"
    "a * b + d < 2 ^ 64 \<Longrightarrow> acc = word_of_nat (a * b + d)"
proof -
  have un: "unat (word_of_nat a :: u64) = a" "unat (word_of_nat b :: u64) = b" "unat (word_of_nat d :: u64) = d"
    using assms(1-4) by (simp_all add: unat_of_nat)
  have mul: "(UINT64_MAX div word_of_nat b < word_of_nat a) = (2 ^ 64 \<le> a * b)"
    using assms(1) by (simp add: word_less_nat_alt unat_div un UINT64_MAX_def div_less_iff_less_mult) linarith
  have acc: "acc = word_of_nat (a * b + d)" unfolding acc_def by simp
  then show "a * b + d < 2 ^ 64 \<Longrightarrow> acc = word_of_nat (a * b + d)" by simp
  have "unat acc = (a * b + d) mod 2 ^ 64" unfolding acc unat_of_nat by simp
  then have add: "(acc < word_of_nat a) = ((a * b + d) mod 2 ^ 64 < a)"
    by (simp only: word_less_nat_alt un)
  show "(UINT64_MAX div word_of_nat b < word_of_nat a \<or> acc < word_of_nat a) = (2 ^ 64 \<le> a * b + d)"
  proof (cases "2 ^ 64 \<le> a * b")
    case True
    then show ?thesis unfolding mul by simp
  next
    case False
    show ?thesis
    proof (cases "2 ^ 64 \<le> a * b + d")
      case True
      then have "(a * b + d) mod 2 ^ 64 = a * b + d - 2 ^ 64"
        using False assms(2,4) by (subst le_mod_geq) simp_all
      moreover have "a * b + d - 2 ^ 64 < 36" using False assms(2,4) by linarith
      moreover have "36 \<le> a"
      proof (rule ccontr)
        assume "\<not> 36 \<le> a"
        then have "a * b \<le> 35 * 36" using assms(2) by (intro mult_le_mono) simp_all
        then show False using True assms(2,4) by simp
      qed
      ultimately show ?thesis using True unfolding add by simp
    next
      case le: False
      then have "(a * b + d) mod 2 ^ 64 = a * b + d" by simp
      moreover have "a \<le> a * b + d" using assms(1) by (simp add: trans_le_add1)
      ultimately show ?thesis using le unfolding mul add by simp
    qed
  qed
qed

lemma digits_value_ge: "0 < b \<Longrightarrow> a \<le> digits_value b a cs"
proof (induction cs arbitrary: a)
  case (Cons c cs)
  have "a \<le> a * b + digit_ref c" using Cons.prems by (simp add: trans_le_add1)
  also have "\<dots> \<le> digits_value b (a * b + digit_ref c) cs" using Cons by blast
  finally show ?case by (simp add: digits_value_def)
qed (simp add: digits_value_def)

lemma digit_value_less:
  assumes "b \<le> 36"
  shows "(word_of_nat b \<le> digit_value c) = (b \<le> digit_ref c)"
    "digit_ref c < b \<Longrightarrow> digit_value c = word_of_nat (digit_ref c)"
proof -
  have "unat (word_of_nat b :: u64) = b" using assms by (simp add: unat_of_nat)
  with digit_value_ref [of c] assms show "(word_of_nat b \<le> digit_value c) = (b \<le> digit_ref c)"
    by (auto simp: word_le_nat_alt)
  show "digit_value c = word_of_nat (digit_ref c)" if "digit_ref c < b"
  proof -
    have "unat (digit_value c) = digit_ref c" using digit_value_ref [of c] that assms by auto
    then have "word_of_nat (unat (digit_value c)) = (word_of_nat (digit_ref c) :: u64)" by (simp only:)
    then show ?thesis by simp
  qed
qed

lemma parse_digits_value:
  assumes "0 < b" "b \<le> 36"
  shows "a < 2 ^ 64 \<Longrightarrow> parse_digits (word_of_nat b) (word_of_nat a) cs =
    (if (\<forall>c\<in>set cs. digit_ref c < b) \<and> digits_value b a cs < 2 ^ 64
     then Some (word_of_nat (digits_value b a cs)) else None)"
proof (induction cs arbitrary: a)
  case (Cons c cs)
  show ?case
  proof (cases "digit_ref c < b")
    case True
    note step = accumulate_overflow [OF assms Cons.prems True]
    have rec: "digits_value b a (c # cs) = digits_value b (a * b + digit_ref c) cs" by (simp add: digits_value_def)
    show ?thesis
    proof (cases "a * b + digit_ref c < 2 ^ 64")
      case small: True
      then show ?thesis
        using True step Cons.IH [OF small] rec digit_value_less [OF assms(2), of c]
        by (simp add: Let_def not_le del: of_nat_add of_nat_mult)
    next
      case False
      then have "\<not> digits_value b a (c # cs) < 2 ^ 64"
        using digits_value_ge [OF assms(1), of "a * b + digit_ref c" cs] rec by linarith
      then show ?thesis
        using True False step(1) digit_value_less [OF assms(2), of c] by (simp add: Let_def not_le)
    qed
  next
    case False
    then show ?thesis using digit_value_less(1) [OF assms(2), of c] by (simp add: Let_def not_less)
  qed
qed (simp add: digits_value_def)

text \<open>What the parser is meant to compute: the positional value, when it fits.\<close>

definition parse_ref :: "wstring \<Rightarrow> int \<Rightarrow> nat option" where
  "parse_ref str base =
     (let (b, skip) = parse_base str base;
          ds = drop skip str
      in if ds \<noteq> [] \<and> unat b \<le> 36 \<and> (\<forall>c\<in>set ds. digit_ref c < unat b) \<and> digits_value (unat b) 0 ds < 2 ^ 64
         then Some (digits_value (unat b) 0 ds) else None)"

lemma parse_base_facts:
  assumes "base < 2 ^ 31"
  shows "0 < unat (fst (parse_base str base))" "snd (parse_base str base) \<le> length str"
proof -
  have "0 < unat (word_of_int base :: u64)" if "0 < base"
  proof -
    have "(word_of_int base :: u64) \<noteq> 0"
      using that assms by (auto simp: word_of_int_eq_0_iff zdvd_not_zless)
    then show ?thesis by (simp add: word_neq_0_conv [symmetric] unat_gt_0)
  qed
  then show "0 < unat (fst (parse_base str base))" "snd (parse_base str base) \<le> length str"
    by (auto simp: parse_base_def Let_def)
qed

text \<open>C19: 
  The integer parser computes exactly the positional value of its digits in the base that the
  argument or the prefix selects, and rejects the string if and only if it has no digits, a
  character that is not a digit of the base, or a value that does not fit 64 bits.
\<close>

theorem parse_u64_ref:
  assumes "base < 2 ^ 31"
  shows "map_option unat (parse_u64 str base) = parse_ref str base"
proof -
  obtain b skip where b: "parse_base str base = (b, skip)" by fastforce
  then have pos: "0 < unat b" and skip: "skip \<le> length str" using parse_base_facts [OF assms, of str] by simp_all
  have big: "(36 < b) = (36 < unat b)" by (simp add: word_less_nat_alt)
  have "parse_digits b 0 ds =
      (if (\<forall>c\<in>set ds. digit_ref c < unat b) \<and> digits_value (unat b) 0 ds < 2 ^ 64
       then Some (word_of_nat (digits_value (unat b) 0 ds)) else None)" if "unat b \<le> 36" for ds
    using parse_digits_value [OF pos that, of 0 ds] by simp
  then show ?thesis
    using b skip big by (auto simp: parse_u64_def parse_ref_def Let_def unat_of_nat not_less)
qed

section \<open>Font families\<close>

text \<open>A name in double quotes, with quotes and backslashes escaped.\<close>

definition font_escape :: "wchar \<Rightarrow> wstring" where
  "font_escape c = (if c = 0x22 \<or> c = 0x5C then [0x5C, c] else [c])"

definition font_quote :: "wstring \<Rightarrow> wstring" where
  "font_quote name = 0x22 # concat (map font_escape name) @ [0x22]"

lemma font_step_escaped:
  assumes "\<not> ff_escape f" "\<not> ff_delayedSpace f" "ff_stringType f = 0x22"
  shows "fold font_step (font_escape c) f = f\<lparr>ff_family := ff_family f @ [c]\<rparr>"
  using assms by (cases f) (simp add: font_escape_def font_step_def font_push_def)

lemma font_step_name:
  assumes "\<not> ff_escape f" "\<not> ff_delayedSpace f" "ff_stringType f = 0x22"
  shows "fold font_step (concat (map font_escape name)) f = f\<lparr>ff_family := ff_family f @ name\<rparr>"
  using assms by (induction name arbitrary: f) (simp_all add: font_step_escaped)

lemma font_step_quote:
  "fold font_step (font_quote name) (font_init\<lparr>ff_out := out\<rparr>) = font_init\<lparr>ff_out := out, ff_family := name\<rparr>"
  by (simp add: font_quote_def font_step_name font_step_def font_init_def)

lemma font_step_comma:
  "name \<noteq> [] \<Longrightarrow> font_step 0x2C (font_init\<lparr>ff_out := out, ff_family := name\<rparr>) = font_init\<lparr>ff_out := out @ [name]\<rparr>"
  by (simp add: font_step_def font_init_def)

lemma font_fold_quoted:
  "[] \<notin> set (name # names) \<Longrightarrow>
   fold font_step (join_tokens 0x2C (map font_quote (name # names))) (font_init\<lparr>ff_out := out\<rparr>) =
   font_init\<lparr>ff_out := out @ butlast (name # names), ff_family := last (name # names)\<rparr>"
proof (induction names arbitrary: name out)
  case (Cons n ns)
  then have "name \<noteq> []" by auto
  then show ?case using Cons.IH [of n "out @ [name]"] Cons.prems by (simp add: font_step_quote font_step_comma)
qed (simp add: font_step_quote)

text \<open>C25: 
  Writing each font family in quotes, with quotes and backslashes escaped, and joining them with
  commas is undone by the font-family splitter, whatever characters the names hold.
\<close>

theorem iterate_font_families_quoted:
  assumes "[] \<notin> set names"
  shows "iterate_font_families (join_tokens 0x2C (map font_quote names)) = names"
proof (cases names)
  case (Cons n ns)
  have "font_init\<lparr>ff_out := []\<rparr> = font_init" by (simp add: font_init_def)
  with font_fold_quoted [of n ns "[]"] assms Cons
  have "fold font_step (join_tokens 0x2C (map font_quote names)) font_init =
      font_init\<lparr>ff_out := butlast names, ff_family := last names\<rparr>" by simp
  moreover have "last names \<noteq> []" using assms Cons last_in_set [of names] by fastforce
  ultimately show ?thesis
    using Cons append_butlast_last_id [of names] by (simp add: iterate_font_families_def font_init_def)
qed (simp add: iterate_font_families_def font_init_def)

lemma font_step_out: "[] \<notin> set (ff_out f) \<Longrightarrow> [] \<notin> set (ff_out (font_step ch f))"
  by (simp add: font_step_def font_push_def Let_def)

lemma iterate_font_families_nonempty: "[] \<notin> set (iterate_font_families families)"
proof -
  have "[] \<notin> set (ff_out (fold font_step families f))" if "[] \<notin> set (ff_out f)" for f
    using that by (induction families arbitrary: f) (simp_all add: font_step_out)
  then show ?thesis by (auto simp: iterate_font_families_def Let_def font_init_def)
qed

theorem parse_u64_ref_witness: "map_option unat (parse_u64 (wstr ''0x1F'') 0) = parse_ref (wstr ''0x1F'') 0"
  by (rule parse_u64_ref) simp

theorem iterate_font_families_quoted_witness:
  "iterate_font_families (join_tokens 0x2C (map font_quote [wstr ''Cascadia, Mono'', wstr ''a\"b'']))
     = [wstr ''Cascadia, Mono'', wstr ''a\"b'']"
  by (rule iterate_font_families_quoted) (simp add: wstr_def)

theorem ends_with_insensitive_ascii_faults_witness:
  "ends_with_insensitive_ascii (wstr ''a.TXT'') (wstr ''.txt'') = None"
  by (rule ends_with_insensitive_ascii_faults) (simp_all add: wstr_def)

text \<open>C22:
  Iterating over a split string always ends; the tokens of a non-empty string, joined with the
  delimiter, give the string back, and none of them contains the delimiter.
\<close>

theorem split_tokens_join:
  assumes "str \<noteq> []"
  shows "\<exists>ts. split_tokens str needle = Some ts \<and> join_tokens needle ts = str
    \<and> list_all (\<lambda>t. needle \<notin> set t) ts"
  using assms by (auto simp: split_tokens_eq join_tokens_tokens list_all_iff dest: tokens_no_delimiter)

theorem split_tokens_join_witness:
  "\<exists>ts. split_tokens (wstr ''a;;b;'') 0x3B = Some ts \<and> join_tokens 0x3B ts = wstr ''a;;b;''
    \<and> list_all (\<lambda>t. 0x3B \<notin> set t) ts"
  by (rule split_tokens_join) (simp add: wstr_def)

text \<open>C26:
  A cleaned path is legal, and cleaning changes a path only if it is not legal. A cleaned file
  name has exactly the characters of the original except the nine that file names cannot have.
\<close>

theorem clean_path_filename:
  "is_legal_path (clean_path str) \<and> (clean_path str = str \<longleftrightarrow> is_legal_path str)
   \<and> set (clean_filename str) = set str - {0x22, 0x2A, 0x2F, 0x3A, 0x3C, 0x3E, 0x3F, 0x5C, 0x7C}"
  by (simp add: clean_path_legal clean_path_id clean_filename_set)

section \<open>Rules for positional values\<close>

lemma digits_value_Nil [simp]: "digits_value b a [] = a"
  by (simp add: digits_value_def)

lemma digits_value_Cons [simp]: "digits_value b a (c # cs) = digits_value b (a * b + digit_ref c) cs"
  by (simp add: digits_value_def)

lemma digits_value_snoc: "digits_value b a (cs @ [c]) = digits_value b a cs * b + digit_ref c"
  by (simp add: digits_value_def)

lemma join_tokens_concat:
  "join_tokens d (t # ts) = t @ concat (map (\<lambda>u. d # u) ts)"
  by (induction ts arbitrary: t) simp_all

end
