(* ===== verification/Base64.thy ===== *)
theory Base64
  imports Til_String
begin

text \<open>
  The base64 decoder used for clipboard writes, \<^verbatim>\<open>src/src/terminal/parser/base64.cpp\<close>. The batched loop
  consumes four characters per round and stops five characters before the end; the rest is
  decoded one by one, skipping \<^verbatim>\<open>=\<close>. The conversion of the decoded bytes from UTF-8 to UTF-16 calls
  the operating system and is a parameter. The lemmas show that no read or write leaves its
  buffer, that decoding inverts the RFC 4648 encoding, and which strings are rejected.
\<close>

section \<open>Definitions\<close>

type_synonym u32 = "32 word"

definition decodeTable :: "byte list" where
  "decodeTable =
     [255, 255, 255, 255, 255, 255, 255, 255, 255, 255, 255, 255, 255, 255, 255, 255,
      255, 255, 255, 255, 255, 255, 255, 255, 255, 255, 255, 255, 255, 255, 255, 255,
      255, 255, 255, 255, 255, 255, 255, 255, 255, 255, 255, 62, 255, 62, 255, 63,
      52, 53, 54, 55, 56, 57, 58, 59, 60, 61, 255, 255, 255, 255, 255, 255,
      255, 0, 1, 2, 3, 4, 5, 6, 7, 8, 9, 10, 11, 12, 13, 14,
      15, 16, 17, 18, 19, 20, 21, 22, 23, 24, 25, 255, 255, 255, 255, 63,
      255, 26, 27, 28, 29, 30, 31, 32, 33, 34, 35, 36, 37, 38, 39, 40,
      41, 42, 43, 44, 45, 46, 47, 48, 49, 50, 51, 255, 255, 255, 255, 255]"

text \<open>The remainder \<^verbatim>\<open>r\<close> and the error bits.\<close>

definition accumulate :: "wchar \<Rightarrow> u32 \<times> u32 \<Rightarrow> u32 \<times> u32" where
  "accumulate ch re =
     (case re of
        (r, error) \<Rightarrow>
          let n = decodeTable ! unat (ch AND 0x7f)
          in (push_bit 6 r OR ucast n, error OR (ucast (ch OR ucast n) AND 0xff80)))"

text \<open>A read past the end of the source, or a write past the end of the result, is \<open>None\<close>.\<close>

definition read_at :: "wstring \<Rightarrow> nat \<Rightarrow> wchar option" where
  "read_at src i = (if i < length src then Some (src ! i) else None)"

definition write_out :: "nat \<Rightarrow> byte list \<Rightarrow> byte list \<Rightarrow> byte list option" where
  "write_out capacity out bs = (if length out + length bs \<le> capacity then Some (out @ bs) else None)"

definition emit3 :: "u32 \<Rightarrow> byte list" where
  "emit3 r = [ucast (drop_bit 16 r), ucast (drop_bit 8 r), ucast r]"

function decode_batched ::
  "wstring \<Rightarrow> nat \<Rightarrow> nat \<Rightarrow> u32 \<times> u32 \<Rightarrow> byte list \<Rightarrow> (nat \<times> (u32 \<times> u32) \<times> byte list) option" where
  "decode_batched src capacity pos re out =
     (if pos < length src - min 5 (length src) then
        do {
          ch0 \<leftarrow> read_at src pos;
          ch1 \<leftarrow> read_at src (pos + 1);
          ch2 \<leftarrow> read_at src (pos + 2);
          ch3 \<leftarrow> read_at src (pos + 3);
          let re' = accumulate ch3 (accumulate ch2 (accumulate ch1 (accumulate ch0 re)));
          out' \<leftarrow> write_out capacity out (emit3 (fst re'));
          decode_batched src capacity (pos + 4) re' out'
        }
      else Some (pos, re, out))"
  by pat_completeness auto
termination
  by (relation "measure (\<lambda>(src, capacity, pos, re, out). length src - pos)") auto

declare decode_batched.simps [simp del]

fun decode_rest :: "wstring \<Rightarrow> u32 \<times> u32 \<Rightarrow> byte \<Rightarrow> (u32 \<times> u32) \<times> byte" where
  "decode_rest [] re ri = (re, ri)"
| "decode_rest (ch # chs) re ri =
     (if ch \<noteq> 0x3D then decode_rest chs (accumulate ch re) (ri + 1) else decode_rest chs re ri)"

text \<open>The final \<^verbatim>\<open>switch\<close>: the bytes it writes and the new error bits.\<close>

definition decode_tail :: "(u32 \<times> u32) \<times> byte \<Rightarrow> byte list \<times> u32" where
  "decode_tail rer =
     (case rer of
        ((r, error), ri) \<Rightarrow>
          if ri = 2 then ([ucast (drop_bit 4 r)], error)
          else if ri = 3 then ([ucast (drop_bit 10 r), ucast (drop_bit 2 r)], error)
          else if ri = 4 then (emit3 r, error)
          else ([], error OR ucast ri))"

text \<open>\<open>Some None\<close> is the error return for invalid data.\<close>

definition Decode_bytes :: "wstring \<Rightarrow> byte list option option" where
  "Decode_bytes src =
     (let capacity = ((length src + 3) div 4) * 3
      in do {
        (pos, re, out) \<leftarrow> decode_batched src capacity 0 (0, 0) [];
        let (bs, error) = decode_tail (decode_rest (drop pos src) re 0);
        out' \<leftarrow> write_out capacity out bs;
        Some (if error \<noteq> 0 then None else Some out')
      })"

definition Decode :: "(byte list \<Rightarrow> wstring option) \<Rightarrow> wstring \<Rightarrow> wstring option option" where
  "Decode u8u16 src = map_option (\<lambda>r. case r of None \<Rightarrow> None | Some bs \<Rightarrow> u8u16 bs) (Decode_bytes src)"

text \<open>The encoding of RFC 4648, as the reference.\<close>

definition alphabet :: "byte \<Rightarrow> wchar" where
  "alphabet n =
     (if n < 26 then ucast n + 0x41 else if n < 52 then ucast n + 0x47
      else if n < 62 then ucast n - 4 else if n = 62 then 0x2B else 0x2F)"

fun encode :: "byte list \<Rightarrow> wstring" where
  "encode [] = []"
| "encode [a] = [alphabet (drop_bit 2 a), alphabet (push_bit 4 (a AND 3)), 0x3D, 0x3D]"
| "encode [a, b] =
     [alphabet (drop_bit 2 a), alphabet (push_bit 4 (a AND 3) OR drop_bit 4 b),
      alphabet (push_bit 2 (b AND 15)), 0x3D]"
| "encode (a # b # c # bs) =
     [alphabet (drop_bit 2 a), alphabet (push_bit 4 (a AND 3) OR drop_bit 4 b),
      alphabet (push_bit 2 (b AND 15) OR drop_bit 6 c), alphabet (c AND 63)] @ encode bs"

section \<open>Bounds\<close>

lemma batched_condition: "(pos < n - min 5 n) = (pos + 5 < (n :: nat))"
  by (simp add: min_def) linarith

lemma decode_batched_step:
  assumes "pos + 5 < length src"
  shows "decode_batched src capacity pos re out =
    (let re' = fold accumulate [src ! pos, src ! (pos + 1), src ! (pos + 2), src ! (pos + 3)] re
     in write_out capacity out (emit3 (fst re')) \<bind> decode_batched src capacity (pos + 4) re')"
  using assms unfolding decode_batched.simps [of src capacity pos re out] batched_condition
  by (simp add: Let_def read_at_def del: bind_eq_Some_iff)

lemma decode_batched_stop:
  "length src \<le> pos + 5 \<Longrightarrow> decode_batched src capacity pos re out = Some (pos, re, out)"
  unfolding decode_batched.simps [of src capacity pos re out] batched_condition by simp

lemma write_out_emit3: "length out + 3 \<le> capacity \<Longrightarrow> write_out capacity out (emit3 r) = Some (out @ emit3 r)"
  by (simp add: write_out_def emit3_def)

lemma decode_batched_bounds:
  "4 * k \<le> length src \<Longrightarrow> length out = 3 * k \<Longrightarrow> capacity = ((length src + 3) div 4) * 3 \<Longrightarrow>
   \<exists>k' re' out'. decode_batched src capacity (4 * k) re out = Some (4 * k', re', out')
     \<and> 4 * k' \<le> length src \<and> length src \<le> 4 * k' + 5 \<and> length out' = 3 * k'"
proof (induction "length src - 4 * k" arbitrary: k re out rule: less_induct)
  case less
  show ?case
  proof (cases "4 * k + 5 < length src")
    case True
    define re' where "re' = fold accumulate [src ! (4 * k), src ! (4 * k + 1), src ! (4 * k + 2), src ! (4 * k + 3)] re"
    have "k + 1 \<le> (length src + 3) div 4" using True by linarith
    then have "write_out capacity out (emit3 (fst re')) = Some (out @ emit3 (fst re'))"
      using less.prems(2,3) by (intro write_out_emit3) simp
    then have step: "decode_batched src capacity (4 * k) re out =
        decode_batched src capacity (4 * (k + 1)) re' (out @ emit3 (fst re'))"
      unfolding decode_batched_step [OF True] Let_def re'_def [symmetric] by (simp add: add.commute)
    show ?thesis
      unfolding step by (rule less.hyps) (use True less.prems in \<open>auto simp: emit3_def\<close>)
  next
    case False
    then show ?thesis using less.prems by (auto simp: decode_batched_stop)
  qed
qed

lemma decode_tail_length:
  "unat (snd rer) \<le> n \<Longrightarrow> length (fst (decode_tail rer)) \<le> 3 \<and> (fst (decode_tail rer) \<noteq> [] \<longrightarrow> 2 \<le> n)"
  by (cases rer; cases "fst rer") (auto simp: decode_tail_def emit3_def split: if_splits)

lemma decode_rest_count: "unat ri + length chs < 256 \<Longrightarrow> unat (snd (decode_rest chs re ri)) \<le> unat ri + length chs"
proof (induction chs arbitrary: re ri)
  case (Cons ch chs)
  have "unat (ri + 1) = unat ri + 1" using Cons.prems by (simp add: unat_add_no_wrap)
  then show ?case using Cons.IH [of "ri + 1"] Cons.IH [of ri re] Cons.prems
    by (cases "ch = 0x3D") (simp_all add: le_SucI)
qed simp

lemma Decode_bytes_total: "\<exists>r. Decode_bytes src = Some r"
proof -
  let ?cap = "((length src + 3) div 4) * 3"
  obtain k re out where d: "decode_batched src ?cap 0 (0, 0) [] = Some (4 * k, re, out)"
    "4 * k \<le> length src" "length src \<le> 4 * k + 5" "length out = 3 * k"
    using decode_batched_bounds [of 0 src "[]" ?cap "(0, 0)"] by auto
  let ?t = "decode_tail (decode_rest (drop (4 * k) src) re 0)"
  have "unat (snd (decode_rest (drop (4 * k) src) re 0)) \<le> length src - 4 * k"
    using decode_rest_count [of 0 "drop (4 * k) src" re] d(2,3) by simp
  note tail = decode_tail_length [OF this]
  have "length out + length (fst ?t) \<le> ?cap"
  proof (cases "fst ?t = []")
    case True
    have "k \<le> (length src + 3) div 4" using d(2) by linarith
    with True d(4) show ?thesis by simp
  next
    case False
    with tail have "2 \<le> length src - 4 * k" by blast
    then have "k + 1 \<le> (length src + 3) div 4" by linarith
    moreover have "length (fst ?t) \<le> 3" using tail by blast
    ultimately show ?thesis using d(4) by linarith
  qed
  then have "write_out ?cap out (fst ?t) = Some (out @ fst ?t)" by (simp add: write_out_def)
  then show ?thesis
    using d(1) by (auto simp: Decode_bytes_def Let_def split_beta simp del: bind_eq_Some_iff)
qed

section \<open>Decoding inverts encoding\<close>

lemma alphabet_table:
  "list_all (\<lambda>n. let ch = alphabet n
     in decodeTable ! unat (ch AND 0x7f) = n \<and> (ucast (ch OR ucast n) :: u32) AND 0xff80 = 0 \<and> ch \<noteq> 0x3D)
   (map word_of_nat [0..<64])"
  by code_simp

lemma alphabet_decoded:
  assumes "n < 64"
  shows "decodeTable ! unat (alphabet n AND 0x7f) = n" "(ucast (alphabet n OR ucast n) :: u32) AND 0xff80 = 0"
    "alphabet n \<noteq> 0x3D"
proof -
  have "unat n \<in> {0..<64}" using assms by (simp add: word_less_nat_alt)
  then have "n \<in> set (map word_of_nat [0..<64])" by (rule word_in_upt)
  with alphabet_table
  show "decodeTable ! unat (alphabet n AND 0x7f) = n" "(ucast (alphabet n OR ucast n) :: u32) AND 0xff80 = 0"
    "alphabet n \<noteq> 0x3D"
    unfolding list_all_iff Let_def by blast+
qed

lemma accumulate_alphabet: "n < 64 \<Longrightarrow> accumulate (alphabet n) (r, e) = (push_bit 6 r OR ucast n, e)"
  by (simp add: accumulate_def Let_def alphabet_decoded)

lemma sextet_masks: "(3 :: byte) = mask 2" "(15 :: byte) = mask 4" "(63 :: byte) = mask 6"
  by (simp_all add: mask_eq_exp_minus_1)

lemma bit_sextets:
  fixes a b :: byte
  shows "bit (drop_bit 2 a) k = bit a (k + 2)"
    "bit (push_bit 4 (a AND 3) OR drop_bit 4 b) k = (if k < 4 then bit b (k + 4) else k < 6 \<and> bit a (k - 4))"
    "bit (push_bit 2 (a AND 15) OR drop_bit 6 b) k = (if k < 2 then bit b (k + 6) else k < 6 \<and> bit a (k - 2))"
    "bit (a AND 63) k = (k < 6 \<and> bit a k)"
    "bit (push_bit 4 (a AND 3)) k = (4 \<le> k \<and> k < 6 \<and> bit a (k - 4))"
    "bit (push_bit 2 (a AND 15)) k = (2 \<le> k \<and> k < 6 \<and> bit a (k - 2))"
  unfolding sextet_masks by (auto simp: bit_simps add.commute dest: bit_imp_le_length)

lemma sextet_less:
  assumes "\<And>k. 6 \<le> k \<Longrightarrow> \<not> bit (e :: byte) k"
  shows "e < 64"
proof -
  have "take_bit 6 e = e" by (rule bit_eqI) (metis assms bit_take_bit_iff not_le)
  then have "unat e = take_bit 6 (unat e)" by (metis unsigned_take_bit_eq)
  also have "\<dots> < 64" using take_bit_nat_less_exp [of 6 "unat e"] by simp
  finally show ?thesis by (simp add: word_less_nat_alt)
qed

lemma sextets_small:
  fixes a b :: byte
  shows "drop_bit 2 a < 64" "push_bit 4 (a AND 3) OR drop_bit 4 b < 64" "push_bit 2 (a AND 15) OR drop_bit 6 b < 64"
    "a AND 63 < 64" "push_bit 4 (a AND 3) < 64" "push_bit 2 (a AND 15) < 64"
  by (rule sextet_less, simp only: bit_sextets, force dest: bit_imp_le_length)+

lemma bit_accumulated:
  fixes e :: byte and r :: u32
  assumes "e < 64" "n < 32"
  shows "bit (push_bit 6 r OR ucast e) n = (if n < 6 then bit e n else bit r (n - 6))"
proof -
  have "\<not> bit e k" if "6 \<le> k" for k
  proof
    assume "bit e k"
    then have "odd (unat e div 2 ^ k)" by (simp add: bit_unsigned_iff bit_iff_odd [symmetric])
    then have "2 ^ k \<le> unat e" by (metis div_less even_zero not_less)
    moreover have "(2 :: nat) ^ 6 \<le> 2 ^ k" using that by (rule power_increasing) simp
    ultimately show False using assms(1) by (simp add: word_less_nat_alt)
  qed
  with assms(2) show ?thesis by (auto simp: bit_simps)
qed

lemma byte_eqI:
  assumes "list_all (\<lambda>n. bit a n = bit b n) [0, 1, 2, 3, 4, 5, 6, 7]"
  shows "a = (b :: byte)"
proof (rule bit_word_eqI)
  fix n assume "n < LENGTH(8)"
  then have "n \<in> {0, 1, 2, 3, 4, 5, 6, 7}" by auto
  with assms show "bit a n = bit b n" by auto
qed

lemma sextets_bytes:
  fixes a b c :: byte and r :: u32
  assumes "e0 = drop_bit 2 a" "e1 = push_bit 4 (a AND 3) OR drop_bit 4 b"
    "e2 = push_bit 2 (b AND 15) OR drop_bit 6 c" "e3 = c AND 63"
  defines "r1 \<equiv> push_bit 6 r OR ucast e0"
  defines "r2 \<equiv> push_bit 6 r1 OR ucast e1"
  defines "r3 \<equiv> push_bit 6 r2 OR ucast e2"
  defines "r4 \<equiv> push_bit 6 r3 OR ucast e3"
  shows "emit3 r4 = [a, b, c]" "[ucast (drop_bit 10 r3), ucast (drop_bit 2 r3)] = [a, b]" "[ucast (drop_bit 4 r2)] = [a]"
proof -
  have e: "bit e0 k = bit a (k + 2)" "bit e1 k = (if k < 4 then bit b (k + 4) else k < 6 \<and> bit a (k - 4))"
    "bit e2 k = (if k < 2 then bit c (k + 6) else k < 6 \<and> bit b (k - 2))" "bit e3 k = (k < 6 \<and> bit c k)" for k
    unfolding assms(1-4) by (rule bit_sextets)+
  have small: "e0 < 64" "e1 < 64" "e2 < 64" "e3 < 64" unfolding assms(1-4) by (rule sextets_small)+
  note acc = bit_accumulated [OF small(1), of _ r, folded r1_def] bit_accumulated [OF small(2), of _ r1, folded r2_def]
    bit_accumulated [OF small(3), of _ r2, folded r3_def] bit_accumulated [OF small(4), of _ r3, folded r4_def]
  have "ucast (drop_bit 16 r4) = a" "ucast (drop_bit 8 r4) = b" "ucast r4 = c"
    by (rule byte_eqI, simp add: bit_ucast_iff bit_drop_bit_eq acc e del: add_2_eq_Suc add_2_eq_Suc')+
  then show "emit3 r4 = [a, b, c]" by (simp add: emit3_def)
  have "ucast (drop_bit 10 r3) = a" "ucast (drop_bit 2 r3) = b"
    by (rule byte_eqI, simp add: bit_ucast_iff bit_drop_bit_eq acc e del: add_2_eq_Suc add_2_eq_Suc')+
  then show "[ucast (drop_bit 10 r3), ucast (drop_bit 2 r3)] = [a, b]" by simp
  have "ucast (drop_bit 4 r2) = a"
    by (rule byte_eqI, simp add: bit_ucast_iff bit_drop_bit_eq acc e del: add_2_eq_Suc add_2_eq_Suc')
  then show "[ucast (drop_bit 4 r2)] = [a]" by simp
qed

text \<open>Everything \<open>Decode_bytes\<close> does from one position on.\<close>

definition decode_from :: "wstring \<Rightarrow> nat \<Rightarrow> nat \<Rightarrow> u32 \<times> u32 \<Rightarrow> byte list \<Rightarrow> byte list option option" where
  "decode_from src capacity pos re out =
     do {
       (pos, re, out) \<leftarrow> decode_batched src capacity pos re out;
       let (bs, error) = decode_tail (decode_rest (drop pos src) re 0);
       out' \<leftarrow> write_out capacity out bs;
       Some (if error \<noteq> 0 then None else Some out')
     }"

lemma Decode_bytes_from: "Decode_bytes src = decode_from src (((length src + 3) div 4) * 3) 0 (0, 0) []"
  by (simp add: Decode_bytes_def decode_from_def Let_def)

lemma decode_from_tail:
  assumes "length src \<le> pos + 5"
    and "decode_tail (decode_rest (drop pos src) (r, 0) 0) = (bs, 0)" "length out + length bs \<le> capacity"
  shows "decode_from src capacity pos (r, 0) out = Some (Some (out @ bs))"
  using assms by (simp add: decode_from_def decode_batched_stop write_out_def Let_def del: bind_eq_Some_iff)

lemma decode_groups:
  fixes a b c :: byte
  defines "e0 \<equiv> drop_bit 2 a" and "e1 \<equiv> push_bit 4 (a AND 3) OR drop_bit 4 b"
    and "e2 \<equiv> push_bit 2 (b AND 15) OR drop_bit 6 c" and "e3 \<equiv> c AND 63"
  defines "chars \<equiv> [alphabet e0, alphabet e1, alphabet e2, alphabet e3]"
  shows "\<exists>r'. fold accumulate chars (r, 0) = (r', 0) \<and> emit3 r' = [a, b, c]"
    "decode_tail (decode_rest chars (r, 0) 0) = ([a, b, c], 0)"
proof -
  have small: "e0 < 64" "e1 < 64" "e2 < 64" "e3 < 64"
    unfolding e0_def e1_def e2_def e3_def by (rule sextets_small)+
  note bytes = sextets_bytes(1) [OF e0_def [THEN meta_eq_to_obj_eq] e1_def [THEN meta_eq_to_obj_eq]
    e2_def [THEN meta_eq_to_obj_eq] e3_def [THEN meta_eq_to_obj_eq], where r = r]
  show "\<exists>r'. fold accumulate chars (r, 0) = (r', 0) \<and> emit3 r' = [a, b, c]"
    using bytes by (simp add: chars_def accumulate_alphabet small)
  show "decode_tail (decode_rest chars (r, 0) 0) = ([a, b, c], 0)"
    using bytes by (simp add: chars_def accumulate_alphabet small alphabet_decoded(3) decode_tail_def)
qed

lemma decode_pairs:
  "decode_tail (decode_rest (encode [a, b]) (r, 0) 0) = ([a, b], 0)"
  "decode_tail (decode_rest (encode [a]) (r, 0) 0) = ([a], 0)"
proof -
  note small = sextets_small
  have "drop_bit 6 (0 :: byte) = 0" "drop_bit 4 (0 :: byte) = 0" by simp_all
  with sextets_bytes(2) [OF refl refl refl refl, where a = a and b = b and c = 0 and r = r]
    sextets_bytes(3) [OF refl refl refl refl, where a = a and b = 0 and r = r]
  show "decode_tail (decode_rest (encode [a, b]) (r, 0) 0) = ([a, b], 0)"
    "decode_tail (decode_rest (encode [a]) (r, 0) 0) = ([a], 0)"
    by (simp_all add: accumulate_alphabet small alphabet_decoded(3) decode_tail_def
        del: push_bit_and push_bit_or)
qed

text \<open>The encoding of a byte string without its padding.\<close>

definition unpadded :: "byte list \<Rightarrow> wstring" where
  "unpadded bs = filter (\<lambda>ch. ch \<noteq> 0x3D) (encode bs)"

lemma decode_rest_filter: "decode_rest chs re ri = decode_rest (filter (\<lambda>ch. ch \<noteq> 0x3D) chs) re ri"
  by (induction chs re ri rule: decode_rest.induct) simp_all

lemma decode_rest_padded: "decode_rest (unpadded bs @ replicate k 0x3D) re ri = decode_rest (encode bs) re ri"
  by (subst (1 2) decode_rest_filter) (simp add: unpadded_def)

lemma unpadded_simps [simp]:
  "unpadded [] = []"
  "unpadded [a] = [alphabet (drop_bit 2 a), alphabet (push_bit 4 (a AND 3))]"
  "unpadded [a, b] = [alphabet (drop_bit 2 a), alphabet (push_bit 4 (a AND 3) OR drop_bit 4 b), alphabet (push_bit 2 (b AND 15))]"
  "unpadded (a # b # c # bs) =
     [alphabet (drop_bit 2 a), alphabet (push_bit 4 (a AND 3) OR drop_bit 4 b),
      alphabet (push_bit 2 (b AND 15) OR drop_bit 6 c), alphabet (c AND 63)] @ unpadded bs"
  by (simp_all add: unpadded_def alphabet_decoded(3) sextets_small del: push_bit_and push_bit_or)

lemma third_simps:
  fixes n :: nat
  shows "(n + 3) mod 3 = n mod 3" "(n + 3) div 3 = n div 3 + 1"
    "Suc (Suc (3 * n)) mod 3 = 2" "Suc (Suc (3 * n)) div 3 = n"
  using mod_mult_self4 [of 3 n 2] div_mult_self4 [of 3 n 2] by simp_all

lemma mod3_cases:
  obtains m where "n = 3 * m" | m where "n = 3 * m + 1" | m where "n = 3 * m + (2 :: nat)"
proof -
  have "n = 3 * (n div 3) + n mod 3" "n mod 3 < 3" by simp_all
  then consider "n = 3 * (n div 3)" | "n = 3 * (n div 3) + 1" | "n = 3 * (n div 3) + 2" by linarith
  then show thesis using that by cases blast+
qed

lemma unpadded_length: "length (unpadded bs) = 4 * (length bs div 3) + [0, 2, 3] ! (length bs mod 3)"
proof (induction bs rule: encode.induct)
  case (4 a b c bs)
  have "length (a # b # c # bs) = length bs + 3" by simp
  with 4 show ?case unfolding unpadded_simps by (simp only: third_simps) simp
qed simp_all

lemma decode_from_group:
  fixes a b c :: byte
  defines "chars \<equiv> [alphabet (drop_bit 2 a), alphabet (push_bit 4 (a AND 3) OR drop_bit 4 b),
    alphabet (push_bit 2 (b AND 15) OR drop_bit 6 c), alphabet (c AND 63)]"
  assumes "src = pre @ chars @ rest" "1 < length rest" "length out + 3 \<le> capacity"
  obtains r' where "decode_from src capacity (length pre) (r, 0) out =
    decode_from src capacity (length pre + 4) (r', 0) (out @ [a, b, c])"
proof -
  obtain r' where r': "fold accumulate chars (r, 0) = (r', 0)" "emit3 r' = [a, b, c]"
    using decode_groups(1) [of a b c r] unfolding chars_def by blast
  have len: "length pre + 5 < length src" using assms(2,3) by (simp add: chars_def)
  have nth: "[src ! length pre, src ! (length pre + 1), src ! (length pre + 2), src ! (length pre + 3)] = chars"
    unfolding assms(2) chars_def by (simp add: nth_append)
  have w: "write_out capacity out (emit3 r') = Some (out @ [a, b, c])"
    using write_out_emit3 [of out capacity r'] assms(4) r'(2) by simp
  have "decode_batched src capacity (length pre) (r, 0) out =
      decode_batched src capacity (length pre + 4) (r', 0) (out @ [a, b, c])"
    unfolding decode_batched_step [OF len] nth r'(1) Let_def using w by simp
  then show thesis using that [of r'] by (simp add: decode_from_def)
qed

lemma decode_from_padded:
  "src = pre @ unpadded bs @ replicate k 0x3D \<Longrightarrow> length out + 3 * ((length bs + 2) div 3) \<le> capacity \<Longrightarrow>
   k \<le> [5, 3, 2] ! (length bs mod 3) \<Longrightarrow>
   decode_from src capacity (length pre) (r, 0) out = Some (Some (out @ bs))"
proof (induction bs arbitrary: pre r out rule: encode.induct)
  case 1
  then show ?case
    using decode_rest_padded [of "[]" k "(r, 0)" 0] by (intro decode_from_tail) (simp_all add: decode_tail_def)
next
  case (2 a)
  then show ?case
    using decode_rest_padded [of "[a]" k "(r, 0)" 0] decode_pairs(2) [of a r]
    by (intro decode_from_tail) (simp_all del: encode.simps decode_rest.simps)
next
  case (3 a b)
  then show ?case
    using decode_rest_padded [of "[a, b]" k "(r, 0)" 0] decode_pairs(1) [of a b r]
    by (intro decode_from_tail) (simp_all del: encode.simps decode_rest.simps)
next
  case (4 a b c bs)
  have d3: "(length (a # b # c # bs) + 2) div 3 = (length bs + 2) div 3 + 1" by simp
  have m3: "length (a # b # c # bs) mod 3 = length bs mod 3" using third_simps(1) [of "length bs"] by simp
  let ?chars = "[alphabet (drop_bit 2 a), alphabet (push_bit 4 (a AND 3) OR drop_bit 4 b),
      alphabet (push_bit 2 (b AND 15) OR drop_bit 6 c), alphabet (c AND 63)]"
  have src: "src = pre @ ?chars @ unpadded bs @ replicate k 0x3D" using "4.prems"(1) by simp
  show ?case
  proof (cases "1 < length (unpadded bs @ replicate k (0x3D :: wchar))")
    case True
    obtain r' where step: "decode_from src capacity (length pre) (r, 0) out =
        decode_from src capacity (length pre + 4) (r', 0) (out @ [a, b, c])"
      using decode_from_group [OF src True, of out capacity r] "4.prems"(2) d3 by auto
    have "decode_from src capacity (length (pre @ ?chars)) (r', 0) (out @ [a, b, c]) = Some (Some ((out @ [a, b, c]) @ bs))"
      by (rule "4.IH") (use src "4.prems"(2,3) d3 m3 in \<open>simp_all del: length_Cons\<close>)
    moreover have "length (pre @ ?chars) = length pre + 4" by simp
    ultimately show ?thesis unfolding step by (simp only: append_assoc append_Cons append_Nil)
  next
    case False
    then have "bs = []" by (cases bs rule: encode.cases) simp_all
    then show ?thesis
      using False src "4.prems"(2) decode_rest_padded [of "[a, b, c]" k "(r, 0)" 0] decode_groups(2) [of a b c r]
      by (intro decode_from_tail) (simp_all del: decode_rest.simps)
  qed
qed

lemma padding_accepted:
  assumes "k \<le> [5, 3, 2] ! (length bs mod 3)"
  shows "Decode_bytes (unpadded bs @ replicate k 0x3D) = Some (Some bs)"
proof -
  let ?src = "unpadded bs @ replicate k (0x3D :: wchar)"
  have "4 * ((length bs + 2) div 3) \<le> length (unpadded bs) + 3"
    unfolding unpadded_length by (rule mod3_cases [of "length bs"]) (simp_all add: third_simps)
  then have "3 * ((length bs + 2) div 3) \<le> ((length ?src + 3) div 4) * 3" by simp
  then show ?thesis
    using decode_from_padded [of ?src "[]" bs k "[]" _ 0] assms by (simp add: Decode_bytes_from)
qed

lemma encode_unpadded: "encode bs = unpadded bs @ replicate ([0, 2, 1] ! (length bs mod 3)) 0x3D"
proof (induction bs rule: encode.induct)
  case (4 a b c bs)
  have "length (a # b # c # bs) = length bs + 3" by simp
  with 4 show ?case unfolding unpadded_simps by (simp only: third_simps) simp
qed (simp_all add: replicate_Suc numeral_2_eq_2)

text \<open>C16: 
  Decoding the RFC 4648 encoding of any byte string gives the byte string back.
\<close>

theorem Decode_bytes_encode: "Decode_bytes (encode bs) = Some (Some bs)"
  unfolding encode_unpadded by (rule padding_accepted, rule mod3_cases [of "length bs"]) (simp_all add: third_simps)

section \<open>Rejected strings\<close>

definition valid_char :: "wchar \<Rightarrow> bool" where
  "valid_char ch \<longleftrightarrow> (ucast (ch OR ucast (decodeTable ! unat (ch AND 0x7f))) :: u32) AND 0xff80 = 0"

lemma word_or_zero: "(x OR y = (0 :: 'a::len word)) = (x = 0 \<and> y = 0)"
  by (auto simp: bit_eq_iff bit_simps)

lemma accumulate_error: "snd (accumulate ch re) = 0 \<longleftrightarrow> snd re = 0 \<and> valid_char ch"
  by (cases re) (auto simp: accumulate_def Let_def valid_char_def word_or_zero)

lemma fold_accumulate_error: "snd (fold accumulate chs re) = 0 \<longleftrightarrow> snd re = 0 \<and> (\<forall>ch\<in>set chs. valid_char ch)"
  by (induction chs arbitrary: re) (auto simp: accumulate_error)

lemma decode_rest_error:
  "snd (fst (decode_rest chs re ri)) = 0 \<longleftrightarrow> snd re = 0 \<and> (\<forall>ch\<in>set chs. valid_char ch \<or> ch = 0x3D)"
  by (induction chs re ri rule: decode_rest.induct) (auto simp: accumulate_error)

lemma decode_tail_error: "snd (decode_tail rer) = 0 \<Longrightarrow> snd (fst rer) = 0"
  by (cases rer; cases "fst rer") (auto simp: decode_tail_def word_or_zero split: if_splits)

lemma decode_batched_error:
  "decode_batched src capacity pos re out = Some (p', re', out') \<Longrightarrow> snd re' = 0 \<Longrightarrow>
   snd re = 0 \<and> (\<forall>i. pos \<le> i \<and> i < p' \<longrightarrow> valid_char (src ! i))"
proof (induction "length src - pos" arbitrary: pos re out rule: less_induct)
  case less
  show ?case
  proof (cases "pos + 5 < length src")
    case True
    let ?re = "fold accumulate [src ! pos, src ! (pos + 1), src ! (pos + 2), src ! (pos + 3)] re"
    obtain o1 where "decode_batched src capacity (pos + 4) ?re o1 = Some (p', re', out')"
      using less.prems(1) unfolding decode_batched_step [OF True] Let_def by auto
    from less.hyps [OF _ this less.prems(2)] True
    have ih: "snd ?re = 0" "\<And>i. pos + 4 \<le> i \<Longrightarrow> i < p' \<Longrightarrow> valid_char (src ! i)" by auto
    have first: "snd re = 0" "valid_char (src ! pos)" "valid_char (src ! (pos + 1))" "valid_char (src ! (pos + 2))"
      "valid_char (src ! (pos + 3))" using ih(1) unfolding fold_accumulate_error by simp_all
    have "valid_char (src ! i)" if "pos \<le> i" "i < p'" for i
    proof (cases "pos + 4 \<le> i")
      case False
      with that(1) have "i \<in> {pos, pos + 1, pos + 2, pos + 3}" by auto
      with first show ?thesis by blast
    qed (use ih(2) that in blast)
    with first(1) show ?thesis by blast
  next
    case False
    with less.prems show ?thesis by (auto simp: decode_batched_stop)
  qed
qed

lemma Decode_bytes_valid:
  assumes "Decode_bytes src = Some (Some bs)" "ch \<in> set src"
  shows "valid_char ch \<or> ch = 0x3D"
proof -
  obtain p re out where b: "decode_batched src (((length src + 3) div 4) * 3) 0 (0, 0) [] = Some (p, re, out)"
    and t: "snd (decode_tail (decode_rest (drop p src) re 0)) = 0"
    using assms(1) unfolding Decode_bytes_def Let_def by (auto simp: split_beta split: if_splits)
  from decode_tail_error [OF t] have rest: "snd re = 0" "\<forall>ch\<in>set (drop p src). valid_char ch \<or> ch = 0x3D"
    unfolding decode_rest_error by simp_all
  obtain i where i: "i < length src" "src ! i = ch" using assms(2) by (auto simp: in_set_conv_nth)
  show ?thesis
  proof (cases "i < p")
    case True
    then show ?thesis using decode_batched_error [OF b rest(1)] i(2) by auto
  next
    case False
    then have "drop p src ! (i - p) = ch" "i - p < length (drop p src)" using i by simp_all
    then have "ch \<in> set (drop p src)" by (metis nth_mem)
    then show ?thesis using rest(2) by blast
  qed
qed

text \<open>The characters of both variants of the alphabet.\<close>

definition base64_char :: "wchar \<Rightarrow> bool" where
  "base64_char ch \<longleftrightarrow>
     (0x41 \<le> ch \<and> ch \<le> 0x5A) \<or> (0x61 \<le> ch \<and> ch \<le> 0x7A) \<or> (0x30 \<le> ch \<and> ch \<le> 0x39)
     \<or> ch = 0x2B \<or> ch = 0x2D \<or> ch = 0x2F \<or> ch = 0x5F"

lemma valid_char_table: "list_all (\<lambda>ch. valid_char ch = base64_char ch) (map word_of_nat [0..<128])"
  by code_simp

lemma valid_char_ascii:
  assumes "valid_char ch"
  shows "unat ch < 128"
proof -
  have mask: "(0xff80 :: u32) = push_bit 7 (mask 9)" by (simp add: mask_eq_exp_minus_1)
  have high: "\<not> bit ch k" if "7 \<le> k" "k < 16" for k
    using assms that unfolding valid_char_def mask by (auto simp: bit_eq_iff [of _ 0] bit_simps dest!: spec [of _ k])
  have "bit (take_bit 7 ch) n = bit ch n" for n
    using high [of n] bit_imp_le_length [of ch n] by (auto simp: bit_take_bit_iff not_less [symmetric])
  then have "take_bit 7 ch = ch" by (simp add: bit_eq_iff)
  then have "unat ch = take_bit 7 (unat ch)" by (metis unsigned_take_bit_eq)
  also have "\<dots> < 128" using take_bit_nat_less_exp [of 7 "unat ch"] by simp
  finally show ?thesis .
qed

lemma valid_char_iff: "valid_char ch \<longleftrightarrow> base64_char ch"
proof (cases "unat ch < 128")
  case True
  then have "ch \<in> set (map word_of_nat [0..<128])" by (intro word_in_upt) simp
  with valid_char_table show ?thesis unfolding list_all_iff by blast
next
  case False
  then show ?thesis using valid_char_ascii [of ch] by (auto simp: base64_char_def word_le_nat_alt)
qed

lemma decode_examples: "Decode_bytes (wstr ''YQ=='') = Some (Some [0x61])"
  by code_simp

lemma padding_rejected:
  assumes "Decode_bytes (unpadded bs @ replicate k 0x3D) = Some (Some r)"
  shows "k \<le> [5, 3, 2] ! (length bs mod 3)"
proof (rule ccontr)
  let ?src = "unpadded bs @ replicate k (0x3D :: wchar)"
  let ?cap = "((length ?src + 3) div 4) * 3"
  assume k: "\<not> ?thesis"
  obtain p re out where b: "decode_batched ?src ?cap 0 (0, 0) [] = Some (4 * p, re, out)" "length ?src \<le> 4 * p + 5"
    using decode_batched_bounds [of 0 ?src "[]" ?cap "(0, 0)"] by auto
  then have "snd (decode_tail (decode_rest (drop (4 * p) ?src) re 0)) = 0"
    using assms unfolding Decode_bytes_def Let_def by (auto simp: split_beta split: if_splits)
  from decode_tail_error [OF this] have "snd re = 0" unfolding decode_rest_error by simp
  note valid = decode_batched_error [OF b(1) this]
  have "4 * p \<le> length (unpadded bs)"
  proof (rule ccontr)
    assume "\<not> ?thesis"
    then have "valid_char (?src ! length (unpadded bs))" using valid by simp
    moreover have "?src ! length (unpadded bs) = 0x3D" using k by (simp add: nth_append)
    ultimately show False by (simp add: valid_char_iff base64_char_def)
  qed
  then have "p \<le> length bs div 3"
    unfolding unpadded_length by (cases rule: mod3_cases [of "length bs"]) (simp_all add: third_simps)
  then show False
    using b(2) k unfolding length_append length_replicate unpadded_length
    by (cases rule: mod3_cases [of "length bs"]) (simp_all add: third_simps)
qed

text \<open>C17:
  The decoder never reads outside the source or writes outside the buffer it sized beforehand,
  for every input; and an input it accepts consists of alphabet characters of the two variants
  and padding only.
\<close>

theorem Decode_bytes_safe:
  "\<exists>r. Decode_bytes src = Some r \<and> (\<forall>bs. r = Some bs \<longrightarrow> list_all (\<lambda>ch. base64_char ch \<or> ch = 0x3D) src)"
  using Decode_bytes_total [of src] by (auto simp: list_all_iff valid_char_iff [symmetric] dest: Decode_bytes_valid)

theorem Decode_bytes_safe_witness:
  "list_all (\<lambda>ch. base64_char ch \<or> ch = 0x3D) (wstr ''YQ=='')"
  using Decode_bytes_safe [of "wstr ''YQ==''"] decode_examples by simp

text \<open>C32:
  How much padding the decoder takes, for every byte string and every number of pads after its
  unpadded encoding: up to five pads when the encoding needs none, up to three when it needs
  two, up to two when it needs one. Up to there the byte string is given back, also when the
  padding is too short or too long; every further pad makes the whole input invalid.
\<close>

theorem Decode_bytes_padding:
  "Decode_bytes (unpadded bs @ replicate k 0x3D) =
     Some (if k \<le> [5, 3, 2] ! (length bs mod 3) then Some bs else None)"
  using Decode_bytes_total [of "unpadded bs @ replicate k 0x3D"] padding_accepted [of k bs] padding_rejected [of bs k]
  by (cases "k \<le> [5, 3, 2] ! (length bs mod 3)") (simp, metis not_None_eq)

end
