(* ===== verification/Utils_Text.thy ===== *)
theory Utils_Text
  imports Til_String
begin

text \<open>
  Text helpers of \<^verbatim>\<open>src/src/types/utils.cpp\<close>: splitting at a delimiter, reading unsigned numbers and
  hexadecimal digits, and the two functions that prepare pasted text. The lemmas relate the
  splitter to the tokens of \<open>Til_String\<close>, give the number reader its value modulo \<open>2 ^ 32\<close>, and
  show that filtered text has no control codes and no line feeds.
\<close>

section \<open>Definitions\<close>

text \<open>\<^verbatim>\<open>wstring_view::find\<close>; \<open>None\<close> is \<^verbatim>\<open>npos\<close>.\<close>

definition find_char :: "wstring \<Rightarrow> wchar \<Rightarrow> nat \<Rightarrow> nat option" where
  "find_char s c from =
     (let n = find_from s from c in if n < length s then Some n else None)"

function SplitString_loop :: "wstring \<Rightarrow> wchar \<Rightarrow> nat \<Rightarrow> wstring list \<Rightarrow> wstring list" where
  "SplitString_loop s delimiter current result =
     (if current < length s then
        case find_char s delimiter current of
          None \<Rightarrow> result @ [drop current s]
        | Some nextDelimiter \<Rightarrow>
            let len = nextDelimiter - current;
                result1 = result @ [take len (drop current s)];
                current1 = current + len + 1
            in SplitString_loop s delimiter current1
                 (if current1 \<ge> length s then result1 @ [[]] else result1)
      else result)"
  by pat_completeness auto
termination
  by (relation "measure (\<lambda>(s, delimiter, current, result). length s - current)") auto

declare SplitString_loop.simps [simp del]

definition SplitString :: "wstring \<Rightarrow> wchar \<Rightarrow> wstring list" where
  "SplitString s delimiter = SplitString_loop s delimiter 0 []"

definition isNumber :: "wchar \<Rightarrow> bool" where
  "isNumber ch \<longleftrightarrow> ch \<ge> 0x30 \<and> ch \<le> 0x39"

text \<open>The result is an \<^verbatim>\<open>unsigned int\<close>, so it wraps.\<close>

fun StringToUint_loop :: "wstring \<Rightarrow> 32 word \<Rightarrow> 32 word option" where
  "StringToUint_loop [] result = Some result"
| "StringToUint_loop (ch # chs) result =
     (if isNumber ch then StringToUint_loop chs (result * 10 + ucast (ch - 0x30)) else None)"

definition StringToUint :: "wstring \<Rightarrow> 32 word option" where
  "StringToUint s = (if length s < 1 then None else StringToUint_loop s 0)"

definition HexToUint :: "wchar \<Rightarrow> nat option" where
  "HexToUint ch =
     (if ch \<ge> 0x30 \<and> ch \<le> 0x39 then Some (unat ch - 0x30)
      else if ch \<ge> 0x41 \<and> ch \<le> 0x46 then Some (unat ch - 0x41 + 10)
      else if ch \<ge> 0x61 \<and> ch \<le> 0x66 then Some (unat ch - 0x61 + 10)
      else None)"

record FilterOption =
  CarriageReturnNewline :: bool
  ControlCodes :: bool

definition isControlCode :: "wchar \<Rightarrow> bool" where
  "isControlCode c =
     (if c \<ge> 0x20 \<and> c < 0x7f then False
      else if c > 0x9f then False
      else c \<noteq> 0x09 \<and> c \<noteq> 0x0a \<and> c \<noteq> 0x0d)"

text \<open>The loop carries \<^verbatim>\<open>pos\<close>, \<^verbatim>\<open>begin\<close> and \<^verbatim>\<open>filtered\<close>.\<close>

function Filter_loop :: "FilterOption \<Rightarrow> wstring \<Rightarrow> nat \<Rightarrow> nat \<Rightarrow> wstring \<Rightarrow> nat \<times> wstring" where
  "Filter_loop option s pos bgn filtered =
     (if pos < length s then
        let c = s ! pos;
            copied = filtered @ take (pos - bgn) (drop bgn s)
        in if CarriageReturnNewline option \<and> c = 0x0a then
             Filter_loop option s (pos + 1) (pos + 1)
               (if \<not> (pos > 0 \<and> s ! (pos - 1) = 0x0d) then copied @ [0x0d] else copied)
           else if ControlCodes option \<and> isControlCode c then
             Filter_loop option s (pos + 1) (pos + 1) copied
           else Filter_loop option s (pos + 1) bgn filtered
      else (bgn, filtered))"
  by pat_completeness auto
termination
  by (relation "measure (\<lambda>(option, s, pos, bgn, filtered). length s - pos)") auto

declare Filter_loop.simps [simp del]

definition FilterStringForPaste :: "wstring \<Rightarrow> FilterOption \<Rightarrow> wstring" where
  "FilterStringForPaste s option =
     (case Filter_loop option s 0 0 [] of
        (bgn, filtered) \<Rightarrow> if bgn = 0 then s else filtered @ drop bgn s)"

text \<open>\<open>None\<close> is \<^verbatim>\<open>npos\<close>, the largest index, in the comparison of the two positions.\<close>

definition find_last_not_of :: "wstring \<Rightarrow> wchar list \<Rightarrow> nat option" where
  "find_last_not_of s cs =
     (let n = length (takeWhile (\<lambda>c. c \<in> set cs) (rev s))
      in if n = length s then None else Some (length s - 1 - n))"

definition find_first_of :: "wstring \<Rightarrow> wchar list \<Rightarrow> nat option" where
  "find_first_of s cs =
     (let n = length (takeWhile (\<lambda>c. c \<notin> set cs) s)
      in if n = length s then None else Some n)"

definition TrimPaste :: "wstring \<Rightarrow> wstring" where
  "TrimPaste textView =
     (let lastNonSpace = find_last_not_of textView [0x09, 0x0a, 0x0b, 0x0c, 0x0d, 0x20];
          firstNewline = find_first_of textView [0x0a, 0x0b, 0x0c, 0x0d]
      in case lastNonSpace of
           None \<Rightarrow> []
         | Some l \<Rightarrow>
             if (case firstNewline of None \<Rightarrow> False | Some f \<Rightarrow> f < l) then textView
             else take (l + 1) textView)"

section \<open>Splitting and numbers\<close>

lemma SplitString_loop_tokens:
  "current < length s \<Longrightarrow> SplitString_loop s d current result = result @ tokens d (drop current s)"
proof (induction "length s - current" arbitrary: current result rule: less_induct)
  case less
  define n where "n = length (takeWhile (\<lambda>c. c \<noteq> d) (drop current s))"
  have n: "n \<le> length s - current" using length_takeWhile_le [of _ "drop current s"] by (simp add: n_def)
  note tok = tokens_takeWhile [of d "drop current s", folded n_def]
  show ?case
  proof (cases "current + n < length s")
    case True
    let ?result = "result @ [take n (drop current s)]"
    have step: "SplitString_loop s d current result =
        SplitString_loop s d (current + n + 1) (if current + n + 1 \<ge> length s then ?result @ [[]] else ?result)"
      using less.prems True
      by (simp add: SplitString_loop.simps [of s d current] find_char_def find_from_def n_def Let_def)
    show ?thesis
    proof (cases "current + n + 1 < length s")
      case more: True
      from less.hyps [OF _ more, of ?result] less.prems step tok True more
      show ?thesis by (simp add: Let_def add.commute add.left_commute)
    next
      case False
      then have "drop (current + n + 1) s = []" by simp
      with step tok True False show ?thesis
        by (simp add: SplitString_loop.simps [of s d "Suc (current + n)"] Let_def add.commute add.left_commute)
    qed
  next
    case False
    with n less.prems tok show ?thesis
      by (simp add: SplitString_loop.simps [of s d current] find_char_def find_from_def n_def [symmetric] Let_def)
  qed
qed

lemma SplitString_tokens: "SplitString s d = (if s = [] then [] else tokens d s)"
  by (cases s) (simp_all add: SplitString_def SplitString_loop_tokens SplitString_loop.simps [of "[]"])

lemma isNumber_digit_ref: "isNumber ch \<longleftrightarrow> digit_ref ch < 10"
  by (simp add: isNumber_def digit_ref_def Let_def word_le_nat_alt) linarith

lemma StringToUint_loop_value:
  "StringToUint_loop s (word_of_nat a) =
     (if \<forall>c\<in>set s. digit_ref c < 10 then Some (word_of_nat (digits_value 10 a s)) else None)"
proof (induction s arbitrary: a)
  case (Cons c s)
  show ?case
  proof (cases "digit_ref c < 10")
    case True
    then have c: "0x30 \<le> c" "c \<le> 0x39" by (simp_all add: isNumber_digit_ref [symmetric] isNumber_def)
    then have u: "unat (c - 0x30) = digit_ref c"
      by (simp add: unat_sub digit_ref_def Let_def word_le_nat_alt)
    have "(ucast (c - 0x30) :: 32 word) = word_of_nat (unat (c - 0x30))" by simp
    also have "\<dots> = word_of_nat (digit_ref c)" unfolding u ..
    finally have "(ucast (c - 0x30) :: 32 word) = word_of_nat (digit_ref c)" .
    moreover have "word_of_nat a * 10 + word_of_nat (digit_ref c) = (word_of_nat (a * 10 + digit_ref c) :: 32 word)" by simp
    ultimately show ?thesis
      using True Cons.IH [of "a * 10 + digit_ref c"]
      by (simp add: isNumber_digit_ref digits_value_def del: of_nat_add of_nat_mult)
  next
    case False
    then show ?thesis by (simp add: isNumber_digit_ref)
  qed
qed (simp add: digits_value_def)

text \<open>C27: 
  The number reader accepts exactly the non-empty strings of decimal digits, and its value is
  the value of the digits reduced modulo 2 to the 32: a number too large for the type wraps and
  is accepted.
\<close>

theorem StringToUint_value:
  "StringToUint s =
     (if s \<noteq> [] \<and> (\<forall>c\<in>set s. digit_ref c < 10) then Some (word_of_nat (digits_value 10 0 s)) else None)"
  using StringToUint_loop_value [of s 0] by (cases s) (simp_all add: StringToUint_def)

section \<open>Pasted text\<close>

text \<open>The reference: each character becomes nothing, a carriage return or itself.\<close>

definition paste_char :: "FilterOption \<Rightarrow> wchar option \<Rightarrow> wchar \<Rightarrow> wstring" where
  "paste_char opt prev c =
     (if CarriageReturnNewline opt \<and> c = 0x0a then if prev = Some 0x0d then [] else [0x0d]
      else if ControlCodes opt \<and> isControlCode c then [] else [c])"

fun paste_ref :: "FilterOption \<Rightarrow> wchar option \<Rightarrow> wstring \<Rightarrow> wstring" where
  "paste_ref opt prev [] = []"
| "paste_ref opt prev (c # cs) = paste_char opt prev c @ paste_ref opt (Some c) cs"

definition char_before :: "wstring \<Rightarrow> nat \<Rightarrow> wchar option" where
  "char_before s pos = (if pos = 0 then None else Some (s ! (pos - 1)))"

lemma Filter_loop_ref:
  "bgn \<le> pos \<Longrightarrow> pos \<le> length s \<Longrightarrow> Filter_loop opt s pos bgn filtered = (b, f) \<Longrightarrow>
   f @ drop b s = (filtered @ take (pos - bgn) (drop bgn s)) @ paste_ref opt (char_before s pos) (drop pos s)
   \<and> bgn \<le> b \<and> (b = bgn \<longrightarrow> f = filtered)"
proof (induction "length s - pos" arbitrary: pos bgn filtered rule: less_induct)
  case less
  show ?case
  proof (cases "pos < length s")
    case True
    let ?c = "s ! pos"
    let ?copied = "filtered @ take (pos - bgn) (drop bgn s)"
    have drp: "drop pos s = ?c # drop (pos + 1) s" using True by (simp add: Cons_nth_drop_Suc)
    have before: "char_before s (pos + 1) = Some ?c" by (simp add: char_before_def)
    have ih: "f @ drop b s = (fl @ take (pos + 1 - bg) (drop bg s)) @ paste_ref opt (Some ?c) (drop (pos + 1) s)
        \<and> bg \<le> b \<and> (b = bg \<longrightarrow> f = fl)"
      if "bg \<le> pos + 1" "Filter_loop opt s (pos + 1) bg fl = (b, f)" for bg fl
      using less.hyps [of "pos + 1" bg fl] True that before by simp
    consider (lf) "CarriageReturnNewline opt" "?c = 0x0a"
      | (ctl) "\<not> (CarriageReturnNewline opt \<and> ?c = 0x0a)" "ControlCodes opt" "isControlCode ?c"
      | (plain) "\<not> (CarriageReturnNewline opt \<and> ?c = 0x0a)" "\<not> (ControlCodes opt \<and> isControlCode ?c)"
      by blast
    then show ?thesis
    proof cases
      case lf
      let ?fl = "if \<not> (pos > 0 \<and> s ! (pos - 1) = 0x0d) then ?copied @ [0x0d] else ?copied"
      have "Filter_loop opt s (pos + 1) (pos + 1) ?fl = (b, f)"
        using less.prems(3) True lf by (simp add: Filter_loop.simps [of opt s pos] Let_def)
      from ih [OF _ this] show ?thesis
        using lf less.prems(1) by (auto simp: drp paste_char_def char_before_def)
    next
      case ctl
      have "Filter_loop opt s (pos + 1) (pos + 1) ?copied = (b, f)"
        using less.prems(3) True ctl by (auto simp: Filter_loop.simps [of opt s pos] Let_def)
      from ih [OF _ this] show ?thesis
        using ctl less.prems(1) by (auto simp: drp paste_char_def)
    next
      case plain
      have "Filter_loop opt s (pos + 1) bgn filtered = (b, f)"
        using less.prems(3) True plain by (auto simp: Filter_loop.simps [of opt s pos] Let_def)
      note ih' = ih [OF _ this]
      have "take (pos + 1 - bgn) (drop bgn s) = take (pos - bgn) (drop bgn s) @ [?c]"
        using less.prems(1) True by (simp add: Suc_diff_le take_Suc_conv_app_nth)
      with ih' less.prems(1) plain show ?thesis by (auto simp: drp paste_char_def)
    qed
  next
    case False
    then have "(b, f) = (bgn, filtered)" using less.prems(3) by (simp add: Filter_loop.simps [of opt s pos])
    with False less.prems(2) show ?thesis by simp
  qed
qed

lemma FilterStringForPaste_ref: "FilterStringForPaste s opt = paste_ref opt None s"
proof -
  obtain b f where bf: "Filter_loop opt s 0 0 [] = (b, f)" by fastforce
  from Filter_loop_ref [OF _ _ bf] show ?thesis
    by (auto simp: FilterStringForPaste_def bf char_before_def)
qed

lemma paste_char_chars:
  "c \<in> set (paste_char opt prev d) \<Longrightarrow>
   (ControlCodes opt \<longrightarrow> \<not> isControlCode c) \<and> (CarriageReturnNewline opt \<longrightarrow> c \<noteq> 0x0a)"
  by (auto simp: paste_char_def isControlCode_def split: if_splits)

lemma paste_ref_chars:
  "c \<in> set (paste_ref opt prev s) \<Longrightarrow>
   (ControlCodes opt \<longrightarrow> \<not> isControlCode c) \<and> (CarriageReturnNewline opt \<longrightarrow> c \<noteq> 0x0a)"
  by (induction s arbitrary: prev) (auto dest: paste_char_chars)

lemma paste_ref_identity:
  "\<forall>c\<in>set s. \<not> isControlCode c \<and> c \<noteq> 0x0a \<Longrightarrow> paste_ref opt prev s = s"
  by (induction s arbitrary: prev) (auto simp: paste_char_def)

text \<open>C24:
  Filtered text has no control codes and no line feeds when the options ask for it, a carriage
  return stands for each line end, and text without control codes and line feeds is unchanged.
\<close>

theorem FilterStringForPaste_safe:
  "FilterStringForPaste s opt = paste_ref opt None s
   \<and> (ControlCodes opt \<longrightarrow> list_all (\<lambda>c. \<not> isControlCode c) (FilterStringForPaste s opt))
   \<and> (CarriageReturnNewline opt \<longrightarrow> 0x0a \<notin> set (FilterStringForPaste s opt))
   \<and> (list_all (\<lambda>c. \<not> isControlCode c \<and> c \<noteq> 0x0a) s \<longrightarrow> FilterStringForPaste s opt = s)"
  by (auto simp: FilterStringForPaste_ref list_all_iff paste_ref_identity dest: paste_ref_chars)

theorem FilterStringForPaste_safe_witness:
  "FilterStringForPaste [0x61, 0x0d, 0x0a, 0x1b] \<lparr>CarriageReturnNewline = True, ControlCodes = True\<rparr> = [0x61, 0x0d]"
  using FilterStringForPaste_safe
    [of "[0x61, 0x0d, 0x0a, 0x1b]" "\<lparr>CarriageReturnNewline = True, ControlCodes = True\<rparr>"]
  by (simp add: paste_char_def isControlCode_def)

text \<open>C23:
  The splitter of the utilities and the splitting iterator of the string library give the same
  tokens for every string and delimiter.
\<close>

theorem SplitString_split_iterator: "split_tokens s d = Some (SplitString s d)"
  by (simp add: SplitString_tokens split_tokens_eq)

theorem StringToUint_value_witness: "StringToUint (wstr ''4294967297'') = Some 1"
  using StringToUint_value [of "wstr ''4294967297''"] by (simp add: wstr_def wch_def digit_ref_def digits_value_def)

end
