(* ===== verification/Color_Table.thy ===== *)
theory Color_Table
  imports Utils_Text
begin

text \<open>
  Colours, \<^verbatim>\<open>src/src/types/colorTable.cpp\<close>, with the sorted map its tables are kept in,
  \<^verbatim>\<open>src/src/inc/til/static_map.h\<close>, and the colour type, \<^verbatim>\<open>src/src/inc/til/color.h\<close>: the default palettes, the
  extended palette and the lookup of a colour by its X11 name. The lemmas show that the binary
  search finds exactly the entries of a sorted table, that the tables are sorted, and what the
  palettes hold; they also show that five of the entries can never be looked up.
\<close>

section \<open>Definitions\<close>

type_synonym COLORREF = "32 word"

record color =
  color_r :: byte
  color_g :: byte
  color_b :: byte
  color_a :: byte

definition rgb :: "byte \<Rightarrow> byte \<Rightarrow> byte \<Rightarrow> color" where
  "rgb r g b = \<lparr>color_r = r, color_g = g, color_b = b, color_a = 255\<rparr>"

text \<open>The four bytes overlay a little-endian 32-bit word.\<close>

definition color_abgr :: "color \<Rightarrow> 32 word" where
  "color_abgr c =
     ucast (color_r c) OR push_bit 8 (ucast (color_g c)) OR push_bit 16 (ucast (color_b c))
     OR push_bit 24 (ucast (color_a c))"

definition color_COLORREF :: "color \<Rightarrow> COLORREF" where
  "color_COLORREF c = color_abgr c AND 0x00FFFFFF"

definition COLORREF_color :: "COLORREF \<Rightarrow> color" where
  "COLORREF_color c =
     (let abgr = c OR 0xFF000000
      in \<lparr>color_r = ucast abgr, color_g = ucast (drop_bit 8 abgr), color_b = ucast (drop_bit 16 abgr),
          color_a = ucast (drop_bit 24 abgr)\<rparr>)"

subsection \<open>The sorted map\<close>

text \<open>\<^verbatim>\<open>std::partition_point\<close>, by halving the range of \<open>count\<close> entries from \<open>first\<close>.\<close>

function partition_point :: "('a \<Rightarrow> bool) \<Rightarrow> 'a list \<Rightarrow> nat \<Rightarrow> nat \<Rightarrow> nat" where
  "partition_point p xs first count =
     (if count > 0 then
        let half = count div 2;
            mid = first + half
        in if p (xs ! mid) then partition_point p xs (mid + 1) (count - half - 1)
           else partition_point p xs first half
      else first)"
  by pat_completeness auto
termination
  by (relation "measure (\<lambda>(p, xs, first, count). count)") auto

declare partition_point.simps [simp del]

text \<open>\<^verbatim>\<open>operator<\<close> of \<^verbatim>\<open>std::string_view\<close>: lexicographic, by unsigned character codes.\<close>

fun string_less :: "string \<Rightarrow> string \<Rightarrow> bool" where
  "string_less _ [] = False"
| "string_less [] (_ # _) = True"
| "string_less (a # as) (b # bs) =
     ((of_char a :: nat) < of_char b \<or> a = b \<and> string_less as bs)"

definition static_map_find :: "(string \<times> 'v) list \<Rightarrow> string \<Rightarrow> 'v option" where
  "static_map_find m k =
     (let i = partition_point (\<lambda>p. string_less (fst p) k) m 0 (length m)
      in if i = length m \<or> k \<noteq> fst (m ! i) then None else Some (snd (m ! i)))"

subsection \<open>Palettes and names\<close>

definition campbellColorTable :: "color list" where
  "campbellColorTable =
     [rgb 12 12 12, rgb 197 15 31, rgb 19 161 14, rgb 193 156 0,
      rgb 0 55 218, rgb 136 23 152, rgb 58 150 221, rgb 204 204 204,
      rgb 118 118 118, rgb 231 72 86, rgb 22 198 12, rgb 249 241 165,
      rgb 59 120 255, rgb 180 0 158, rgb 97 214 214, rgb 242 242 242]"

definition vt340ColorTable :: "color list" where
  "vt340ColorTable =
     [rgb 0 0 0, rgb 51 51 204, rgb 204 36 36, rgb 51 204 51,
      rgb 204 51 204, rgb 51 204 204, rgb 204 204 51, rgb 120 120 120,
      rgb 69 69 69, rgb 87 87 153, rgb 153 69 69, rgb 87 153 87,
      rgb 153 87 153, rgb 87 153 153, rgb 153 153 87, rgb 204 204 204]"

definition xorgAppVariantColorTable :: "(string \<times> color list) list" where
  "xorgAppVariantColorTable =
     [(''antiquewhite'', [rgb 250 235 215, rgb 255 239 219, rgb 238 223 204, rgb 205 192 176, rgb 139 131 120]),
      (''aquamarine'', [rgb 127 255 212, rgb 127 255 212, rgb 118 238 198, rgb 102 205 170, rgb 69 139 116]),
      (''azure'', [rgb 240 255 255, rgb 240 255 255, rgb 224 238 238, rgb 193 205 205, rgb 131 139 139]),
      (''bisque'', [rgb 255 228 196, rgb 255 228 196, rgb 238 213 183, rgb 205 183 158, rgb 139 125 107]),
      (''blue'', [rgb 0 0 255, rgb 0 0 255, rgb 0 0 238, rgb 0 0 205, rgb 0 0 139]),
      (''brown'', [rgb 165 42 42, rgb 255 64 64, rgb 238 59 59, rgb 205 51 51, rgb 139 35 35]),
      (''burlywood'', [rgb 222 184 135, rgb 255 211 155, rgb 238 197 145, rgb 205 170 125, rgb 139 115 85]),
      (''cadetblue'', [rgb 95 158 160, rgb 152 245 255, rgb 142 229 238, rgb 122 197 205, rgb 83 134 139]),
      (''chartreuse'', [rgb 127 255 0, rgb 127 255 0, rgb 118 238 0, rgb 102 205 0, rgb 69 139 0]),
      (''chocolate'', [rgb 210 105 30, rgb 255 127 36, rgb 238 118 33, rgb 205 102 29, rgb 139 69 19]),
      (''coral'', [rgb 255 127 80, rgb 255 114 86, rgb 238 106 80, rgb 205 91 69, rgb 139 62 47]),
      (''cornsilk'', [rgb 255 248 220, rgb 255 248 220, rgb 238 232 205, rgb 205 200 177, rgb 139 136 120]),
      (''cyan'', [rgb 0 255 255, rgb 0 255 255, rgb 0 238 238, rgb 0 205 205, rgb 0 139 139]),
      (''darkgoldenrod'', [rgb 184 134 11, rgb 255 185 15, rgb 238 173 14, rgb 205 149 12, rgb 139 101 8]),
      (''darkolivegreen'', [rgb 85 107 47, rgb 202 255 112, rgb 188 238 104, rgb 162 205 90, rgb 110 139 61]),
      (''darkorange'', [rgb 255 140 0, rgb 255 127 0, rgb 238 118 0, rgb 205 102 0, rgb 139 69 0]),
      (''darkorchid'', [rgb 153 50 204, rgb 191 62 255, rgb 178 58 238, rgb 154 50 205, rgb 104 34 139]),
      (''darkseagreen'', [rgb 143 188 143, rgb 193 255 193, rgb 180 238 180, rgb 155 205 155, rgb 105 139 105]),
      (''darkslategray'', [rgb 47 79 79, rgb 151 255 255, rgb 141 238 238, rgb 121 205 205, rgb 82 139 139]),
      (''deeppink'', [rgb 255 20 147, rgb 255 20 147, rgb 238 18 137, rgb 205 16 118, rgb 139 10 80]),
      (''deepskyblue'', [rgb 0 191 255, rgb 0 191 255, rgb 0 178 238, rgb 0 154 205, rgb 0 104 139]),
      (''dodgerblue'', [rgb 30 144 255, rgb 30 144 255, rgb 28 134 238, rgb 24 116 205, rgb 16 78 139]),
      (''firebrick'', [rgb 178 34 34, rgb 255 48 48, rgb 238 44 44, rgb 205 38 38, rgb 139 26 26]),
      (''gold'', [rgb 255 215 0, rgb 255 215 0, rgb 238 201 0, rgb 205 173 0, rgb 139 117 0]),
      (''goldenrod'', [rgb 218 165 32, rgb 255 193 37, rgb 238 180 34, rgb 205 155 29, rgb 139 105 20]),
      (''green'', [rgb 0 255 0, rgb 0 255 0, rgb 0 238 0, rgb 0 205 0, rgb 0 139 0]),
      (''honeydew'', [rgb 240 255 240, rgb 240 255 240, rgb 224 238 224, rgb 193 205 193, rgb 131 139 131]),
      (''hotpink'', [rgb 255 105 180, rgb 255 110 180, rgb 238 106 167, rgb 205 96 144, rgb 139 58 98]),
      (''indianred'', [rgb 205 92 92, rgb 255 106 106, rgb 238 99 99, rgb 205 85 85, rgb 139 58 58]),
      (''ivory'', [rgb 255 255 240, rgb 255 255 240, rgb 238 238 224, rgb 205 205 193, rgb 139 139 131]),
      (''khaki'', [rgb 240 230 140, rgb 255 246 143, rgb 238 230 133, rgb 205 198 115, rgb 139 134 78]),
      (''lavenderblush'', [rgb 255 240 245, rgb 255 240 245, rgb 238 224 229, rgb 205 193 197, rgb 139 131 134]),
      (''lemonchiffon'', [rgb 255 250 205, rgb 255 250 205, rgb 238 233 191, rgb 205 201 165, rgb 139 137 112]),
      (''lightblue'', [rgb 173 216 230, rgb 191 239 255, rgb 178 223 238, rgb 154 192 205, rgb 104 131 139]),
      (''lightcyan'', [rgb 224 255 255, rgb 224 255 255, rgb 209 238 238, rgb 180 205 205, rgb 122 139 139]),
      (''lightgoldenrod'', [rgb 238 221 130, rgb 255 236 139, rgb 238 220 130, rgb 205 190 112, rgb 139 129 76]),
      (''lightpink'', [rgb 255 182 193, rgb 255 174 185, rgb 238 162 173, rgb 205 140 149, rgb 139 95 101]),
      (''lightsalmon'', [rgb 255 160 122, rgb 255 160 122, rgb 238 149 114, rgb 205 129 98, rgb 139 87 66]),
      (''lightskyblue'', [rgb 135 206 250, rgb 176 226 255, rgb 164 211 238, rgb 141 182 205, rgb 96 123 139]),
      (''lightsteelblue'', [rgb 176 196 222, rgb 202 225 255, rgb 188 210 238, rgb 162 181 205, rgb 110 123 139]),
      (''lightyellow'', [rgb 255 255 224, rgb 255 255 224, rgb 238 238 209, rgb 205 205 180, rgb 139 139 122]),
      (''magenta'', [rgb 255 0 255, rgb 255 0 255, rgb 238 0 238, rgb 205 0 205, rgb 139 0 139]),
      (''maroon'', [rgb 176 48 96, rgb 255 52 179, rgb 238 48 167, rgb 205 41 144, rgb 139 28 98]),
      (''mediumorchid'', [rgb 186 85 211, rgb 224 102 255, rgb 209 95 238, rgb 180 82 205, rgb 122 55 139]),
      (''mediumpurple'', [rgb 147 112 219, rgb 171 130 255, rgb 159 121 238, rgb 137 104 205, rgb 93 71 139]),
      (''mistyrose'', [rgb 255 228 225, rgb 255 228 225, rgb 238 213 210, rgb 205 183 181, rgb 139 125 123]),
      (''navajowhite'', [rgb 255 222 173, rgb 255 222 173, rgb 238 207 161, rgb 205 179 139, rgb 139 121 94]),
      (''olivedrab'', [rgb 107 142 35, rgb 192 255 62, rgb 179 238 58, rgb 154 205 50, rgb 105 139 34]),
      (''orange'', [rgb 255 165 0, rgb 255 165 0, rgb 238 154 0, rgb 205 133 0, rgb 139 90 0]),
      (''orangered'', [rgb 255 69 0, rgb 255 69 0, rgb 238 64 0, rgb 205 55 0, rgb 139 37 0]),
      (''orchid'', [rgb 218 112 214, rgb 255 131 250, rgb 238 122 233, rgb 205 105 201, rgb 139 71 137]),
      (''palegreen'', [rgb 152 251 152, rgb 154 255 154, rgb 144 238 144, rgb 124 205 124, rgb 84 139 84]),
      (''paleturquoise'', [rgb 175 238 238, rgb 187 255 255, rgb 174 238 238, rgb 150 205 205, rgb 102 139 139]),
      (''palevioletred'', [rgb 219 112 147, rgb 255 130 171, rgb 238 121 159, rgb 205 104 137, rgb 139 71 93]),
      (''peachpuff'', [rgb 255 218 185, rgb 255 218 185, rgb 238 203 173, rgb 205 175 149, rgb 139 119 101]),
      (''pink'', [rgb 255 192 203, rgb 255 181 197, rgb 238 169 184, rgb 205 145 158, rgb 139 99 108]),
      (''plum'', [rgb 221 160 221, rgb 255 187 255, rgb 238 174 238, rgb 205 150 205, rgb 139 102 139]),
      (''purple'', [rgb 160 32 240, rgb 155 48 255, rgb 145 44 238, rgb 125 38 205, rgb 85 26 139]),
      (''red'', [rgb 255 0 0, rgb 255 0 0, rgb 238 0 0, rgb 205 0 0, rgb 139 0 0]),
      (''rosybrown'', [rgb 188 143 143, rgb 255 193 193, rgb 238 180 180, rgb 205 155 155, rgb 139 105 105]),
      (''royalblue'', [rgb 65 105 225, rgb 72 118 255, rgb 67 110 238, rgb 58 95 205, rgb 39 64 139]),
      (''salmon'', [rgb 250 128 114, rgb 255 140 105, rgb 238 130 98, rgb 205 112 84, rgb 139 76 57]),
      (''seagreen'', [rgb 46 139 87, rgb 84 255 159, rgb 78 238 148, rgb 67 205 128, rgb 46 139 87]),
      (''seashell'', [rgb 255 245 238, rgb 255 245 238, rgb 238 229 222, rgb 205 197 191, rgb 139 134 130]),
      (''sienna'', [rgb 160 82 45, rgb 255 130 71, rgb 238 121 66, rgb 205 104 57, rgb 139 71 38]),
      (''skyblue'', [rgb 135 206 235, rgb 135 206 255, rgb 126 192 238, rgb 108 166 205, rgb 74 112 139]),
      (''slateblue'', [rgb 106 90 205, rgb 131 111 255, rgb 122 103 238, rgb 105 89 205, rgb 71 60 139]),
      (''slategray'', [rgb 112 128 144, rgb 198 226 255, rgb 185 211 238, rgb 159 182 205, rgb 108 123 139]),
      (''snow'', [rgb 255 250 250, rgb 255 250 250, rgb 238 233 233, rgb 205 201 201, rgb 139 137 137]),
      (''springgreen'', [rgb 0 255 127, rgb 0 255 127, rgb 0 238 118, rgb 0 205 102, rgb 0 139 69]),
      (''steelblue'', [rgb 70 130 180, rgb 99 184 255, rgb 92 172 238, rgb 79 148 205, rgb 54 100 139]),
      (''tan'', [rgb 210 180 140, rgb 255 165 79, rgb 238 154 73, rgb 205 133 63, rgb 139 90 43]),
      (''thistle'', [rgb 216 191 216, rgb 255 225 255, rgb 238 210 238, rgb 205 181 205, rgb 139 123 139]),
      (''tomato'', [rgb 255 99 71, rgb 255 99 71, rgb 238 92 66, rgb 205 79 57, rgb 139 54 38]),
      (''turquoise'', [rgb 64 224 208, rgb 0 245 255, rgb 0 229 238, rgb 0 197 205, rgb 0 134 139]),
      (''violetred'', [rgb 208 32 144, rgb 255 62 150, rgb 238 58 140, rgb 205 50 120, rgb 139 34 82]),
      (''wheat'', [rgb 245 222 179, rgb 255 231 186, rgb 238 216 174, rgb 205 186 150, rgb 139 126 102]),
      (''yellow'', [rgb 255 255 0, rgb 255 255 0, rgb 238 238 0, rgb 205 205 0, rgb 139 139 0])]"

definition xorgAppColorTable :: "(string \<times> color) list" where
  "xorgAppColorTable =
     [(''aliceblue'', rgb 240 248 255), (''aqua'', rgb 0 255 255), (''beige'', rgb 245 245 220),
      (''black'', rgb 0 0 0), (''blanchedalmond'', rgb 255 235 205), (''blueviolet'', rgb 138 43 226),
      (''cornflowerblue'', rgb 100 149 237), (''crimson'', rgb 220 20 60), (''darkblue'', rgb 0 0 139),
      (''darkcyan'', rgb 0 139 139), (''darkgray'', rgb 169 169 169), (''darkgreen'', rgb 0 100 0),
      (''darkgrey'', rgb 169 169 169), (''darkkhaki'', rgb 189 183 107), (''darkmagenta'', rgb 139 0 139),
      (''darkred'', rgb 139 0 0), (''darksalmon'', rgb 233 150 122), (''darkslateblue'', rgb 72 61 139),
      (''darkslategrey'', rgb 47 79 79), (''darkturquoise'', rgb 0 206 209), (''darkviolet'', rgb 148 0 211),
      (''dimgray'', rgb 105 105 105), (''dimgrey'', rgb 105 105 105), (''floralwhite'', rgb 255 250 240),
      (''forestgreen'', rgb 34 139 34), (''fuchsia'', rgb 255 0 255), (''gainsboro'', rgb 220 220 220),
      (''ghostwhite'', rgb 248 248 255), (''gray'', rgb 190 190 190), (''greenyellow'', rgb 173 255 47),
      (''grey'', rgb 190 190 190), (''indigo'', rgb 75 0 130), (''lavender'', rgb 230 230 250),
      (''lawngreen'', rgb 124 252 0), (''lightcoral'', rgb 240 128 128), (''lightgoldenrodyellow'', rgb 250 250 210),
      (''lightgray'', rgb 211 211 211), (''lightgreen'', rgb 144 238 144), (''lightgrey'', rgb 211 211 211),
      (''lightseagreen'', rgb 32 178 170), (''lightslateblue'', rgb 132 112 255), (''lightslategray'', rgb 119 136 153),
      (''lightslategrey'', rgb 119 136 153), (''lime'', rgb 0 255 0), (''limegreen'', rgb 50 205 50),
      (''linen'', rgb 250 240 230), (''mediumaquamarine'', rgb 102 205 170), (''mediumblue'', rgb 0 0 205),
      (''mediumseagreen'', rgb 60 179 113), (''mediumslateblue'', rgb 123 104 238), (''mediumspringgreen'', rgb 0 250 154),
      (''mediumturquoise'', rgb 72 209 204), (''mediumvioletred'', rgb 199 21 133), (''midnightblue'', rgb 25 25 112),
      (''mintcream'', rgb 245 255 250), (''moccasin'', rgb 255 228 181), (''navy'', rgb 0 0 128),
      (''navyblue'', rgb 0 0 128), (''oldlace'', rgb 253 245 230), (''olive'', rgb 128 128 0),
      (''palegoldenrod'', rgb 238 232 170), (''papayawhip'', rgb 255 239 213), (''peru'', rgb 205 133 63),
      (''powderblue'', rgb 176 224 230), (''rebeccapurple'', rgb 102 51 153), (''saddlebrown'', rgb 139 69 19),
      (''sandybrown'', rgb 244 164 96), (''silver'', rgb 192 192 192), (''slategrey'', rgb 112 128 144),
      (''teal'', rgb 0 128 128), (''violet'', rgb 238 130 238), (''webgray'', rgb 128 128 128),
      (''webgreen'', rgb 0 128 0), (''webgrey'', rgb 128 128 128), (''webmaroon'', rgb 128 0 0),
      (''webpurple'', rgb 128 0 128), (''white'', rgb 255 255 255), (''whitesmoke'', rgb 245 245 245),
      (''x11gray'', rgb 190 190 190), (''x11green'', rgb 0 255 0), (''x11grey'', rgb 190 190 190),
      (''x11maroon'', rgb 176 48 96), (''x11purple'', rgb 160 32 240), (''yellowgreen'', rgb 154 205 50)]"

definition CampbellColorTable :: "color list" where
  "CampbellColorTable = campbellColorTable"

text \<open>\<^verbatim>\<open>std::copy_n\<close> of a whole table over the front of another, converting each colour.\<close>

definition copy_colors :: "color list \<Rightarrow> COLORREF list \<Rightarrow> COLORREF list" where
  "copy_colors src table = map color_COLORREF src @ drop (length src) table"

definition InitializeANSIColorTable :: "COLORREF list \<Rightarrow> COLORREF list" where
  "InitializeANSIColorTable table =
     (if length table \<ge> length campbellColorTable then copy_colors campbellColorTable table else table)"

definition InitializeVT340ColorTable :: "COLORREF list \<Rightarrow> COLORREF list" where
  "InitializeVT340ColorTable table =
     (if length table \<ge> length vt340ColorTable then copy_colors vt340ColorTable table else table)"

definition cube_scale :: "byte list" where
  "cube_scale = [0, 0x5F, 0x87, 0xAF, 0xD7, 0xFF]"

definition cube_color :: "bool \<Rightarrow> nat \<Rightarrow> color" where
  "cube_color monochrome i =
     (let r = cube_scale ! ((i div 36) mod 6);
          g = cube_scale ! ((i div 6) mod 6);
          b = cube_scale ! (i mod 6)
      in if monochrome
         then let l = word_of_nat ((unat r + unat g + unat b) div 3) in rgb l l l
         else rgb r g b)"

definition gray_color :: "nat \<Rightarrow> color" where
  "gray_color i = (let l = word_of_nat (i * 10 + 8) in rgb l l l)"

definition InitializeExtendedColorTable :: "COLORREF list \<Rightarrow> bool \<Rightarrow> COLORREF list" where
  "InitializeExtendedColorTable table monochrome =
     (if length table \<ge> 256
      then fold (\<lambda>i t. t[i + 232 := color_COLORREF (gray_color i)]) [0..<24]
             (fold (\<lambda>i t. t[i + 16 := color_COLORREF (cube_color monochrome i)]) [0..<216] table)
      else table)"

definition InitializeColorTable :: "COLORREF list \<Rightarrow> COLORREF list" where
  "InitializeColorTable table = InitializeExtendedColorTable (InitializeANSIColorTable table) False"

text \<open>
  The scan of a colour name collects the lower-case stem and a decimal variant index, a
  \<^verbatim>\<open>size_t\<close> that wraps; \<open>None\<close> is an early return.
\<close>

definition name_space :: "wchar \<Rightarrow> bool" where
  "name_space c \<longleftrightarrow> c = 0x20 \<or> c = 0x0c \<or> c = 0x0a \<or> c = 0x0d \<or> c = 0x09 \<or> c = 0x0b"

fun color_name_loop :: "wstring \<Rightarrow> string \<Rightarrow> u64 \<Rightarrow> bool \<Rightarrow> (string \<times> u64 \<times> bool) option" where
  "color_name_loop [] stem variantIndex foundVariant = Some (stem, variantIndex, foundVariant)"
| "color_name_loop (c # cs) stem variantIndex foundVariant =
     (if c > 127 then None
      else if c \<ge> 0x30 \<and> c \<le> 0x39 then
        color_name_loop cs stem (variantIndex * 10 + ucast (c - 0x30)) True
      else if name_space c then color_name_loop cs stem variantIndex foundVariant
      else if foundVariant then None
      else color_name_loop cs (stem @ [char_of (unat (tolower_ascii c))]) variantIndex foundVariant)"

definition ColorFromXOrgAppColorName :: "wstring \<Rightarrow> color option" where
  "ColorFromXOrgAppColorName s =
     (case color_name_loop s [] 0 False of
        None \<Rightarrow> None
      | Some (stem, variantIndex, foundVariant) \<Rightarrow>
          (case (case static_map_find xorgAppVariantColorTable stem of
                   None \<Rightarrow> None
                 | Some colors \<Rightarrow>
                     if unat variantIndex < length colors then Some (colors ! unat variantIndex) else None) of
             Some c \<Rightarrow> Some c
           | None \<Rightarrow>
               if (stem = ''gray'' \<or> stem = ''grey'') \<and> foundVariant then
                 if variantIndex > 100 then None
                 else let component = word_of_nat (min 255 ((unat variantIndex * 255 + 50) div 100))
                      in Some (rgb component component component)
               else static_map_find xorgAppColorTable stem))"

section \<open>The sorted map\<close>

text \<open>The order of the keys, as a strict total order.\<close>

lemma string_less_irrefl [simp]: "\<not> string_less a a"
  by (induction a) simp_all

lemma string_less_trans: "string_less a b \<Longrightarrow> string_less b c \<Longrightarrow> string_less a c"
proof (induction a b arbitrary: c rule: string_less.induct)
  case (3 a as b bs)
  then show ?case by (cases c) auto
qed (auto elim: string_less.elims)

lemma string_less_total: "a \<noteq> b \<Longrightarrow> string_less a b \<or> string_less b a"
proof (induction a b rule: string_less.induct)
  case (3 a as b bs)
  show ?case
  proof (cases "a = b")
    case False
    then have "(of_char a :: nat) \<noteq> of_char b" by simp
    then have "(of_char a :: nat) < of_char b \<or> (of_char b :: nat) < of_char a" by linarith
    then show ?thesis by auto
  qed (use 3 in auto)
next
  case (1 a)
  then show ?case by (cases a) simp_all
qed simp_all

lemma partition_point_bounds:
  "first \<le> partition_point p xs first count \<and> partition_point p xs first count \<le> first + count"
proof (induction p xs first count rule: partition_point.induct)
  case (1 p xs first count)
  show ?case
  proof (cases "count = 0")
    case False
    let ?half = "count div 2"
    have "?half < count" using False by simp
    moreover have "partition_point p xs first count = (if p (xs ! (first + ?half))
        then partition_point p xs (first + ?half + 1) (count - ?half - 1) else partition_point p xs first ?half)"
      using False by (subst partition_point.simps) (simp add: Let_def)
    ultimately show ?thesis
      using "1.IH"(1) [OF _ refl refl] "1.IH"(2) [OF _ refl refl] False by (auto split: if_splits)
  qed (simp add: partition_point.simps)
qed

lemma partition_point_partition:
  assumes "\<And>i j. i < j \<Longrightarrow> j < length xs \<Longrightarrow> p (xs ! j) \<Longrightarrow> p (xs ! i)"
  shows "first + count \<le> length xs \<Longrightarrow> (\<And>i. i < first \<Longrightarrow> p (xs ! i)) \<Longrightarrow>
    (\<And>i. first + count \<le> i \<Longrightarrow> i < length xs \<Longrightarrow> \<not> p (xs ! i)) \<Longrightarrow>
    (\<forall>i < length xs. p (xs ! i) = (i < partition_point p xs first count))"
proof (induction count arbitrary: first rule: less_induct)
  case (less count)
  show ?case
  proof (cases "count = 0")
    case True
    then have "partition_point p xs first count = first" by (simp add: partition_point.simps)
    then show ?thesis using less.prems(2,3) True by (metis add.right_neutral not_less)
  next
    case False
    let ?half = "count div 2"
    let ?mid = "first + ?half"
    have half: "?half < count" using False by simp
    then have mid: "?mid < length xs" using less.prems(1) by linarith
    show ?thesis
    proof (cases "p (xs ! ?mid)")
      case True
      have "\<forall>i < length xs. p (xs ! i) = (i < partition_point p xs (?mid + 1) (count - ?half - 1))"
      proof (rule less.IH)
        show "p (xs ! i)" if "i < ?mid + 1" for i
          using assms [of i ?mid] True mid that by (cases "i = ?mid") auto
        show "\<not> p (xs ! i)" if "?mid + 1 + (count - ?half - 1) \<le> i" "i < length xs" for i
          using less.prems(3) [of i] that half by linarith
      qed (use half less.prems(1) in auto)
      then show ?thesis
        using True False by (subst partition_point.simps) (simp add: Let_def)
    next
      case notp: False
      have "\<forall>i < length xs. p (xs ! i) = (i < partition_point p xs first ?half)"
      proof (rule less.IH)
        show "\<not> p (xs ! i)" if "first + ?half \<le> i" "i < length xs" for i
          using assms [of ?mid i] notp that by (cases "i = ?mid") auto
      qed (use half less.prems in auto)
      then show ?thesis
        using notp False by (subst partition_point.simps) (simp add: Let_def)
    qed
  qed
qed

lemma string_sorted_distinct: "sorted_wrt string_less ks \<Longrightarrow> distinct ks"
  by (induction ks) auto

lemma static_map_find_map_of:
  assumes sorted: "sorted_wrt string_less (map fst m)"
  shows "static_map_find m k = map_of m k"
proof -
  let ?p = "\<lambda>p. string_less (fst p) k"
  define i where "i = partition_point ?p m 0 (length m)"
  have less: "string_less (fst (m ! a)) (fst (m ! b))" if "a < b" "b < length m" for a b
    using sorted_wrt_nth_less [OF sorted that(1)] that by simp
  have part: "?p (m ! j) = (j < i)" if "j < length m" for j
    using partition_point_partition [of m ?p 0 "length m"] string_less_trans [OF less] that
    unfolding i_def by simp
  have i: "i \<le> length m" using partition_point_bounds [of 0 ?p m "length m"] by (simp add: i_def)
  have dist: "distinct (map fst m)" by (rule string_sorted_distinct [OF sorted])
  show ?thesis
  proof (cases "i < length m \<and> fst (m ! i) = k")
    case True
    then have "(k, snd (m ! i)) \<in> set m" by (metis nth_mem prod.collapse)
    with True dist show ?thesis by (auto simp: static_map_find_def i_def [symmetric] Let_def)
  next
    case False
    have "k \<notin> fst ` set m"
    proof
      assume "k \<in> fst ` set m"
      then obtain j where j: "j < length m" "fst (m ! j) = k" by (auto simp: in_set_conv_nth)
      then have "\<not> j < i" using part [of j] by auto
      moreover have "j \<noteq> i" using False j by auto
      ultimately have "i < j" by simp
      then have "string_less (fst (m ! i)) k" using less [of i j] j by simp
      then show False using part [of i] \<open>i < j\<close> j(1) by simp
    qed
    then have "map_of m k = None" by (simp add: map_of_eq_None_iff)
    with False i show ?thesis by (auto simp: static_map_find_def i_def [symmetric] Let_def)
  qed
qed

lemma tables_successive:
  "successively string_less (map fst xorgAppVariantColorTable)"
  "successively string_less (map fst xorgAppColorTable)"
  by code_simp+

lemma tables_sorted:
  "sorted_wrt string_less (map fst xorgAppVariantColorTable)"
  "sorted_wrt string_less (map fst xorgAppColorTable)"
  using tables_successive string_less_trans
  by (simp_all add: successively_conv_sorted_wrt transp_def del: map_map)

section \<open>Colour names\<close>

definition is_digit :: "char \<Rightarrow> bool" where
  "is_digit c \<longleftrightarrow> 48 \<le> (of_char c :: nat) \<and> (of_char c :: nat) \<le> 57"

definition is_lower :: "char \<Rightarrow> bool" where
  "is_lower c \<longleftrightarrow> 97 \<le> (of_char c :: nat) \<and> (of_char c :: nat) \<le> 122"

lemma tolower_upper_table:
  "list_all (\<lambda>c. 97 \<le> tolower_ascii c \<and> tolower_ascii c \<le> 122) (map word_of_nat [65..<91])"
  by code_simp

lemma tolower_upper:
  assumes "0x41 \<le> c" "c \<le> 0x5A"
  shows "97 \<le> unat (tolower_ascii c)" "unat (tolower_ascii c) \<le> 122"
proof -
  have "unat c \<in> {65..<91}" using assms by (simp add: word_le_nat_alt)
  then have "c \<in> set (map word_of_nat [65..<91])" by (rule word_in_upt)
  with tolower_upper_table have "97 \<le> tolower_ascii c \<and> tolower_ascii c \<le> 122"
    unfolding list_all_iff by blast
  then show "97 \<le> unat (tolower_ascii c)" "unat (tolower_ascii c) \<le> 122" by (simp_all add: word_le_nat_alt)
qed

lemma stem_char_not_digit:
  assumes "\<not> c > 127" "\<not> (c \<ge> 0x30 \<and> c \<le> 0x39)"
  shows "\<not> is_digit (char_of (unat (tolower_ascii c)))"
proof (cases "0x41 \<le> c \<and> c \<le> 0x5A")
  case True
  then show ?thesis using tolower_upper [of c] by (simp add: is_digit_def)
next
  case False
  then show ?thesis using assms by (auto simp: tolower_ascii_def is_digit_def word_le_nat_alt word_less_nat_alt)
qed

lemma color_name_stem_no_digit:
  "color_name_loop s stem v f = Some (stem', v', f') \<Longrightarrow> \<not> list_ex is_digit stem \<Longrightarrow> \<not> list_ex is_digit stem'"
  by (induction s stem v f rule: color_name_loop.induct) (auto simp: stem_char_not_digit split: if_splits)

lemma wch_lower:
  assumes "is_lower c"
  shows "\<not> wch c > 127" "\<not> (wch c \<ge> 0x30 \<and> wch c \<le> 0x39)" "\<not> name_space (wch c)"
    "char_of (unat (tolower_ascii (wch c))) = c"
proof -
  have n: "unat (wch c) = of_char c" by (simp add: wch_def unat_of_char)
  show "\<not> wch c > 127" "\<not> (wch c \<ge> 0x30 \<and> wch c \<le> 0x39)" "\<not> name_space (wch c)"
    using assms n by (auto simp: is_lower_def word_less_nat_alt word_le_nat_alt name_space_def word_unat_eq_iff)
  have "tolower_ascii (wch c) = wch c" using assms n by (simp add: tolower_ascii_def is_lower_def word_le_nat_alt)
  then show "char_of (unat (tolower_ascii (wch c))) = c" by (simp add: n)
qed

lemma color_name_lower:
  "list_all is_lower k \<Longrightarrow> color_name_loop (wstr k) stem 0 False = Some (stem @ k, 0, False)"
  by (induction k arbitrary: stem) (simp_all add: wstr_def wch_lower)

lemma ColorFromXOrgAppColorName_lower:
  assumes "list_all is_lower k"
  shows "ColorFromXOrgAppColorName (wstr k) =
    (case map_of xorgAppVariantColorTable k of
       Some (c # _) \<Rightarrow> Some c
     | _ \<Rightarrow> map_of xorgAppColorTable k)"
  using color_name_lower [OF assms, of "[]"]
  by (auto simp: ColorFromXOrgAppColorName_def static_map_find_map_of tables_sorted split: option.splits list.splits)

section \<open>Palettes\<close>

lemma fold_update_length [simp]: "length (fold (\<lambda>i t. t[i + k := g i]) ks t) = length t"
  by (induction ks arbitrary: t) simp_all

lemma fold_update_nth:
  "j < length t \<Longrightarrow>
   fold (\<lambda>i t. t[i + k := g i]) [0..<n] t ! j = (if k \<le> j \<and> j < k + n then g (j - k) else t ! j)"
proof (induction n)
  case (Suc n)
  then show ?case by (cases "j = n + k") auto
qed auto

lemma InitializeANSIColorTable_nth:
  assumes "length table \<ge> 16" "j < length table"
  shows "length (InitializeANSIColorTable table) = length table"
    "InitializeANSIColorTable table ! j = (if j < 16 then color_COLORREF (campbellColorTable ! j) else table ! j)"
proof -
  have "length campbellColorTable = 16" by (simp add: campbellColorTable_def)
  with assms show "length (InitializeANSIColorTable table) = length table"
    "InitializeANSIColorTable table ! j = (if j < 16 then color_COLORREF (campbellColorTable ! j) else table ! j)"
    by (simp_all add: InitializeANSIColorTable_def copy_colors_def nth_append)
qed

lemma InitializeColorTable_nth:
  assumes "length table = 256" "j < 256"
  shows "length (InitializeColorTable table) = 256"
    "InitializeColorTable table ! j = color_COLORREF
       (if j < 16 then campbellColorTable ! j else if j < 232 then cube_color False (j - 16) else gray_color (j - 232))"
  using assms InitializeANSIColorTable_nth [of table j]
  by (auto simp: InitializeColorTable_def InitializeExtendedColorTable_def fold_update_nth)

text \<open>C28:
  The two tables of X11 colour names are sorted, so the binary search of the map finds exactly
  the entries of the tables: it agrees with a linear lookup for every name.
\<close>

theorem xorg_tables_find:
  "static_map_find xorgAppVariantColorTable k = map_of xorgAppVariantColorTable k
   \<and> static_map_find xorgAppColorTable k = map_of xorgAppColorTable k"
  by (simp add: static_map_find_map_of tables_sorted)

text \<open>
  What the table should hold, as the amounts of red, green and blue: the colours of the scheme
  Campbell by their published values, then the levels of the usual 256-colour palette.
\<close>

definition cube_level :: "nat \<Rightarrow> nat" where
  "cube_level n = (if n = 0 then 0 else 55 + 40 * n)"

definition palette_ref :: "nat \<Rightarrow> nat \<times> nat \<times> nat" where
  "palette_ref j =
     (if j < 16 then
        [(0x0C, 0x0C, 0x0C), (0xC5, 0x0F, 0x1F), (0x13, 0xA1, 0x0E), (0xC1, 0x9C, 0x00),
         (0x00, 0x37, 0xDA), (0x88, 0x17, 0x98), (0x3A, 0x96, 0xDD), (0xCC, 0xCC, 0xCC),
         (0x76, 0x76, 0x76), (0xE7, 0x48, 0x56), (0x16, 0xC6, 0x0C), (0xF9, 0xF1, 0xA5),
         (0x3B, 0x78, 0xFF), (0xB4, 0x00, 0x9E), (0x61, 0xD6, 0xD6), (0xF2, 0xF2, 0xF2)] ! j
      else if j < 232 then
        (cube_level ((j - 16) div 36), cube_level ((j - 16) div 6 mod 6), cube_level ((j - 16) mod 6))
      else (8 + 10 * (j - 232), 8 + 10 * (j - 232), 8 + 10 * (j - 232)))"

lemma COLORREF_or:
  "color_COLORREF c = (ucast (color_r c) OR push_bit 8 (ucast (color_g c))) OR push_bit 16 (ucast (color_b c))"
proof -
  have mask_24: "(0x00FFFFFF :: 32 word) = mask 24" by (simp add: mask_eq_exp_minus_1)
  show ?thesis
    unfolding color_COLORREF_def color_abgr_def mask_24
    by (intro bit_word_eqI) (auto simp: bit_simps dest: bit_imp_le_length)
qed

lemma COLORREF_nat:
  assumes "r < 256" "g < 256" "b < 256"
  shows "unat (color_COLORREF (rgb (word_of_nat r) (word_of_nat g) (word_of_nat b))) = r + 256 * g + 65536 * b"
proof -
  have byte: "(ucast (word_of_nat n :: byte) :: 32 word) = word_of_nat n" if "n < 256" for n
  proof -
    have "unat (word_of_nat n :: byte) = n" using that by (simp add: unat_of_nat)
    then show ?thesis by (simp add: unsigned_ucast_eq word_unat_eq_iff take_bit_nat_eq_self_iff unat_of_nat)
  qed
  have "color_COLORREF (rgb (word_of_nat r) (word_of_nat g) (word_of_nat b)) =
      (ucast (word_of_nat r :: byte) OR push_bit 8 (ucast (word_of_nat g :: byte))) OR push_bit 16 (ucast (word_of_nat b :: byte))"
    unfolding COLORREF_or by (simp add: rgb_def)
  also have "\<dots> = (ucast (word_of_nat r :: byte) + push_bit 8 (ucast (word_of_nat g :: byte))) + push_bit 16 (ucast (word_of_nat b :: byte))"
    by (subst disjunctive_add, force simp: bit_simps)+ simp
  also have "\<dots> = word_of_nat (r + 256 * g + 65536 * b)"
    by (simp add: byte assms push_bit_eq_mult)
  finally show ?thesis using assms by (simp add: unat_of_nat del: of_nat_add of_nat_mult)
qed

lemma cube_scale_level: "n < 6 \<Longrightarrow> cube_scale ! n = word_of_nat (cube_level n) \<and> cube_level n < 256"
proof -
  have "list_all (\<lambda>n. cube_scale ! n = word_of_nat (cube_level n) \<and> cube_level n < 256) [0..<6]" by code_simp
  then show "n < 6 \<Longrightarrow> cube_scale ! n = word_of_nat (cube_level n) \<and> cube_level n < 256"
    by (simp only: list_all_iff set_upt atLeastLessThan_iff) simp
qed

lemma campbell_ref:
  assumes "j < 16"
  shows "campbellColorTable ! j =
      (case palette_ref j of (r, g, b) \<Rightarrow> rgb (word_of_nat r) (word_of_nat g) (word_of_nat b))
    \<and> (case palette_ref j of (r, g, b) \<Rightarrow> r < 256 \<and> g < 256 \<and> b < 256)"
proof -
  have "list_all (\<lambda>j. campbellColorTable ! j =
        (case palette_ref j of (r, g, b) \<Rightarrow> rgb (word_of_nat r) (word_of_nat g) (word_of_nat b))
      \<and> (case palette_ref j of (r, g, b) \<Rightarrow> r < 256 \<and> g < 256 \<and> b < 256)) [0..<16]"
    by code_simp
  with assms show ?thesis by (simp only: list_all_iff set_upt atLeastLessThan_iff) simp
qed

lemma palette_nat:
  assumes "j < 256"
  shows "unat (color_COLORREF
      (if j < 16 then campbellColorTable ! j else if j < 232 then cube_color False (j - 16) else gray_color (j - 232))) =
    (case palette_ref j of (r, g, b) \<Rightarrow> r + 256 * g + 65536 * b)"
proof -
  consider (campbell) "j < 16" | (cube) "16 \<le> j" "j < 232" | (gray) "232 \<le> j" by linarith
  then show ?thesis
  proof cases
    case campbell
    with campbell_ref [OF campbell] show ?thesis by (auto simp: COLORREF_nat split: prod.splits)
  next
    case cube
    define i where "i = j - 16"
    have "i div 36 < 6" "i div 6 mod 6 < 6" "i mod 6 < 6" using cube by (simp_all add: i_def)
    with cube show ?thesis
      using cube_scale_level [of "i div 36"] cube_scale_level [of "i div 6 mod 6"] cube_scale_level [of "i mod 6"]
      by (simp add: cube_color_def palette_ref_def COLORREF_nat Let_def i_def [symmetric])
  next
    case gray
    with assms have "8 + 10 * (j - 232) < 256" by linarith
    with gray show ?thesis
      using COLORREF_nat [of "8 + 10 * (j - 232)" "8 + 10 * (j - 232)" "8 + 10 * (j - 232)"]
      by (simp add: gray_color_def palette_ref_def Let_def algebra_simps)
  qed
qed

text \<open>C29:
  Initialising a colour table of 256 entries, whatever it held, gives entry by entry the sixteen
  Campbell colours, the cube of six by six by six colours with the levels 0, 95, 135, 175, 215
  and 255, and the twenty-four greys from 8 to 238, as numbers with red in the lowest byte, then green and blue.
\<close>

theorem InitializeColorTable_contents:
  assumes "length table = 256" "j < 256"
  shows "unat (InitializeColorTable table ! j) = (case palette_ref j of (r, g, b) \<Rightarrow> r + 256 * g + 65536 * b)"
  unfolding InitializeColorTable_nth(2) [OF assms] by (rule palette_nat [OF assms(2)])

theorem InitializeColorTable_contents_witness:
  "unat (InitializeColorTable (replicate 256 0) ! 17) = 0 + 256 * 0 + 65536 * 95"
  using InitializeColorTable_contents [of "replicate 256 0" 17] by (simp add: palette_ref_def cube_level_def)

text \<open>C30:
  No name, however spelt, is looked up under a key with a digit in it: the digits of a name are
  its variant. So the five entries of the table whose keys begin with x11 are never found.
\<close>

theorem x11_entries_unreachable:
  assumes "color_name_loop s [] 0 False = Some (stem, variantIndex, foundVariant)"
  shows "stem \<notin> {''x11gray'', ''x11green'', ''x11grey'', ''x11maroon'', ''x11purple''}"
  using color_name_stem_no_digit [OF assms] by (auto simp: is_digit_def)

theorem x11_entries_unreachable_witness:
  "color_name_loop (wstr ''Gray50'') [] 0 False = Some (''gray'', 50, True)
   \<and> ''gray'' \<notin> {''x11gray'', ''x11green'', ''x11grey'', ''x11maroon'', ''x11purple''}"
proof -
  have "color_name_loop (wstr ''Gray50'') [] 0 False = Some (''gray'', 50, True)" by code_simp
  then show ?thesis using x11_entries_unreachable [of "wstr ''Gray50''" "''gray''" 50 True] by blast
qed

end
