(* ===== verification/Color_Utils.thy ===== *)
theory Color_Utils
  imports Color_Table
begin

text \<open>
  Colour conversions of \<^verbatim>\<open>src/src/types/utils.cpp\<close>: hexadecimal strings, the colour specifications of
  XParseColor and the percentages of DEC terminals. The lemmas give the value of every
  well-formed specification and the round trips between colours and their printed forms. The two
  conversions to and from hue, lightness and saturation work in floating point and are left out.
\<close>

section \<open>Definitions\<close>

subsection \<open>Hexadecimal strings\<close>

text \<open>\<^verbatim>\<open>fmt::format\<close> with \<^verbatim>\<open>{:02X}\<close>, on a byte.\<close>

definition hex_upper :: "nat \<Rightarrow> char" where
  "hex_upper n = ''0123456789ABCDEF'' ! n"

definition format_02X :: "byte \<Rightarrow> string" where
  "format_02X b = [hex_upper (unat b div 16), hex_upper (unat b mod 16)]"

definition ColorToHexString :: "color \<Rightarrow> string" where
  "ColorToHexString c = ''#'' @ format_02X (color_r c) @ format_02X (color_g c) @ format_02X (color_b c)"

text \<open>
  \<^verbatim>\<open>std::stoul\<close> in base 16: white space, a sign, an optional prefix and the longest run of
  digits; the sign negates the unsigned result. \<open>None\<close> is the exception for an empty run.
\<close>

definition is_space :: "char \<Rightarrow> bool" where
  "is_space c \<longleftrightarrow> c \<in> {CHR '' '', CHR 0x09, CHR 0x0A, CHR 0x0B, CHR 0x0C, CHR 0x0D}"

definition is_hex :: "char \<Rightarrow> bool" where
  "is_hex c \<longleftrightarrow> HexToUint (wch c) \<noteq> None"

definition hex_prefix :: "string \<Rightarrow> bool" where
  "hex_prefix s \<longleftrightarrow>
     length s > 2 \<and> s ! 0 = CHR ''0'' \<and> (s ! 1 = CHR ''x'' \<or> s ! 1 = CHR ''X'') \<and> is_hex (s ! 2)"

definition stoul_16 :: "string \<Rightarrow> u64 option" where
  "stoul_16 str =
     (let s = dropWhile is_space (takeWhile (\<lambda>c. c \<noteq> CHR 0x00) str);
          neg = (s \<noteq> [] \<and> hd s = CHR ''-'');
          s1 = (if s \<noteq> [] \<and> (hd s = CHR ''-'' \<or> hd s = CHR ''+'') then tl s else s);
          s2 = (if hex_prefix s1 then drop 2 s1 else s1);
          digits = takeWhile is_hex s2;
          v = word_of_nat (digits_value 16 0 (wstr digits))
      in if digits = [] then None else Some (if neg then - v else v))"

datatype color_error = E_INVALIDARG | std_invalid_argument

definition ColorFromHexString :: "string \<Rightarrow> color_error + color" where
  "ColorFromHexString str =
     (if length str \<noteq> 9 \<and> length str \<noteq> 7 \<and> length str \<noteq> 4 then Inl E_INVALIDARG
      else if str ! 0 \<noteq> CHR ''#'' then Inl E_INVALIDARG
      else let (rStr, gStr, bStr, aStr) =
                 (if length str = 4 then (replicate 2 (str ! 1), replicate 2 (str ! 2), replicate 2 (str ! 3), ''ff'')
                  else if length str = 7 then (take 2 (drop 1 str), take 2 (drop 3 str), take 2 (drop 5 str), ''ff'')
                  else (take 2 (drop 1 str), take 2 (drop 3 str), take 2 (drop 5 str), take 2 (drop 7 str)))
           in case (stoul_16 rStr, stoul_16 gStr, stoul_16 bStr, stoul_16 aStr) of
                (Some r, Some g, Some b, Some a) \<Rightarrow>
                  Inr \<lparr>color_r = ucast r, color_g = ucast g, color_b = ucast b, color_a = ucast a\<rparr>
              | _ \<Rightarrow> Inl std_invalid_argument)"

subsection \<open>XParseColor specifications\<close>

text \<open>
  One component of a specification. The loop carries the digit count, the value, whether the
  component is complete and the rest of the string; \<open>None\<close> is the early return for a character
  that is not a hexadecimal digit.
\<close>

function component_loop ::
  "bool \<Rightarrow> nat \<Rightarrow> nat \<Rightarrow> nat \<Rightarrow> nat \<Rightarrow> nat \<Rightarrow> bool \<Rightarrow> wstring \<Rightarrow> (bool \<times> nat \<times> nat \<times> wstring) option" where
  "component_loop sharp component iteration i digitCount val foundColor cur =
     (if i < iteration \<and> cur \<noteq> [] then
        case HexToUint (hd cur) of
          None \<Rightarrow> None
        | Some intVal \<Rightarrow>
            let val1 = val * 16 + intVal;
                curr1 = tl cur
            in if sharp then
                 if i \<ge> digitCount then Some (True, digitCount, val1, curr1)
                 else component_loop sharp component iteration (i + 1) digitCount val1 True curr1
               else if component < 2 \<and> curr1 \<noteq> [] \<and> hd curr1 = 0x2F then Some (True, i + 1, val1, tl curr1)
               else if curr1 = [] then Some (True, i + 1, val1, curr1)
               else component_loop sharp component iteration (i + 1) (i + 1) val1 foundColor curr1
      else Some (foundColor, digitCount, val, cur))"
  by pat_completeness auto
termination
  by (relation "measure (\<lambda>(sharp, component, iteration, i, digitCount, val, foundColor, cur). length cur)") auto

declare component_loop.simps [simp del]

definition component_color :: "bool \<Rightarrow> nat \<Rightarrow> nat \<Rightarrow> nat" where
  "component_color sharp digitCount val =
     (let scaleMultiplier = (if sharp then 0x10 else 0x11);
          scaleDivisor = drop_bit (4 * (4 - digitCount)) (push_bit 8 scaleMultiplier)
      in val * scaleMultiplier div scaleDivisor)"

definition parse_component ::
  "bool \<Rightarrow> nat \<Rightarrow> nat \<Rightarrow> wstring \<Rightarrow> (nat \<times> nat \<times> wstring) option" where
  "parse_component sharp component digitCount cur =
     (case component_loop sharp component (if sharp then digitCount else 4) 0 digitCount 0 False cur of
        None \<Rightarrow> None
      | Some (foundColor, digitCount1, val, curr1) \<Rightarrow>
          if \<not> foundColor then None else Some (component_color sharp digitCount1 val, digitCount1, curr1))"

definition parse_components :: "bool \<Rightarrow> nat \<Rightarrow> wstring \<Rightarrow> color option" where
  "parse_components sharp digitCount cur =
     do {
       (r, n0, curr0) \<leftarrow> parse_component sharp 0 digitCount cur;
       (g, n1, curr1) \<leftarrow> parse_component sharp 1 n0 curr0;
       (b, n2, curr2) \<leftarrow> parse_component sharp 2 n1 curr1;
       if curr2 = [] then Some (rgb (word_of_nat r) (word_of_nat g) (word_of_nat b)) else None
     }"

definition ColorFromXParseColorSpec :: "wstring \<Rightarrow> color option" where
  "ColorFromXParseColorSpec str =
     (let stringSize = length str;
          prefix = map (\<lambda>x. if x \<ge> 0x41 \<and> x \<le> 0x5A then x + 0x20 else x) (take 4 str)
      in if stringSize > 4 \<and> prefix = wstr ''rgb:'' then
           if stringSize < 9 \<or> stringSize > 18 then None
           else parse_components False 0 (drop 4 str)
         else if stringSize > 1 \<and> str ! 0 = 0x23 then
           if \<not> (stringSize = 4 \<or> stringSize = 7 \<or> stringSize = 10 \<or> stringSize = 13) then None
           else parse_components True ((stringSize - 1) div 3) (drop 1 str)
         else None)"

definition ColorFromXTermColor :: "wstring \<Rightarrow> color option" where
  "ColorFromXTermColor str =
     (case ColorFromXParseColorSpec str of
        Some c \<Rightarrow> Some c
      | None \<Rightarrow> ColorFromXOrgAppColorName str)"

subsection \<open>Percentages\<close>

text \<open>\<^verbatim>\<open>std::min<unsigned>(r, 100u)\<close>: a negative percentage is a huge unsigned one.\<close>

definition scale100To255 :: "byte list" where
  "scale100To255 = map (\<lambda>i. word_of_nat ((i * 255 + 50) div 100)) [0..<101]"

definition clamp_percent :: "int \<Rightarrow> nat" where
  "clamp_percent r = min (nat (r mod 2 ^ 32)) 100"

definition ColorFromRGB100 :: "int \<Rightarrow> int \<Rightarrow> int \<Rightarrow> color" where
  "ColorFromRGB100 r g b =
     rgb (scale100To255 ! clamp_percent r) (scale100To255 ! clamp_percent g) (scale100To255 ! clamp_percent b)"

definition scale255To100 :: "byte list" where
  "scale255To100 = map (\<lambda>i. word_of_nat ((i * 100 + 128) div 255)) [0..<256]"

definition ColorToRGB100 :: "color \<Rightarrow> int \<times> int \<times> int" where
  "ColorToRGB100 c =
     (sint (scale255To100 ! unat (color_r c)), sint (scale255To100 ! unat (color_g c)),
      sint (scale255To100 ! unat (color_b c)))"

section \<open>Hexadecimal digits\<close>

lemma HexToUint_ref: "HexToUint c = (if digit_ref c < 16 then Some (digit_ref c) else None)"
  by (auto simp: HexToUint_def digit_ref_def word_le_nat_alt Let_def)

definition hex_digits :: "wstring \<Rightarrow> bool" where
  "hex_digits ds \<longleftrightarrow> list_all (\<lambda>c. digit_ref c < 16) ds"

lemma digits_value_bound:
  "hex_digits ds \<Longrightarrow> digits_value 16 a ds < (a + 1) * 16 ^ length ds"
proof (induction ds arbitrary: a)
  case Nil
  then show ?case by simp
next
  case (Cons c ds)
  then have "digits_value 16 (a * 16 + digit_ref c) ds < (a * 16 + digit_ref c + 1) * 16 ^ length ds"
    by (simp add: hex_digits_def)
  also have "\<dots> \<le> (a + 1) * 16 * 16 ^ length ds"
    using Cons.prems by (intro mult_right_mono) (simp_all add: hex_digits_def)
  finally show ?case by (simp add: algebra_simps)
qed

section \<open>Specifications\<close>

text \<open>
  A component of the \<^verbatim>\<open>rgb:\<close> form ends at a slash, or at the end of the string for the last;
  one of the sharp sign form ends after its number of digits.
\<close>

lemma component_loop_slash:
  "ds \<noteq> [] \<Longrightarrow> hex_digits ds \<Longrightarrow> i + length ds \<le> 4 \<Longrightarrow> component < 2 \<Longrightarrow>
   component_loop False component 4 i n v False (ds @ 0x2F # rest) =
     Some (True, i + length ds, digits_value 16 v ds, rest)"
proof (induction ds arbitrary: i n v)
  case Nil
  then show ?case by simp
next
  case (Cons c ds)
  have no_slash: "hd ds \<noteq> 0x2F" if "ds \<noteq> []"
    using that Cons.prems(2) by (cases ds) (auto simp: hex_digits_def digit_ref_def)
  show ?case
    using Cons by (cases "ds = []")
      (auto simp: component_loop.simps [of _ _ _ i] HexToUint_ref no_slash hex_digits_def Let_def)
qed

lemma component_loop_end:
  "ds \<noteq> [] \<Longrightarrow> hex_digits ds \<Longrightarrow> i + length ds \<le> 4 \<Longrightarrow>
   component_loop False 2 4 i n v False ds = Some (True, i + length ds, digits_value 16 v ds, [])"
proof (induction ds arbitrary: i n v)
  case Nil
  then show ?case by simp
next
  case (Cons c ds)
  then show ?case
    by (cases "ds = []")
      (auto simp: component_loop.simps [of _ _ _ i] HexToUint_ref hex_digits_def Let_def)
qed

lemma component_loop_sharp:
  "hex_digits ds \<Longrightarrow> i + length ds = n \<Longrightarrow>
   component_loop True component n i n v found (ds @ rest) =
     Some (found \<or> ds \<noteq> [], n, digits_value 16 v ds, rest)"
proof (induction ds arbitrary: i v found)
  case Nil
  then show ?case by (simp add: component_loop.simps [of _ _ _ n])
next
  case (Cons c ds)
  then show ?case
    by (auto simp: component_loop.simps [of _ _ _ i] HexToUint_ref hex_digits_def Let_def)
qed

text \<open>What a component means: one digit is repeated or padded, more are cut to the top eight bits.\<close>

definition component_ref :: "bool \<Rightarrow> wstring \<Rightarrow> byte" where
  "component_ref sharp ds =
     (let v = digits_value 16 0 ds
      in word_of_nat (if length ds = 1 then v * (if sharp then 16 else 17) else v div 16 ^ (length ds - 2)))"

lemma length_1_4: "ds \<noteq> [] \<Longrightarrow> length ds \<le> 4 \<Longrightarrow> length ds = 1 \<or> length ds = 2 \<or> length ds = 3 \<or> length ds = 4"
  unfolding length_greater_0_conv [symmetric] by arith

lemma component_color_ref:
  assumes "ds \<noteq> []" "length ds \<le> 4"
  shows "word_of_nat (component_color sharp (length ds) (digits_value 16 0 ds)) = component_ref sharp ds"
proof -
  from assms consider "length ds = 1" | "length ds = 2" | "length ds = 3" | "length ds = 4"
    using length_1_4 by blast
  then show ?thesis
    by cases (auto simp: component_color_def component_ref_def drop_bit_eq_div push_bit_eq_mult Let_def
        div_mult2_eq [symmetric] mult.commute div_mult_mult1 simp del: One_nat_def)
qed

lemma parse_component_ref:
  assumes "ds \<noteq> []" "length ds \<le> 4" "hex_digits ds"
  shows "component < 2 \<Longrightarrow> parse_component False component n (ds @ 0x2F # rest) =
      Some (component_color False (length ds) (digits_value 16 0 ds), length ds, rest)"
    "parse_component False 2 n ds =
      Some (component_color False (length ds) (digits_value 16 0 ds), length ds, [])"
    "parse_component True component (length ds) (ds @ rest) =
      Some (component_color True (length ds) (digits_value 16 0 ds), length ds, rest)"
  using assms component_loop_slash [of ds 0 component n 0 rest] component_loop_end [of ds 0 n 0]
    component_loop_sharp [of ds 0 "length ds" component 0 False rest]
  by (simp_all add: parse_component_def)

lemma wstr_rgb: "wstr ''rgb:'' = [0x72, 0x67, 0x62, 0x3A]"
  by (simp add: wstr_def wch_def)

text \<open>C33:
  Every specification of the form rgb:R/G/B, with one to four hexadecimal digits in each
  component, is accepted, and each component of the colour is the repeated digit, for one digit,
  or the top eight bits of the digits.
\<close>

theorem XParseColorSpec_rgb:
  assumes "r \<noteq> []" "length r \<le> 4" "hex_digits r" "g \<noteq> []" "length g \<le> 4" "hex_digits g"
    "b \<noteq> []" "length b \<le> 4" "hex_digits b"
  shows "ColorFromXParseColorSpec (wstr ''rgb:'' @ r @ 0x2F # g @ 0x2F # b) =
    Some (rgb (component_ref False r) (component_ref False g) (component_ref False b))"
proof -
  have "\<not> length r + (length g + length b) < 3"
    using length_1_4 [of r] length_1_4 [of g] length_1_4 [of b] assms by arith
  then show ?thesis
    using assms
    by (simp add: ColorFromXParseColorSpec_def wstr_rgb parse_components_def parse_component_ref component_color_ref Let_def)
qed

theorem XParseColorSpec_rgb_witness:
  "ColorFromXParseColorSpec (wstr ''rgb:'' @ wstr ''f'' @ 0x2F # wstr ''80'' @ 0x2F # wstr ''12Ab'') =
    Some (rgb 0xFF 0x80 0x12)"
  using XParseColorSpec_rgb [of "wstr ''f''" "wstr ''80''" "wstr ''12Ab''"]
  by (simp add: wstr_def wch_def hex_digits_def digit_ref_def component_ref_def)

lemma sharp_spec:
  assumes "r \<noteq> []" "length r \<le> 4" "hex_digits r" "hex_digits g" "hex_digits b"
    "length g = length r" "length b = length r"
  shows "ColorFromXParseColorSpec (0x23 # r @ g @ b) =
    Some (rgb (component_ref True r) (component_ref True g) (component_ref True b))"
proof -
  have ne: "g \<noteq> []" "b \<noteq> []" using assms by auto
  have len: "3 * length r \<in> {3, 6, 9, 12}" using length_1_4 [OF assms(1,2)] by auto
  have comps: "parse_component True c (length r) (r @ rest) = Some (component_color True (length r) (digits_value 16 0 r), length r, rest)"
    "parse_component True c (length r) (g @ rest) = Some (component_color True (length r) (digits_value 16 0 g), length r, rest)"
    "parse_component True c (length r) b = Some (component_color True (length r) (digits_value 16 0 b), length r, [])" for c rest
    using assms ne parse_component_ref(3) [of r c rest] parse_component_ref(3) [of g c rest] parse_component_ref(3) [of b c "[]"]
    by simp_all
  have "word_of_nat (component_color True (length r) (digits_value 16 0 ds)) = component_ref True ds"
    if "length ds = length r" for ds
    using component_color_ref [of ds True] that assms(1,2) by (cases ds) auto
  then have "parse_components True (length r) (r @ g @ b) =
      Some (rgb (component_ref True r) (component_ref True g) (component_ref True b))"
    using assms by (simp add: parse_components_def comps)
  moreover have "(0x23 :: wchar) # take 3 (r @ g @ b) \<noteq> wstr ''rgb:''" by (simp add: wstr_rgb)
  ultimately show ?thesis
    using assms len by (auto simp: ColorFromXParseColorSpec_def wstr_rgb Let_def)
qed

text \<open>C34:
  Every specification of the form #RGB, with the same number of hexadecimal digits, one to four,
  in each component, is accepted, and each component of the colour is the top eight bits of its
  digits, a single digit being followed by zero bits.
\<close>

theorem XParseColorSpec_sharp:
  assumes "r \<noteq> []" "length r \<le> 4" "hex_digits r" "hex_digits g" "hex_digits b"
    "length g = length r" "length b = length r"
  shows "ColorFromXParseColorSpec (0x23 # r @ g @ b) =
    Some (rgb (component_ref True r) (component_ref True g) (component_ref True b))"
  using assms by (rule sharp_spec)

theorem XParseColorSpec_sharp_witness:
  "ColorFromXParseColorSpec (0x23 # wstr ''f'' @ wstr ''8'' @ wstr ''0'') = Some (rgb 0xF0 0x80 0)"
  using XParseColorSpec_sharp [of "wstr ''f''" "wstr ''8''" "wstr ''0''"]
  by (simp add: wstr_def wch_def hex_digits_def digit_ref_def component_ref_def)

section \<open>Printed colours\<close>

lemma hex_upper_check:
  "list_all (\<lambda>n. digit_ref (wch (hex_upper n)) = n \<and> hex_upper n \<noteq> CHR 0x00 \<and> \<not> is_space (hex_upper n)
      \<and> hex_upper n \<noteq> CHR ''-'' \<and> hex_upper n \<noteq> CHR ''+'') [0..<16]"
  by code_simp

lemma hex_upper_digit:
  assumes "n < 16"
  shows "digit_ref (wch (hex_upper n)) = n" "is_hex (hex_upper n)" "hex_upper n \<noteq> CHR 0x00"
    "\<not> is_space (hex_upper n)" "hex_upper n \<noteq> CHR ''-''" "hex_upper n \<noteq> CHR ''+''"
  using hex_upper_check assms by (auto simp: list_all_iff is_hex_def HexToUint_ref)

lemma stoul_16_format:
  assumes "a < 16" "b < 16"
  shows "stoul_16 [hex_upper a, hex_upper b] = Some (word_of_nat (a * 16 + b))"
  using hex_upper_digit [OF assms(1)] hex_upper_digit [OF assms(2)]
  by (simp add: stoul_16_def hex_prefix_def wstr_def Let_def)

lemma format_02X_byte:
  "stoul_16 (format_02X b) = Some (ucast b)" "hex_digits (wstr (format_02X b))"
  "component_ref True (wstr (format_02X b)) = b"
proof -
  have d: "unat b div 16 < 16" "unat b mod 16 < 16" using unsigned_less [of b, where 'a = nat] by simp_all
  have b: "unat b div 16 * 16 + unat b mod 16 = unat b" by simp
  show "stoul_16 (format_02X b) = Some (ucast b)"
    by (simp only: format_02X_def stoul_16_format [OF d] b) simp
  show "hex_digits (wstr (format_02X b))"
    using d by (simp add: format_02X_def hex_digits_def wstr_def hex_upper_digit(1))
  show "component_ref True (wstr (format_02X b)) = b"
    using d b by (simp add: format_02X_def component_ref_def wstr_def hex_upper_digit(1))
qed

lemma byte_u64_byte [simp]: "(ucast (ucast (b :: byte) :: u64) :: byte) = b"
  by (rule bit_word_eqI) (simp add: bit_simps)

lemma length_format_02X [simp]: "length (format_02X b) = 2" "length (wstr (format_02X b)) = 2"
  by (simp_all add: format_02X_def wstr_def)

text \<open>C35:
  Printing a colour as a hexadecimal string and reading it with either parser gives the colour
  back, opaque.
\<close>

theorem ColorToHexString_roundtrip:
  "ColorFromHexString (ColorToHexString c) = Inr (c\<lparr>color_a := 255\<rparr>)
   \<and> ColorFromXParseColorSpec (wstr (ColorToHexString c)) = Some (c\<lparr>color_a := 255\<rparr>)"
proof
  obtain r1 r2 where r: "format_02X (color_r c) = [r1, r2]" by (simp add: format_02X_def)
  obtain g1 g2 where g: "format_02X (color_g c) = [g1, g2]" by (simp add: format_02X_def)
  obtain b1 b2 where b: "format_02X (color_b c) = [b1, b2]" by (simp add: format_02X_def)
  have ff: "stoul_16 ''ff'' = Some 255" by code_simp
  show "ColorFromHexString (ColorToHexString c) = Inr (c\<lparr>color_a := 255\<rparr>)"
    using format_02X_byte(1) [of "color_r c"] format_02X_byte(1) [of "color_g c"] format_02X_byte(1) [of "color_b c"]
    by (cases c) (simp add: ColorFromHexString_def ColorToHexString_def r g b ff)
  have "wstr (ColorToHexString c) =
      0x23 # wstr (format_02X (color_r c)) @ wstr (format_02X (color_g c)) @ wstr (format_02X (color_b c))"
    by (simp add: ColorToHexString_def wstr_def wch_def)
  then show "ColorFromXParseColorSpec (wstr (ColorToHexString c)) = Some (c\<lparr>color_a := 255\<rparr>)"
    using sharp_spec [of "wstr (format_02X (color_r c))" "wstr (format_02X (color_g c))" "wstr (format_02X (color_b c))"]
    by (cases c) (simp add: format_02X_byte rgb_def flip: length_0_conv)
qed

text \<open>
  What two characters mean as a component. A digit may be followed by anything; a blank or a
  sign may stand before a single digit, and a minus negates the byte.
\<close>

definition hex_component :: "char \<Rightarrow> char \<Rightarrow> byte option" where
  "hex_component a b =
     (let da = digit_ref (wch a); db = digit_ref (wch b)
      in if da < 16 then Some (word_of_nat (if db < 16 then 16 * da + db else da))
         else if db < 16 \<and> (is_space a \<or> a = CHR ''+'') then Some (word_of_nat db)
         else if db < 16 \<and> a = CHR ''-'' then Some (- word_of_nat db)
         else None)"

lemma is_hex_ref: "is_hex c \<longleftrightarrow> digit_ref (wch c) < 16"
  by (simp add: is_hex_def HexToUint_ref)

lemma not_hex_chars:
  "\<not> is_hex (CHR 0x00)" "\<not> is_hex (CHR ''-'')" "\<not> is_hex (CHR ''+'')" "is_space c \<Longrightarrow> \<not> is_hex c"
  "\<not> is_space (CHR ''-'')" "\<not> is_space (CHR ''+'')" "\<not> is_space (CHR 0x00)"
  by (auto simp: is_hex_ref is_space_def wch_def digit_ref_def)

lemma ucast_word_of_int: "(ucast (word_of_int k :: u64) :: byte) = word_of_int k"
  by (rule bit_word_eqI) (simp add: bit_simps)

lemma low_byte:
  "(ucast (word_of_nat n :: u64) :: byte) = word_of_nat n" "(ucast (- word_of_nat n :: u64) :: byte) = - word_of_nat n"
  using ucast_word_of_int [of "int n"] ucast_word_of_int [of "- int n"] by simp_all

lemma stoul_16_two:
  "stoul_16 [a, b] =
     (let da = digit_ref (wch a); db = digit_ref (wch b)
      in if is_hex a then Some (word_of_nat (if is_hex b then 16 * da + db else da))
         else if is_hex b \<and> (is_space a \<or> a = CHR ''+'') then Some (word_of_nat db)
         else if is_hex b \<and> a = CHR ''-'' then Some (- word_of_nat db)
         else None)"
proof (cases "is_hex a")
  case True
  with not_hex_chars have "a \<noteq> CHR 0x00" "a \<noteq> CHR ''-''" "a \<noteq> CHR ''+''" "\<not> is_space a" by blast+
  with True show ?thesis
    using not_hex_chars(1) by (auto simp: stoul_16_def hex_prefix_def wstr_def Let_def algebra_simps)
next
  case a: False
  show ?thesis
  proof (cases "is_hex b")
    case True
    with not_hex_chars have "b \<noteq> CHR 0x00" "b \<noteq> CHR ''-''" "b \<noteq> CHR ''+''" "\<not> is_space b" by blast+
    with a True not_hex_chars(5-7) show ?thesis
      by (cases "a = CHR 0x00") (simp_all add: stoul_16_def hex_prefix_def wstr_def Let_def)
  next
    case False
    with a show ?thesis by (simp add: stoul_16_def hex_prefix_def Let_def)
  qed
qed

lemma stoul_16_component: "hex_component a b = map_option ucast (stoul_16 [a, b])"
  unfolding stoul_16_two hex_component_def Let_def is_hex_ref by (auto simp: low_byte simp del: of_nat_add of_nat_mult)

text \<open>C37:
  What the hexadecimal parser makes of every string of one of the three accepted lengths that
  starts with the sharp sign. The components are not checked to be two digits: a digit followed
  by anything is that digit, a blank or a plus before a digit is skipped, and a minus before a
  digit gives the negated byte. Any other component ends the parse with an exception that
  is not the one for invalid arguments.
\<close>

theorem ColorFromHexString_components:
  "ColorFromHexString [CHR ''#'', r, r', g, g', b, b', a, a'] =
     (case (hex_component r r', hex_component g g', hex_component b b', hex_component a a') of
        (Some r, Some g, Some b, Some a) \<Rightarrow> Inr \<lparr>color_r = r, color_g = g, color_b = b, color_a = a\<rparr>
      | _ \<Rightarrow> Inl std_invalid_argument)
   \<and> ColorFromHexString [CHR ''#'', r, r', g, g', b, b'] =
     (case (hex_component r r', hex_component g g', hex_component b b') of
        (Some r, Some g, Some b) \<Rightarrow> Inr (rgb r g b)
      | _ \<Rightarrow> Inl std_invalid_argument)
   \<and> ColorFromHexString [CHR ''#'', r, g, b] =
     (case (hex_component r r, hex_component g g, hex_component b b) of
        (Some r, Some g, Some b) \<Rightarrow> Inr (rgb r g b)
      | _ \<Rightarrow> Inl std_invalid_argument)"
proof -
  have ff: "stoul_16 ''ff'' = Some 255" by code_simp
  have two: "replicate 2 c = [c, c]" for c :: char by (simp add: numeral_2_eq_2)
  show ?thesis
    by (simp add: ColorFromHexString_def stoul_16_component two ff rgb_def split: option.split)
qed

lemma percent_roundtrip:
  assumes "n \<le> 100"
  shows "sint (scale255To100 ! unat (scale100To255 ! n)) = int n"
proof -
  define m where "m = (n * 255 + 50) div 100"
  have m: "m \<le> 255" using assms by (simp add: m_def)
  have "100 * m \<le> n * 255 + 50" "n * 255 + 50 < 100 * m + 100" unfolding m_def by linarith+
  then have n: "(m * 100 + 128) div 255 = n" by (intro div_nat_eqI) simp_all
  have "scale100To255 ! n = word_of_nat m" using assms by (simp add: scale100To255_def m_def del: upt_Suc)
  moreover have "unat (word_of_nat m :: byte) = m" using m by (simp add: unat_of_nat)
  ultimately have "scale255To100 ! unat (scale100To255 ! n) = word_of_nat n"
    using m by (simp add: scale255To100_def n del: upt_Suc)
  moreover have "sint (word_of_nat n :: byte) = int n"
    using assms by (simp add: signed_of_nat signed_take_bit_int_eq_self_iff)
  ultimately show ?thesis by simp
qed

lemma clamp_percent_range: "0 \<le> r \<Longrightarrow> r \<le> 100 \<Longrightarrow> clamp_percent r = nat r"
  by (simp add: clamp_percent_def)

text \<open>C36:
  A colour made from percentages reports the same percentages, for all values from 0 to 100.
\<close>

theorem RGB100_roundtrip:
  assumes "0 \<le> r" "r \<le> 100" "0 \<le> g" "g \<le> 100" "0 \<le> b" "b \<le> 100"
  shows "ColorToRGB100 (ColorFromRGB100 r g b) = (r, g, b)"
proof -
  have "sint (scale255To100 ! unat (scale100To255 ! nat p)) = p" if "0 \<le> p" "p \<le> 100" for p
    using percent_roundtrip [of "nat p"] that by simp
  then show ?thesis
    using assms by (simp add: ColorToRGB100_def ColorFromRGB100_def clamp_percent_range rgb_def)
qed

theorem RGB100_roundtrip_witness: "ColorToRGB100 (ColorFromRGB100 0 50 100) = (0, 50, 100)"
  by (rule RGB100_roundtrip) simp_all

end

