(* ===== verification/Output_Engine.thy ===== *)
theory Output_Engine
  imports Action_Codes Base64 Color_Utils
begin

text \<open>
  The output engine, \<^verbatim>\<open>src/src/terminal/parser/OutputStateMachineEngine.cpp\<close> and its header: it turns the
  control functions the parser recognises into calls of the terminal dispatcher.

  Each action first works out the calls it makes, as a list, from the identifier, the parameters
  and the string; then makes them in order, and clears the last printed character. A call that
  throws leaves the action at once, so the character is not cleared then. The switches over
  identifiers are tables from identifiers to calls, in the order of the source.
\<close>

section \<open>Control characters, escape sequences and VT52 sequences\<close>

definition execute_calls :: "wchar \<Rightarrow> dispatch_call list" where
  "execute_calls wc =
     (if wc = AC_ENQ then [DC_Report EnquireAnswerback]
      else if wc = AC_BEL then [DC_Report WarningBell]
      else if wc = AC_BS then [DC_Cursor (CursorBackward 1)]
      else if wc = AC_TAB then [DC_Cursor (ForwardTab 1)]
      else if wc = AC_CR then [DC_Cursor CarriageReturn]
      else if wc = AC_LF \<or> wc = AC_FF \<or> wc = AC_VT then [DC_Cursor (LineFeed DependsOnMode)]
      else if wc = AC_SI then [DC_Charset (LockingShift 0)]
      else if wc = AC_SO then [DC_Charset (LockingShift 1)]
      else if wc = AC_SUB then [DC_Text (Print 0x2426)]
      else if wc = AC_DEL then [DC_Text (Print wc)]
      else [])"

definition esc_table :: "(VTID \<times> dispatch_call list) list" where
  "esc_table =
     [(ST_StringTerminator, []),
      (DECBI_BackIndex, [DC_Cursor BackIndex]),
      (DECSC_CursorSave, [DC_Cursor CursorSaveState]),
      (DECRC_CursorRestore, [DC_Cursor CursorRestoreState]),
      (DECFI_ForwardIndex, [DC_Cursor ForwardIndex]),
      (DECKPAM_KeypadApplicationMode, [DC_Mode (SetKeypadMode True)]),
      (DECKPNM_KeypadNumericMode, [DC_Mode (SetKeypadMode False)]),
      (NEL_NextLine, [DC_Cursor (LineFeed WithReturn)]),
      (IND_Index, [DC_Cursor (LineFeed WithoutReturn)]),
      (RI_ReverseLineFeed, [DC_Cursor ReverseLineFeed]),
      (HTS_HorizontalTabSet, [DC_Cursor HorizontalTabSet]),
      (DECID_IdentifyDevice, [DC_Report DeviceAttributes]),
      (RIS_ResetToInitialState, [DC_Mode HardReset]),
      (SS2_SingleShift, [DC_Charset (SingleShift 2)]),
      (SS3_SingleShift, [DC_Charset (SingleShift 3)]),
      (LS2_LockingShift, [DC_Charset (LockingShift 2)]),
      (LS3_LockingShift, [DC_Charset (LockingShift 3)]),
      (LS1R_LockingShift, [DC_Charset (LockingShiftRight 1)]),
      (LS2R_LockingShift, [DC_Charset (LockingShiftRight 2)]),
      (LS3R_LockingShift, [DC_Charset (LockingShiftRight 3)]),
      (DECAC1_AcceptC1Controls, [DC_Mode (AcceptC1Controls True)]),
      (S7C1T_Send7bitC1Controls, [DC_Mode (SendC1Controls False)]),
      (S8C1T_Send8bitC1Controls, [DC_Mode (SendC1Controls True)]),
      (ACS_AnsiLevel1, [DC_Mode (AnnounceCodeStructure 1)]),
      (ACS_AnsiLevel2, [DC_Mode (AnnounceCodeStructure 2)]),
      (ACS_AnsiLevel3, [DC_Mode (AnnounceCodeStructure 3)]),
      (DECDHL_DoubleHeightLineTop, [DC_Mode (SetLineRendition DoubleHeightTop)]),
      (DECDHL_DoubleHeightLineBottom, [DC_Mode (SetLineRendition DoubleHeightBottom)]),
      (DECSWL_SingleWidthLine, [DC_Mode (SetLineRendition SingleWidth)]),
      (DECDWL_DoubleWidthLine, [DC_Mode (SetLineRendition DoubleWidth)]),
      (DECALN_ScreenAlignmentPattern, [DC_Text ScreenAlignmentPattern])]"

text \<open>The default case looks at the first character of the identifier.\<close>

definition esc_charset_calls :: "VTID \<Rightarrow> dispatch_call list" where
  "esc_charset_calls vid =
     (let commandChar = VTID_at vid 0;
          commandParameter = VTID_SubSequence vid 1
      in if commandChar = of_char (CHR ''%'') then [DC_Charset (DesignateCodingSystem commandParameter)]
         else if commandChar = of_char (CHR ''('') then [DC_Charset (Designate94Charset 0 commandParameter)]
         else if commandChar = of_char (CHR '')'') then [DC_Charset (Designate94Charset 1 commandParameter)]
         else if commandChar = of_char (CHR ''*'') then [DC_Charset (Designate94Charset 2 commandParameter)]
         else if commandChar = of_char (CHR ''+'') then [DC_Charset (Designate94Charset 3 commandParameter)]
         else if commandChar = of_char (CHR ''-'') then [DC_Charset (Designate96Charset 1 commandParameter)]
         else if commandChar = of_char (CHR ''.'') then [DC_Charset (Designate96Charset 2 commandParameter)]
         else if commandChar = of_char (CHR ''/'') then [DC_Charset (Designate96Charset 3 commandParameter)]
         else [])"

definition esc_calls :: "VTID \<Rightarrow> dispatch_call list" where
  "esc_calls vid = (case map_of esc_table vid of Some cs \<Rightarrow> cs | None \<Rightarrow> esc_charset_calls vid)"

definition DECANM_AnsiMode :: int where
  "DECANM_AnsiMode = DECPrivateMode (VTParameter 2)"

definition vt52_table :: "(VTID \<times> (VTParameters \<Rightarrow> dispatch_call list)) list" where
  "vt52_table =
     [(Vt52_CursorUp, \<lambda>ps. [DC_Cursor (CursorUp 1)]),
      (Vt52_CursorDown, \<lambda>ps. [DC_Cursor (CursorDown 1)]),
      (Vt52_CursorRight, \<lambda>ps. [DC_Cursor (CursorForward 1)]),
      (Vt52_CursorLeft, \<lambda>ps. [DC_Cursor (CursorBackward 1)]),
      (Vt52_EnterGraphicsMode, \<lambda>ps. [DC_Charset (Designate94Charset 0 (VTID ''0''))]),
      (Vt52_ExitGraphicsMode, \<lambda>ps. [DC_Charset (Designate94Charset 0 (VTID ''B''))]),
      (Vt52_CursorToHome, \<lambda>ps. [DC_Cursor (CursorPosition 1 1)]),
      (Vt52_ReverseLineFeed, \<lambda>ps. [DC_Cursor ReverseLineFeed]),
      (Vt52_EraseToEndOfScreen, \<lambda>ps. [DC_Text (EraseInDisplay 0)]),
      (Vt52_EraseToEndOfLine, \<lambda>ps. [DC_Text (EraseInLine 0)]),
      (Vt52_DirectCursorAddress, \<lambda>ps.
         [DC_Cursor (CursorPosition (param_value (VTParameters_at ps 0) - 0x20 + 1)
                                    (param_value (VTParameters_at ps 1) - 0x20 + 1))]),
      (Vt52_Identify, \<lambda>ps. [DC_Report Vt52DeviceAttributes]),
      (Vt52_EnterAlternateKeypadMode, \<lambda>ps. [DC_Mode (SetKeypadMode True)]),
      (Vt52_ExitAlternateKeypadMode, \<lambda>ps. [DC_Mode (SetKeypadMode False)]),
      (Vt52_ExitVt52Mode, \<lambda>ps. [DC_Mode (SetMode DECANM_AnsiMode)])]"

definition vt52_calls :: "VTID \<Rightarrow> VTParameters \<Rightarrow> dispatch_call list" where
  "vt52_calls vid ps = (case map_of vt52_table vid of Some f \<Rightarrow> f ps | None \<Rightarrow> [])"

section \<open>Control sequences\<close>

text \<open>Numeric, enumeration and zero-defaulting uses of the n-th parameter.\<close>

abbreviation num_at :: "VTParameters \<Rightarrow> nat \<Rightarrow> int" where
  "num_at ps n \<equiv> as_VTInt (VTParameters_at ps n)"

abbreviation enum_at :: "VTParameters \<Rightarrow> nat \<Rightarrow> int" where
  "enum_at ps n \<equiv> as_enum (VTParameters_at ps n)"

abbreviation zero_at :: "VTParameters \<Rightarrow> nat \<Rightarrow> int" where
  "zero_at ps n \<equiv> value_or (VTParameters_at ps n) 0"

definition each_param :: "(VTParameter \<Rightarrow> dispatch_call) \<Rightarrow> VTParameters \<Rightarrow> dispatch_call list" where
  "each_param f ps = map f (for_each_params ps)"

definition CanSeqAcceptSubParam :: "VTID \<Rightarrow> VTParameters \<Rightarrow> bool" where
  "CanSeqAcceptSubParam vid ps =
     (if vid = SGR_SetGraphicsRendition then True
      else if vid = DECCARA_ChangeAttributesRectangularArea
            \<or> vid = DECRARA_ReverseAttributesRectangularArea
      then \<not> hasSubParamsFor ps 0 \<and> \<not> hasSubParamsFor ps 1 \<and> \<not> hasSubParamsFor ps 2 \<and> \<not> hasSubParamsFor ps 3
      else False)"

type_synonym csi_entry = "VTID \<times> (VTParameters \<Rightarrow> dispatch_call list)"

definition csi_cursor_table :: "csi_entry list" where
  "csi_cursor_table =
     [(CUU_CursorUp, \<lambda>ps. [DC_Cursor (CursorUp (num_at ps 0))]),
      (CUD_CursorDown, \<lambda>ps. [DC_Cursor (CursorDown (num_at ps 0))]),
      (CUF_CursorForward, \<lambda>ps. [DC_Cursor (CursorForward (num_at ps 0))]),
      (CUB_CursorBackward, \<lambda>ps. [DC_Cursor (CursorBackward (num_at ps 0))]),
      (CNL_CursorNextLine, \<lambda>ps. [DC_Cursor (CursorNextLine (num_at ps 0))]),
      (CPL_CursorPrevLine, \<lambda>ps. [DC_Cursor (CursorPrevLine (num_at ps 0))]),
      (CHA_CursorHorizontalAbsolute, \<lambda>ps. [DC_Cursor (CursorHorizontalPositionAbsolute (num_at ps 0))]),
      (HPA_HorizontalPositionAbsolute, \<lambda>ps. [DC_Cursor (CursorHorizontalPositionAbsolute (num_at ps 0))]),
      (VPA_VerticalLinePositionAbsolute, \<lambda>ps. [DC_Cursor (VerticalLinePositionAbsolute (num_at ps 0))]),
      (HPR_HorizontalPositionRelative, \<lambda>ps. [DC_Cursor (HorizontalPositionRelative (num_at ps 0))]),
      (VPR_VerticalPositionRelative, \<lambda>ps. [DC_Cursor (VerticalPositionRelative (num_at ps 0))]),
      (CUP_CursorPosition, \<lambda>ps. [DC_Cursor (CursorPosition (num_at ps 0) (num_at ps 1))]),
      (HVP_HorizontalVerticalPosition, \<lambda>ps. [DC_Cursor (CursorPosition (num_at ps 0) (num_at ps 1))]),
      (DECSTBM_SetTopBottomMargins, \<lambda>ps. [DC_Mode (SetTopBottomScrollingMargins (zero_at ps 0) (zero_at ps 1))]),
      (DECSLRM_SetLeftRightMargins, \<lambda>ps. [DC_Mode (SetLeftRightScrollingMargins (zero_at ps 0) (zero_at ps 1))]),
      (ICH_InsertCharacter, \<lambda>ps. [DC_Text (InsertCharacter (num_at ps 0))]),
      (DCH_DeleteCharacter, \<lambda>ps. [DC_Text (DeleteCharacter (num_at ps 0))])]"

definition csi_mode_table :: "csi_entry list" where
  "csi_mode_table =
     [(ED_EraseDisplay, each_param (\<lambda>p. DC_Text (EraseInDisplay (as_enum p)))),
      (DECSED_SelectiveEraseDisplay, each_param (\<lambda>p. DC_Text (SelectiveEraseInDisplay (as_enum p)))),
      (EL_EraseLine, each_param (\<lambda>p. DC_Text (EraseInLine (as_enum p)))),
      (DECSEL_SelectiveEraseLine, each_param (\<lambda>p. DC_Text (SelectiveEraseInLine (as_enum p)))),
      (SM_SetMode, each_param (\<lambda>p. DC_Mode (SetMode (ANSIStandardMode p)))),
      (DECSET_PrivateModeSet, each_param (\<lambda>p. DC_Mode (SetMode (DECPrivateMode p)))),
      (RM_ResetMode, each_param (\<lambda>p. DC_Mode (ResetMode (ANSIStandardMode p)))),
      (DECRST_PrivateModeReset, each_param (\<lambda>p. DC_Mode (ResetMode (DECPrivateMode p)))),
      (SGR_SetGraphicsRendition, \<lambda>ps. [DC_Mode (SetGraphicsRendition ps)]),
      (DSR_DeviceStatusReport, \<lambda>ps.
         [DC_Report (DeviceStatusReport (ANSIStandardStatus (VTParameters_at ps 0)) (VTParameters_at ps 1))]),
      (DSR_PrivateDeviceStatusReport, \<lambda>ps.
         [DC_Report (DeviceStatusReport (DECPrivateStatus (VTParameters_at ps 0)) (VTParameters_at ps 1))]),
      (DA_DeviceAttributes, \<lambda>ps. if zero_at ps 0 = 0 then [DC_Report DeviceAttributes] else []),
      (DA2_SecondaryDeviceAttributes, \<lambda>ps. if zero_at ps 0 = 0 then [DC_Report SecondaryDeviceAttributes] else []),
      (DA3_TertiaryDeviceAttributes, \<lambda>ps. if zero_at ps 0 = 0 then [DC_Report TertiaryDeviceAttributes] else []),
      (DECREQTPARM_RequestTerminalParameters, \<lambda>ps. [DC_Report (RequestTerminalParameters (enum_at ps 0))])]"

text \<open>REP prints the last printed character again, so its entry depends on it.\<close>

definition rep_calls :: "wchar \<Rightarrow> VTParameters \<Rightarrow> dispatch_call list" where
  "rep_calls lastPrintedChar ps =
     (if lastPrintedChar \<noteq> AC_NUL
      then [DC_Text (PrintString (replicate (nat (num_at ps 0)) lastPrintedChar))] else [])"

definition csi_screen_table :: "wchar \<Rightarrow> csi_entry list" where
  "csi_screen_table lastPrintedChar =
     [(SU_ScrollUp, \<lambda>ps. [DC_Text (ScrollUp (num_at ps 0))]),
      (SD_ScrollDown, \<lambda>ps. [DC_Text (ScrollDown (num_at ps 0))]),
      (NP_NextPage, \<lambda>ps. [DC_Page (NextPage (num_at ps 0))]),
      (PP_PrecedingPage, \<lambda>ps. [DC_Page (PrecedingPage (num_at ps 0))]),
      (ANSISYSRC_CursorRestore, \<lambda>ps. [DC_Cursor CursorRestoreState]),
      (IL_InsertLine, \<lambda>ps. [DC_Text (InsertLine (num_at ps 0))]),
      (DL_DeleteLine, \<lambda>ps. [DC_Text (DeleteLine (num_at ps 0))]),
      (CHT_CursorForwardTab, \<lambda>ps. [DC_Cursor (ForwardTab (num_at ps 0))]),
      (CBT_CursorBackTab, \<lambda>ps. [DC_Cursor (BackwardsTab (num_at ps 0))]),
      (TBC_TabClear, each_param (\<lambda>p. DC_Cursor (TabClear (as_enum p)))),
      (DECST8C_SetTabEvery8Columns, each_param (\<lambda>p. DC_Cursor (TabSet p))),
      (ECH_EraseCharacters, \<lambda>ps. [DC_Text (EraseCharacters (num_at ps 0))]),
      (DTTERM_WindowManipulation, \<lambda>ps.
         [DC_Report (WindowManipulation (enum_at ps 0) (VTParameters_at ps 1) (VTParameters_at ps 2))]),
      (REP_RepeatCharacter, rep_calls lastPrintedChar),
      (PPA_PagePositionAbsolute, \<lambda>ps. [DC_Page (PagePositionAbsolute (num_at ps 0))]),
      (PPR_PagePositionRelative, \<lambda>ps. [DC_Page (PagePositionRelative (num_at ps 0))]),
      (PPB_PagePositionBack, \<lambda>ps. [DC_Page (PagePositionBack (num_at ps 0))]),
      (DECSCUSR_SetCursorStyle, \<lambda>ps. [DC_Mode (SetCursorStyle (enum_at ps 0))]),
      (DECSTR_SoftReset, \<lambda>ps. [DC_Mode SoftReset]),
      (DECSCA_SetCharacterProtectionAttribute, \<lambda>ps. [DC_Mode (SetCharacterProtectionAttribute ps)]),
      (DECRQDE_RequestDisplayedExtent, \<lambda>ps. [DC_Page RequestDisplayedExtent]),
      (XT_PushSgr, \<lambda>ps. [DC_Mode (PushGraphicsRendition ps)]),
      (XT_PushSgrAlias, \<lambda>ps. [DC_Mode (PushGraphicsRendition ps)]),
      (XT_PopSgr, \<lambda>ps. [DC_Mode PopGraphicsRendition]),
      (XT_PopSgrAlias, \<lambda>ps. [DC_Mode PopGraphicsRendition]),
      (DECRQM_RequestMode, \<lambda>ps. [DC_Mode (RequestMode (ANSIStandardMode (VTParameters_at ps 0)))]),
      (DECRQM_PrivateRequestMode, \<lambda>ps. [DC_Mode (RequestMode (DECPrivateMode (VTParameters_at ps 0)))])]"

definition csi_area_table :: "csi_entry list" where
  "csi_area_table =
     [(DECCARA_ChangeAttributesRectangularArea, \<lambda>ps.
         [DC_Page (ChangeAttributesRectangularArea (num_at ps 0) (num_at ps 1) (zero_at ps 2) (zero_at ps 3)
                     (VTParameters_subspan ps 4))]),
      (DECRARA_ReverseAttributesRectangularArea, \<lambda>ps.
         [DC_Page (ReverseAttributesRectangularArea (num_at ps 0) (num_at ps 1) (zero_at ps 2) (zero_at ps 3)
                     (VTParameters_subspan ps 4))]),
      (DECCRA_CopyRectangularArea, \<lambda>ps.
         [DC_Page (CopyRectangularArea (num_at ps 0) (num_at ps 1) (zero_at ps 2) (zero_at ps 3)
                     (num_at ps 4) (num_at ps 5) (num_at ps 6) (num_at ps 7))]),
      (DECRQTSR_RequestTerminalStateReport, \<lambda>ps.
         [DC_Report (RequestTerminalStateReport (enum_at ps 0) (VTParameters_at ps 1))]),
      (DECRQPSR_RequestPresentationStateReport, \<lambda>ps. [DC_Report (RequestPresentationStateReport (enum_at ps 0))]),
      (DECFRA_FillRectangularArea, \<lambda>ps.
         [DC_Page (FillRectangularArea (VTParameters_at ps 0) (num_at ps 1) (num_at ps 2) (zero_at ps 3) (zero_at ps 4))]),
      (DECERA_EraseRectangularArea, \<lambda>ps.
         [DC_Page (EraseRectangularArea (num_at ps 0) (num_at ps 1) (zero_at ps 2) (zero_at ps 3))]),
      (DECSERA_SelectiveEraseRectangularArea, \<lambda>ps.
         [DC_Page (SelectiveEraseRectangularArea (num_at ps 0) (num_at ps 1) (zero_at ps 2) (zero_at ps 3))]),
      (DECRQUPSS_RequestUserPreferenceSupplementalSet, \<lambda>ps. [DC_Charset RequestUserPreferenceCharset]),
      (DECIC_InsertColumn, \<lambda>ps. [DC_Text (InsertColumn (num_at ps 0))]),
      (DECDC_DeleteColumn, \<lambda>ps. [DC_Text (DeleteColumn (num_at ps 0))]),
      (DECSACE_SelectAttributeChangeExtent, \<lambda>ps. [DC_Page (SelectAttributeChangeExtent (enum_at ps 0))]),
      (DECRQCRA_RequestChecksumRectangularArea, \<lambda>ps.
         [DC_Page (RequestChecksumRectangularArea (zero_at ps 0) (zero_at ps 1) (num_at ps 2) (num_at ps 3)
                     (zero_at ps 4) (zero_at ps 5))]),
      (DECINVM_InvokeMacro, \<lambda>ps. [DC_Report (InvokeMacro (zero_at ps 0))]),
      (DECAC_AssignColor, \<lambda>ps. [DC_Osc (AssignColor (enum_at ps 0) (zero_at ps 1) (zero_at ps 2))]),
      (DECPS_PlaySound, \<lambda>ps. [DC_Report (PlaySounds ps)])]"

definition csi_table :: "wchar \<Rightarrow> csi_entry list" where
  "csi_table lastPrintedChar =
     csi_cursor_table @ csi_mode_table @ csi_screen_table lastPrintedChar @ csi_area_table"

definition csi_calls :: "wchar \<Rightarrow> VTID \<Rightarrow> VTParameters \<Rightarrow> dispatch_call list" where
  "csi_calls lastPrintedChar vid ps =
     (case map_of (csi_table lastPrintedChar) vid of Some f \<Rightarrow> f ps | None \<Rightarrow> [])"

lemmas csi_tables = csi_table_def csi_cursor_table_def csi_mode_table_def csi_screen_table_def csi_area_table_def

lemmas csi_lookup = csi_calls_def csi_tables action_codes VTID_inject

section \<open>Device control strings\<close>

definition dcs_table :: "(VTID \<times> (VTParameters \<Rightarrow> dcs_call)) list" where
  "dcs_table =
     [(SIXEL_DefineImage, \<lambda>ps. DefineSixelImage (num_at ps 0) (enum_at ps 1) (VTParameters_at ps 2)),
      (DECDLD_DownloadDRCS, \<lambda>ps.
         DownloadDRCS (num_at ps 0) (VTParameters_at ps 1) (enum_at ps 2) (enum_at ps 3) (enum_at ps 4) (enum_at ps 5)
           (VTParameters_at ps 6) (enum_at ps 7)),
      (DECAUPSS_AssignUserPreferenceSupplementalSet, \<lambda>ps. AssignUserPreferenceCharset (enum_at ps 0)),
      (DECDMAC_DefineMacro, \<lambda>ps. DefineMacro (zero_at ps 0) (enum_at ps 1) (enum_at ps 2)),
      (DECRSTS_RestoreTerminalState, \<lambda>ps. RestoreTerminalState (enum_at ps 0)),
      (DECRQSS_RequestSetting, \<lambda>ps. RequestSetting),
      (DECRSPS_RestorePresentationState, \<lambda>ps. RestorePresentationState (enum_at ps 0))]"

section \<open>Operating system commands\<close>

definition COLOR_INQUIRY_COLOR :: COLORREF where
  "COLOR_INQUIRY_COLOR = 0xfeffffff"

definition INVALID_COLOR :: COLORREF where
  "INVALID_COLOR = 0xffffffff"

definition MAX_URL_LENGTH :: nat where
  "MAX_URL_LENGTH = 2 * 1048576"

fun pair_up :: "'a list \<Rightarrow> ('a \<times> 'a) list" where
  "pair_up (index # color # rest) = (index, color) # pair_up rest"
| "pair_up _ = []"

definition osc_color :: "wstring \<Rightarrow> COLORREF option" where
  "osc_color spec =
     (if spec = wstr ''?'' then Some COLOR_INQUIRY_COLOR
      else map_option color_COLORREF (ColorFromXTermColor spec))"

text \<open>The loop visits the parts two by two; a last part without a partner is skipped.\<close>

definition GetOscSetColorTable :: "wstring \<Rightarrow> (nat \<times> COLORREF) list option" where
  "GetOscSetColorTable str =
     (let parts = SplitString str 0x3B
      in if length parts < 2 then None
         else let entries = List.map_filter
                    (\<lambda>(index, color).
                       case StringToUint index of
                         None \<Rightarrow> None
                       | Some tableIndex \<Rightarrow> map_option (\<lambda>c. (unat tableIndex, c)) (osc_color color))
                    (pair_up parts)
              in if entries \<noteq> [] then Some entries else None)"

definition GetOscSetColor :: "wstring \<Rightarrow> COLORREF list option" where
  "GetOscSetColor str =
     (let parts = SplitString str 0x3B
      in if length parts < 1 then None
         else let rgbs = map (\<lambda>part. case osc_color part of Some c \<Rightarrow> c | None \<Rightarrow> INVALID_COLOR) parts
              in if rgbs \<noteq> [] then Some rgbs else None)"

text \<open>\<open>None\<close> is the result false; otherwise the content, or that the clipboard is queried.\<close>

definition GetOscSetClipboard :: "(byte list \<Rightarrow> wstring option) \<Rightarrow> wstring \<Rightarrow> wstring option option" where
  "GetOscSetClipboard u8u16 str =
     (case find_char str 0x3B 0 of
        None \<Rightarrow> None
      | Some pos \<Rightarrow>
          let substr = drop (pos + 1) str
          in if substr = wstr ''?'' then Some None
             else case Decode u8u16 substr of
                    Some (Some content) \<Rightarrow> Some (Some content)
                  | _ \<Rightarrow> None)"

text \<open>\<^verbatim>\<open>wstring_view::find\<close> of a string.\<close>

fun find_sub :: "wstring \<Rightarrow> wstring \<Rightarrow> nat option" where
  "find_sub [] needle = (if needle = [] then Some 0 else None)"
| "find_sub (c # cs) needle =
     (if take (length needle) (c # cs) = needle then Some 0 else map_option Suc (find_sub cs needle))"

definition ParseHyperlink :: "wstring \<Rightarrow> (wstring \<times> wstring) option" where
  "ParseHyperlink str =
     (if str = wstr '';'' then Some ([], [])
      else case find_char str 0x3B 0 of
             None \<Rightarrow> None
           | Some midPos \<Rightarrow>
               let uri = take MAX_URL_LENGTH (drop (midPos + 1) str);
                   paramParts = SplitString (take midPos str) 0x3A;
                   params = fold (\<lambda>part params.
                       case find_sub part (wstr ''id='') of
                         Some idPos \<Rightarrow> drop (idPos + 3) part
                       | None \<Rightarrow> params) paramParts []
               in Some (params, uri))"

fun reset_color_calls :: "wstring list \<Rightarrow> dispatch_call list" where
  "reset_color_calls [] = []"
| "reset_color_calls (c # cs) =
     (case parse_u64 c 10 of
        Some index \<Rightarrow> DC_Osc (ResetColorTableEntry (unat index)) # reset_color_calls cs
      | None \<Rightarrow> [])"

text \<open>The resource number goes up by one for each colour of the list.\<close>

fun set_color_calls :: "nat \<Rightarrow> COLORREF list \<Rightarrow> dispatch_call list" where
  "set_color_calls resource [] = []"
| "set_color_calls resource (color # colors) =
     (if color = COLOR_INQUIRY_COLOR then [DC_Osc (RequestXtermColorResource resource)]
      else if color \<noteq> INVALID_COLOR then [DC_Osc (SetXtermColorResource resource color)]
      else [])
     @ set_color_calls (resource + 1) colors"

definition osc_calls :: "(byte list \<Rightarrow> wstring option) \<Rightarrow> nat \<Rightarrow> wstring \<Rightarrow> dispatch_call list" where
  "osc_calls u8u16 parameter str =
     (if parameter \<in> {0, 1, 2, 21} then [DC_Osc (SetWindowTitle str)]
      else if parameter = 4 then
        case GetOscSetColorTable str of
          None \<Rightarrow> []
        | Some entries \<Rightarrow>
            map (\<lambda>(tableIndex, rgb). DC_Osc
                   (if rgb = COLOR_INQUIRY_COLOR then RequestColorTableEntry tableIndex
                    else SetColorTableEntry tableIndex rgb)) entries
      else if parameter \<in> {10, 11, 12, 17} then
        case GetOscSetColor str of
          None \<Rightarrow> []
        | Some colors \<Rightarrow> set_color_calls parameter colors
      else if parameter = 52 then
        case GetOscSetClipboard u8u16 str of
          Some (Some content) \<Rightarrow> [DC_Osc (SetClipboard content)]
        | _ \<Rightarrow> []
      else if parameter = 104 then
        if str = [] then [DC_Osc ResetColorTable]
        else case split_tokens str 0x3B of
               Some ts \<Rightarrow> reset_color_calls ts
             | None \<Rightarrow> []
      else if parameter \<in> {110, 111, 112, 117} then
        if str = [] then [DC_Osc (ResetXtermColorResource (parameter - 100))] else []
      else if parameter = 8 then
        case ParseHyperlink str of
          None \<Rightarrow> []
        | Some (params, uri) \<Rightarrow> [DC_Text (if uri = [] then EndHyperlink else AddHyperlink uri params)]
      else if parameter = 9 then [DC_Osc (DoConEmuAction str)]
      else if parameter = 1337 then [DC_Osc (DoITerm2Action str)]
      else if parameter = 133 then [DC_Osc (DoFinalTermAction str)]
      else if parameter = 633 then [DC_Osc (DoVsCodeAction str)]
      else if parameter = 9001 then [DC_Osc (DoWTAction str)]
      else [])"

section \<open>Actions\<close>

definition ClearLastChar :: "('d, 'h, 'c) osm \<Rightarrow> ('d, 'h, 'c) osm" where
  "ClearLastChar s = s\<lparr>sm_engine := (sm_engine s)\<lparr>oe_lastPrintedChar := AC_NUL\<rparr>\<rparr>"

definition SetLastChar :: "wchar \<Rightarrow> ('d, 'h, 'c) osm \<Rightarrow> ('d, 'h, 'c) osm" where
  "SetLastChar wc s =
     (if wc \<ge> AC_SPC then s\<lparr>sm_engine := (sm_engine s)\<lparr>oe_lastPrintedChar := wc\<rparr>\<rparr> else s)"

fun run_calls ::
  "('d, 'h, 'c) dispatch_ops \<Rightarrow> dispatch_call list \<Rightarrow> ('d, 'h, 'c) osm \<Rightarrow> unit outcome \<times> ('d, 'h, 'c) osm" where
  "run_calls d [] s = (Returned (), s)"
| "run_calls d (call # calls) s =
     (case td_Call d call s of
        (Returned _, s1) \<Rightarrow> run_calls d calls s1
      | (Threw, s1) \<Rightarrow> (Threw, s1))"

definition dispatch_and_clear ::
  "('d, 'h, 'c) dispatch_ops \<Rightarrow> dispatch_call list \<Rightarrow> ('d, 'h, 'c) osm \<Rightarrow> bool outcome \<times> ('d, 'h, 'c) osm" where
  "dispatch_and_clear d calls s =
     (case run_calls d calls s of
        (Returned _, s1) \<Rightarrow> (Returned True, ClearLastChar s1)
      | (Threw, s1) \<Rightarrow> (Threw, s1))"

definition dispatch_only ::
  "('d, 'h, 'c) dispatch_ops \<Rightarrow> dispatch_call list \<Rightarrow> ('d, 'h, 'c) osm \<Rightarrow> bool outcome \<times> ('d, 'h, 'c) osm" where
  "dispatch_only d calls s =
     (case run_calls d calls s of
        (Returned _, s1) \<Rightarrow> (Returned True, s1)
      | (Threw, s1) \<Rightarrow> (Threw, s1))"

definition out_ActionExecute ::
  "('d, 'h, 'c) dispatch_ops \<Rightarrow> wchar \<Rightarrow> ('d, 'h, 'c) osm \<Rightarrow> bool outcome \<times> ('d, 'h, 'c) osm" where
  "out_ActionExecute d wc = dispatch_and_clear d (execute_calls wc)"

definition out_ActionPrint ::
  "('d, 'h, 'c) dispatch_ops \<Rightarrow> wchar \<Rightarrow> ('d, 'h, 'c) osm \<Rightarrow> bool outcome \<times> ('d, 'h, 'c) osm" where
  "out_ActionPrint d wc s = dispatch_only d [DC_Text (Print wc)] (SetLastChar wc s)"

definition out_ActionPrintString ::
  "('d, 'h, 'c) dispatch_ops \<Rightarrow> wstring \<Rightarrow> ('d, 'h, 'c) osm \<Rightarrow> bool outcome \<times> ('d, 'h, 'c) osm" where
  "out_ActionPrintString d str s =
     (if str = [] then (Returned True, s)
      else dispatch_only d [DC_Text (PrintString str)] (SetLastChar (last str) s))"

definition out_ActionPassThroughString ::
  "wstring \<Rightarrow> ('d, 'h, 'c) osm \<Rightarrow> bool outcome \<times> ('d, 'h, 'c) osm" where
  "out_ActionPassThroughString str s = (Returned True, s)"

definition out_ActionEscDispatch ::
  "('d, 'h, 'c) dispatch_ops \<Rightarrow> VTID \<Rightarrow> ('d, 'h, 'c) osm \<Rightarrow> bool outcome \<times> ('d, 'h, 'c) osm" where
  "out_ActionEscDispatch d vid = dispatch_and_clear d (esc_calls vid)"

definition out_ActionVt52EscDispatch ::
  "('d, 'h, 'c) dispatch_ops \<Rightarrow> VTID \<Rightarrow> VTParameters \<Rightarrow> ('d, 'h, 'c) osm \<Rightarrow> bool outcome \<times> ('d, 'h, 'c) osm" where
  "out_ActionVt52EscDispatch d vid ps = dispatch_and_clear d (vt52_calls vid ps)"

definition out_ActionCsiDispatch ::
  "('d, 'h, 'c) dispatch_ops \<Rightarrow> VTID \<Rightarrow> VTParameters \<Rightarrow> ('d, 'h, 'c) osm \<Rightarrow> bool outcome \<times> ('d, 'h, 'c) osm" where
  "out_ActionCsiDispatch d vid ps s =
     (if hasSubParams ps \<and> \<not> CanSeqAcceptSubParam vid ps then (Returned True, s)
      else dispatch_and_clear d (csi_calls (oe_lastPrintedChar (sm_engine s)) vid ps) s)"

definition out_ActionDcsDispatch ::
  "('d, 'h, 'c) dispatch_ops \<Rightarrow> VTID \<Rightarrow> VTParameters \<Rightarrow> ('d, 'h, 'c) osm \<Rightarrow> 'h option outcome \<times> ('d, 'h, 'c) osm" where
  "out_ActionDcsDispatch d vid ps s =
     (case map_of dcs_table vid of
        None \<Rightarrow> (Returned None, ClearLastChar s)
      | Some f \<Rightarrow>
          (case td_DcsCall d (f ps) s of
             (Returned handler, s1) \<Rightarrow> (Returned handler, ClearLastChar s1)
           | (Threw, s1) \<Rightarrow> (Threw, s1)))"

definition out_ActionOscDispatch ::
  "('d, 'h, 'c) dispatch_ops \<Rightarrow> (byte list \<Rightarrow> wstring option) \<Rightarrow> int \<Rightarrow> wstring \<Rightarrow> ('d, 'h, 'c) osm \<Rightarrow>
   bool outcome \<times> ('d, 'h, 'c) osm" where
  "out_ActionOscDispatch d u8u16 parameter str = dispatch_and_clear d (osc_calls u8u16 (nat parameter) str)"

definition out_ActionSs3Dispatch ::
  "wchar \<Rightarrow> VTParameters \<Rightarrow> ('d, 'h, 'c) osm \<Rightarrow> bool outcome \<times> ('d, 'h, 'c) osm" where
  "out_ActionSs3Dispatch wc ps s = (Returned True, ClearLastChar s)"

definition OutputStateMachineEngine ::
  "('d, 'h, 'c) dispatch_ops \<Rightarrow> (byte list \<Rightarrow> wstring option) \<Rightarrow> ('d output_engine, 'h, 'c) engine_ops" where
  "OutputStateMachineEngine d u8u16 =
     \<lparr>op_EncounteredWin32InputModeSequence = (\<lambda>s. False),
      op_ActionExecute = out_ActionExecute d,
      op_ActionExecuteFromEscape = out_ActionExecute d,
      op_ActionPrint = out_ActionPrint d,
      op_ActionPrintString = out_ActionPrintString d,
      op_ActionPassThroughString = out_ActionPassThroughString,
      op_ActionEscDispatch = out_ActionEscDispatch d,
      op_ActionVt52EscDispatch = out_ActionVt52EscDispatch d,
      op_ActionCsiDispatch = out_ActionCsiDispatch d,
      op_ActionDcsDispatch = out_ActionDcsDispatch d,
      op_ActionOscDispatch = out_ActionOscDispatch d u8u16,
      op_ActionSs3Dispatch = out_ActionSs3Dispatch,
      op_StringHandler = td_StringHandler d,
      op_CsiComplete = td_CsiComplete d\<rparr>"

definition OutputEngine_init :: "'d \<Rightarrow> 'd output_engine" where
  "OutputEngine_init dispatch = \<lparr>oe_dispatch = dispatch, oe_lastPrintedChar = AC_NUL\<rparr>"

end
