(* ===== verification/Parser_Safety.thy ===== *)
theory Parser_Safety
  imports Vt_Engine
begin

text \<open>
  Consequences of the engine contract, proved once inside the locale \<open>vt_engine\<close>: the flush and
  every guarded action return, every event handler returns and keeps the parser invariant, and so
  do \<open>ProcessCharacter\<close>, the loops of \<open>ProcessString\<close> and \<open>ProcessString\<close> itself.
\<close>

context vt_engine
begin

section \<open>Flush and guarded actions\<close>

lemma SafeExecute_with_PassThrough:
  "\<exists>b s'. SafeExecute_with flush (op_ActionPassThroughString ops str) s = Some (b, s') \<and> action_frame s s'"
  using pass_through_accepts [of str s] frame_PassThroughString [of s str]
  by (cases "op_ActionPassThroughString ops str s"; cases "fst (op_ActionPassThroughString ops str s)")
    (auto simp: SafeExecute_with_def intro: engine_frame_action_frame)

lemma SafeExecute_with_run:
  "\<exists>b s'. SafeExecute_with flush
      (\<lambda>t. case CurrentRun t of None \<Rightarrow> (Threw, t) | Some run \<Rightarrow> op_ActionPassThroughString ops run t) s
      = Some (b, s') \<and> action_frame s s'"
proof (cases "CurrentRun s")
  case None
  then show ?thesis by (auto simp: SafeExecute_with_def)
next
  case (Some run)
  then show ?thesis using SafeExecute_with_PassThrough [of flush run s] by (simp add: SafeExecute_with_def)
qed

lemma FlushToTerminal_total: "\<exists>b s'. FlushToTerminal ops s = Some (b, s') \<and> action_frame s s'"
proof -
  let ?run = "\<lambda>t. case CurrentRun t of None \<Rightarrow> (Threw, t) | Some run \<Rightarrow> op_ActionPassThroughString ops run t"
  have second: "\<exists>b s'. (if ok then SafeExecute_with (FlushToTerminal ops) ?run t else Some (ok, t)) = Some (b, s')
      \<and> action_frame s s'" if "action_frame s t" for ok t
    using SafeExecute_with_run [of "FlushToTerminal ops" t] action_frame_trans [OF that] that by (cases ok) auto
  show ?thesis
  proof (cases "sm_cachedSequence s")
    case None
    then show ?thesis using second [of s True] by (subst FlushToTerminal.simps) simp
  next
    case (Some cached)
    obtain b t where t: "SafeExecute_with (FlushToTerminal ops) (op_ActionPassThroughString ops cached) s = Some (b, t)"
      and frame: "action_frame s t" using SafeExecute_with_PassThrough by blast
    have "action_frame s (t\<lparr>sm_cachedSequence := None\<rparr>)"
      by (rule action_frame_trans [OF frame]) simp
    from second [OF this, of b] t Some show ?thesis by (subst FlushToTerminal.simps) simp
  qed
qed

lemma execute_action_total:
  "\<exists>s'. execute_action ops lambda s = Some s' \<and> action_frame (snd (lambda s)) s'"
proof (cases "lambda s")
  case (Pair r t)
  then show ?thesis
    using FlushToTerminal_total [of t]
    by (cases r) (auto simp: execute_action_def SafeExecute_def SafeExecute_with_def)
qed

lemma execute_action_frame:
  assumes "engine_frame s (snd (lambda s))"
  shows "\<exists>s'. execute_action ops lambda s = Some s' \<and> action_frame s s'"
  using execute_action_total [of lambda s] engine_frame_action_frame [OF assms] action_frame_trans by blast

lemma Action_frames:
  "\<exists>s'. ActionExecute ops wc s = Some s' \<and> action_frame s s'"
  "\<exists>s'. ActionExecuteFromEscape ops wc s = Some s' \<and> action_frame s s'"
  "\<exists>s'. ActionPrint ops wc s = Some s' \<and> action_frame s s'"
  "\<exists>s'. ActionPrintString ops str s = Some s' \<and> action_frame s s'"
  "\<exists>s'. ActionEscDispatch ops wc s = Some s' \<and> action_frame s s'"
  "\<exists>s'. ActionVt52EscDispatch ops wc s = Some s' \<and> action_frame s s'"
  "\<exists>s'. ActionCsiDispatch ops wc s = Some s' \<and> action_frame s s'"
  "\<exists>s'. ActionOscDispatch ops s = Some s' \<and> action_frame s s'"
  "\<exists>s'. ActionSs3Dispatch ops wc s = Some s' \<and> action_frame s s'"
  unfolding ActionExecute_def ActionExecuteFromEscape_def ActionPrint_def ActionPrintString_def
    ActionEscDispatch_def ActionVt52EscDispatch_def ActionCsiDispatch_def ActionOscDispatch_def
    ActionSs3Dispatch_def
  by (rule execute_action_frame,
      simp add: frame_Execute frame_ExecuteFromEscape frame_Print frame_PrintString frame_EscDispatch
        frame_Vt52EscDispatch frame_CsiDispatch frame_OscDispatch frame_Ss3Dispatch)+

lemma step_ok_action:
  assumes "\<exists>s'. r = Some s' \<and> action_frame s s'" "sm_inv s"
  shows "step_ok s r" "step_ok s (map_option EnterGround r)"
  using assms by (auto simp: action_frame_inv action_frame_run_frame sm_inv_EnterGround)

lemma step_ok_ActionExecute: "sm_inv s \<Longrightarrow> step_ok s (ActionExecute ops wc s)"
  by (rule step_ok_action) (rule Action_frames)

lemma step_ok_Ground_actions:
  assumes "sm_inv s"
  shows "step_ok s (map_option EnterGround (ActionExecuteFromEscape ops wc s))"
    "step_ok s (map_option EnterGround (ActionEscDispatch ops wc s))"
    "step_ok s (map_option EnterGround (ActionVt52EscDispatch ops wc s))"
    "step_ok s (map_option EnterGround (ActionOscDispatch ops s))"
    "step_ok s (map_option EnterGround (ActionSs3Dispatch ops wc s))"
  by (rule step_ok_action [OF _ assms], rule Action_frames)+

lemma ExecuteCsiCompleteCallback_ok:
  assumes "sm_inv s" "sm_state s = Ground"
  shows "step_ok s (ExecuteCsiCompleteCallback ops s)"
proof (cases "sm_onCsiCompleteCallback s")
  case None
  then show ?thesis using assms by (simp add: ExecuteCsiCompleteCallback_def)
next
  case (Some cb)
  let ?t = "s\<lparr>sm_onCsiCompleteCallback := None\<rparr>"
  obtain s' where "op_CsiComplete ops cb ?t = Some s'" "sm_inv s'" "sm_isEngineForInput s' = sm_isEngineForInput s"
    using callback_ok [of ?t cb] assms by auto
  then show ?thesis using Some by (simp add: ExecuteCsiCompleteCallback_def) (simp add: run_frame_def)
qed

lemma step_ok_Csi:
  assumes "sm_inv s"
  shows "step_ok s (ActionCsiDispatch ops wc s \<bind> (\<lambda>s1. ExecuteCsiCompleteCallback ops (EnterGround s1)))"
proof -
  have "step_ok s (map_option EnterGround (ActionCsiDispatch ops wc s))"
    by (rule step_ok_action [OF _ assms]) (rule Action_frames)
  then obtain s1 where s1: "ActionCsiDispatch ops wc s = Some s1" "sm_inv (EnterGround s1)" "run_frame s (EnterGround s1)"
    by (auto simp: step_ok_iff)
  have "step_ok (EnterGround s1) (ExecuteCsiCompleteCallback ops (EnterGround s1))"
    by (rule ExecuteCsiCompleteCallback_ok [OF s1(2)]) (simp add: EnterGround_def)
  with s1 show ?thesis by (auto simp: step_ok_iff run_frame_def)
qed

lemma ActionDcsDispatch_ok:
  assumes "pinv s" "rest_ok s"
  shows "step_ok s (ActionDcsDispatch ops wc s)"
proof -
  let ?l = "\<lambda>t. case op_ActionDcsDispatch ops (Finalize wc (sm_identifier t)) (VTParameters_of (sm_parameters t)) t of
              (Returned handler, t1) \<Rightarrow> (Returned True, t1\<lparr>sm_dcsStringHandler := handler\<rparr>)
            | (Threw, t1) \<Rightarrow> (Threw, t1)"
  obtain s1 where s1: "execute_action ops ?l s = Some s1" "action_frame (snd (?l s)) s1"
    using execute_action_total [of ?l s] by blast
  have "\<exists>h. snd (?l s) = (snd (op_ActionDcsDispatch ops (Finalize wc (sm_identifier s)) (VTParameters_of (sm_parameters s)) s))
      \<lparr>sm_dcsStringHandler := h\<rparr>"
    by (auto split: prod.splits outcome.splits intro: same_handler)
  with engine_frame_action_frame [OF frame_DcsDispatch] have "\<exists>h t. snd (?l s) = t\<lparr>sm_dcsStringHandler := h\<rparr> \<and> action_frame s t"
    by blast
  with s1(2) have "pinv s1" "rest_ok s1" "run_frame s s1"
    using assms by (auto simp: pinv_def params_wf_def rest_ok_def run_frame_def action_frame_fields)
  with s1(1) show ?thesis
    by (auto simp: ActionDcsDispatch_def step_ok_def sm_inv_Enter_plain)
     (simp add: EnterDcsPassThrough_def sm_inv_def pinv_def rest_ok_def params_wf_def)
qed

section \<open>Events\<close>

lemma EventGround_ok: "sm_inv s \<Longrightarrow> step_ok s (EventGround ops wc s)"
  unfolding EventGround_def using step_ok_action(1) [OF Action_frames(3)] by (simp add: step_ok_ActionExecute)

lemma EventEscape_ok:
  assumes "sm_inv s" "sm_state s = Escape"
  shows "step_ok s (EventEscape ops wc s)"
proof -
  have p: "pinv s" "rest_ok s" using sm_inv_pinv [OF assms(1)] sm_inv_rest_ok [OF assms(1)] assms(2) by simp_all
  have "sm_inv (EnterEscapeIntermediate (ActionCollect wc s))" "sm_inv (EnterVt52Param s)"
    using assms ActionCollect_inv [OF assms(1), of wc] by (auto simp: sm_defs sm_inv_def ActionCollect_def params_wf_def)
  then show ?thesis
    unfolding EventEscape_def ActionIgnore_def
    using step_ok_ActionExecute [OF assms(1)] step_ok_Ground_actions [OF assms(1)] sm_inv_Enter_plain [OF p] assms
    by simp
qed

lemma EventEscapeIntermediate_ok:
  assumes "sm_inv s" "sm_state s = EscapeIntermediate"
  shows "step_ok s (EventEscapeIntermediate ops wc s)"
proof -
  have "sm_inv (EnterVt52Param s)" using assms by (auto simp: sm_defs sm_inv_def)
  then show ?thesis
    unfolding EventEscapeIntermediate_def ActionIgnore_def
    using step_ok_ActionExecute [OF assms(1)] step_ok_Ground_actions [OF assms(1)] assms
    by (simp add: ActionCollect_inv)
qed

text \<open>The moves the CSI, SS3 and DCS states share.\<close>

lemma collect_moves:
  assumes "pinv s" "rest_ok s"
  shows "step_ok s (Some (EnterCsiIntermediate (ActionCollect wc s)))"
    "step_ok s (Some (EnterDcsIntermediate (ActionCollect wc s)))"
    "step_ok s (Some (EnterCsiParam (ActionCollect wc s)))"
  using ActionCollect_parts [OF assms, of wc]
  by (simp_all add: sm_inv_Enter_plain)

lemma param_moves:
  assumes "pinv s" "rest_ok s" "isNumericParamValue wc \<or> isParameterDelimiter wc"
  shows "step_ok s (Some (EnterCsiParam (ActionParam wc s)))"
    "step_ok s (Some (EnterSs3Param (ActionParam wc s)))"
    "step_ok s (Some (EnterDcsParam (ActionParam wc s)))"
  using ActionParam_parts [OF assms] ActionParam_frame [of s wc]
  by (simp_all add: sm_inv_Enter_plain param_frame_def)

lemma param_stay:
  assumes "sm_inv s" "sm_state s \<in> {CsiParam, Ss3Param, DcsParam}" "isNumericParamValue wc \<or> isParameterDelimiter wc"
  shows "step_ok s (Some (ActionParam wc s))"
proof -
  have "pinv s" "rest_ok s" using sm_inv_pinv [OF assms(1)] sm_inv_rest_ok [OF assms(1)] assms(2) by auto
  from ActionParam_parts [OF this assms(3)] ActionParam_frame [of s wc] assms(2) show ?thesis
    by (auto simp: param_frame_def intro!: sm_inv_plain)
qed

lemma subparam_moves:
  assumes "pinv s" "rest_ok s"
    "isNumericParamValue wc \<and> sm_subParameters s \<noteq> [] \<or> isSubParameterDelimiter wc"
  shows "step_ok s (map_option EnterCsiSubParam (ActionSubParam wc s))"
proof -
  obtain s' where s': "ActionSubParam wc s = Some s'" "pinv s'" "sm_subParameters s' \<noteq> []"
    using ActionSubParam_pinv [OF assms(1,3)] by blast
  with assms(2) ActionSubParam_frame [OF s'(1)] show ?thesis
    by (auto simp: EnterCsiSubParam_def sm_inv_def pinv_def params_wf_def param_frame_def rest_ok_def run_frame_def)
qed

lemma subparam_stay:
  assumes "sm_inv s" "sm_state s = CsiSubParam" "isNumericParamValue wc \<or> isSubParameterDelimiter wc"
  shows "step_ok s (ActionSubParam wc s)"
proof -
  have "pinv s" "rest_ok s" "sm_subParameters s \<noteq> []"
    using sm_inv_pinv [OF assms(1)] sm_inv_rest_ok [OF assms(1)] assms(1,2) by (simp_all add: sm_inv_def)
  moreover from this have "step_ok s (map_option EnterCsiSubParam (ActionSubParam wc s))"
    using subparam_moves assms(3) by blast
  moreover have "EnterCsiSubParam s' = s'" if "ActionSubParam wc s = Some s'" for s'
    using ActionSubParam_frame [OF that] assms(2) by (simp add: param_frame_def EnterCsiSubParam_def)
  ultimately show ?thesis by (auto simp: step_ok_iff)
qed

lemma EventCsi_ok:
  assumes inv: "sm_inv s"
  shows "sm_state s = CsiEntry \<Longrightarrow> step_ok s (EventCsiEntry ops wc s)"
    "sm_state s = CsiIntermediate \<Longrightarrow> step_ok s (EventCsiIntermediate ops wc s)"
    "sm_state s = CsiIgnore \<Longrightarrow> step_ok s (EventCsiIgnore ops wc s)"
    "sm_state s = CsiParam \<Longrightarrow> step_ok s (EventCsiParam ops wc s)"
    "sm_state s = CsiSubParam \<Longrightarrow> step_ok s (EventCsiSubParam ops wc s)"
proof -
  note acts = step_ok_ActionExecute [OF inv] step_ok_Csi [OF inv]
  have p: "pinv s" "rest_ok s" if "sm_state s \<notin> {Ground, Vt52Param}"
    using sm_inv_pinv [OF inv that] sm_inv_rest_ok [OF inv] by simp_all
  { assume st: "sm_state s = CsiEntry"
    then have p: "pinv s" "rest_ok s" using p by simp_all
    show "step_ok s (EventCsiEntry ops wc s)"
      unfolding EventCsiEntry_def ActionIgnore_def
      using acts collect_moves [OF p] param_moves [OF p] subparam_moves [OF p] inv
      by (simp del: step_ok_Some) simp }
  { assume st: "sm_state s = CsiIntermediate"
    then have p: "pinv s" "rest_ok s" using p by simp_all
    show "step_ok s (EventCsiIntermediate ops wc s)"
      unfolding EventCsiIntermediate_def ActionIgnore_def
      using acts inv by (simp add: ActionCollect_inv sm_inv_Enter_plain [OF p]) }
  { assume st: "sm_state s = CsiIgnore"
    then show "step_ok s (EventCsiIgnore ops wc s)"
      unfolding EventCsiIgnore_def ActionIgnore_def using acts inv by (simp add: sm_inv_EnterGround) }
  { assume st: "sm_state s = CsiParam"
    then have p: "pinv s" "rest_ok s" using p by simp_all
    show "step_ok s (EventCsiParam ops wc s)"
      unfolding EventCsiParam_def ActionIgnore_def
      using acts collect_moves [OF p] param_stay [OF inv] subparam_moves [OF p] sm_inv_Enter_plain [OF p] inv st
      by (simp del: step_ok_Some) simp }
  { assume st: "sm_state s = CsiSubParam"
    then have p: "pinv s" "rest_ok s" using p by simp_all
    show "step_ok s (EventCsiSubParam ops wc s)"
      unfolding EventCsiSubParam_def ActionIgnore_def
      using acts collect_moves [OF p] param_moves [OF p] subparam_stay [OF inv st] sm_inv_Enter_plain [OF p] inv
      by (simp del: step_ok_Some) simp }
qed

lemma EventOsc_ok:
  assumes inv: "sm_inv s"
  shows "sm_state s = OscParam \<Longrightarrow> step_ok s (EventOscParam ops wc s)"
    "sm_state s = OscString \<Longrightarrow> step_ok s (EventOscString ops wc s)"
    "sm_state s = OscTermination \<Longrightarrow> step_ok s (EventOscTermination ops wc s)"
proof -
  note acts = step_ok_Ground_actions [OF inv]
  have p: "pinv s" "rest_ok s" if "sm_state s \<notin> {Ground, Vt52Param}"
    using sm_inv_pinv [OF inv that] sm_inv_rest_ok [OF inv] by simp_all
  { assume st: "sm_state s = OscParam"
    then have p: "pinv s" "rest_ok s" using p by simp_all
    have "sm_inv (ActionOscParam wc s)" if "isNumericParamValue wc"
      using inv st AccumulateTo_bounds [OF that, of "sm_oscParameter s"]
      by (simp add: ActionOscParam_def sm_inv_def params_wf_def)
    moreover have "run_frame s (ActionOscParam wc s)" by (simp add: ActionOscParam_def run_frame_def)
    ultimately show "step_ok s (EventOscParam ops wc s)"
      unfolding EventOscParam_def ActionIgnore_def using acts inv by (simp add: sm_inv_Enter_plain [OF p]) }
  { assume st: "sm_state s = OscString"
    then have p: "pinv s" "rest_ok s" using p by simp_all
    have "sm_inv (ActionOscPut wc s)" "run_frame s (ActionOscPut wc s)"
      using inv st by (simp_all add: ActionOscPut_def sm_inv_def params_wf_def run_frame_def)
    then show "step_ok s (EventOscString ops wc s)"
      unfolding EventOscString_def ActionIgnore_def using acts inv by (simp add: sm_inv_Enter_plain [OF p]) }
  { assume st: "sm_state s = OscTermination"
    have "step_ok (EnterEscape s) (EventEscape ops wc (EnterEscape s))"
      by (rule EventEscape_ok) (simp_all add: EnterEscape_def sm_inv_cleared, simp add: ActionClear_def)
    then have "step_ok s (EventEscape ops wc (EnterEscape s))"
      by (auto simp: step_ok_iff)
    then show "step_ok s (EventOscTermination ops wc s)"
      unfolding EventOscTermination_def using acts by simp }
qed

lemma EventSs3_ok:
  assumes inv: "sm_inv s"
  shows "sm_state s = Ss3Entry \<Longrightarrow> step_ok s (EventSs3Entry ops wc s)"
    "sm_state s = Ss3Param \<Longrightarrow> step_ok s (EventSs3Param ops wc s)"
proof -
  note acts = step_ok_ActionExecute [OF inv] step_ok_Ground_actions [OF inv]
  have p: "pinv s" "rest_ok s" if "sm_state s \<notin> {Ground, Vt52Param}"
    using sm_inv_pinv [OF inv that] sm_inv_rest_ok [OF inv] by simp_all
  { assume st: "sm_state s = Ss3Entry"
    then have p: "pinv s" "rest_ok s" using p by simp_all
    show "step_ok s (EventSs3Entry ops wc s)"
      unfolding EventSs3Entry_def ActionIgnore_def
      using acts param_moves [OF p] sm_inv_Enter_plain [OF p] inv by simp }
  { assume st: "sm_state s = Ss3Param"
    then have p: "pinv s" "rest_ok s" using p by simp_all
    show "step_ok s (EventSs3Param ops wc s)"
      unfolding EventSs3Param_def ActionIgnore_def
      using acts param_stay [OF inv] sm_inv_Enter_plain [OF p] inv st by simp }
qed

lemma EventVt52Param_ok:
  assumes inv: "sm_inv s" and st: "sm_state s = Vt52Param"
  shows "step_ok s (EventVt52Param ops wc s)"
proof -
  let ?s = "s\<lparr>sm_parameters := sm_parameters s @ [VTParameter (int (unat wc))]\<rparr>"
  have ok: "param_ok (VTParameter (int (unat wc)))"
    by (simp add: param_ok_def MAX_PARAMETER_VALUE_def del: of_nat_unat) (use unat_wchar_less [of wc] in linarith)
  have more: "sm_inv ?s" if "length (sm_parameters s) \<noteq> 1"
    using inv st that ok by (auto simp: sm_inv_def less_2_cases_iff)
  obtain t where t: "ActionVt52EscDispatch ops 0x59 ?s = Some t" "action_frame ?s t" using Action_frames(6) by blast
  have "sm_inv (EnterGround t)" using inv ok t(2) by (simp add: EnterGround_def sm_inv_def action_frame_fields)
  moreover have "run_frame s t" using action_frame_run_frame [OF t(2)] by (simp add: run_frame_def)
  moreover have "run_frame s ?s" by (simp add: run_frame_def)
  ultimately show ?thesis
    unfolding EventVt52Param_def ActionIgnore_def Let_def
    using step_ok_ActionExecute [OF inv] inv t(1) more by simp
qed

lemma EventDcs_ok:
  assumes inv: "sm_inv s"
  shows "sm_state s = DcsEntry \<Longrightarrow> step_ok s (EventDcsEntry ops wc s)"
    "sm_state s = DcsIntermediate \<Longrightarrow> step_ok s (EventDcsIntermediate ops wc s)"
    "sm_state s = DcsParam \<Longrightarrow> step_ok s (EventDcsParam ops wc s)"
proof -
  have p: "pinv s" "rest_ok s" if "sm_state s \<notin> {Ground, Vt52Param}"
    using sm_inv_pinv [OF inv that] sm_inv_rest_ok [OF inv] by simp_all
  { assume st: "sm_state s = DcsEntry"
    then have p: "pinv s" "rest_ok s" using p by simp_all
    show "step_ok s (EventDcsEntry ops wc s)"
      unfolding EventDcsEntry_def ActionIgnore_def
      using collect_moves [OF p] param_moves [OF p] ActionDcsDispatch_ok [OF p] sm_inv_Enter_plain [OF p] inv by simp }
  { assume st: "sm_state s = DcsIntermediate"
    then have p: "pinv s" "rest_ok s" using p by simp_all
    show "step_ok s (EventDcsIntermediate ops wc s)"
      unfolding EventDcsIntermediate_def ActionIgnore_def
      using ActionDcsDispatch_ok [OF p] sm_inv_Enter_plain [OF p] inv by (simp add: ActionCollect_inv) }
  { assume st: "sm_state s = DcsParam"
    then have p: "pinv s" "rest_ok s" using p by simp_all
    show "step_ok s (EventDcsParam ops wc s)"
      unfolding EventDcsParam_def ActionIgnore_def Let_def
      using collect_moves [OF p] param_stay [OF inv] ActionDcsDispatch_ok [OF p] sm_inv_Enter_plain [OF p] inv st by simp }
qed

lemma StringHandler_cases:
  obtains ok s1 where "op_StringHandler ops h wc s = (Returned ok, s1)" "action_frame s s1"
proof -
  obtain r s1 where r: "op_StringHandler ops h wc s = (r, s1)" by fastforce
  then obtain ok where "r = Returned ok" using handler_returns [of h wc s] by (cases r) auto
  with r that show thesis using engine_frame_action_frame [OF frame_StringHandler, of s h wc] by simp
qed

lemma EventDcsPassThrough_ok:
  assumes inv: "sm_inv s" and st: "sm_state s = DcsPassThrough"
  shows "step_ok s (EventDcsPassThrough ops wc s)"
proof -
  obtain h where h: "sm_dcsStringHandler s = Some h" using assms by (auto simp: sm_inv_def)
  obtain ok s1 where s1: "op_StringHandler ops h wc s = (Returned ok, s1)" and frame: "action_frame s s1"
    by (rule StringHandler_cases)
  then have inv1: "sm_inv s1" "run_frame s s1" using inv action_frame_inv action_frame_run_frame by blast+
  moreover from inv1 have "pinv s1" "rest_ok s1"
    using sm_inv_pinv [of s1] sm_inv_rest_ok [of s1] frame st by (simp_all add: action_frame_fields)
  ultimately show ?thesis
    unfolding EventDcsPassThrough_def ActionIgnore_def using h s1 inv by (simp add: sm_inv_Enter_plain)
qed

lemma ActionInterrupt_ok:
  assumes inv: "sm_inv s"
  shows "\<exists>s'. ActionInterrupt ops s = Some s' \<and> run_frame s s' \<and> sm_state s' = sm_state s
    \<and> sm_inv (s'\<lparr>sm_state := Ground\<rparr>)"
proof (cases "sm_state s = DcsPassThrough")
  case True
  then obtain h where h: "sm_dcsStringHandler s = Some h" using inv by (auto simp: sm_inv_def)
  obtain ok s1 where "op_StringHandler ops h AC_ESC s = (Returned ok, s1)" "action_frame s s1"
    by (rule StringHandler_cases)
  then show ?thesis
    using True h inv by (simp add: ActionInterrupt_def action_frame_fields run_frame_def sm_inv_def)
next
  case False
  then show ?thesis using inv by (simp add: ActionInterrupt_def sm_inv_def)
qed

section \<open>Characters and strings\<close>

lemma cancel_ok:
  assumes inv: "sm_inv s"
  shows "\<exists>t. (ActionInterrupt ops s \<bind> (\<lambda>s1. ActionExecute ops wc s1 \<bind> (\<lambda>s2. Some (EnterGround s2)))) = Some t
    \<and> sm_inv t \<and> run_frame s t \<and> sm_state t = Ground \<and> sm_cachedSequence t = None"
proof -
  obtain s1 where s1: "ActionInterrupt ops s = Some s1" "run_frame s s1" "sm_inv (s1\<lparr>sm_state := Ground\<rparr>)"
    using ActionInterrupt_ok [OF inv] by blast
  obtain s2 where s2: "ActionExecute ops wc s1 = Some s2" "action_frame s1 s2" using Action_frames(1) by blast
  have "sm_inv (EnterGround s2)"
    using s1(3) s2(2) by (simp add: EnterGround_def sm_inv_def action_frame_fields)
  moreover have "run_frame s s2" using run_frame_trans [OF s1(2) action_frame_run_frame [OF s2(2)]] .
  ultimately show ?thesis using s1(1) s2(1) by simp (simp add: EnterGround_def)
qed

lemma ProcessCharacter_cancel:
  assumes "sm_inv s" "wc = AC_CAN \<or> wc = AC_SUB" "\<not> (sm_state s = Escape \<and> sm_isEngineForInput s)"
  shows "\<exists>t. ProcessCharacter ops wc s = Some t \<and> sm_inv t \<and> run_frame s t
    \<and> sm_state t = Ground \<and> sm_cachedSequence t = None"
  using assms cancel_ok [OF assms(1), of wc] by (simp add: ProcessCharacter.simps [of ops wc s])

lemma ProcessCharacter_escape:
  assumes "sm_inv s" "sm_state s \<noteq> OscString" "sm_state s \<noteq> OscParam"
  shows "\<exists>t. ProcessCharacter ops AC_ESC s = Some (EnterEscape t) \<and> run_frame s t"
  using assms ActionInterrupt_ok [OF assms(1)]
  by (auto simp: ProcessCharacter.simps [of ops AC_ESC s] isEscape_def)

lemma ProcessCharacter_nonC1_ok:
  assumes inv: "sm_inv s" and wc: "\<not> isC1ControlCharacter wc"
  shows "step_ok s (ProcessCharacter ops wc s)"
proof (cases "(wc = AC_CAN \<or> wc = AC_SUB) \<and> \<not> (sm_state s = Escape \<and> sm_isEngineForInput s)")
  case True
  then show ?thesis using ProcessCharacter_cancel [OF inv, of wc] by (auto simp: step_ok_iff)
next
  case no_cancel: False
  show ?thesis
  proof (cases "isEscape wc \<and> sm_state s \<noteq> OscString \<and> sm_state s \<noteq> OscParam")
    case True
    then show ?thesis using ProcessCharacter_escape [OF inv] by (auto simp: step_ok_iff isEscape_def)
  next
    case False
    show ?thesis
      unfolding ProcessCharacter.simps [of ops wc s] if_not_P [OF no_cancel] if_not_P [OF wc] if_not_P [OF False]
      using inv EventGround_ok EventEscape_ok EventEscapeIntermediate_ok EventCsi_ok EventOsc_ok EventSs3_ok
        EventVt52Param_ok EventDcs_ok EventDcsPassThrough_ok
      by (simp add: EventDcsIgnore_def EventSosPmApcString_def ActionIgnore_def split: VTStates.split)
  qed
qed

lemma ProcessCharacter_ok:
  assumes inv: "sm_inv s"
  shows "step_ok s (ProcessCharacter ops wc s)"
proof (cases "isC1ControlCharacter wc")
  case True
  then have ne: "wc \<noteq> AC_CAN" "wc \<noteq> AC_SUB" by (auto simp: isC1ControlCharacter_def)
  have "step_ok s (ProcessCharacter ops AC_ESC s \<bind> ProcessCharacter ops (c1To7Bit wc))"
    by (rule step_ok_bind) (simp_all add: inv ProcessCharacter_nonC1_ok isC1_c1To7Bit [OF True])
  then show ?thesis using True ne inv by (simp add: ProcessCharacter.simps [of ops wc s])
qed (simp add: inv ProcessCharacter_nonC1_ok)

lemma ProcessString_chars_ok:
  "i < length str \<Longrightarrow> sm_inv s \<Longrightarrow> run_at str i s \<Longrightarrow>
   \<exists>j s'. ProcessString_chars ops str i s = Some (j, s') \<and> sm_inv s' \<and> run_at str j s'
     \<and> sm_isEngineForInput s' = sm_isEngineForInput s \<and> i < j \<and> 0 < sm_runSize s'
     \<and> (sm_state s' = Ground \<or> j = length str)"
proof (induction "length str - i" arbitrary: i s rule: less_induct)
  case less
  let ?s = "s\<lparr>sm_runSize := sm_runSize s + 1, sm_processingLastCharacter := (i + 1 \<ge> length str)\<rparr>"
  have "sm_inv ?s" "run_at str (i + 1) ?s"
    using less.prems by (simp_all add: run_at_def)
  then obtain s1 where s1: "ProcessCharacter ops (str ! i) ?s = Some s1" "sm_inv s1" "run_frame ?s s1"
    using ProcessCharacter_ok by (metis step_ok_iff)
  then have at: "run_at str (i + 1) s1" "sm_isEngineForInput s1 = sm_isEngineForInput s" "0 < sm_runSize s1"
    using \<open>run_at str (i + 1) ?s\<close> by (auto simp: run_frame_def run_at_def)
  show ?case
  proof (cases "i + 1 < length str \<and> sm_state s1 \<noteq> Ground")
    case True
    then obtain j s' where "ProcessString_chars ops str (i + 1) s1 = Some (j, s')" "sm_inv s'" "run_at str j s'"
      "sm_isEngineForInput s' = sm_isEngineForInput s1" "i + 1 < j" "0 < sm_runSize s'"
      "sm_state s' = Ground \<or> j = length str"
      using less.hyps [OF _ _ s1(2) at(1)] diff_less_mono2 [of i "i + 1"] less.prems(1) by auto
    then show ?thesis
      using True s1(1) at(2) less.prems(1) by (simp add: ProcessString_chars.simps [of ops str i s])
  next
    case False
    then show ?thesis
      using s1 at less.prems(1) by (auto simp: ProcessString_chars.simps [of ops str i s])
  qed
qed

lemma ProcessString_print_ok:
  assumes "i < length str" "sm_inv s" "sm_currentString s = str" "sm_state s = Ground"
  shows "\<exists>j s'. ProcessString_print ops str i s = Some (j, s') \<and> sm_inv s' \<and> run_at str j s'
     \<and> sm_isEngineForInput s' = sm_isEngineForInput s \<and> i \<le> j \<and> sm_state s' = Ground"
proof -
  define n where "n = FindActionableControlCharacter (drop i str)"
  let ?s = "s\<lparr>sm_runOffset := i, sm_runSize := n\<rparr>"
  have n: "i + n \<le> length str"
    using plainSearch_le [of "drop i str"] assms(1)
    by (simp add: n_def FindActionableControlCharacter_plain)
  then have at: "run_at str (i + n) ?s" using assms(3) by (simp add: run_at_def)
  have inv: "sm_inv ?s" "sm_state ?s = Ground" using assms(2,4) by (simp_all add: sm_inv_def)
  obtain s2 where s2: "ActionPrintString ops (take n (drop i str)) ?s = Some s2" "action_frame ?s s2"
    using Action_frames(4) by blast
  have "sm_inv s2" "run_at str (i + n) s2" "sm_state s2 = Ground"
    using inv at action_frame_inv [OF s2(2)] run_at_frame [OF action_frame_run_frame [OF s2(2)]]
    by (simp_all add: action_frame_fields [OF s2(2)])
  then show ?thesis
    unfolding ProcessString_print_def n_def [symmetric] Let_def
    using run_at_CurrentRun [OF at] s2 inv at n by (simp add: action_frame_fields sm_inv_def run_at_def)
qed

lemma ProcessString_loop_ok:
  "sm_inv s \<Longrightarrow> sm_currentString s = str \<Longrightarrow>
   (i < length str \<Longrightarrow> sm_state s = Ground) \<Longrightarrow>
   (i \<ge> length str \<Longrightarrow> run_at str (length str) s \<and> (sm_state s = Ground \<or> 0 < sm_runSize s)) \<Longrightarrow>
   \<exists>s'. ProcessString_loop ops str i s = Some s' \<and> sm_inv s' \<and> run_at str (length str) s'
     \<and> sm_isEngineForInput s' = sm_isEngineForInput s \<and> (sm_state s' = Ground \<or> 0 < sm_runSize s')"
proof (induction "length str - i" arbitrary: i s rule: less_induct)
  case less
  show ?case
  proof (cases "i < length str")
    case True
    with less.prems obtain j s1 where s1: "ProcessString_print ops str i s = Some (j, s1)" "sm_inv s1" "run_at str j s1"
      "sm_isEngineForInput s1 = sm_isEngineForInput s" "i \<le> j" "sm_state s1 = Ground"
      using ProcessString_print_ok by blast
    show ?thesis
    proof (cases "j < length str")
      case j: True
      then obtain k s2 where s2: "ProcessString_chars ops str j s1 = Some (k, s2)" "sm_inv s2" "run_at str k s2"
        "sm_isEngineForInput s2 = sm_isEngineForInput s1" "j < k" "0 < sm_runSize s2" "sm_state s2 = Ground \<or> k = length str"
        using ProcessString_chars_ok s1 by blast
      have "\<exists>s'. ProcessString_loop ops str k s2 = Some s' \<and> sm_inv s' \<and> run_at str (length str) s'
          \<and> sm_isEngineForInput s' = sm_isEngineForInput s2 \<and> (sm_state s' = Ground \<or> 0 < sm_runSize s')"
        by (rule less.hyps) (use True s1 s2 in \<open>auto simp: run_at_def\<close>)
      then show ?thesis using True j s1 s2 by (simp add: ProcessString_loop.simps [of ops str i s])
    next
      case False
      then have "j = length str" using s1(3) by (simp add: run_at_def)
      then show ?thesis using True s1 by (simp add: ProcessString_loop.simps [of ops str i s])
    qed
  next
    case False
    then show ?thesis using less.prems by (simp add: ProcessString_loop.simps [of ops str i s])
  qed
qed

lemma ProcessString_end_ok:
  assumes inv: "sm_inv s" and at: "run_at str i s"
    and run: "sm_state s = Ground \<or> 0 < sm_runSize s \<or> \<not> sm_isEngineForInput s"
  shows "step_ok s (ProcessString_end ops s)"
proof (cases "sm_state s = Ground")
  case True
  then show ?thesis using inv by (simp add: ProcessString_end_def)
next
  case False
  obtain r where r1: "CurrentRun s = Some r" using run_at_CurrentRun [OF at] by blast
  have r: "CurrentRun s = Some r" "sm_isEngineForInput s \<Longrightarrow> r \<noteq> []"
    using r1 run_at_length [OF at r1] run False by auto
  show ?thesis
  proof (cases "sm_isEngineForInput s \<and> \<not> op_EncounteredWin32InputModeSequence ops s \<and> length r \<le> 2 \<and> hd r = 0x1B")
    case True
    let ?t = "if length r = 1 then ActionExecute ops 0x1B (EnterGround s)
              else ActionEscDispatch ops (last r) (EnterEscape (EnterGround s))"
    have "step_ok s (map_option EnterGround ?t)"
    proof (cases "length r = 1")
      case True
      then show ?thesis
        using step_ok_action(2) [OF Action_frames(1) sm_inv_EnterGround [OF inv]] by (simp add: step_ok_iff)
    next
      case False
      then show ?thesis
        using step_ok_action(2) [OF Action_frames(5) sm_inv_Enter_cleared(1), of "EnterGround s" "last r"]
        by (simp add: step_ok_iff)
    qed
    moreover have "ProcessString_end ops s = map_option EnterGround ?t"
      using True False r by (cases ?t) (simp_all add: ProcessString_end_def split del: if_split)
    ultimately show ?thesis by simp
  next
    case no: False
    let ?c = "Some ((case sm_cachedSequence s of None \<Rightarrow> [] | Some cached \<Rightarrow> cached) @ r)"
    from no consider "sm_isEngineForInput s" "op_EncounteredWin32InputModeSequence ops s"
      | "sm_isEngineForInput s" "\<not> length r \<le> 2" | "sm_isEngineForInput s" "hd r \<noteq> 0x1B"
      | "\<not> sm_isEngineForInput s" by blast
    then have "ProcessString_end ops s \<in> {Some s, Some (s\<lparr>sm_cachedSequence := ?c\<rparr>)}"
      using False r by cases (simp_all add: ProcessString_end_def del: bind_eq_Some_iff)
    then show ?thesis using inv by (auto simp: run_frame_def)
  qed
qed

lemma ProcessString_ok:
  assumes inv: "sm_inv s" and str: "str \<noteq> [] \<or> sm_state s = Ground \<or> \<not> sm_isEngineForInput s"
  shows "\<exists>s'. ProcessString ops str s = Some s' \<and> sm_inv s' \<and> sm_isEngineForInput s' = sm_isEngineForInput s"
proof -
  let ?s = "s\<lparr>sm_currentString := str, sm_runOffset := 0, sm_runSize := 0, sm_injections := []\<rparr>"
  have inv0: "sm_inv ?s" and at0: "run_at str 0 ?s" using inv by (simp_all add: run_at_def)
  have "\<exists>t. (if sm_state ?s \<noteq> Ground then
            if 0 \<ge> length str then Some ?s
            else ProcessString_chars ops str 0 ?s \<bind> (\<lambda>(k, s1). ProcessString_loop ops str k s1)
          else ProcessString_loop ops str 0 ?s) = Some t \<and> sm_inv t \<and> run_at str (length str) t
        \<and> sm_isEngineForInput t = sm_isEngineForInput s
        \<and> (sm_state t = Ground \<or> 0 < sm_runSize t \<or> \<not> sm_isEngineForInput t)"
  proof (cases "sm_state s = Ground \<or> str = []")
    case True
    then show ?thesis
      using ProcessString_loop_ok [OF inv0, of str 0] inv0 at0 str by (auto simp: run_at_def)
  next
    case False
    then obtain k s1 where s1: "ProcessString_chars ops str 0 ?s = Some (k, s1)" "sm_inv s1" "run_at str k s1"
      "sm_isEngineForInput s1 = sm_isEngineForInput s" "0 < sm_runSize s1" "sm_state s1 = Ground \<or> k = length str"
      using ProcessString_chars_ok [OF _ inv0 at0] by auto
    then show ?thesis
      using ProcessString_loop_ok [OF s1(2), of str k] False by (auto simp: run_at_def)
  qed
  then obtain t where t: "sm_inv t" "run_at str (length str) t" "sm_isEngineForInput t = sm_isEngineForInput s"
    "sm_state t = Ground \<or> 0 < sm_runSize t \<or> \<not> sm_isEngineForInput t"
    "ProcessString ops str s = ProcessString_end ops t"
    by (auto simp: ProcessString_def Let_def)
  from ProcessString_end_ok [OF t(1,2,4)] t(3,5) show ?thesis by (auto simp: step_ok_iff run_frame_def)
qed

end

end
