(* ===== verification/Output_Safety.thy ===== *)
theory Output_Safety
  imports Output_Engine Parser_Safety
begin

text \<open>
  What the output engine asks of a dispatcher, and what it gives the parser in return. The
  contract of a dispatcher is a locale: it changes the parser only through the functions the
  parser offers for it, and never the character the engine keeps; and its string handlers, which
  the parser calls without a guard, do not throw. Under this contract the engine
  satisfies the contract of a parser engine, so everything proved there holds for the pair, and
  further facts relate the state machine, the engine and the calls that reach the dispatcher.
\<close>

section \<open>The contract\<close>

locale term_dispatch =
  fixes d :: "('d, 'h, 'c) dispatch_ops" and u8u16 :: "byte list \<Rightarrow> wstring option"
  assumes call_frame: "engine_frame s (snd (td_Call d call s))"
    and call_last: "oe_lastPrintedChar (sm_engine (snd (td_Call d call s))) = oe_lastPrintedChar (sm_engine s)"
    and dcs_frame: "engine_frame s (snd (td_DcsCall d dcs s))"
    and handler_frame: "engine_frame s (snd (td_StringHandler d h wc s))"
    and handler_return: "fst (td_StringHandler d h wc s) \<noteq> Threw"
    and complete_ok: "sm_inv s \<Longrightarrow> sm_state s = Ground \<Longrightarrow>
      \<exists>s'. td_CsiComplete d cb s = Some s' \<and> sm_inv s' \<and> sm_isEngineForInput s' = sm_isEngineForInput s"

lemma engine_frame_trans: "engine_frame s t \<Longrightarrow> engine_frame t u \<Longrightarrow> engine_frame s u"
  by (cases s; cases t; cases u) (simp add: engine_frame_def)

lemma engine_frame_engine [simp]: "engine_frame s (s\<lparr>sm_engine := e\<rparr>)"
  by (cases s) (simp add: engine_frame_def)

lemma engine_frame_ClearLastChar [simp]: "engine_frame s (ClearLastChar s)"
  by (simp add: ClearLastChar_def)

lemma engine_frame_SetLastChar [simp]: "engine_frame s (SetLastChar wc s)"
  by (simp add: SetLastChar_def)

context term_dispatch
begin

lemma run_calls_frame: "engine_frame s (snd (run_calls d calls s))"
proof (induction calls arbitrary: s)
  case (Cons call calls)
  show ?case
    using call_frame [of s call] Cons.IH engine_frame_trans
    by (fastforce split: prod.split outcome.split)
qed simp

lemma run_calls_last:
  "oe_lastPrintedChar (sm_engine (snd (run_calls d calls s))) = oe_lastPrintedChar (sm_engine s)"
proof (induction calls arbitrary: s)
  case (Cons call calls)
  show ?case
    using call_last [of call s] Cons.IH by (auto split: prod.split outcome.split)
qed simp

lemma dispatch_frames:
  "engine_frame s (snd (dispatch_and_clear d calls s))" "engine_frame s (snd (dispatch_only d calls s))"
  using run_calls_frame [of s calls] engine_frame_trans [OF _ engine_frame_ClearLastChar]
  by (auto simp: dispatch_and_clear_def dispatch_only_def split: prod.split outcome.split)

lemma out_frames:
  "engine_frame s (snd (out_ActionExecute d wc s))"
  "engine_frame s (snd (out_ActionPrint d wc s))"
  "engine_frame s (snd (out_ActionPrintString d str s))"
  "engine_frame s (snd (out_ActionEscDispatch d vid s))"
  "engine_frame s (snd (out_ActionVt52EscDispatch d vid ps s))"
  "engine_frame s (snd (out_ActionCsiDispatch d vid ps s))"
  "engine_frame s (snd (out_ActionOscDispatch d u8u16 n str s))"
  using engine_frame_trans [OF engine_frame_SetLastChar dispatch_frames(2)]
  by (simp_all add: out_ActionExecute_def out_ActionPrint_def out_ActionPrintString_def
      out_ActionEscDispatch_def out_ActionVt52EscDispatch_def out_ActionCsiDispatch_def
      out_ActionOscDispatch_def dispatch_frames)

lemma out_Dcs_frame: "engine_frame s (snd (out_ActionDcsDispatch d vid ps s))"
  using dcs_frame engine_frame_trans [OF dcs_frame engine_frame_ClearLastChar]
  by (auto simp: out_ActionDcsDispatch_def split: option.split prod.split outcome.split) (metis snd_conv)+

end

sublocale term_dispatch \<subseteq> out: vt_engine "OutputStateMachineEngine d u8u16"
  by unfold_locales
    (simp_all add: OutputStateMachineEngine_def out_frames out_Dcs_frame handler_frame handler_return
      out_ActionPassThroughString_def out_ActionSs3Dispatch_def complete_ok)

section \<open>The default dispatcher keeps the contract\<close>

lemma engine_frame_update_dispatch [simp]: "engine_frame s (update_dispatch f s)"
  by (simp add: update_dispatch_def)

lemma TermDispatch_call:
  "engine_frame s (snd (td_Call (TermDispatch print printString) call s))"
  "oe_lastPrintedChar (sm_engine (snd (td_Call (TermDispatch print printString) call s)))
     = oe_lastPrintedChar (sm_engine s)"
  by (simp_all add: TermDispatch_def update_dispatch_def split: dispatch_call.split text_call.split)

interpretation td: term_dispatch "TermDispatch print printString" u8u16 for print printString u8u16
proof
  show "engine_frame s (snd (td_Call (TermDispatch print printString) call s))" for s call
    by (rule TermDispatch_call)
  show "oe_lastPrintedChar (sm_engine (snd (td_Call (TermDispatch print printString) call s)))
      = oe_lastPrintedChar (sm_engine s)" for s call
    by (rule TermDispatch_call)
qed (simp_all add: TermDispatch_def)

section \<open>A terminal that is fed strings\<close>

fun ProcessStrings ::
  "('e, 'h, 'c) engine_ops \<Rightarrow> wstring list \<Rightarrow> ('e, 'h, 'c) sm \<Rightarrow> ('e, 'h, 'c) sm option" where
  "ProcessStrings ops [] s = Some s"
| "ProcessStrings ops (str # strs) s = ProcessString ops str s \<bind> ProcessStrings ops strs"

lemma sm_inv_StateMachine [simp]: "sm_inv (StateMachine e b i j k)" "sm_state (StateMachine e b i j k) = Ground"
  "sm_isEngineForInput (StateMachine e b i j k) = b"
  by (simp_all add: StateMachine_def ActionClear_def SetParserMode_def sm_inv_def id_ok_def VTIDBuilder_Clear_def
      MAX_PARAMETER_VALUE_def)

context term_dispatch
begin

lemma ProcessStrings_ok:
  "sm_inv s \<Longrightarrow> \<not> sm_isEngineForInput s \<Longrightarrow>
   \<exists>s'. ProcessStrings (OutputStateMachineEngine d u8u16) strs s = Some s' \<and> sm_inv s' \<and> \<not> sm_isEngineForInput s'"
proof (induction strs arbitrary: s)
  case (Cons str strs)
  then obtain s1 where "ProcessString (OutputStateMachineEngine d u8u16) str s = Some s1" "sm_inv s1" "\<not> sm_isEngineForInput s1"
    using out.ProcessString_ok [of s str] by auto
  then show ?case using Cons.IH by simp
qed simp

end

end
