(* ===== verification/Chunking.thy ===== *)
theory Chunking
  imports Output_Safety
begin

text \<open>
  Output reaches the parser in pieces of arbitrary size. This theory gives the parser an abstract
  meaning that does not see the pieces, one character at a time, and shows that
  \<open>ProcessString\<close> refines it: the result is the same up to the bookkeeping of the current string.
  The engine has to be insensitive to that bookkeeping, which is one more contract.
\<close>

section \<open>States up to bookkeeping\<close>

definition core :: "('e, 'h, 'c) sm \<Rightarrow> ('e, 'h, 'c) sm" where
  "core s = s\<lparr>sm_currentString := [], sm_runOffset := 0, sm_runSize := 0, sm_cachedSequence := None,
             sm_injections := [], sm_processingLastCharacter := False\<rparr>"

definition same :: "('e, 'h, 'c) sm \<Rightarrow> ('e, 'h, 'c) sm \<Rightarrow> bool" where
  "same s t \<longleftrightarrow> core s = core t"

abbreviation same_opt :: "('e, 'h, 'c) sm option \<Rightarrow> ('e, 'h, 'c) sm option \<Rightarrow> bool" where
  "same_opt \<equiv> rel_option same"

lemma same_refl [simp]: "same s s"
  by (simp add: same_def)

lemma same_sym: "same s t \<Longrightarrow> same t s"
  by (simp add: same_def)

lemma same_trans: "same s t \<Longrightarrow> same t u \<Longrightarrow> same s u"
  by (simp add: same_def)

lemma same_opt_refl [simp]: "same_opt r r"
  by (cases r) simp_all

lemma same_opt_trans: "same_opt r q \<Longrightarrow> same_opt q p \<Longrightarrow> same_opt r p"
  by (cases r; cases q; cases p) (auto intro: same_trans)

lemma same_core_fields:
  assumes "same s t"
  shows "sm_engine s = sm_engine t" "sm_isEngineForInput s = sm_isEngineForInput t" "sm_state s = sm_state t"
    "sm_parserMode s = sm_parserMode t" "sm_identifier s = sm_identifier t" "sm_parameters s = sm_parameters t"
    "sm_parameterLimitOverflowed s = sm_parameterLimitOverflowed t" "sm_subParameters s = sm_subParameters t"
    "sm_subParameterRanges s = sm_subParameterRanges t"
    "sm_subParameterLimitOverflowed s = sm_subParameterLimitOverflowed t"
    "sm_subParameterCounter s = sm_subParameterCounter t" "sm_oscString s = sm_oscString t"
    "sm_oscParameter s = sm_oscParameter t" "sm_dcsStringHandler s = sm_dcsStringHandler t"
    "sm_onCsiCompleteCallback s = sm_onCsiCompleteCallback t"
  using assms by (cases s; cases t; simp add: same_def core_def)+

lemma same_updates [simp]:
  "same (s\<lparr>sm_currentString := a\<rparr>) t = same s t" "same (s\<lparr>sm_runOffset := b\<rparr>) t = same s t"
  "same (s\<lparr>sm_runSize := b\<rparr>) t = same s t" "same (s\<lparr>sm_cachedSequence := c\<rparr>) t = same s t"
  "same (s\<lparr>sm_injections := d\<rparr>) t = same s t" "same (s\<lparr>sm_processingLastCharacter := e\<rparr>) t = same s t"
  "same s (t\<lparr>sm_currentString := a\<rparr>) = same s t" "same s (t\<lparr>sm_runOffset := b\<rparr>) = same s t"
  "same s (t\<lparr>sm_runSize := b\<rparr>) = same s t" "same s (t\<lparr>sm_cachedSequence := c\<rparr>) = same s t"
  "same s (t\<lparr>sm_injections := d\<rparr>) = same s t" "same s (t\<lparr>sm_processingLastCharacter := e\<rparr>) = same s t"
  by (cases s; cases t; simp add: same_def core_def)+

lemma same_sm_inv: "same s t \<Longrightarrow> sm_inv s = sm_inv t"
  using same_core_fields [of s t] by (simp add: sm_inv_def params_wf_def)

lemma same_pure:
  assumes "same s t"
  shows "same (ActionClear s) (ActionClear t)" "same (ActionIgnore s) (ActionIgnore t)"
    "same (ActionCollect wc s) (ActionCollect wc t)" "same (ActionOscParam wc s) (ActionOscParam wc t)"
    "same (ActionOscPut wc s) (ActionOscPut wc t)" "same (ActionParam wc s) (ActionParam wc t)"
    "same (s\<lparr>sm_state := x\<rparr>) (t\<lparr>sm_state := x\<rparr>)"
    "same (s\<lparr>sm_dcsStringHandler := h\<rparr>) (t\<lparr>sm_dcsStringHandler := h\<rparr>)"
    "same (s\<lparr>sm_onCsiCompleteCallback := k\<rparr>) (t\<lparr>sm_onCsiCompleteCallback := k\<rparr>)"
    "same (s\<lparr>sm_parameters := ps\<rparr>) (t\<lparr>sm_parameters := ps\<rparr>)"
  using assms
  by (cases s; cases t; simp add: same_def core_def ActionClear_def ActionIgnore_def ActionCollect_def
      ActionOscParam_def ActionOscPut_def ActionParam_def ensure_parameter_def new_range_def Let_def)+

lemma same_ActionSubParam:
  "same s t \<Longrightarrow> same_opt (ActionSubParam wc s) (ActionSubParam wc t)"
  by (cases s; cases t; simp add: same_def core_def ActionSubParam_def ensure_parameter_def new_range_def Let_def)

lemma same_Enter:
  assumes "same s t"
  shows "same (EnterGround s) (EnterGround t)" "same (EnterEscape s) (EnterEscape t)"
    "same (EnterEscapeIntermediate s) (EnterEscapeIntermediate t)" "same (EnterCsiEntry s) (EnterCsiEntry t)"
    "same (EnterCsiParam s) (EnterCsiParam t)" "same (EnterCsiSubParam s) (EnterCsiSubParam t)"
    "same (EnterCsiIgnore s) (EnterCsiIgnore t)" "same (EnterCsiIntermediate s) (EnterCsiIntermediate t)"
    "same (EnterOscParam s) (EnterOscParam t)" "same (EnterOscString s) (EnterOscString t)"
    "same (EnterOscTermination s) (EnterOscTermination t)" "same (EnterSs3Entry s) (EnterSs3Entry t)"
    "same (EnterSs3Param s) (EnterSs3Param t)" "same (EnterVt52Param s) (EnterVt52Param t)"
    "same (EnterDcsEntry s) (EnterDcsEntry t)" "same (EnterDcsParam s) (EnterDcsParam t)"
    "same (EnterDcsIgnore s) (EnterDcsIgnore t)" "same (EnterDcsIntermediate s) (EnterDcsIntermediate t)"
    "same (EnterDcsPassThrough s) (EnterDcsPassThrough t)" "same (EnterSosPmApcString s) (EnterSosPmApcString t)"
  using assms by (simp_all add: sm_defs same_pure del: ActionIgnore_def)

lemma same_if:
  "(c \<Longrightarrow> same_opt a a') \<Longrightarrow> (\<not> c \<Longrightarrow> same_opt b b') \<Longrightarrow> same_opt (if c then a else b) (if c then a' else b')"
  "(c \<Longrightarrow> same s s') \<Longrightarrow> (\<not> c \<Longrightarrow> same t t') \<Longrightarrow> same (if c then s else t) (if c then s' else t')"
  by simp_all

lemma same_opt_bind:
  "same_opt r q \<Longrightarrow> (\<And>s t. same s t \<Longrightarrow> same_opt (f s) (g t)) \<Longrightarrow> same_opt (r \<bind> f) (q \<bind> g)"
  by (cases r; cases q) auto

lemma same_opt_map:
  "same_opt r q \<Longrightarrow> (\<And>s t. same s t \<Longrightarrow> same (f s) (g t)) \<Longrightarrow> same_opt (map_option f r) (map_option g q)"
  by (cases r; cases q) auto

lemma same_opt_Some: "same s t \<Longrightarrow> same_opt (Some s) (Some t)"
  by simp

section \<open>Engines that do not see the pieces\<close>

definition same_result :: "'a \<times> ('e, 'h, 'c) sm \<Rightarrow> 'a \<times> ('e, 'h, 'c) sm \<Rightarrow> bool" where
  "same_result p q \<longleftrightarrow> fst p = fst q \<and> same (snd p) (snd q)"

definition printable :: "wstring \<Rightarrow> bool" where
  "printable str \<longleftrightarrow> str \<noteq> [] \<and> list_all (\<lambda>wc. \<not> isActionableFromGround wc) str"

locale chunk_engine = vt_engine +
  assumes same_Execute: "same s t \<Longrightarrow> same_result (op_ActionExecute ops wc s) (op_ActionExecute ops wc t)"
    and same_ExecuteFromEscape:
      "same s t \<Longrightarrow> same_result (op_ActionExecuteFromEscape ops wc s) (op_ActionExecuteFromEscape ops wc t)"
    and same_Print: "same s t \<Longrightarrow> same_result (op_ActionPrint ops wc s) (op_ActionPrint ops wc t)"
    and same_PrintString: "same s t \<Longrightarrow> same_result (op_ActionPrintString ops str s) (op_ActionPrintString ops str t)"
    and same_EscDispatch: "same s t \<Longrightarrow> same_result (op_ActionEscDispatch ops vid s) (op_ActionEscDispatch ops vid t)"
    and same_Vt52EscDispatch:
      "same s t \<Longrightarrow> same_result (op_ActionVt52EscDispatch ops vid ps s) (op_ActionVt52EscDispatch ops vid ps t)"
    and same_CsiDispatch: "same s t \<Longrightarrow> same_result (op_ActionCsiDispatch ops vid ps s) (op_ActionCsiDispatch ops vid ps t)"
    and same_DcsDispatch: "same s t \<Longrightarrow> same_result (op_ActionDcsDispatch ops vid ps s) (op_ActionDcsDispatch ops vid ps t)"
    and same_OscDispatch: "same s t \<Longrightarrow> same_result (op_ActionOscDispatch ops n str s) (op_ActionOscDispatch ops n str t)"
    and same_Ss3Dispatch: "same s t \<Longrightarrow> same_result (op_ActionSs3Dispatch ops wc ps s) (op_ActionSs3Dispatch ops wc ps t)"
    and same_StringHandler: "same s t \<Longrightarrow> same_result (op_StringHandler ops h wc s) (op_StringHandler ops h wc t)"
    and same_CsiComplete: "same s t \<Longrightarrow> same_opt (op_CsiComplete ops cb s) (op_CsiComplete ops cb t)"
    and same_PassThrough: "same (snd (op_ActionPassThroughString ops str s)) s"
    and print_append: "printable a \<Longrightarrow> printable b \<Longrightarrow>
      same (snd (op_ActionPrintString ops (a @ b) s)) (snd (op_ActionPrintString ops b (snd (op_ActionPrintString ops a s))))"

text \<open>A flush does not change the core of the state.\<close>

context chunk_engine
begin

lemma SafeExecute_with_same:
  assumes "fst (lam s) \<noteq> Returned False" "same (snd (lam s)) s"
  shows "\<exists>b s'. SafeExecute_with flush lam s = Some (b, s') \<and> same s' s"
  using assms by (cases "lam s"; cases "fst (lam s)") (auto simp: SafeExecute_with_def)

lemma FlushToTerminal_same: "\<exists>b s'. FlushToTerminal ops s = Some (b, s') \<and> same s' s"
proof -
  let ?run = "\<lambda>t. case CurrentRun t of None \<Rightarrow> (Threw, t) | Some run \<Rightarrow> op_ActionPassThroughString ops run t"
  have run: "\<exists>b s'. SafeExecute_with (FlushToTerminal ops) ?run t = Some (b, s') \<and> same s' t" for t
    by (rule SafeExecute_with_same) (auto simp: pass_through_accepts same_PassThrough split: option.split)
  have pass: "\<exists>b s'. SafeExecute_with (FlushToTerminal ops) (op_ActionPassThroughString ops cached) t = Some (b, s') \<and> same s' t" for cached t
    by (rule SafeExecute_with_same) (simp_all add: pass_through_accepts same_PassThrough)
  have second: "\<exists>b s'. (if ok then SafeExecute_with (FlushToTerminal ops) ?run t else Some (ok, t)) = Some (b, s') \<and> same s' s"
    if "same t s" for ok t
    using run [of t] that same_trans by (cases ok) fastforce+
  show ?thesis
  proof (cases "sm_cachedSequence s")
    case None
    then show ?thesis using second [of s True] by (subst FlushToTerminal.simps) simp
  next
    case (Some cached)
    then show ?thesis
      using pass [of cached s] second by (subst FlushToTerminal.simps) (fastforce simp del: bind_eq_Some_iff)
  qed
qed

lemma execute_action_same:
  "\<exists>s'. execute_action ops lam s = Some s' \<and> same s' (snd (lam s))"
proof (cases "lam s")
  case (Pair r t)
  then show ?thesis
    using FlushToTerminal_same [of t]
    by (cases r) (auto simp: execute_action_def SafeExecute_def SafeExecute_with_def)
qed

lemma execute_action_rel:
  assumes "same (snd (lam s)) (snd (lam' t))"
  shows "same_opt (execute_action ops lam s) (execute_action ops lam' t)"
proof -
  obtain s' t' where "execute_action ops lam s = Some s'" "same s' (snd (lam s))"
    "execute_action ops lam' t = Some t'" "same t' (snd (lam' t))"
    using execute_action_same [of lam s] execute_action_same [of lam' t] by blast
  then show ?thesis using assms same_trans same_sym by (metis option.rel_inject(2))
qed

lemma same_Actions:
  assumes "same s t"
  shows "same_opt (ActionExecute ops wc s) (ActionExecute ops wc t)"
    "same_opt (ActionExecuteFromEscape ops wc s) (ActionExecuteFromEscape ops wc t)"
    "same_opt (ActionPrint ops wc s) (ActionPrint ops wc t)"
    "same_opt (ActionPrintString ops str s) (ActionPrintString ops str t)"
    "same_opt (ActionEscDispatch ops wc s) (ActionEscDispatch ops wc t)"
    "same_opt (ActionVt52EscDispatch ops wc s) (ActionVt52EscDispatch ops wc t)"
    "same_opt (ActionCsiDispatch ops wc s) (ActionCsiDispatch ops wc t)"
    "same_opt (ActionOscDispatch ops s) (ActionOscDispatch ops t)"
    "same_opt (ActionSs3Dispatch ops wc s) (ActionSs3Dispatch ops wc t)"
  unfolding ActionExecute_def ActionExecuteFromEscape_def ActionPrint_def ActionPrintString_def ActionEscDispatch_def
    ActionVt52EscDispatch_def ActionCsiDispatch_def ActionOscDispatch_def ActionSs3Dispatch_def CsiParameters_def
    same_core_fields [OF assms]
  by (rule execute_action_rel,
      use same_Execute [OF assms] same_ExecuteFromEscape [OF assms] same_Print [OF assms] same_PrintString [OF assms]
        same_EscDispatch [OF assms] same_Vt52EscDispatch [OF assms] same_CsiDispatch [OF assms]
        same_OscDispatch [OF assms] same_Ss3Dispatch [OF assms] in \<open>simp add: same_result_def\<close>)+

lemma same_ActionDcsDispatch:
  assumes "same s t"
  shows "same_opt (ActionDcsDispatch ops wc s) (ActionDcsDispatch ops wc t)"
proof -
  let ?l = "\<lambda>t. case op_ActionDcsDispatch ops (Finalize wc (sm_identifier t)) (VTParameters_of (sm_parameters t)) t of
              (Returned handler, t1) \<Rightarrow> (Returned True, t1\<lparr>sm_dcsStringHandler := handler\<rparr>)
            | (Threw, t1) \<Rightarrow> (Threw, t1)"
  have "same (snd (?l s)) (snd (?l t))"
    using same_DcsDispatch [OF assms, of "Finalize wc (sm_identifier s)" "VTParameters_of (sm_parameters s)"]
    unfolding same_core_fields [OF assms]
    by (auto simp: same_result_def same_pure split: prod.splits outcome.splits)
  then show ?thesis
    unfolding ActionDcsDispatch_def
    by (intro same_opt_bind execute_action_rel) (auto simp: same_Enter dest: same_core_fields(14))
qed

lemma same_ActionInterrupt:
  assumes "same s t"
  shows "same_opt (ActionInterrupt ops s) (ActionInterrupt ops t)"
  unfolding ActionInterrupt_def same_core_fields [OF assms]
  using assms same_StringHandler [OF assms]
  by (auto simp: same_result_def split_beta intro!: same_pure split: option.split outcome.split)

lemma same_ExecuteCsiCompleteCallback:
  assumes "same s t"
  shows "same_opt (ExecuteCsiCompleteCallback ops s) (ExecuteCsiCompleteCallback ops t)"
  unfolding ExecuteCsiCompleteCallback_def same_core_fields [OF assms]
  using assms by (auto intro!: same_opt_bind same_CsiComplete same_pure split: option.split)

end

section \<open>Characters\<close>

context chunk_engine
begin

lemma same_csi_dispatch:
  assumes "same s t"
  shows "same_opt (ActionCsiDispatch ops wc s \<bind> (\<lambda>s1. ExecuteCsiCompleteCallback ops (EnterGround s1)))
    (ActionCsiDispatch ops wc t \<bind> (\<lambda>s1. ExecuteCsiCompleteCallback ops (EnterGround s1)))"
  by (intro same_opt_bind same_Actions(7) assms same_ExecuteCsiCompleteCallback same_Enter)

lemmas same_rules = same_opt_Some same_if same_opt_map same_Actions same_ActionDcsDispatch same_ActionSubParam
  same_csi_dispatch same_Enter same_pure

lemma same_EventGround: "same s t \<Longrightarrow> same_opt (EventGround ops wc s) (EventGround ops wc t)"
  unfolding EventGround_def by (intro same_rules)

lemma same_EventEscape:
  assumes "same s t"
  shows "same_opt (EventEscape ops wc s) (EventEscape ops wc t)"
  unfolding EventEscape_def same_core_fields [OF assms] by (intro same_rules assms)

lemma same_EventEscapeIntermediate:
  assumes "same s t"
  shows "same_opt (EventEscapeIntermediate ops wc s) (EventEscapeIntermediate ops wc t)"
  unfolding EventEscapeIntermediate_def same_core_fields [OF assms] by (intro same_rules assms)

lemma same_EventCsiEntry:
  assumes "same s t"
  shows "same_opt (EventCsiEntry ops wc s) (EventCsiEntry ops wc t)"
  unfolding EventCsiEntry_def Let_def by (intro same_rules assms)

lemma same_EventCsiIntermediate:
  assumes "same s t"
  shows "same_opt (EventCsiIntermediate ops wc s) (EventCsiIntermediate ops wc t)"
  unfolding EventCsiIntermediate_def Let_def by (intro same_rules assms)

lemma same_EventCsiIgnore:
  assumes "same s t"
  shows "same_opt (EventCsiIgnore ops wc s) (EventCsiIgnore ops wc t)"
  unfolding EventCsiIgnore_def Let_def by (intro same_rules assms)

lemma same_EventCsiParam:
  assumes "same s t"
  shows "same_opt (EventCsiParam ops wc s) (EventCsiParam ops wc t)"
  unfolding EventCsiParam_def Let_def by (intro same_rules assms)

lemma same_EventCsiSubParam:
  assumes "same s t"
  shows "same_opt (EventCsiSubParam ops wc s) (EventCsiSubParam ops wc t)"
  unfolding EventCsiSubParam_def Let_def by (intro same_rules assms)

lemma same_EventOscParam:
  assumes "same s t"
  shows "same_opt (EventOscParam ops wc s) (EventOscParam ops wc t)"
  unfolding EventOscParam_def Let_def by (intro same_rules assms)

lemma same_EventOscString:
  assumes "same s t"
  shows "same_opt (EventOscString ops wc s) (EventOscString ops wc t)"
  unfolding EventOscString_def Let_def by (intro same_rules assms)

lemma same_EventOscTermination:
  assumes "same s t"
  shows "same_opt (EventOscTermination ops wc s) (EventOscTermination ops wc t)"
  unfolding EventOscTermination_def Let_def by (intro same_rules assms same_EventEscape)

lemma same_EventSs3Entry:
  assumes "same s t"
  shows "same_opt (EventSs3Entry ops wc s) (EventSs3Entry ops wc t)"
  unfolding EventSs3Entry_def Let_def by (intro same_rules assms)

lemma same_EventSs3Param:
  assumes "same s t"
  shows "same_opt (EventSs3Param ops wc s) (EventSs3Param ops wc t)"
  unfolding EventSs3Param_def Let_def by (intro same_rules assms)

lemma same_EventVt52Param:
  assumes "same s t"
  shows "same_opt (EventVt52Param ops wc s) (EventVt52Param ops wc t)"
proof -
  let ?p = "\<lambda>s. s\<lparr>sm_parameters := sm_parameters s @ [VTParameter (int (unat wc))]\<rparr>"
  have p: "same (?p s) (?p t)" unfolding same_core_fields [OF assms] by (rule same_pure [OF assms])
  have len: "length (sm_parameters (?p s)) = length (sm_parameters (?p t))" using same_core_fields(6) [OF p] by simp
  show ?thesis
    unfolding EventVt52Param_def Let_def len by (intro same_rules assms p)
qed

lemma same_EventDcsEntry:
  assumes "same s t"
  shows "same_opt (EventDcsEntry ops wc s) (EventDcsEntry ops wc t)"
  unfolding EventDcsEntry_def Let_def by (intro same_rules assms)

lemma same_EventDcsIgnore:
  assumes "same s t"
  shows "same_opt (EventDcsIgnore s) (EventDcsIgnore t)"
  unfolding EventDcsIgnore_def Let_def by (intro same_rules assms)

lemma same_EventDcsIntermediate:
  assumes "same s t"
  shows "same_opt (EventDcsIntermediate ops wc s) (EventDcsIntermediate ops wc t)"
  unfolding EventDcsIntermediate_def Let_def by (intro same_rules assms)

lemma same_EventDcsParam:
  assumes "same s t"
  shows "same_opt (EventDcsParam ops wc s) (EventDcsParam ops wc t)"
  unfolding EventDcsParam_def Let_def by (intro same_rules assms)

lemma same_EventSosPmApcString:
  assumes "same s t"
  shows "same_opt (EventSosPmApcString s) (EventSosPmApcString t)"
  unfolding EventSosPmApcString_def Let_def by (intro same_rules assms)

lemma same_EventDcsPassThrough:
  assumes "same s t"
  shows "same_opt (EventDcsPassThrough ops wc s) (EventDcsPassThrough ops wc t)"
proof -
  have "same_opt (case op_StringHandler ops h wc s of (Threw, _) \<Rightarrow> None | (Returned ok, s1) \<Rightarrow> Some (if ok then s1 else EnterDcsIgnore s1))
      (case op_StringHandler ops h wc t of (Threw, _) \<Rightarrow> None | (Returned ok, s1) \<Rightarrow> Some (if ok then s1 else EnterDcsIgnore s1))" for h
    using same_StringHandler [OF assms, of h wc]
    by (auto simp: same_result_def split_beta intro!: same_Enter split: outcome.split)
  then show ?thesis
    unfolding EventDcsPassThrough_def same_core_fields [OF assms]
    using assms by (auto simp: ActionIgnore_def split: option.split)
qed

lemma same_ProcessCharacter_nonC1:
  assumes "same s t" "\<not> isC1ControlCharacter wc"
  shows "same_opt (ProcessCharacter ops wc s) (ProcessCharacter ops wc t)"
proof -
  have cancel: "same_opt (ActionInterrupt ops s \<bind> (\<lambda>s1. ActionExecute ops wc s1 \<bind> (\<lambda>s2. Some (EnterGround s2))))
      (ActionInterrupt ops t \<bind> (\<lambda>s1. ActionExecute ops wc s1 \<bind> (\<lambda>s2. Some (EnterGround s2))))"
    by (intro same_opt_bind same_ActionInterrupt same_Actions(1) assms same_rules)
  have esc: "same_opt (map_option EnterEscape (ActionInterrupt ops s)) (map_option EnterEscape (ActionInterrupt ops t))"
    by (intro same_opt_map same_ActionInterrupt assms same_Enter)
  note events = same_EventGround same_EventEscape same_EventEscapeIntermediate same_EventCsiEntry same_EventCsiIntermediate
    same_EventCsiIgnore same_EventCsiParam same_EventCsiSubParam same_EventOscParam same_EventOscString same_EventOscTermination
    same_EventSs3Entry same_EventSs3Param same_EventVt52Param same_EventDcsEntry same_EventDcsIgnore same_EventDcsIntermediate
    same_EventDcsParam same_EventDcsPassThrough same_EventSosPmApcString
  show ?thesis
    using assms(2) cancel esc events [OF assms(1)]
    unfolding ProcessCharacter.simps [of ops wc s] ProcessCharacter.simps [of ops wc t] same_core_fields [OF assms(1)]
    by (cases "sm_state t") simp_all
qed

lemma same_ProcessCharacter:
  assumes "same s t"
  shows "same_opt (ProcessCharacter ops wc s) (ProcessCharacter ops wc t)"
proof (cases "isC1ControlCharacter wc")
  case True
  then have ne: "wc \<noteq> AC_CAN" "wc \<noteq> AC_SUB" by (auto simp: isC1ControlCharacter_def)
  have "same_opt (ProcessCharacter ops AC_ESC s \<bind> ProcessCharacter ops (c1To7Bit wc))
      (ProcessCharacter ops AC_ESC t \<bind> ProcessCharacter ops (c1To7Bit wc))"
    by (intro same_opt_bind same_ProcessCharacter_nonC1 assms) (simp_all add: isC1_c1To7Bit [OF True])
  then show ?thesis
    using True ne assms unfolding ProcessCharacter.simps [of ops wc s] ProcessCharacter.simps [of ops wc t] same_core_fields [OF assms]
    by simp
qed (rule same_ProcessCharacter_nonC1 [OF assms])

end

section \<open>Strings\<close>

text \<open>
  The abstract meaning: in the ground state a printable character is printed, everything else
  goes to \<open>ProcessCharacter\<close>.
\<close>

definition vt_step ::
  "('e, 'h, 'c) engine_ops \<Rightarrow> wchar \<Rightarrow> ('e, 'h, 'c) sm \<Rightarrow> ('e, 'h, 'c) sm option" where
  "vt_step ops wc s =
     (if sm_state s = Ground \<and> \<not> isActionableFromGround wc then ActionPrintString ops [wc] s
      else ProcessCharacter ops wc s)"

fun vt_run ::
  "('e, 'h, 'c) engine_ops \<Rightarrow> wstring \<Rightarrow> ('e, 'h, 'c) sm \<Rightarrow> ('e, 'h, 'c) sm option" where
  "vt_run ops [] s = Some s"
| "vt_run ops (wc # wcs) s = vt_step ops wc s \<bind> vt_run ops wcs"

lemma vt_run_append: "vt_run ops (xs @ ys) = (\<lambda>s. vt_run ops xs s \<bind> vt_run ops ys)"
  by (induction xs) simp_all

context chunk_engine
begin

lemma same_vt_step:
  assumes "same s t"
  shows "same_opt (vt_step ops wc s) (vt_step ops wc t)"
  unfolding vt_step_def same_core_fields [OF assms]
  by (intro same_if same_Actions same_ProcessCharacter assms)

lemma same_vt_run: "same s t \<Longrightarrow> same_opt (vt_run ops str s) (vt_run ops str t)"
  by (induction str arbitrary: s t) (auto intro: same_opt_bind same_vt_step)

lemma vt_run_print:
  assumes "printable str" "sm_state s = Ground"
  shows "same_opt (vt_run ops str s) (ActionPrintString ops str s)"
  using assms
proof (induction str arbitrary: s)
  case (Cons wc wcs)
  obtain s1 where s1: "ActionPrintString ops [wc] s = Some s1" "action_frame s s1"
    using Action_frames(4) by blast
  then have ground: "sm_state s1 = Ground" using Cons.prems(2) by (simp add: action_frame_fields)
  have step: "vt_run ops (wc # wcs) s = vt_run ops wcs s1"
    using Cons.prems s1(1) by (simp add: vt_step_def printable_def)
  have printed: "same s1 (snd (op_ActionPrintString ops [wc] s))"
    using s1(1) execute_action_same [of "op_ActionPrintString ops [wc]" s] by (simp add: ActionPrintString_def)
  show ?case
  proof (cases "wcs = []")
    case True
    then show ?thesis using step s1(1) by simp
  next
    case False
    then have parts: "printable [wc]" "printable wcs" using Cons.prems(1) by (simp_all add: printable_def)
    have "same (snd (op_ActionPrintString ops wcs s1)) (snd (op_ActionPrintString ops ([wc] @ wcs) s))"
      using same_PrintString [OF printed, of wcs] print_append [OF parts, of s]
      by (simp add: same_result_def same_def)
    then have "same_opt (ActionPrintString ops wcs s1) (ActionPrintString ops ([wc] @ wcs) s)"
      unfolding ActionPrintString_def by (rule execute_action_rel)
    moreover have "same_opt (vt_run ops wcs s1) (ActionPrintString ops wcs s1)"
      using Cons.IH [OF parts(2) ground] .
    ultimately show ?thesis using step same_opt_trans by fastforce
  qed
qed (simp add: printable_def)

lemma ProcessString_print_vt_run:
  assumes "i < length str" "sm_state s = Ground" "sm_currentString s = str"
  shows "\<exists>j s'. ProcessString_print ops str i s = Some (j, s') \<and> i \<le> j \<and> j \<le> length str
    \<and> (j < length str \<longrightarrow> isActionableFromGround (str ! j))
    \<and> same_opt (vt_run ops (take (j - i) (drop i str)) s) (Some s')"
proof -
  define n where "n = FindActionableControlCharacter (drop i str)"
  let ?s = "s\<lparr>sm_runOffset := i, sm_runSize := n\<rparr>"
  have n: "n = plainSearch (drop i str)" by (simp add: n_def FindActionableControlCharacter_plain)
  have le: "i + n \<le> length str" using plainSearch_le [of "drop i str"] assms(1) by (simp add: n)
  have prefix: "take n (drop i str) = takeWhile (\<lambda>wc. \<not> isActionableFromGround wc) (drop i str)"
    by (simp add: n plainSearch_takeWhile takeWhile_eq_take [symmetric])
  then have printable: "list_all (\<lambda>wc. \<not> isActionableFromGround wc) (take n (drop i str))"
    by (auto simp: list_all_iff dest: set_takeWhileD)
  have stop: "isActionableFromGround (str ! (i + n))" if "i + n < length str"
    using nth_length_takeWhile [of "\<lambda>wc. \<not> isActionableFromGround wc" "drop i str"] that
    by (simp add: n plainSearch_takeWhile)
  show ?thesis
  proof (cases "n = 0")
    case True
    then show ?thesis
      using stop assms by (simp add: ProcessString_print_def n_def [symmetric] Let_def)
  next
    case False
    have run: "CurrentRun ?s = Some (take n (drop i str))"
      using assms by (simp add: CurrentRun_def)
    obtain s2 where s2: "ActionPrintString ops (take n (drop i str)) ?s = Some s2" using Action_frames(4) by blast
    have "same_opt (vt_run ops (take n (drop i str)) ?s) (Some s2)"
      using vt_run_print [of "take n (drop i str)" ?s] printable False assms s2 by (simp add: printable_def)
    then have "same_opt (vt_run ops (take n (drop i str)) s) (Some s2)"
      using same_vt_run [of s ?s "take n (drop i str)"] same_opt_trans by simp
    then show ?thesis
      using False run s2 le stop
      by (simp add: ProcessString_print_def n_def [symmetric] Let_def option_rel_Some2)
  qed
qed

end

context chunk_engine
begin

lemma ProcessString_chars_vt_run:
  "ProcessString_chars ops str i s = Some (j, s') \<Longrightarrow> (sm_state s = Ground \<longrightarrow> isActionableFromGround (str ! i)) \<Longrightarrow>
   same_opt (vt_run ops (take (j - i) (drop i str)) s) (Some s')"
proof (induction "length str - i" arbitrary: i s rule: less_induct)
  case less
  let ?t = "s\<lparr>sm_runSize := sm_runSize s + 1, sm_processingLastCharacter := (i + 1 \<ge> length str)\<rparr>"
  from less.prems(1) obtain s1 where i: "i < length str" and s1: "ProcessCharacter ops (str ! i) ?t = Some s1"
    and r: "(if i + 1 < length str \<and> sm_state s1 \<noteq> Ground
             then ProcessString_chars ops str (i + 1) s1 else Some (i + 1, s1)) = Some (j, s')"
    unfolding ProcessString_chars.simps [of ops str i s] by (simp only: bind_eq_Some_iff split: if_splits) auto
  have "vt_step ops (str ! i) s = ProcessCharacter ops (str ! i) s" using less.prems(2) by (auto simp: vt_step_def)
  then have step: "same_opt (vt_step ops (str ! i) s) (Some s1)"
    using same_ProcessCharacter [of s ?t "str ! i"] s1 by simp
  have ij: "i < j" using ProcessString_chars_index [OF less.prems(1)] by simp
  have split: "take (j - i) (drop i str) = str ! i # take (j - (i + 1)) (drop (i + 1) str)"
    using i ij by (simp add: Cons_nth_drop_Suc [symmetric] take_Cons' Suc_diff_Suc del: Cons_nth_drop_Suc)
  have "same_opt (vt_run ops (take (j - (i + 1)) (drop (i + 1) str)) s1) (Some s')"
  proof (cases "i + 1 < length str \<and> sm_state s1 \<noteq> Ground")
    case True
    moreover have "length str - (i + 1) < length str - i" using i by simp
    ultimately show ?thesis using less.hyps [of "i + 1" s1] r by simp
  next
    case False
    then show ?thesis using r by auto
  qed
  moreover have "same_opt (vt_step ops (str ! i) s \<bind> vt_run ops (take (j - (i + 1)) (drop (i + 1) str)))
      (Some s1 \<bind> vt_run ops (take (j - (i + 1)) (drop (i + 1) str)))"
    by (rule same_opt_bind [OF step]) (rule same_vt_run)
  ultimately show ?case unfolding split using same_opt_trans by simp
qed

lemma vt_run_then:
  assumes "same_opt (vt_run ops (take (j - i) (drop i str)) s) (Some s')" "i \<le> j"
    "same_opt (vt_run ops (drop j str) s') (Some t)"
  shows "same_opt (vt_run ops (drop i str) s) (Some t)"
proof -
  have "drop i str = take (j - i) (drop i str) @ drop j str"
    using assms(2) by (metis append_take_drop_id drop_drop le_add_diff_inverse2)
  then have "vt_run ops (drop i str) s = vt_run ops (take (j - i) (drop i str)) s \<bind> vt_run ops (drop j str)"
    using vt_run_append [of ops "take (j - i) (drop i str)" "drop j str"] by metis
  moreover have "same_opt (vt_run ops (take (j - i) (drop i str)) s \<bind> vt_run ops (drop j str)) (Some s' \<bind> vt_run ops (drop j str))"
    by (rule same_opt_bind [OF assms(1)]) (rule same_vt_run)
  ultimately show ?thesis using assms(3) same_opt_trans by simp
qed

lemma ProcessString_loop_vt_run:
  "sm_inv s \<Longrightarrow> sm_currentString s = str \<Longrightarrow> (i < length str \<Longrightarrow> sm_state s = Ground) \<Longrightarrow>
   ProcessString_loop ops str i s = Some s' \<Longrightarrow> same_opt (vt_run ops (drop i str) s) (Some s')"
proof (induction "length str - i" arbitrary: i s rule: less_induct)
  case less
  show ?case
  proof (cases "i < length str")
    case True
    then obtain j s1 where s1: "ProcessString_print ops str i s = Some (j, s1)" "i \<le> j" "j \<le> length str"
      "j < length str \<longrightarrow> isActionableFromGround (str ! j)" "same_opt (vt_run ops (take (j - i) (drop i str)) s) (Some s1)"
      using ProcessString_print_vt_run less.prems by blast
    have ok: "sm_inv s1" "run_at str j s1"
      using ProcessString_print_ok [OF True less.prems(1,2) less.prems(3) [OF True]] s1(1) by auto
    show ?thesis
    proof (cases "j < length str")
      case j: True
      then obtain k s2 where s2: "ProcessString_chars ops str j s1 = Some (k, s2)" "sm_inv s2" "run_at str k s2"
        "j < k" "sm_state s2 = Ground \<or> k = length str"
        using ProcessString_chars_ok [OF j ok] by blast
      have "ProcessString_loop ops str k s2 = Some s'"
        using less.prems(4) True j s1(1) s2(1) by (simp add: ProcessString_loop.simps [of ops str i s])
      then have rest: "same_opt (vt_run ops (drop k str) s2) (Some s')"
        using less.hyps [of k s2] s2 s1(2) True by (auto simp: run_at_def)
      have "same_opt (vt_run ops (take (k - j) (drop j str)) s1) (Some s2)"
        using ProcessString_chars_vt_run [OF s2(1)] s1(4) j by simp
      from vt_run_then [OF this _ rest] have "same_opt (vt_run ops (drop j str) s1) (Some s')" using s2(4) by simp
      then show ?thesis by (rule vt_run_then [OF s1(5,2)])
    next
      case False
      then show ?thesis
        using less.prems(4) True s1 by (simp add: ProcessString_loop.simps [of ops str i s])
    qed
  next
    case False
    then show ?thesis using less.prems(4) by (simp add: ProcessString_loop.simps [of ops str i s])
  qed
qed

lemma ProcessString_end_same:
  assumes "ProcessString_end ops s = Some s'" "\<not> sm_isEngineForInput s"
  shows "same s' s"
  using assms by (auto simp: ProcessString_end_def split: if_splits)

lemma ProcessString_vt_run:
  assumes "sm_inv s" "\<not> sm_isEngineForInput s"
  shows "\<exists>s'. ProcessString ops str s = Some s' \<and> same_opt (vt_run ops str s) (Some s')"
proof -
  let ?s = "s\<lparr>sm_currentString := str, sm_runOffset := 0, sm_runSize := 0, sm_injections := []\<rparr>"
  have inv: "sm_inv ?s" "run_at str 0 ?s" using assms by (simp_all add: run_at_def)
  obtain s' where s': "ProcessString ops str s = Some s'" using ProcessString_ok [of s str] assms by blast
  then obtain t where t: "(if sm_state ?s \<noteq> Ground then
      if 0 \<ge> length str then Some ?s
      else ProcessString_chars ops str 0 ?s \<bind> (\<lambda>(k, s1). ProcessString_loop ops str k s1)
      else ProcessString_loop ops str 0 ?s) = Some t" "ProcessString_end ops t = Some s'"
    unfolding ProcessString_def Let_def bind_eq_Some_iff by blast
  have "same_opt (vt_run ops str ?s) (Some t) \<and> \<not> sm_isEngineForInput t"
  proof (cases "sm_state s = Ground \<or> str = []")
    case True
    then have "t = ?s \<and> str = [] \<or> sm_state s = Ground \<and> ProcessString_loop ops str 0 ?s = Some t"
      using t(1) by (auto split: if_splits)
    then show ?thesis
      using ProcessString_loop_vt_run [OF inv(1), of str 0 t] ProcessString_loop_ok [OF inv(1), of str 0] inv(2) assms(2)
      by (auto simp: run_at_def)
  next
    case False
    then obtain k s1 where s1: "ProcessString_chars ops str 0 ?s = Some (k, s1)" "sm_inv s1" "run_at str k s1"
      "sm_state s1 = Ground \<or> k = length str" "sm_isEngineForInput s1 = sm_isEngineForInput s" "0 < sm_runSize s1"
      using ProcessString_chars_ok [OF _ inv] by auto
    then have "same_opt (vt_run ops (drop k str) s1) (Some t)" "\<not> sm_isEngineForInput t"
      using t(1) False ProcessString_loop_vt_run [OF s1(2), of str k t] ProcessString_loop_ok [OF s1(2), of str k] assms(2)
      by (auto simp: run_at_def)
    moreover have "same_opt (vt_run ops (take (k - 0) (drop 0 str)) ?s) (Some s1)"
      using ProcessString_chars_vt_run [OF s1(1)] False by simp
    ultimately show ?thesis using vt_run_then [of k 0 str ?s s1 t] by simp
  qed
  moreover from this have "same s' t" using ProcessString_end_same [OF t(2)] by blast
  moreover have "same_opt (vt_run ops str s) (vt_run ops str ?s)" by (rule same_vt_run) simp
  ultimately show ?thesis
    using s' same_opt_trans [of "vt_run ops str s" "vt_run ops str ?s" "Some t"]
    by (auto simp: option_rel_Some2 same_def)
qed

end

section \<open>Dispatchers\<close>

text \<open>
  For the output engine the contract is one on its dispatcher. The dispatcher does not see the
  engine's last printed character either, and printing a string is printing its parts.
\<close>

definition with_last :: "wchar \<Rightarrow> ('d, 'h, 'c) osm \<Rightarrow> ('d, 'h, 'c) osm" where
  "with_last c s = s\<lparr>sm_engine := (sm_engine s)\<lparr>oe_lastPrintedChar := c\<rparr>\<rparr>"

locale chunk_dispatch = term_dispatch +
  assumes call_same: "same s t \<Longrightarrow> same_result (td_Call d call s) (td_Call d call t)"
    and dcs_same: "same s t \<Longrightarrow> same_result (td_DcsCall d dcs s) (td_DcsCall d dcs t)"
    and handler_same: "same s t \<Longrightarrow> same_result (td_StringHandler d h wc s) (td_StringHandler d h wc t)"
    and complete_same: "same s t \<Longrightarrow> same_opt (td_CsiComplete d cb s) (td_CsiComplete d cb t)"
    and print_blind: "td_Call d (DC_Text (PrintString str)) (with_last c s) =
      map_prod id (with_last c) (td_Call d (DC_Text (PrintString str)) s)"
    and print_parts: "printable a \<Longrightarrow> printable b \<Longrightarrow>
      same (snd (td_Call d (DC_Text (PrintString (a @ b))) s))
        (snd (td_Call d (DC_Text (PrintString b)) (snd (td_Call d (DC_Text (PrintString a)) s))))"

lemma with_last_ge: "0x20 \<le> c \<Longrightarrow> SetLastChar c s = with_last c s"
  by (simp add: SetLastChar_def with_last_def)

lemma with_last_with_last [simp]: "with_last c (with_last c' s) = with_last c s"
  by (simp add: with_last_def)

lemma same_with_last: "same s t \<Longrightarrow> same (with_last c s) (with_last c t)"
  by (cases s; cases t) (simp add: same_def core_def with_last_def)

lemma same_last_chars:
  "same s t \<Longrightarrow> same (ClearLastChar s) (ClearLastChar t)" "same s t \<Longrightarrow> same (SetLastChar c s) (SetLastChar c t)"
  using same_with_last [of s t 0] same_with_last [of s t c] by (simp_all add: ClearLastChar_def SetLastChar_def with_last_def)

lemma same_result_refl [simp]: "same_result p p"
  by (simp add: same_result_def)

lemma printable_last: "printable str \<Longrightarrow> 0x20 \<le> last str"
proof -
  assume "printable str"
  then have "\<not> isActionableFromGround (last str)" by (simp add: printable_def list_all_iff)
  then show ?thesis by (simp add: isActionableFromGround_def word_le_nat_alt not_le)
qed

context chunk_dispatch
begin

lemma run_calls_same: "same s t \<Longrightarrow> same_result (run_calls d calls s) (run_calls d calls t)"
proof (induction calls arbitrary: s t)
  case (Cons call calls)
  show ?case
    using call_same [OF Cons.prems, of call] Cons.IH
    by (cases "td_Call d call s"; cases "td_Call d call t"; cases "fst (td_Call d call s)") (auto simp: same_result_def)
qed (simp add: same_result_def)

lemma dispatch_same:
  assumes "same s t"
  shows "same_result (dispatch_and_clear d calls s) (dispatch_and_clear d calls t)"
    "same_result (dispatch_only d calls s) (dispatch_only d calls t)"
  using run_calls_same [OF assms, of calls]
  by (cases "run_calls d calls s"; cases "run_calls d calls t"; cases "fst (run_calls d calls s)";
      auto simp: same_result_def dispatch_and_clear_def dispatch_only_def same_last_chars)+

lemma out_same:
  assumes "same s t"
  shows "same_result (out_ActionExecute d wc s) (out_ActionExecute d wc t)"
    "same_result (out_ActionPrint d wc s) (out_ActionPrint d wc t)"
    "same_result (out_ActionPrintString d str s) (out_ActionPrintString d str t)"
    "same_result (out_ActionEscDispatch d vid s) (out_ActionEscDispatch d vid t)"
    "same_result (out_ActionVt52EscDispatch d vid ps s) (out_ActionVt52EscDispatch d vid ps t)"
    "same_result (out_ActionCsiDispatch d vid ps s) (out_ActionCsiDispatch d vid ps t)"
    "same_result (out_ActionOscDispatch d u8u16 n str s) (out_ActionOscDispatch d u8u16 n str t)"
    "same_result (out_ActionSs3Dispatch wc ps s) (out_ActionSs3Dispatch wc ps t)"
  using assms dispatch_same [OF assms] dispatch_same(2) [OF same_last_chars(2) [OF assms]] same_core_fields(1) [OF assms]
  by (auto simp: out_ActionExecute_def out_ActionPrint_def out_ActionPrintString_def
      out_ActionEscDispatch_def out_ActionVt52EscDispatch_def out_ActionCsiDispatch_def
      out_ActionOscDispatch_def out_ActionSs3Dispatch_def same_result_def same_last_chars)

lemma out_Dcs_same:
  assumes "same s t"
  shows "same_result (out_ActionDcsDispatch d vid ps s) (out_ActionDcsDispatch d vid ps t)"
proof (cases "map_of dcs_table vid")
  case None
  then show ?thesis using assms by (simp add: out_ActionDcsDispatch_def same_result_def same_last_chars)
next
  case (Some f)
  then show ?thesis
    using dcs_same [OF assms, of "f ps"]
    by (cases "td_DcsCall d (f ps) s"; cases "td_DcsCall d (f ps) t"; cases "fst (td_DcsCall d (f ps) s)")
      (auto simp: out_ActionDcsDispatch_def same_result_def same_last_chars)
qed

lemma snd_dispatch_only: "snd (dispatch_only d [call] s) = snd (td_Call d call s)"
  by (cases "td_Call d call s"; cases "fst (td_Call d call s)") (auto simp: dispatch_only_def)

lemma out_PrintString_append:
  assumes "printable a" "printable b"
  shows "same (snd (out_ActionPrintString d (a @ b) s))
    (snd (out_ActionPrintString d b (snd (out_ActionPrintString d a s))))"
proof -
  have ne: "a \<noteq> []" "b \<noteq> []" using assms by (simp_all add: printable_def)
  have last: "0x20 \<le> last a" "0x20 \<le> last b" using assms printable_last by blast+
  have "same (with_last (last b) (snd (td_Call d (DC_Text (PrintString (a @ b))) s)))
      (with_last (last b) (snd (td_Call d (DC_Text (PrintString b)) (snd (td_Call d (DC_Text (PrintString a)) s)))))"
    by (rule same_with_last [OF print_parts [OF assms]])
  then show ?thesis
    using ne last by (simp add: out_ActionPrintString_def snd_dispatch_only with_last_ge print_blind)
qed

end

sublocale chunk_dispatch \<subseteq> chunk: chunk_engine "OutputStateMachineEngine d u8u16"
  by unfold_locales
    (simp_all add: OutputStateMachineEngine_def out_same out_Dcs_same handler_same complete_same
      out_ActionPassThroughString_def out_PrintString_append)

section \<open>The default dispatcher, and one that records\<close>

text \<open>
  The default dispatcher keeps the contract when printing a string is printing its characters. So
  does the dispatcher that writes down every call it gets and accepts every data string: what it
  has written is all that any dispatcher can observe of the engine.
\<close>

lemma same_update_dispatch: "same s t \<Longrightarrow> same (update_dispatch f s) (update_dispatch f t)"
  by (cases s; cases t) (simp add: same_def core_def update_dispatch_def)

lemma update_dispatch_with_last: "update_dispatch f (with_last c s) = with_last c (update_dispatch f s)"
  by (simp add: update_dispatch_def with_last_def)

lemma update_dispatch_twice: "update_dispatch f (update_dispatch g s) = update_dispatch (f \<circ> g) s"
  by (simp add: update_dispatch_def)

interpretation tdc: chunk_dispatch "TermDispatch print (fold print)" u8u16 for print u8u16
proof
  fix s t :: "('a, 'b, 'c) osm" and call
  assume "same s t"
  then show "same_result (td_Call (TermDispatch print (fold print)) call s) (td_Call (TermDispatch print (fold print)) call t)"
    by (simp add: TermDispatch_def same_result_def same_update_dispatch split: dispatch_call.split text_call.split)
qed (simp_all add: TermDispatch_def same_result_def update_dispatch_with_last update_dispatch_twice comp_def)

datatype dispatch_event = Called dispatch_call | Began dcs_call | Data wchar

fun call_events :: "dispatch_call \<Rightarrow> dispatch_event list" where
  "call_events (DC_Text (PrintString str)) = map (\<lambda>wc. Called (DC_Text (Print wc))) str"
| "call_events call = [Called call]"

definition Recorder :: "(dispatch_event list, unit, unit) dispatch_ops" where
  "Recorder =
     \<lparr>td_Call = (\<lambda>call s. (Returned (), update_dispatch (\<lambda>es. es @ call_events call) s)),
      td_DcsCall = (\<lambda>call s. (Returned (Some ()), update_dispatch (\<lambda>es. es @ [Began call]) s)),
      td_StringHandler = (\<lambda>h wc s. (Returned True, update_dispatch (\<lambda>es. es @ [Data wc]) s)),
      td_CsiComplete = (\<lambda>cb s. Some s)\<rparr>"

interpretation recorder: chunk_dispatch Recorder u8u16 for u8u16
proof
  fix call and s :: "(dispatch_event list, unit, unit) osm"
  show "oe_lastPrintedChar (sm_engine (snd (td_Call Recorder call s))) = oe_lastPrintedChar (sm_engine s)"
    by (simp add: Recorder_def update_dispatch_def)
qed (simp_all add: Recorder_def same_result_def same_update_dispatch update_dispatch_with_last update_dispatch_twice comp_def)

section \<open>Pieces do not matter\<close>

context chunk_dispatch
begin

lemma ProcessStrings_vt_run:
  "sm_inv s \<Longrightarrow> \<not> sm_isEngineForInput s \<Longrightarrow>
   \<exists>s'. ProcessStrings (OutputStateMachineEngine d u8u16) strs s = Some s' \<and>
     same_opt (vt_run (OutputStateMachineEngine d u8u16) (concat strs) s) (Some s')"
proof (induction strs arbitrary: s)
  case (Cons str strs)
  obtain s1 where s1: "ProcessString (OutputStateMachineEngine d u8u16) str s = Some s1" "sm_inv s1"
    "\<not> sm_isEngineForInput s1" "same_opt (vt_run (OutputStateMachineEngine d u8u16) str s) (Some s1)"
    using out.ProcessString_ok [of s str] chunk.ProcessString_vt_run [of s str] Cons.prems by auto
  obtain s' where s': "ProcessStrings (OutputStateMachineEngine d u8u16) strs s1 = Some s'"
    "same_opt (vt_run (OutputStateMachineEngine d u8u16) (concat strs) s1) (Some s')"
    using Cons.IH [OF s1(2,3)] by blast
  obtain t where t: "vt_run (OutputStateMachineEngine d u8u16) str s = Some t" "same t s1"
    using s1(4) by (auto simp: option_rel_Some2)
  have "same_opt (vt_run (OutputStateMachineEngine d u8u16) (concat strs) t) (Some s')"
    using same_opt_trans [OF chunk.same_vt_run [OF t(2)] s'(2)] .
  then show ?case using s1(1) s'(1) t(1) by (simp add: vt_run_append)
qed simp

lemma ProcessStrings_concat:
  assumes "sm_inv s" "\<not> sm_isEngineForInput s"
  shows "\<exists>s' t'. ProcessStrings (OutputStateMachineEngine d u8u16) strs s = Some s' \<and>
    ProcessString (OutputStateMachineEngine d u8u16) (concat strs) s = Some t' \<and> same s' t'"
proof -
  obtain s' where s': "ProcessStrings (OutputStateMachineEngine d u8u16) strs s = Some s'"
    "same_opt (vt_run (OutputStateMachineEngine d u8u16) (concat strs) s) (Some s')"
    using ProcessStrings_vt_run [OF assms, of strs] by blast
  moreover obtain t' where "ProcessString (OutputStateMachineEngine d u8u16) (concat strs) s = Some t'"
    "same_opt (vt_run (OutputStateMachineEngine d u8u16) (concat strs) s) (Some t')"
    using chunk.ProcessString_vt_run [OF assms, of "concat strs"] by blast
  ultimately show ?thesis by (auto simp: option_rel_Some2 same_def)
qed

end

end
