(* ===== verification/Sequences.thy ===== *)
theory Sequences
  imports Vt_Engine Til_String
begin

text \<open>
  The text of control sequences and of operating system commands, and what the parser makes of
  it. A control sequence is a private marker, parameters with their sub-parameters, intermediate
  characters and a final character; an operating system command is a number, a string and a
  terminator. The lemmas follow the parser through that text, character by character, and show
  that it dispatches exactly the identifier, the parameters and the string that were written.
\<close>

section \<open>The text of a sequence\<close>

text \<open>A parameter is written as its digits, and a colon and digits for each sub-parameter.\<close>

type_synonym csi_param = "wstring \<times> wstring list"

definition render_param :: "csi_param \<Rightarrow> wstring" where
  "render_param p = fst p @ concat (map (\<lambda>ds. 0x3A # ds) (snd p))"

definition render_params :: "csi_param list \<Rightarrow> wstring" where
  "render_params ps = join_tokens 0x3B (map render_param ps)"

definition csi_text :: "string \<Rightarrow> csi_param list \<Rightarrow> string \<Rightarrow> char \<Rightarrow> wstring" where
  "csi_text marker ps inters f = AC_ESC # 0x5B # wstr marker @ render_params ps @ wstr inters @ [wch f]"

text \<open>What the text means.\<close>

definition number :: "wstring \<Rightarrow> VTParameter" where
  "number ds = (if ds = [] then VTParameter_default else VTParameter (min (int (digits_value 10 0 ds)) MAX_PARAMETER_VALUE))"

fun sub_ranges :: "nat \<Rightarrow> nat list \<Rightarrow> (byte \<times> byte) list" where
  "sub_ranges a [] = []"
| "sub_ranges a (n # ns) = (word_of_nat a, word_of_nat (a + n)) # sub_ranges (a + n) ns"

definition params_of :: "csi_param list \<Rightarrow> VTParameters" where
  "params_of ps =
     \<lparr>vp_params = map (\<lambda>p. number (fst p)) ps,
      vp_subParams = concat (map (\<lambda>p. map number (snd p)) ps),
      vp_subParamRanges = sub_ranges 0 (map (\<lambda>p. length (snd p)) ps)\<rparr>"

definition digit_string :: "wstring \<Rightarrow> bool" where
  "digit_string ds \<longleftrightarrow> list_all isNumericParamValue ds"

definition csi_param_ok :: "csi_param \<Rightarrow> bool" where
  "csi_param_ok p \<longleftrightarrow>
     digit_string (fst p) \<and> list_all digit_string (snd p) \<and> length (snd p) \<le> MAX_SUBPARAMETER_COUNT"

text \<open>What collecting a sequence leaves alone.\<close>

abbreviation kept :: "('e, 'h, 'c) sm \<Rightarrow> ('e, 'h, 'c) sm \<Rightarrow> bool" where
  "kept s t \<equiv> sm_engine t = sm_engine s \<and> sm_parserMode t = sm_parserMode s \<and> sm_isEngineForInput t = sm_isEngineForInput s"

text \<open>The characters of a string, one after the other.\<close>

fun ProcessCharacters ::
  "('e, 'h, 'c) engine_ops \<Rightarrow> wstring \<Rightarrow> ('e, 'h, 'c) sm \<Rightarrow> ('e, 'h, 'c) sm option" where
  "ProcessCharacters ops [] s = Some s"
| "ProcessCharacters ops (wc # wcs) s = ProcessCharacter ops wc s \<bind> ProcessCharacters ops wcs"

section \<open>Collecting parameters\<close>

lemma ProcessCharacters_done [simp]: "r \<bind> ProcessCharacters ops [] = r"
  by (cases r) simp_all

lemma ProcessCharacters_append_fun:
  "ProcessCharacters ops (xs @ ys) = (\<lambda>s. ProcessCharacters ops xs s \<bind> ProcessCharacters ops ys)"
  by (induction xs) simp_all

lemma ProcessCharacters_append:
  "ProcessCharacters ops (xs @ ys) s = ProcessCharacters ops xs s \<bind> ProcessCharacters ops ys"
  by (simp add: ProcessCharacters_append_fun)

lemma sub_ranges_snoc:
  "sub_ranges a (ns @ [n]) = sub_ranges a ns @ [(word_of_nat (a + sum_list ns), word_of_nat (a + sum_list ns + n))]"
  by (induction ns arbitrary: a) (simp_all add: add.assoc)

lemma digit_ref_numeric: "isNumericParamValue wc \<Longrightarrow> digit_ref wc = unat wc - 48 \<and> 48 \<le> unat wc \<and> unat wc \<le> 57"
  by (simp add: isNumericParamValue_def digit_ref_def word_le_nat_alt)

lemma number_Nil [simp]: "number [] = VTParameter_default"
  by (simp add: number_def)

lemma number_snoc:
  assumes "isNumericParamValue wc"
  shows "number (ds @ [wc]) = VTParameter (AccumulateTo wc (value_or (number ds) 0))"
proof -
  have "int (unat wc) - 48 = int (digit_ref wc)" using digit_ref_numeric [OF assms] by (simp add: of_nat_diff)
  then show ?thesis
    by (auto simp: number_def AccumulateTo_def digits_value_snoc value_or_def VTParameter_default_def
        MAX_PARAMETER_VALUE_def Let_def min_def)
qed

text \<open>The parser after the parameters \<open>ps\<close>, of which the last may not be complete yet.\<close>

definition with_params :: "csi_param list \<Rightarrow> ('e, 'h, 'c) sm \<Rightarrow> ('e, 'h, 'c) sm" where
  "with_params ps s =
     s\<lparr>sm_state := (if snd (last ps) = [] then CsiParam else CsiSubParam),
       sm_parameters := vp_params (params_of ps),
       sm_subParameters := vp_subParams (params_of ps),
       sm_subParameterRanges := vp_subParamRanges (params_of ps),
       sm_subParameterCounter := word_of_nat (length (snd (last ps)))\<rparr>"

definition limits_clear :: "('e, 'h, 'c) sm \<Rightarrow> bool" where
  "limits_clear s \<longleftrightarrow> \<not> sm_parameterLimitOverflowed s \<and> \<not> sm_subParameterLimitOverflowed s"

lemma ProcessCharacter_Event:
  assumes "wc \<noteq> AC_CAN" "wc \<noteq> AC_SUB" "\<not> isC1ControlCharacter wc" "\<not> isEscape wc"
  shows "sm_state s = CsiEntry \<Longrightarrow> ProcessCharacter ops wc s = EventCsiEntry ops wc s"
    "sm_state s = CsiParam \<Longrightarrow> ProcessCharacter ops wc s = EventCsiParam ops wc s"
    "sm_state s = CsiSubParam \<Longrightarrow> ProcessCharacter ops wc s = EventCsiSubParam ops wc s"
    "sm_state s = CsiIntermediate \<Longrightarrow> ProcessCharacter ops wc s = EventCsiIntermediate ops wc s"
    "sm_state s = Escape \<Longrightarrow> ProcessCharacter ops wc s = EventEscape ops wc s"
    "sm_state s = EscapeIntermediate \<Longrightarrow> ProcessCharacter ops wc s = EventEscapeIntermediate ops wc s"
    "sm_state s = Ground \<Longrightarrow> ProcessCharacter ops wc s = EventGround ops wc s"
  using assms by (simp_all add: ProcessCharacter.simps [of ops wc s])

lemma numeric_plain:
  assumes "isNumericParamValue wc"
  shows "wc \<noteq> AC_CAN" "wc \<noteq> AC_SUB" "\<not> isC1ControlCharacter wc" "\<not> isEscape wc" "\<not> isC0Code wc" "\<not> isDelete wc"
    "\<not> isParameterDelimiter wc" "\<not> isSubParameterDelimiter wc" "\<not> isIntermediate wc" "\<not> isOscTerminator wc"
  using assms by (auto simp: char_defs word_le_nat_alt)

lemma delimiter_plain:
  assumes "wc = 0x3A \<or> wc = 0x3B"
  shows "wc \<noteq> AC_CAN" "wc \<noteq> AC_SUB" "\<not> isC1ControlCharacter wc" "\<not> isEscape wc" "\<not> isC0Code wc" "\<not> isDelete wc"
    "\<not> isNumericParamValue wc" "\<not> isIntermediate wc"
  using assms by (auto simp: char_defs)

text \<open>Digits go to the last parameter or sub-parameter, colons and semicolons start the next.\<close>

lemma with_params_digit:
  assumes "isNumericParamValue wc" "limits_clear s"
  shows "ProcessCharacter ops wc (with_params (ps @ [(ds, [])]) s) = Some (with_params (ps @ [(ds @ [wc], [])]) s)"
  using assms numeric_plain [OF assms(1)]
  by (simp add: with_params_def ProcessCharacter_Event EventCsiParam_def ActionParam_def ensure_parameter_def
      params_of_def limits_clear_def number_snoc)

lemma with_params_sub_digit:
  assumes "isNumericParamValue wc" "limits_clear s"
  shows "ProcessCharacter ops wc (with_params (ps @ [(ds, us @ [u])]) s) =
    Some (with_params (ps @ [(ds, us @ [u @ [wc]])]) s)"
  using assms numeric_plain [OF assms(1)]
  by (simp add: with_params_def ProcessCharacter_Event EventCsiSubParam_def ActionSubParam_def ensure_parameter_def
      params_of_def limits_clear_def number_snoc butlast_append)

lemma with_params_colon:
  assumes "limits_clear s" "length us < MAX_SUBPARAMETER_COUNT"
  shows "ProcessCharacter ops 0x3A (with_params (ps @ [(ds, us)]) s) = Some (with_params (ps @ [(ds, us @ [[]])]) s)"
proof -
  have us: "unat (word_of_nat (length us) :: byte) = length us"
    using assms(2) by (simp add: unat_of_nat MAX_SUBPARAMETER_COUNT_def)
  show ?thesis
    using assms delimiter_plain [of "0x3A"]
    by (simp add: with_params_def ProcessCharacter_Event EventCsiParam_def EventCsiSubParam_def ActionSubParam_def
      ensure_parameter_def params_of_def limits_clear_def sub_ranges_snoc us isSubParameterDelimiter_def isParameterDelimiter_def
      EnterCsiSubParam_def Let_def)
qed

lemma with_params_semicolon:
  assumes "limits_clear s" "ps \<noteq> []" "length ps < MAX_PARAMETER_COUNT"
  shows "ProcessCharacter ops 0x3B (with_params ps s) = Some (with_params (ps @ [([], [])]) s)"
  using assms delimiter_plain [of "0x3B"]
  by (simp add: with_params_def ProcessCharacter_Event EventCsiParam_def EventCsiSubParam_def ActionParam_def
      ensure_parameter_def params_of_def limits_clear_def sub_ranges_snoc new_range_def
      isParameterDelimiter_def isSubParameterDelimiter_def EnterCsiParam_def Let_def length_concat o_def)

lemma with_params_digits:
  assumes "limits_clear s" "digit_string es"
  shows "ProcessCharacters ops es (with_params (ps @ [(ds, [])]) s) = Some (with_params (ps @ [(ds @ es, [])]) s)"
    "ProcessCharacters ops es (with_params (ps @ [(ds, us @ [u])]) s) = Some (with_params (ps @ [(ds, us @ [u @ es])]) s)"
  using assms(2)
  by (induction es arbitrary: ds u) (simp_all add: digit_string_def with_params_digit with_params_sub_digit assms(1))

lemma with_params_subs:
  assumes "limits_clear s" "list_all digit_string vs" "length us + length vs \<le> MAX_SUBPARAMETER_COUNT"
  shows "ProcessCharacters ops (concat (map (\<lambda>ds. 0x3A # ds) vs)) (with_params (ps @ [(ds, us)]) s) =
    Some (with_params (ps @ [(ds, us @ vs)]) s)"
  using assms(2,3)
proof (induction vs arbitrary: us)
  case (Cons v vs)
  have "ProcessCharacters ops v (with_params (ps @ [(ds, us @ [[]])]) s) = Some (with_params (ps @ [(ds, us @ [v])]) s)"
    using with_params_digits(2) [OF assms(1), of v ops ps ds us "[]"] Cons.prems by simp
  then show ?case
    using Cons.IH [of "us @ [v]"] Cons.prems
    by (simp add: ProcessCharacters_append with_params_colon [OF assms(1)])
qed simp

lemma with_params_param:
  assumes "limits_clear s" "csi_param_ok p"
  shows "ProcessCharacters ops (render_param p) (with_params (ps @ [([], [])]) s) = Some (with_params (ps @ [p]) s)"
  using assms with_params_digits(1) [OF assms(1), of "fst p" ops ps "[]"]
    with_params_subs [OF assms(1), of "snd p" "[]" ops ps "fst p"]
  by (cases p) (simp add: csi_param_ok_def render_param_def ProcessCharacters_append)

lemma with_params_rest:
  assumes "limits_clear s" "list_all csi_param_ok qs" "ps \<noteq> []" "length ps + length qs \<le> MAX_PARAMETER_COUNT"
  shows "ProcessCharacters ops (concat (map (\<lambda>u. 0x3B # u) (map render_param qs))) (with_params ps s) =
    Some (with_params (ps @ qs) s)"
  using assms(2-4)
proof (induction qs arbitrary: ps)
  case (Cons q qs)
  then show ?case
    using Cons.IH [of "ps @ [q]"]
    by (simp add: ProcessCharacters_append with_params_semicolon [OF assms(1)] with_params_param [OF assms(1)])
qed simp

lemma with_params_all:
  assumes "limits_clear s" "list_all csi_param_ok ps" "ps \<noteq> []" "length ps \<le> MAX_PARAMETER_COUNT"
  shows "ProcessCharacters ops (render_params ps) (with_params [([], [])] s) = Some (with_params ps s)"
proof (cases ps)
  case (Cons p qs)
  then show ?thesis
    using assms with_params_param [OF assms(1), of p ops "[]"] with_params_rest [OF assms(1), of qs "[p]" ops]
    by (simp add: render_params_def join_tokens_concat ProcessCharacters_append o_def)
qed (use assms in simp)

section \<open>Beginning and end of a sequence\<close>

text \<open>Just after the introducer, or after a private marker, nothing has been collected yet.\<close>

definition no_params :: "('e, 'h, 'c) sm \<Rightarrow> bool" where
  "no_params s \<longleftrightarrow> limits_clear s \<and> sm_parameters s = [] \<and> sm_subParameters s = [] \<and> sm_subParameterRanges s = []
     \<and> sm_subParameterCounter s = 0 \<and> (sm_state s = CsiEntry \<or> sm_state s = CsiParam)"

lemma no_params_first:
  assumes "no_params s" "isNumericParamValue wc \<or> wc = 0x3A \<or> wc = 0x3B"
  shows "ProcessCharacter ops wc s = ProcessCharacter ops wc (with_params [([], [])] s)"
proof -
  have plain: "wc \<noteq> AC_CAN \<and> wc \<noteq> AC_SUB \<and> \<not> isC1ControlCharacter wc \<and> \<not> isEscape wc \<and> \<not> isC0Code wc
      \<and> \<not> isDelete wc \<and> \<not> isIntermediate wc"
    using assms(2) by (elim disjE) (simp_all add: numeric_plain delimiter_plain)
  have s: "\<not> sm_parameterLimitOverflowed s" "\<not> sm_subParameterLimitOverflowed s" "sm_parameters s = []"
    "sm_subParameters s = []" "sm_subParameterRanges s = []" "sm_subParameterCounter s = 0"
    using assms(1) by (simp_all add: no_params_def limits_clear_def)
  have kinds: "isNumericParamValue wc \<or> isParameterDelimiter wc \<or> isSubParameterDelimiter wc"
    using assms(2) by (auto simp: char_defs)
  let ?t = "with_params [([], [])] s"
  have "ProcessCharacter ops wc s = EventCsiParam ops wc ?t"
  proof (cases "sm_state s = CsiEntry")
    case True
    then show ?thesis
      using kinds plain s
      by (elim disjE) (simp_all add: MAX_PARAMETER_COUNT_def MAX_SUBPARAMETER_COUNT_def ProcessCharacter_Event EventCsiEntry_def EventCsiParam_def with_params_def params_of_def
          ActionParam_def ActionSubParam_def ensure_parameter_def new_range_def Let_def EnterCsiParam_def EnterCsiSubParam_def)
  next
    case False
    then have "sm_state s = CsiParam" using assms(1) by (simp add: no_params_def)
    then show ?thesis
      using kinds plain s
      by (elim disjE) (simp_all add: MAX_PARAMETER_COUNT_def MAX_SUBPARAMETER_COUNT_def ProcessCharacter_Event EventCsiParam_def with_params_def params_of_def
          ActionParam_def ActionSubParam_def ensure_parameter_def new_range_def Let_def EnterCsiSubParam_def)
  qed
  then show ?thesis using plain by (simp add: ProcessCharacter_Event with_params_def)
qed

lemma render_params_first:
  assumes "list_all csi_param_ok ps" "render_params ps = wc # wcs"
  shows "isNumericParamValue wc \<or> wc = 0x3A \<or> wc = 0x3B"
proof -
  obtain p qs where ps: "ps = p # qs" using assms(2) by (cases ps) (auto simp: render_params_def)
  obtain ds us where p: "p = (ds, us)" by (cases p)
  show ?thesis
    using assms unfolding ps p
    by (cases ds; cases us; cases qs)
      (auto simp: render_params_def render_param_def join_tokens_concat csi_param_ok_def digit_string_def)
qed

lemma no_params_params:
  assumes "no_params s" "list_all csi_param_ok ps" "length ps \<le> MAX_PARAMETER_COUNT" "render_params ps \<noteq> []"
  shows "ProcessCharacters ops (render_params ps) s = Some (with_params ps s)"
proof -
  obtain wc wcs where wcs: "render_params ps = wc # wcs" using assms(4) by (cases "render_params ps") auto
  have "ps \<noteq> []" using assms(4) by (auto simp: render_params_def)
  then have "ProcessCharacters ops (render_params ps) (with_params [([], [])] s) = Some (with_params ps s)"
    using assms with_params_all [of s ps ops] by (simp add: no_params_def)
  then show ?thesis
    using no_params_first [OF assms(1) render_params_first [OF assms(2) wcs]] wcs by simp
qed

lemma csi_start:
  assumes "sm_state s = Ground" "Ansi \<in> sm_parserMode s"
  shows "ProcessCharacters ops [AC_ESC, 0x5B] s = Some (EnterCsiEntry (EnterEscape s))"
proof -
  have "ProcessCharacter ops AC_ESC s = Some (EnterEscape s)"
    using assms by (simp add: ProcessCharacter.simps [of ops AC_ESC] ActionInterrupt_def isEscape_def)
  moreover have "ProcessCharacter ops 0x5B (EnterEscape s) = Some (EnterCsiEntry (EnterEscape s))"
    using assms by (simp add: ProcessCharacter.simps [of ops "0x5B"] EventEscape_def EnterEscape_def ActionClear_def char_defs)
  ultimately show ?thesis by simp
qed

lemma no_params_entry: "no_params (EnterCsiEntry s)" "sm_identifier (EnterCsiEntry s) = VTIDBuilder_Clear"
  by (simp_all add: no_params_def limits_clear_def EnterCsiEntry_def ActionClear_def)

definition marker_text :: "string \<Rightarrow> bool" where
  "marker_text marker \<longleftrightarrow> marker \<in> {[], ''<'', ''='', ''>'', ''?''}"

lemma csi_marker:
  assumes "marker_text marker"
  shows "\<exists>t. ProcessCharacters ops (wstr marker) (EnterCsiEntry s) = Some t \<and> no_params t
    \<and> sm_identifier t = fold AddIntermediate (wstr marker) VTIDBuilder_Clear
    \<and> kept s t"
proof (cases "marker = []")
  case True
  then show ?thesis using no_params_entry [of s] by (simp add: wstr_def EnterCsiEntry_def ActionClear_def)
next
  case False
  let ?s = "EnterCsiEntry s"
  obtain c where c: "wstr marker = [c]" "isCsiPrivateMarker c"
    using assms False by (auto simp: marker_text_def wstr_def wch_def isCsiPrivateMarker_def)
  have "c \<noteq> AC_CAN \<and> c \<noteq> AC_SUB \<and> \<not> isC1ControlCharacter c \<and> \<not> isEscape c \<and> \<not> isC0Code c
      \<and> \<not> isDelete c \<and> \<not> isIntermediate c \<and> \<not> isNumericParamValue c \<and> \<not> isParameterDelimiter c \<and> \<not> isSubParameterDelimiter c"
    using c(2) by (auto simp: char_defs)
  then have "ProcessCharacter ops c ?s = Some (EnterCsiParam (ActionCollect c ?s))"
    using c(2) by (simp add: ProcessCharacter_Event EventCsiEntry_def EnterCsiEntry_def ActionClear_def)
  then show ?thesis
    using c no_params_entry [of s]
    by (simp add: no_params_def limits_clear_def EnterCsiParam_def ActionCollect_def EnterCsiEntry_def ActionClear_def)
qed

definition csi_ready :: "('e, 'h, 'c) sm \<Rightarrow> bool" where
  "csi_ready s \<longleftrightarrow> sm_state s \<in> {CsiEntry, CsiParam, CsiSubParam, CsiIntermediate}"

lemma csi_intermediates:
  assumes "csi_ready s" "list_all isIntermediate wcs"
  shows "\<exists>t. ProcessCharacters ops wcs s = Some t \<and> csi_ready t \<and> CsiParameters t = CsiParameters s
    \<and> sm_identifier t = fold AddIntermediate wcs (sm_identifier s) \<and> kept s t"
  using assms
proof (induction wcs arbitrary: s)
  case (Cons wc wcs)
  have "wc \<noteq> AC_CAN \<and> wc \<noteq> AC_SUB \<and> \<not> isC1ControlCharacter wc \<and> \<not> isEscape wc \<and> \<not> isC0Code wc
      \<and> \<not> isDelete wc \<and> \<not> isNumericParamValue wc \<and> \<not> isParameterDelimiter wc \<and> \<not> isSubParameterDelimiter wc"
    using Cons.prems(2) by (auto simp: char_defs word_le_nat_alt)
  then have "ProcessCharacter ops wc s = Some (EnterCsiIntermediate (ActionCollect wc s))"
    using Cons.prems
    by (auto simp: csi_ready_def ProcessCharacter_Event EventCsiEntry_def EventCsiParam_def EventCsiSubParam_def
        EventCsiIntermediate_def EnterCsiIntermediate_def ActionCollect_def)
  then show ?case
    using Cons.IH [of "EnterCsiIntermediate (ActionCollect wc s)"] Cons.prems(2)
    by (simp add: csi_ready_def EnterCsiIntermediate_def ActionCollect_def CsiParameters_def)
qed simp

lemma csi_final:
  assumes "csi_ready s" "0x40 \<le> f" "f \<le> 0x7E"
  shows "ProcessCharacter ops f s =
    ActionCsiDispatch ops f s \<bind> (\<lambda>s1. ExecuteCsiCompleteCallback ops (EnterGround s1))"
proof -
  have "f \<noteq> AC_CAN \<and> f \<noteq> AC_SUB \<and> \<not> isC1ControlCharacter f \<and> \<not> isEscape f \<and> \<not> isC0Code f \<and> \<not> isIntermediate f
      \<and> \<not> isDelete f \<and> \<not> isNumericParamValue f \<and> \<not> isParameterDelimiter f \<and> \<not> isSubParameterDelimiter f
      \<and> \<not> isCsiPrivateMarker f"
    using assms(2,3) by (auto simp: char_defs word_le_nat_alt)
  then show ?thesis
    using assms(1)
    by (auto simp: csi_ready_def ProcessCharacter_Event EventCsiEntry_def EventCsiParam_def EventCsiSubParam_def
        EventCsiIntermediate_def isParameterInvalid_def isIntermediateInvalid_def)
qed

lemma csi_body:
  assumes "no_params s" "list_all csi_param_ok ps" "length ps \<le> MAX_PARAMETER_COUNT" "ps \<noteq> [([], [])]"
  shows "\<exists>t. ProcessCharacters ops (render_params ps) s = Some t \<and> csi_ready t \<and> CsiParameters t = params_of ps
    \<and> sm_identifier t = sm_identifier s \<and> kept s t"
proof (cases "render_params ps = []")
  case True
  then have "ps = []"
    using assms(4) by (cases ps; cases "tl ps"; cases "hd ps") (auto simp: render_params_def render_param_def)
  then show ?thesis
    using assms(1) by (auto simp: no_params_def csi_ready_def CsiParameters_def params_of_def render_params_def)
next
  case False
  then show ?thesis
    using no_params_params [OF assms(1-3) False, of ops]
    by (simp add: with_params_def csi_ready_def CsiParameters_def params_of_def)
qed

lemma ascii_wch: "wch c \<le> 0x7E \<Longrightarrow> ascii c"
  by (simp add: wch_def word_le_nat_alt ascii_def)

lemma ascii_intermediates: "list_all isIntermediate (wstr s) \<Longrightarrow> list_all ascii s"
  by (induction s) (auto simp: wstr_def isIntermediate_def word_le_nat_alt intro!: ascii_wch)

lemma ascii_marker: "marker_text marker \<Longrightarrow> list_all ascii marker"
  by (auto simp: marker_text_def)

lemma csi_sequence:
  assumes "sm_state s = Ground" "Ansi \<in> sm_parserMode s" "marker_text marker"
    "list_all csi_param_ok ps" "length ps \<le> MAX_PARAMETER_COUNT" "ps \<noteq> [([], [])]"
    "list_all isIntermediate (wstr inters)" "length (marker @ inters) \<le> 6" "0x40 \<le> wch f" "wch f \<le> 0x7E"
  shows "\<exists>t. kept s t \<and> ProcessCharacters ops (csi_text marker ps inters f) s =
    execute_action ops (op_ActionCsiDispatch ops (VTID (marker @ inters @ [f])) (params_of ps)) t
    \<bind> (\<lambda>s1. ExecuteCsiCompleteCallback ops (EnterGround s1))"
proof -
  obtain t1 where t1: "ProcessCharacters ops (wstr marker) (EnterCsiEntry (EnterEscape s)) = Some t1" "no_params t1"
    "sm_identifier t1 = fold AddIntermediate (wstr marker) VTIDBuilder_Clear" "kept (EnterEscape s) t1"
    using csi_marker [OF assms(3)] by blast
  obtain t2 where t2: "ProcessCharacters ops (render_params ps) t1 = Some t2" "csi_ready t2" "CsiParameters t2 = params_of ps"
    "sm_identifier t2 = sm_identifier t1" "kept t1 t2"
    using csi_body [OF t1(2) assms(4-6)] by blast
  obtain t where t: "ProcessCharacters ops (wstr inters) t2 = Some t" "csi_ready t" "CsiParameters t = CsiParameters t2"
    "sm_identifier t = fold AddIntermediate (wstr inters) (sm_identifier t2)" "kept t2 t"
    using csi_intermediates [OF t2(2) assms(7)] by blast
  have whole: "csi_text marker ps inters f = [AC_ESC, 0x5B] @ wstr marker @ render_params ps @ wstr inters @ [wch f]"
    by (simp add: csi_text_def)
  have run: "ProcessCharacters ops (csi_text marker ps inters f) s = ProcessCharacter ops (wch f) t"
    unfolding whole ProcessCharacters_append csi_start [OF assms(1,2)] by (simp add: ProcessCharacters_append t1(1) t2(1) t(1))
  have "sm_identifier t = fold AddIntermediate (wstr (marker @ inters)) VTIDBuilder_Clear"
    using t1(3) t2(4) t(4) by (simp add: wstr_def)
  then have "Finalize (wch f) (sm_identifier t) = VTID (marker @ inters @ [f])"
    using Finalize_fold [OF assms(8), of f] ascii_marker [OF assms(3)] ascii_intermediates [OF assms(7)] ascii_wch [OF assms(10)]
    by simp
  moreover have "kept s t"
    using t(5) t2(5) t1(4) by (simp add: EnterEscape_def ActionClear_def)
  ultimately show ?thesis
    unfolding run csi_final [OF t(2) assms(9,10)] ActionCsiDispatch_def using t(3) t2(3) by auto
qed

text \<open>C5:
  A control sequence, written with an optional private marker, up to 32 parameters of any number
  of digits with up to six sub-parameters each, intermediate characters and a final character,
  reaches the engine as one call, with the identifier made of its marker, intermediates and final
  character, and with exactly the parameters and sub-parameters that were written, each limited
  to 65535.
\<close>

theorem csi_sequence_dispatch:
  assumes "sm_state s = Ground" "Ansi \<in> sm_parserMode s" "marker_text marker"
    "list_all csi_param_ok ps" "length ps \<le> MAX_PARAMETER_COUNT" "ps \<noteq> [([], [])]"
    "list_all isIntermediate (wstr inters)" "length (marker @ inters) \<le> 6" "0x40 \<le> wch f" "wch f \<le> 0x7E"
  shows "\<exists>t. kept s t \<and> ProcessCharacters ops (csi_text marker ps inters f) s =
    execute_action ops (op_ActionCsiDispatch ops (VTID (marker @ inters @ [f])) (params_of ps)) t
    \<bind> (\<lambda>s1. ExecuteCsiCompleteCallback ops (EnterGround s1))"
  by (rule csi_sequence [OF assms])

theorem csi_sequence_dispatch_witness:
  "\<forall>ops :: (unit, unit, unit) engine_ops. \<exists>t. ProcessCharacters ops
      (csi_text ''?'' [(wstr ''12'', []), ([], [wstr ''3'', []])] ''$'' (CHR ''p'')) (StateMachine () False 0 0 False) =
    execute_action ops (op_ActionCsiDispatch ops (VTID ''?$p'') (params_of [(wstr ''12'', []), ([], [wstr ''3'', []])])) t
    \<bind> (\<lambda>s1. ExecuteCsiCompleteCallback ops (EnterGround s1))"
proof
  fix ops :: "(unit, unit, unit) engine_ops"
  let ?ps = "[(wstr ''12'', []), ([], [wstr ''3'', []])]"
  have "list_all csi_param_ok ?ps"
    by (simp add: csi_param_ok_def digit_string_def wstr_def wch_def isNumericParamValue_def MAX_SUBPARAMETER_COUNT_def)
  moreover have "list_all isIntermediate (wstr ''$'')" by (simp add: wstr_def wch_def isIntermediate_def)
  ultimately show "\<exists>t. ProcessCharacters ops (csi_text ''?'' ?ps ''$'' (CHR ''p'')) (StateMachine () False 0 0 False) =
    execute_action ops (op_ActionCsiDispatch ops (VTID ''?$p'') (params_of ?ps)) t
    \<bind> (\<lambda>s1. ExecuteCsiCompleteCallback ops (EnterGround s1))"
    using csi_sequence_dispatch [of "StateMachine () False 0 0 False" "''?''" ?ps "''$''" "CHR ''p''" ops]
    by (auto simp: StateMachine_def ActionClear_def SetParserMode_def marker_text_def MAX_PARAMETER_COUNT_def wch_def)
qed

section \<open>Escape sequences\<close>

definition esc_text :: "string \<Rightarrow> char \<Rightarrow> wstring" where
  "esc_text inters f = AC_ESC # wstr inters @ [wch f]"

text \<open>Without intermediates, the final characters that introduce strings and sequences are excluded.\<close>

definition esc_final :: "string \<Rightarrow> char \<Rightarrow> bool" where
  "esc_final inters f \<longleftrightarrow> 0x30 \<le> wch f \<and> wch f \<le> 0x7E \<and>
     (inters = [] \<longrightarrow> wch f \<notin> wch ` {CHR ''['', CHR '']'', CHR ''P'', CHR ''X'', CHR ''^'', CHR ''_''})"

lemma esc_intermediates:
  assumes "sm_state s = Escape \<or> sm_state s = EscapeIntermediate" "\<not> sm_isEngineForInput s" "list_all isIntermediate wcs"
  shows "\<exists>t. ProcessCharacters ops wcs s = Some t \<and> sm_state t = (if wcs = [] then sm_state s else EscapeIntermediate)
    \<and> sm_identifier t = fold AddIntermediate wcs (sm_identifier s) \<and> kept s t"
  using assms
proof (induction wcs arbitrary: s)
  case (Cons wc wcs)
  have "wc \<noteq> AC_CAN \<and> wc \<noteq> AC_SUB \<and> \<not> isC1ControlCharacter wc \<and> \<not> isEscape wc \<and> \<not> isC0Code wc \<and> \<not> isDelete wc"
    using Cons.prems(3) by (auto simp: char_defs word_le_nat_alt)
  then have "ProcessCharacter ops wc s = Some (EnterEscapeIntermediate (ActionCollect wc s))"
    using Cons.prems
    by (auto simp: ProcessCharacter_Event EventEscape_def EventEscapeIntermediate_def EnterEscapeIntermediate_def ActionCollect_def)
  then show ?case
    using Cons.IH [of "EnterEscapeIntermediate (ActionCollect wc s)"] Cons.prems(2,3)
    by (auto simp: EnterEscapeIntermediate_def ActionCollect_def split: if_splits)
qed simp

lemma esc_sequence:
  assumes "sm_state s = Ground" "Ansi \<in> sm_parserMode s" "\<not> sm_isEngineForInput s"
    "list_all isIntermediate (wstr inters)" "length inters \<le> 6" "esc_final inters f"
  shows "\<exists>t. kept s t \<and> ProcessCharacters ops (esc_text inters f) s =
    map_option EnterGround (execute_action ops (op_ActionEscDispatch ops (VTID (inters @ [f]))) t)"
proof -
  have start: "ProcessCharacter ops AC_ESC s = Some (EnterEscape s)"
    using assms by (simp add: ProcessCharacter.simps [of ops AC_ESC] ActionInterrupt_def isEscape_def)
  have esc: "sm_state (EnterEscape s) = Escape" "\<not> sm_isEngineForInput (EnterEscape s)" "kept s (EnterEscape s)"
    "sm_identifier (EnterEscape s) = VTIDBuilder_Clear"
    using assms(3) by (simp_all add: EnterEscape_def ActionClear_def)
  then obtain t where t: "ProcessCharacters ops (wstr inters) (EnterEscape s) = Some t"
    "sm_state t = (if wstr inters = [] then Escape else EscapeIntermediate)"
    "sm_identifier t = fold AddIntermediate (wstr inters) VTIDBuilder_Clear" "kept (EnterEscape s) t"
    using esc_intermediates [OF _ esc(2) assms(4), of ops] by auto
  have "Finalize (wch f) (sm_identifier t) = VTID (inters @ [f])"
    using Finalize_fold [OF assms(5), of f] t(3) ascii_intermediates [OF assms(4)] ascii_wch [of f] assms(6)
    by (simp add: esc_final_def)
  moreover have "ProcessCharacter ops (wch f) t = map_option EnterGround (ActionEscDispatch ops (wch f) t)"
  proof -
    have plain: "wch f \<noteq> AC_CAN \<and> wch f \<noteq> AC_SUB \<and> \<not> isC1ControlCharacter (wch f) \<and> \<not> isEscape (wch f) \<and> \<not> isC0Code (wch f)
        \<and> \<not> isDelete (wch f) \<and> \<not> isIntermediate (wch f)"
      using assms(6) by (auto simp: esc_final_def char_defs word_le_nat_alt)
    have first: "inters = [] \<Longrightarrow> \<not> isCsiIndicator (wch f) \<and> \<not> isOscIndicator (wch f) \<and> \<not> isDcsIndicator (wch f)
        \<and> \<not> isSosIndicator (wch f) \<and> \<not> isPmIndicator (wch f) \<and> \<not> isApcIndicator (wch f)"
      using assms(6) by (simp add: esc_final_def char_defs wch_def)
    show ?thesis
      using plain first t(2,4) esc(3) assms(2,3)
      by (cases "inters = []") (simp_all add: ProcessCharacter_Event EventEscape_def EventEscapeIntermediate_def wstr_def)
  qed
  ultimately show ?thesis
    using t(1,4) esc(3) start by (auto simp: esc_text_def ProcessCharacters_append ActionEscDispatch_def)
qed

section \<open>Operating system commands\<close>

definition osc_text :: "wstring \<Rightarrow> wstring \<Rightarrow> wstring \<Rightarrow> wstring" where
  "osc_text ds str terminator = AC_ESC # 0x5D # ds @ 0x3B # str @ terminator"

definition osc_char :: "wchar \<Rightarrow> bool" where
  "osc_char wc \<longleftrightarrow> 0x20 \<le> wc \<and> \<not> isC1ControlCharacter wc"

definition osc_terminator :: "wstring \<Rightarrow> bool" where
  "osc_terminator str \<longleftrightarrow> str = [AC_BEL] \<or> str = [AC_ESC, 0x5C]"

definition osc_number :: "wstring \<Rightarrow> int" where
  "osc_number ds = min (int (digits_value 10 0 ds)) MAX_PARAMETER_VALUE"

lemma ProcessCharacter_Osc:
  assumes "wc \<noteq> AC_CAN" "wc \<noteq> AC_SUB" "\<not> isC1ControlCharacter wc"
  shows "sm_state s = OscParam \<Longrightarrow> ProcessCharacter ops wc s = EventOscParam ops wc s"
    "sm_state s = OscString \<Longrightarrow> ProcessCharacter ops wc s = EventOscString ops wc s"
    "sm_state s = OscTermination \<Longrightarrow> \<not> isEscape wc \<Longrightarrow> ProcessCharacter ops wc s = EventOscTermination ops wc s"
  using assms by (simp_all add: ProcessCharacter.simps [of ops wc s])

lemma osc_start:
  assumes "sm_state s = Ground" "Ansi \<in> sm_parserMode s"
  shows "ProcessCharacters ops [AC_ESC, 0x5D] s = Some (EnterOscParam (EnterEscape s))"
proof -
  have "ProcessCharacter ops AC_ESC s = Some (EnterEscape s)"
    using assms by (simp add: ProcessCharacter.simps [of ops AC_ESC] ActionInterrupt_def isEscape_def)
  moreover have "ProcessCharacter ops 0x5D (EnterEscape s) = Some (EnterOscParam (EnterEscape s))"
    using assms by (simp add: ProcessCharacter.simps [of ops "0x5D"] EventEscape_def EnterEscape_def ActionClear_def char_defs)
  ultimately show ?thesis by simp
qed

lemma osc_number_snoc:
  assumes "isNumericParamValue wc"
  shows "osc_number (ds @ [wc]) = AccumulateTo wc (osc_number ds)"
proof -
  have "int (unat wc) - 48 = int (digit_ref wc)" using digit_ref_numeric [OF assms] by (simp add: of_nat_diff)
  then show ?thesis
    by (auto simp: osc_number_def AccumulateTo_def digits_value_snoc MAX_PARAMETER_VALUE_def Let_def min_def)
qed

lemma osc_digits:
  assumes "sm_state s = OscParam" "digit_string es"
  shows "ProcessCharacters ops es (s\<lparr>sm_oscParameter := osc_number ds\<rparr>) =
    Some (s\<lparr>sm_oscParameter := osc_number (ds @ es)\<rparr>)"
  using assms(2)
proof (induction es arbitrary: ds)
  case (Cons e es)
  then have e: "isNumericParamValue e" by (simp add: digit_string_def)
  have "ProcessCharacter ops e (s\<lparr>sm_oscParameter := osc_number ds\<rparr>) = Some (s\<lparr>sm_oscParameter := osc_number (ds @ [e])\<rparr>)"
    using assms(1) numeric_plain [OF e] e
    by (simp add: ProcessCharacter_Osc EventOscParam_def ActionOscParam_def osc_number_snoc)
  then show ?case using Cons.IH [of "ds @ [e]"] Cons.prems by (simp add: digit_string_def)
qed simp

lemma osc_chars:
  assumes "sm_state s = OscString" "list_all osc_char str"
  shows "ProcessCharacters ops str s = Some (s\<lparr>sm_oscString := sm_oscString s @ str\<rparr>)"
  using assms
proof (induction str arbitrary: s)
  case (Cons wc wcs)
  then have "wc \<noteq> AC_CAN \<and> wc \<noteq> AC_SUB \<and> \<not> isC1ControlCharacter wc \<and> \<not> isEscape wc \<and> \<not> isOscTerminator wc \<and> \<not> isOscInvalid wc"
    by (auto simp: osc_char_def isEscape_def isOscTerminator_def isOscInvalid_def word_le_nat_alt)
  then have "ProcessCharacter ops wc s = Some (s\<lparr>sm_oscString := sm_oscString s @ [wc]\<rparr>)"
    using Cons.prems(1) by (simp add: ProcessCharacter_Osc EventOscString_def ActionOscPut_def)
  then show ?case using Cons.IH [of "s\<lparr>sm_oscString := sm_oscString s @ [wc]\<rparr>"] Cons.prems by simp
qed simp

lemma osc_end:
  assumes "sm_state s = OscString" "osc_terminator terminator"
  shows "\<exists>t. kept s t \<and> ProcessCharacters ops terminator s =
    map_option EnterGround (execute_action ops (op_ActionOscDispatch ops (sm_oscParameter s) (sm_oscString s)) t)"
proof (cases "terminator = [AC_BEL]")
  case True
  then show ?thesis
    using assms(1)
    by (intro exI [of _ s]) (simp add: ProcessCharacter_Osc EventOscString_def ActionOscDispatch_def isOscTerminator_def isC1ControlCharacter_def)
next
  case False
  then have "terminator = [AC_ESC, 0x5C]" using assms(2) by (simp add: osc_terminator_def)
  then show ?thesis
    using assms(1)
    by (intro exI [of _ "EnterOscTermination s"])
      (simp add: ProcessCharacter_Osc EventOscString_def EventOscTermination_def EnterOscTermination_def ActionOscDispatch_def
        char_defs)
qed

lemma osc_sequence:
  assumes "sm_state s = Ground" "Ansi \<in> sm_parserMode s" "digit_string ds" "list_all osc_char str" "osc_terminator terminator"
  shows "\<exists>t. kept s t \<and> ProcessCharacters ops (osc_text ds str terminator) s =
    map_option EnterGround (execute_action ops (op_ActionOscDispatch ops (osc_number ds) str) t)"
proof -
  define s0 where "s0 = EnterOscParam (EnterEscape s)"
  have s0: "sm_state s0 = OscParam" "sm_oscParameter s0 = osc_number []" "sm_oscString s0 = []" "kept s s0"
    by (simp_all add: s0_def EnterOscParam_def EnterEscape_def ActionClear_def osc_number_def MAX_PARAMETER_VALUE_def)
  define s1 where "s1 = s0\<lparr>sm_oscParameter := osc_number ds\<rparr>"
  have "s0\<lparr>sm_oscParameter := osc_number []\<rparr> = s0" using s0(2) by (cases s0) simp
  then have digits: "ProcessCharacters ops ds s0 = Some s1"
    using osc_digits [OF s0(1) assms(3), of ops "[]"] by (simp add: s1_def)
  have semicolon: "ProcessCharacter ops 0x3B s1 = Some (EnterOscString s1)"
    using s0(1) by (simp add: s1_def ProcessCharacter_Osc EventOscParam_def char_defs)
  define s2 where "s2 = (EnterOscString s1)\<lparr>sm_oscString := str\<rparr>"
  have s2: "sm_state s2 = OscString" "sm_oscParameter s2 = osc_number ds" "sm_oscString s2 = str" "kept s s2"
    using s0 by (simp_all add: s2_def s1_def EnterOscString_def)
  have "ProcessCharacters ops str (EnterOscString s1) = Some s2"
    using osc_chars [of "EnterOscString s1" str ops] assms(4) s0(3) by (simp add: s2_def s1_def EnterOscString_def)
  moreover have "osc_text ds str terminator = [AC_ESC, 0x5D] @ ds @ [0x3B] @ str @ terminator" by (simp add: osc_text_def)
  ultimately have "ProcessCharacters ops (osc_text ds str terminator) s = ProcessCharacters ops terminator s2"
    using osc_start [OF assms(1,2), of ops] digits semicolon
    by (simp only: ProcessCharacters_append) (simp add: s0_def ProcessCharacters_append)
  then show ?thesis using osc_end [OF s2(1) assms(5), of ops] s2 by simp
qed

text \<open>C6:
  An operating system command, a number and a string of characters that are not control
  characters, ended by BEL or by the string terminator, reaches the engine as one call with that
  number, limited to 65535, and exactly that string.
\<close>

theorem osc_sequence_dispatch:
  assumes "sm_state s = Ground" "Ansi \<in> sm_parserMode s" "digit_string ds" "list_all osc_char str" "osc_terminator terminator"
  shows "\<exists>t. kept s t \<and> ProcessCharacters ops (osc_text ds str terminator) s =
    map_option EnterGround (execute_action ops (op_ActionOscDispatch ops (osc_number ds) str) t)"
  by (rule osc_sequence [OF assms])

theorem osc_sequence_dispatch_witness:
  "\<forall>ops :: (unit, unit, unit) engine_ops. \<exists>t.
    ProcessCharacters ops (osc_text (wstr ''0'') (wstr ''title'') [AC_BEL]) (StateMachine () False 0 0 False) =
    map_option EnterGround (execute_action ops (op_ActionOscDispatch ops 0 (wstr ''title'')) t)"
proof
  fix ops :: "(unit, unit, unit) engine_ops"
  have "digit_string (wstr ''0'')" "list_all osc_char (wstr ''title'')" "osc_terminator [AC_BEL]" "osc_number (wstr ''0'') = 0"
    by (simp_all add: digit_string_def osc_char_def osc_terminator_def osc_number_def wstr_def wch_def isNumericParamValue_def
        isC1ControlCharacter_def digit_ref_def MAX_PARAMETER_VALUE_def)
  then show "\<exists>t. ProcessCharacters ops (osc_text (wstr ''0'') (wstr ''title'') [AC_BEL]) (StateMachine () False 0 0 False) =
    map_option EnterGround (execute_action ops (op_ActionOscDispatch ops 0 (wstr ''title'')) t)"
    using osc_sequence_dispatch [of "StateMachine () False 0 0 False" "wstr ''0''" "wstr ''title''" "[AC_BEL]" ops]
    by (auto simp: StateMachine_def ActionClear_def SetParserMode_def)
qed

end
