(* ===== verification/Terminal.thy ===== *)
theory Terminal
  imports Chunking Sequences
begin

text \<open>
  Parser, output engine and dispatcher put together: a terminal that is fed strings and whose
  dispatcher records what it is asked to do. The lemmas say which calls a control sequence, an
  operating system command and printed text lead to, however the text is cut into strings.
\<close>

section \<open>One character at a time\<close>

text \<open>
  A dispatcher for which printing one character and printing the string of that character are the
  same. The pieces of the text then do not matter at all, and the parser is its own reference.
\<close>

locale char_dispatch = chunk_dispatch +
  assumes print_one: "printable [wc] \<Longrightarrow> td_Call d (DC_Text (PrintString [wc])) s = td_Call d (DC_Text (Print wc)) s"

lemma printable_plain:
  assumes "\<not> isActionableFromGround wc"
  shows "wc \<noteq> AC_CAN" "wc \<noteq> AC_SUB" "\<not> isC1ControlCharacter wc" "\<not> isEscape wc" "\<not> isC0Code wc" "\<not> isDelete wc"
proof -
  have "\<not> isC1ControlCharacter wc"
  proof
    assume "isC1ControlCharacter wc"
    then have "unat wc = unat (wc - AC_DEL) + 127" "unat wc \<le> 159"
      by (simp_all add: isC1ControlCharacter_def word_le_nat_alt unat_sub)
    then show False using assms by (simp add: isActionableFromGround_def word_le_nat_alt)
  qed
  then show "wc \<noteq> AC_CAN" "wc \<noteq> AC_SUB" "\<not> isC1ControlCharacter wc" "\<not> isEscape wc" "\<not> isC0Code wc" "\<not> isDelete wc"
    using assms
    by (auto simp: isActionableFromGround_def isEscape_def isC0Code_def isDelete_def word_le_nat_alt char_defs)
qed

context char_dispatch
begin

lemma vt_step_ProcessCharacter:
  "vt_step (OutputStateMachineEngine d u8u16) wc s = ProcessCharacter (OutputStateMachineEngine d u8u16) wc s"
proof (cases "sm_state s = Ground \<and> \<not> isActionableFromGround wc")
  case True
  then have one: "printable [wc]" by (simp add: printable_def)
  have "out_ActionPrintString d [wc] s = out_ActionPrint d wc s" for s
    by (simp add: out_ActionPrintString_def out_ActionPrint_def dispatch_only_def print_one [OF one])
  then have "op_ActionPrintString (OutputStateMachineEngine d u8u16) [wc] = op_ActionPrint (OutputStateMachineEngine d u8u16) wc"
    by (simp add: OutputStateMachineEngine_def fun_eq_iff)
  then show ?thesis
    using True printable_plain [of wc]
    by (simp add: vt_step_def ProcessCharacter.simps [of _ wc s] EventGround_def ActionPrint_def ActionPrintString_def)
next
  case False
  then show ?thesis unfolding vt_step_def by (rule if_not_P)
qed

lemma vt_run_ProcessCharacters:
  "vt_run (OutputStateMachineEngine d u8u16) str s = ProcessCharacters (OutputStateMachineEngine d u8u16) str s"
proof (induction str arbitrary: s)
  case (Cons wc wcs)
  then have "vt_run (OutputStateMachineEngine d u8u16) wcs = ProcessCharacters (OutputStateMachineEngine d u8u16) wcs"
    by (simp add: fun_eq_iff)
  then show ?case by (simp add: vt_step_ProcessCharacter)
qed simp

lemma ProcessStrings_ProcessCharacters:
  assumes "sm_inv s" "\<not> sm_isEngineForInput s"
  shows "\<exists>s' t. ProcessStrings (OutputStateMachineEngine d u8u16) strs s = Some s' \<and>
    ProcessCharacters (OutputStateMachineEngine d u8u16) (concat strs) s = Some t \<and> same t s'"
  using ProcessStrings_vt_run [OF assms, of strs] by (auto simp: vt_run_ProcessCharacters option_rel_Some2)

end

interpretation tdp: char_dispatch "TermDispatch print (fold print)" u8u16 for print u8u16
  by unfold_locales (simp add: TermDispatch_def)

interpretation rec: char_dispatch Recorder u8u16 for u8u16
  by unfold_locales (simp add: Recorder_def)

section \<open>The recording terminal\<close>

definition terminal :: "(dispatch_event list, unit, unit) osm" where
  "terminal = StateMachine (OutputEngine_init []) False 0 0 False"

definition terminal_events :: "(byte list \<Rightarrow> wstring option) \<Rightarrow> wstring list \<Rightarrow> dispatch_event list option" where
  "terminal_events u8u16 strs =
     map_option (\<lambda>s. oe_dispatch (sm_engine s)) (ProcessStrings (OutputStateMachineEngine Recorder u8u16) strs terminal)"

abbreviation recording :: "(byte list \<Rightarrow> wstring option) \<Rightarrow> (dispatch_event list output_engine, unit, unit) engine_ops" where
  "recording u8u16 \<equiv> OutputStateMachineEngine Recorder u8u16"

lemma terminal_simps [simp]:
  "sm_inv terminal" "\<not> sm_isEngineForInput terminal" "sm_state terminal = Ground" "Ansi \<in> sm_parserMode terminal"
  "sm_engine terminal = OutputEngine_init []"
  by (simp_all add: terminal_def) (simp_all add: StateMachine_def ActionClear_def SetParserMode_def)

lemma terminal_events_ProcessCharacters:
  "terminal_events u8u16 strs =
   map_option (\<lambda>s. oe_dispatch (sm_engine s)) (ProcessCharacters (recording u8u16) (concat strs) terminal)"
  using rec.ProcessStrings_ProcessCharacters [of terminal u8u16 strs]
  by (auto simp: terminal_events_def dest: same_core_fields(1))

text \<open>What the recorder writes down.\<close>

lemma Recorder_run_calls:
  "run_calls Recorder calls s = (Returned (), update_dispatch (\<lambda>es. es @ concat (map call_events calls)) s)"
  by (induction calls arbitrary: s) (simp_all add: Recorder_def update_dispatch_def)

lemma Recorder_dispatch_and_clear:
  "execute_action (recording u8u16) (dispatch_and_clear Recorder calls) s =
   Some (ClearLastChar (update_dispatch (\<lambda>es. es @ concat (map call_events calls)) s))"
  by (simp add: execute_action_def SafeExecute_def SafeExecute_with_def dispatch_and_clear_def Recorder_run_calls)

lemma Recorder_CsiComplete:
  "\<exists>s'. ExecuteCsiCompleteCallback (recording u8u16) s = Some s' \<and> sm_engine s' = sm_engine s \<and> sm_state s' = sm_state s
     \<and> sm_parserMode s' = sm_parserMode s \<and> sm_isEngineForInput s' = sm_isEngineForInput s"
  by (cases "sm_onCsiCompleteCallback s")
    (simp_all add: ExecuteCsiCompleteCallback_def OutputStateMachineEngine_def Recorder_def)

section \<open>Scripts\<close>

text \<open>
  A script is a sequence of printed texts, control characters, escape and control sequences, and
  operating system commands. Its text is what an application writes; its calls are what it means,
  given the character that was printed last, which only the repeat function uses.
\<close>

datatype item =
    Text wstring
  | Control_char wchar
  | Escape_seq string char
  | Control_seq string "csi_param list" string char
  | Command wstring wstring wstring

fun item_text :: "item \<Rightarrow> wstring" where
  "item_text (Text str) = str"
| "item_text (Control_char wc) = [wc]"
| "item_text (Escape_seq inters f) = esc_text inters f"
| "item_text (Control_seq marker ps inters f) = csi_text marker ps inters f"
| "item_text (Command ds str terminator) = osc_text ds str terminator"

fun item_ok :: "item \<Rightarrow> bool" where
  "item_ok (Text str) \<longleftrightarrow> list_all (\<lambda>wc. \<not> isActionableFromGround wc) str"
| "item_ok (Control_char wc) \<longleftrightarrow> isC0Code wc \<or> wc = AC_CAN \<or> wc = AC_SUB \<or> wc = AC_DEL"
| "item_ok (Escape_seq inters f) \<longleftrightarrow> list_all isIntermediate (wstr inters) \<and> length inters \<le> 6 \<and> esc_final inters f"
| "item_ok (Control_seq marker ps inters f) \<longleftrightarrow>
     marker_text marker \<and> list_all csi_param_ok ps \<and> length ps \<le> MAX_PARAMETER_COUNT \<and> ps \<noteq> [([], [])]
     \<and> list_all isIntermediate (wstr inters) \<and> length (marker @ inters) \<le> 6 \<and> 0x40 \<le> wch f \<and> wch f \<le> 0x7E"
| "item_ok (Command ds str terminator) \<longleftrightarrow> digit_string ds \<and> list_all osc_char str \<and> osc_terminator terminator"

definition csi_accepted :: "VTID \<Rightarrow> VTParameters \<Rightarrow> bool" where
  "csi_accepted vid ps \<longleftrightarrow> (hasSubParams ps \<longrightarrow> CanSeqAcceptSubParam vid ps)"

fun item_calls :: "(byte list \<Rightarrow> wstring option) \<Rightarrow> wchar \<Rightarrow> item \<Rightarrow> dispatch_call list" where
  "item_calls u8u16 printed (Text str) = [DC_Text (PrintString str)]"
| "item_calls u8u16 printed (Control_char wc) = execute_calls wc"
| "item_calls u8u16 printed (Escape_seq inters f) = esc_calls (VTID (inters @ [f]))"
| "item_calls u8u16 printed (Control_seq marker ps inters f) =
     (if csi_accepted (VTID (marker @ inters @ [f])) (params_of ps)
      then csi_calls printed (VTID (marker @ inters @ [f])) (params_of ps) else [])"
| "item_calls u8u16 printed (Command ds str terminator) = osc_calls u8u16 (nat (osc_number ds)) str"

fun item_last :: "wchar \<Rightarrow> item \<Rightarrow> wchar" where
  "item_last printed (Text str) = (if str = [] then printed else last str)"
| "item_last printed (Control_seq marker ps inters f) =
     (if csi_accepted (VTID (marker @ inters @ [f])) (params_of ps) then AC_NUL else printed)"
| "item_last printed i = AC_NUL"

fun script_calls :: "(byte list \<Rightarrow> wstring option) \<Rightarrow> wchar \<Rightarrow> item list \<Rightarrow> dispatch_call list" where
  "script_calls u8u16 printed [] = []"
| "script_calls u8u16 printed (i # is) = item_calls u8u16 printed i @ script_calls u8u16 (item_last printed i) is"

text \<open>A terminal between two items.\<close>

definition ready :: "dispatch_event list \<Rightarrow> wchar \<Rightarrow> (dispatch_event list, unit, unit) osm \<Rightarrow> bool" where
  "ready es printed s \<longleftrightarrow> sm_state s = Ground \<and> Ansi \<in> sm_parserMode s \<and> \<not> sm_isEngineForInput s
     \<and> sm_engine s = \<lparr>oe_dispatch = es, oe_lastPrintedChar = printed\<rparr>"

lemma ready_dispatch:
  assumes "kept s t" "ready es printed s"
  shows "ready (es @ concat (map call_events calls)) AC_NUL
    (EnterGround (ClearLastChar (update_dispatch (\<lambda>es. es @ concat (map call_events calls)) t)))"
  using assms by (simp add: ready_def EnterGround_def ClearLastChar_def update_dispatch_def)

lemma ready_print:
  assumes "ready es printed s" "\<not> isActionableFromGround wc"
  shows "\<exists>t. ProcessCharacter (recording u8u16) wc s = Some t \<and> ready (es @ [Called (DC_Text (Print wc))]) wc t"
proof -
  have "wc \<ge> AC_SPC" using printable_last [of "[wc]"] assms(2) by (simp add: printable_def)
  then show ?thesis
    using assms printable_plain [OF assms(2)]
    by (simp add: ready_def ProcessCharacter_Event EventGround_def ActionPrint_def execute_action_def SafeExecute_def
        SafeExecute_with_def OutputStateMachineEngine_def out_ActionPrint_def dispatch_only_def Recorder_def SetLastChar_def
        update_dispatch_def)
qed

lemma ready_Text:
  assumes "ready es printed s" "list_all (\<lambda>wc. \<not> isActionableFromGround wc) str"
  shows "\<exists>t. ProcessCharacters (recording u8u16) str s = Some t \<and>
    ready (es @ map (\<lambda>wc. Called (DC_Text (Print wc))) str) (if str = [] then printed else last str) t"
  using assms
proof (induction str arbitrary: es printed s)
  case (Cons wc str)
  then obtain t where "ProcessCharacter (recording u8u16) wc s = Some t" "ready (es @ [Called (DC_Text (Print wc))]) wc t"
    using ready_print [OF Cons.prems(1), of wc u8u16] by auto
  then show ?case using Cons.IH [of "es @ [Called (DC_Text (Print wc))]" wc t] Cons.prems(2) by auto
qed simp

lemma ready_Control_char:
  assumes "ready es printed s" "item_ok (Control_char wc)"
  shows "\<exists>t. ProcessCharacter (recording u8u16) wc s = Some t \<and>
    ready (es @ concat (map call_events (execute_calls wc))) AC_NUL t"
proof -
  have "ActionExecute (recording u8u16) wc s =
      Some (ClearLastChar (update_dispatch (\<lambda>es. es @ concat (map call_events (execute_calls wc))) s))"
    using Recorder_dispatch_and_clear [of u8u16 "execute_calls wc" s]
    by (simp add: ActionExecute_def OutputStateMachineEngine_def out_ActionExecute_def)
  moreover have "ProcessCharacter (recording u8u16) wc s =
      (if wc = AC_CAN \<or> wc = AC_SUB then map_option EnterGround (ActionExecute (recording u8u16) wc s)
       else ActionExecute (recording u8u16) wc s)"
  proof (cases "wc = AC_CAN \<or> wc = AC_SUB")
    case True
    then show ?thesis
      using assms(1)
      by (auto simp: ready_def ProcessCharacter.simps [of _ wc s] ActionInterrupt_def map_conv_bind_option comp_def)
  next
    case False
    then have "\<not> isC1ControlCharacter wc" "\<not> isEscape wc" "isC0Code wc \<or> isDelete wc"
      using assms(2) by (auto simp: char_defs word_le_nat_alt)
    then show ?thesis
      using assms(1) False by (auto simp: ready_def ProcessCharacter_Event EventGround_def)
  qed
  ultimately show ?thesis
    using assms(1) by (auto simp: ready_def EnterGround_def ClearLastChar_def update_dispatch_def)
qed

lemma ready_Control_seq:
  assumes "ready es printed s" "item_ok (Control_seq marker ps inters f)"
  shows "\<exists>t. ProcessCharacters (recording u8u16) (csi_text marker ps inters f) s = Some t \<and>
    ready (es @ concat (map call_events (item_calls u8u16 printed (Control_seq marker ps inters f))))
      (item_last printed (Control_seq marker ps inters f)) t"
proof -
  let ?i = "Control_seq marker ps inters f" and ?vid = "VTID (marker @ inters @ [f])"
  have ground: "sm_state s = Ground" "Ansi \<in> sm_parserMode s" using assms(1) by (simp_all add: ready_def)
  obtain t where t: "kept s t" "ProcessCharacters (recording u8u16) (csi_text marker ps inters f) s =
      execute_action (recording u8u16) (out_ActionCsiDispatch Recorder ?vid (params_of ps)) t
      \<bind> (\<lambda>s1. ExecuteCsiCompleteCallback (recording u8u16) (EnterGround s1))"
    using csi_sequence [OF ground, of marker ps inters f "recording u8u16"] assms(2)
    by (auto simp: OutputStateMachineEngine_def)
  let ?es = "es @ concat (map call_events (item_calls u8u16 printed ?i))" and ?printed = "item_last printed ?i"
  have "\<exists>s1. execute_action (recording u8u16) (out_ActionCsiDispatch Recorder ?vid (params_of ps)) t = Some s1
      \<and> ready ?es ?printed (EnterGround s1)"
  proof (cases "csi_accepted ?vid (params_of ps)")
    case True
    have "oe_lastPrintedChar (sm_engine t) = printed" using t(1) assms(1) by (simp add: ready_def)
    then have "out_ActionCsiDispatch Recorder ?vid (params_of ps) t =
        dispatch_and_clear Recorder (csi_calls printed ?vid (params_of ps)) t"
      using True by (auto simp: out_ActionCsiDispatch_def csi_accepted_def)
    then have "execute_action (recording u8u16) (out_ActionCsiDispatch Recorder ?vid (params_of ps)) t =
        execute_action (recording u8u16) (dispatch_and_clear Recorder (csi_calls printed ?vid (params_of ps))) t"
      by (simp add: execute_action_def SafeExecute_def SafeExecute_with_def)
    then show ?thesis
      using ready_dispatch [OF t(1) assms(1)] True by (simp add: Recorder_dispatch_and_clear)
  next
    case False
    then show ?thesis
      using assms(1) t(1)
      by (auto simp: csi_accepted_def out_ActionCsiDispatch_def execute_action_def SafeExecute_def
          SafeExecute_with_def ready_def EnterGround_def)
  qed
  then obtain s1 where s1: "execute_action (recording u8u16) (out_ActionCsiDispatch Recorder ?vid (params_of ps)) t = Some s1"
    "ready ?es ?printed (EnterGround s1)" by blast
  obtain s' where s': "ExecuteCsiCompleteCallback (recording u8u16) (EnterGround s1) = Some s'"
    "sm_engine s' = sm_engine (EnterGround s1)" "sm_state s' = sm_state (EnterGround s1)"
    "sm_parserMode s' = sm_parserMode (EnterGround s1)" "sm_isEngineForInput s' = sm_isEngineForInput (EnterGround s1)"
    using Recorder_CsiComplete [of u8u16 "EnterGround s1"] by blast
  show ?thesis
    using t(2) s1 s' by (simp add: ready_def)
qed

lemma ready_item:
  assumes "ready es printed s" "item_ok i"
  shows "\<exists>t. ProcessCharacters (recording u8u16) (item_text i) s = Some t \<and>
    ready (es @ concat (map call_events (item_calls u8u16 printed i))) (item_last printed i) t"
proof (cases i)
  case (Text str)
  then show ?thesis using ready_Text [OF assms(1), of str u8u16] assms(2) by simp
next
  case (Control_char wc)
  then show ?thesis using ready_Control_char [OF assms(1), of wc u8u16] assms(2) by simp
next
  case (Escape_seq inters f)
  have "sm_state s = Ground" "Ansi \<in> sm_parserMode s" "\<not> sm_isEngineForInput s" using assms(1) by (simp_all add: ready_def)
  then obtain t where t: "kept s t" "ProcessCharacters (recording u8u16) (esc_text inters f) s =
      map_option EnterGround (execute_action (recording u8u16) (dispatch_and_clear Recorder (esc_calls (VTID (inters @ [f])))) t)"
    using esc_sequence [of s inters f "recording u8u16"] assms(2)
    by (auto simp: Escape_seq OutputStateMachineEngine_def out_ActionEscDispatch_def)
  then show ?thesis
    using ready_dispatch [OF t(1) assms(1)] by (simp add: Escape_seq Recorder_dispatch_and_clear)
next
  case (Command ds str terminator)
  have "sm_state s = Ground" "Ansi \<in> sm_parserMode s" using assms(1) by (simp_all add: ready_def)
  then obtain t where t: "kept s t" "ProcessCharacters (recording u8u16) (osc_text ds str terminator) s =
      map_option EnterGround
        (execute_action (recording u8u16) (dispatch_and_clear Recorder (osc_calls u8u16 (nat (osc_number ds)) str)) t)"
    using osc_sequence [of s ds str terminator "recording u8u16"] assms(2)
    by (auto simp: Command OutputStateMachineEngine_def out_ActionOscDispatch_def)
  then show ?thesis
    using ready_dispatch [OF t(1) assms(1)] by (simp add: Command Recorder_dispatch_and_clear)
next
  case (Control_seq marker ps inters f)
  then show ?thesis using ready_Control_seq [OF assms(1), of marker ps inters f u8u16] assms(2) by simp
qed

lemma ready_script:
  assumes "ready es printed s" "list_all item_ok is"
  shows "\<exists>t. ProcessCharacters (recording u8u16) (concat (map item_text is)) s = Some t \<and>
    sm_state t = Ground \<and> oe_dispatch (sm_engine t) = es @ concat (map call_events (script_calls u8u16 printed is))"
  using assms
proof (induction "is" arbitrary: es printed s)
  case Nil
  then show ?case by (simp add: ready_def)
next
  case (Cons i "is")
  obtain t where t: "ProcessCharacters (recording u8u16) (item_text i) s = Some t"
    "ready (es @ concat (map call_events (item_calls u8u16 printed i))) (item_last printed i) t"
    using ready_item [OF Cons.prems(1), of i u8u16] Cons.prems(2) by auto
  then show ?case using Cons.IH [OF t(2)] Cons.prems(2) by (auto simp: ProcessCharacters_append)
qed

lemma ready_terminal: "ready [] AC_NUL terminal"
  by (simp add: ready_def OutputEngine_init_def)

end
