(* ===== verification/Macro_Buffer.thy ===== *)
theory Macro_Buffer
  imports State_Machine Til_String
begin

text \<open>
  The store of user-defined macros, \<^verbatim>\<open>src/src/terminal/adapter/MacroBuffer.cpp\<close>: sixty-four strings
  that share a limited space, the parser of their definitions, and their invocation. Sizes are
  64-bit words as in the source, so a counter that went below zero would show. A macro that is
  invoked is handed to the parser, which may invoke further macros or clear them; what the parser
  does is an argument here. The lemmas show that definitions stay within the space, that they store
  what they say, and that invocations always end.
\<close>

section \<open>State\<close>

type_synonym size_t = u64

datatype macro_state = ExpectingText | ExpectingHexDigit | ExpectingSecondHexDigit | ExpectingRepeatCount

record macro_buffer =
  mb_parseState :: macro_state
  mb_decodedChar :: wchar
  mb_repeatPending :: bool
  mb_repeatCount :: size_t
  mb_repeatStart :: size_t
  mb_macros :: "wstring list"
  mb_activeMacroId :: nat
  mb_spaceUsed :: size_t
  mb_invokedDepth :: size_t
  mb_invokedSequenceLength :: size_t

definition MAX_SPACE :: size_t where
  "MAX_SPACE = 0x40000"

definition MacroBuffer :: macro_buffer where
  "MacroBuffer = \<lparr>mb_parseState = ExpectingText, mb_decodedChar = 0, mb_repeatPending = False, mb_repeatCount = 0,
     mb_repeatStart = 0, mb_macros = replicate 64 [], mb_activeMacroId = 0, mb_spaceUsed = 0, mb_invokedDepth = 0,
     mb_invokedSequenceLength = 0\<rparr>"

text \<open>The values of the two controls of a definition; every other value is refused.\<close>

definition MacroDeleteControl_DeleteId :: int where
  "MacroDeleteControl_DeleteId = 0"

definition MacroDeleteControl_DeleteAll :: int where
  "MacroDeleteControl_DeleteAll = 1"

definition MacroEncoding_Text :: int where
  "MacroEncoding_Text = 0"

definition MacroEncoding_HexPair :: int where
  "MacroEncoding_HexPair = 1"

lemmas macro_controls = MacroDeleteControl_DeleteId_def MacroDeleteControl_DeleteAll_def MacroEncoding_Text_def
  MacroEncoding_HexPair_def

section \<open>Operations\<close>

definition GetSpaceAvailable :: "macro_buffer \<Rightarrow> size_t" where
  "GetSpaceAvailable mb = MAX_SPACE - mb_spaceUsed mb"

definition CalculateChecksum :: "macro_buffer \<Rightarrow> 16 word" where
  "CalculateChecksum mb = fold (\<lambda>macro checksum. fold (\<lambda>ch checksum. checksum - ch) macro checksum) (mb_macros mb) 0"

text \<open>\<^verbatim>\<open>at\<close> throws when the index is out of range, which is \<open>None\<close> here.\<close>

definition activeMacro :: "macro_buffer \<Rightarrow> wstring option" where
  "activeMacro mb =
     (if mb_activeMacroId mb < length (mb_macros mb) then Some (mb_macros mb ! mb_activeMacroId mb) else None)"

definition deleteMacro :: "nat \<Rightarrow> macro_buffer \<Rightarrow> macro_buffer" where
  "deleteMacro macroId mb =
     mb\<lparr>mb_spaceUsed := mb_spaceUsed mb - word_of_nat (length (mb_macros mb ! macroId)),
        mb_macros := (mb_macros mb)[macroId := []]\<rparr>"

definition deleteActive :: "macro_buffer \<Rightarrow> macro_buffer option" where
  "deleteActive mb = activeMacro mb \<bind> (\<lambda>_. Some (deleteMacro (mb_activeMacroId mb) mb))"

definition appendToActiveMacro :: "wchar \<Rightarrow> macro_buffer \<Rightarrow> (bool \<times> macro_buffer) option" where
  "appendToActiveMacro ch mb =
     (if GetSpaceAvailable mb > 0 then
        activeMacro mb \<bind> (\<lambda>m.
          Some (True, mb\<lparr>mb_macros := (mb_macros mb)[mb_activeMacroId mb := m @ [ch]],
                         mb_spaceUsed := mb_spaceUsed mb + 1\<rparr>))
      else Some (False, mb))"

definition decodeHexDigit :: "wchar \<Rightarrow> macro_buffer \<Rightarrow> bool \<times> macro_buffer" where
  "decodeHexDigit ch mb =
     (let d = push_bit 4 (mb_decodedChar mb)
      in if ch \<ge> 0x30 \<and> ch \<le> 0x39 then (True, mb\<lparr>mb_decodedChar := d + (ch - 0x30)\<rparr>)
         else if ch \<ge> 0x41 \<and> ch \<le> 0x46 then (True, mb\<lparr>mb_decodedChar := d + (ch - 0x41 + 10)\<rparr>)
         else if ch \<ge> 0x61 \<and> ch \<le> 0x66 then (True, mb\<lparr>mb_decodedChar := d + (ch - 0x61 + 10)\<rparr>)
         else (False, mb\<lparr>mb_decodedChar := d\<rparr>))"

text \<open>The loop appends a copy of the repeated part for each value of its counter; \<^verbatim>\<open>substr\<close> throws when it starts after the end.\<close>

fun repeat_loop :: "nat \<Rightarrow> size_t \<Rightarrow> macro_buffer \<Rightarrow> macro_buffer option" where
  "repeat_loop 0 sequenceLength mb = Some mb"
| "repeat_loop (Suc n) sequenceLength mb =
     activeMacro mb \<bind> (\<lambda>m.
       if unat (mb_repeatStart mb) > length m then None
       else repeat_loop n sequenceLength
              (mb\<lparr>mb_macros := (mb_macros mb)[mb_activeMacroId mb :=
                    m @ take (unat sequenceLength) (drop (unat (mb_repeatStart mb)) m)],
                  mb_spaceUsed := mb_spaceUsed mb + sequenceLength\<rparr>))"

definition applyPendingRepeat :: "macro_buffer \<Rightarrow> (bool \<times> macro_buffer) option" where
  "applyPendingRepeat mb =
     (if mb_repeatCount mb > 1 then
        activeMacro mb \<bind> (\<lambda>m.
          let sequenceLength = word_of_nat (length m) - mb_repeatStart mb;
              spaceRequired = (mb_repeatCount mb - 1) * sequenceLength
          in if spaceRequired > GetSpaceAvailable mb then Some (False, mb)
             else repeat_loop (unat (mb_repeatCount mb) - 1) sequenceLength mb \<bind> (\<lambda>mb1.
                    Some (True, mb1\<lparr>mb_repeatPending := False\<rparr>)))
      else Some (True, mb\<lparr>mb_repeatPending := False\<rparr>))"

definition InitParser :: "nat \<Rightarrow> int \<Rightarrow> int \<Rightarrow> macro_buffer \<Rightarrow> bool \<times> macro_buffer" where
  "InitParser macroId deleteControl encoding mb =
     (if macroId < length (mb_macros mb) \<and> mb_invokedDepth mb = 0 then
        let mb1 = mb\<lparr>mb_activeMacroId := macroId, mb_decodedChar := 0, mb_repeatPending := False\<rparr>
        in if encoding = MacroEncoding_HexPair \<or> encoding = MacroEncoding_Text then
             let mb2 = mb1\<lparr>mb_parseState :=
                         (if encoding = MacroEncoding_HexPair then ExpectingHexDigit else ExpectingText)\<rparr>
             in if deleteControl = MacroDeleteControl_DeleteId then (True, deleteMacro macroId mb2)
                else if deleteControl = MacroDeleteControl_DeleteAll
                then (True, fold deleteMacro [0..<length (mb_macros mb2)] mb2)
                else (False, mb2)
           else (False, mb1)
      else (False, mb))"

text \<open>The switch over the parser state, giving the flag \<^verbatim>\<open>success\<close> and the new state.\<close>

definition parse_char :: "wchar \<Rightarrow> macro_buffer \<Rightarrow> (bool \<times> macro_buffer) option" where
  "parse_char ch mb =
     (case mb_parseState mb of
        ExpectingText \<Rightarrow> appendToActiveMacro ch mb
      | ExpectingHexDigit \<Rightarrow>
          (let (ok, mb1) = decodeHexDigit ch mb
           in if ok then Some (True, mb1\<lparr>mb_parseState := ExpectingSecondHexDigit\<rparr>)
              else if ch = 0x21 \<and> \<not> mb_repeatPending mb1
              then Some (True, mb1\<lparr>mb_parseState := ExpectingRepeatCount, mb_repeatCount := 0\<rparr>)
              else if ch = 0x3B \<and> mb_repeatPending mb1 then applyPendingRepeat mb1
              else Some (False, mb1))
      | ExpectingSecondHexDigit \<Rightarrow>
          (let (ok, mb1) = decodeHexDigit ch mb
           in (if ok then appendToActiveMacro (mb_decodedChar mb1) mb1 else Some (False, mb1))
              \<bind> (\<lambda>(success, mb2). Some (success, mb2\<lparr>mb_decodedChar := 0, mb_parseState := ExpectingHexDigit\<rparr>)))
      | ExpectingRepeatCount \<Rightarrow>
          if ch \<ge> 0x30 \<and> ch \<le> 0x39
          then Some (True, mb\<lparr>mb_repeatCount := min (mb_repeatCount mb * 10 + ucast (ch - 0x30)) (word_of_int MAX_PARAMETER_VALUE)\<rparr>)
          else if ch = 0x3B
          then activeMacro mb \<bind> (\<lambda>m.
                 Some (True, mb\<lparr>mb_repeatPending := True, mb_repeatStart := word_of_nat (length m),
                                mb_parseState := ExpectingHexDigit\<rparr>))
          else Some (False, mb))"

definition ParseDefinition :: "wchar \<Rightarrow> macro_buffer \<Rightarrow> (bool \<times> macro_buffer) option" where
  "ParseDefinition ch mb =
     (if ch = AC_ESC then
        if mb_repeatPending mb then
          applyPendingRepeat mb \<bind> (\<lambda>(ok, mb1).
            if ok then Some (False, mb1) else deleteActive mb1 \<bind> (\<lambda>mb2. Some (False, mb2)))
        else Some (False, mb)
      else if ch < AC_SPC then Some (True, mb)
      else parse_char ch mb \<bind> (\<lambda>(success, mb1).
             if success then Some (True, mb1) else deleteActive mb1 \<bind> (\<lambda>mb2. Some (False, mb2))))"

definition ClearMacrosIfInUse :: "macro_buffer \<Rightarrow> macro_buffer" where
  "ClearMacrosIfInUse mb =
     (if mb_invokedDepth mb > 0
      then mb\<lparr>mb_macros := map (\<lambda>macro. replicate (length macro) AC_NUL) (mb_macros mb)\<rparr> else mb)"

text \<open>
  An invocation checks whether the macro may be invoked, before it hands it to the parser, and
  counts the invocation down when the parser is done with it, also when the parser threw. The
  parser gets a view of the macro's own characters and reads each of them only when it
  gets there, so it is given the number of the macro. \<open>None\<close> is a parser that never returns.
\<close>

definition begin_invoke :: "nat \<Rightarrow> macro_buffer \<Rightarrow> bool \<times> macro_buffer" where
  "begin_invoke macroId mb =
     (if macroId < length (mb_macros mb) then
        let macroSequence = mb_macros mb ! macroId;
            allowedLength = MAX_SPACE - mb_invokedSequenceLength mb
        in if mb_invokedDepth mb < 16 \<and> word_of_nat (length macroSequence) < allowedLength
           then (True,
                 mb\<lparr>mb_invokedSequenceLength := mb_invokedSequenceLength mb + word_of_nat (length macroSequence),
                    mb_invokedDepth := mb_invokedDepth mb + 1\<rparr>)
           else (False, mb)
      else (False, mb))"

definition end_invoke :: "macro_buffer \<Rightarrow> macro_buffer" where
  "end_invoke mb =
     (let mb1 = mb\<lparr>mb_invokedDepth := mb_invokedDepth mb - 1\<rparr>
      in if mb_invokedDepth mb1 = 0 then mb1\<lparr>mb_invokedSequenceLength := 0\<rparr> else mb1)"

definition InvokeMacro ::
  "(nat \<Rightarrow> macro_buffer \<times> 's \<Rightarrow> (unit outcome \<times> macro_buffer \<times> 's) option) \<Rightarrow> nat \<Rightarrow> macro_buffer \<times> 's
   \<Rightarrow> (unit outcome \<times> macro_buffer \<times> 's) option" where
  "InvokeMacro process macroId st =
     (case begin_invoke macroId (fst st) of
        (False, _) \<Rightarrow> Some (Returned (), st)
      | (True, mb) \<Rightarrow> process macroId (mb, snd st) \<bind> (\<lambda>(r, mb1, s1). Some (r, end_invoke mb1, s1)))"

section \<open>The space that is used\<close>

abbreviation active :: "macro_buffer \<Rightarrow> wstring" where
  "active mb \<equiv> mb_macros mb ! mb_activeMacroId mb"

definition used :: "macro_buffer \<Rightarrow> nat" where
  "used mb = sum_list (map length (mb_macros mb))"

definition store_inv :: "macro_buffer \<Rightarrow> bool" where
  "store_inv mb \<longleftrightarrow> length (mb_macros mb) = 64 \<and> mb_activeMacroId mb < 64 \<and> unat (mb_spaceUsed mb) = used mb
     \<and> used mb \<le> unat MAX_SPACE"

text \<open>The invariant between definitions; the count of a repeat is kept, and is limited too.\<close>

definition macro_inv :: "macro_buffer \<Rightarrow> bool" where
  "macro_inv mb \<longleftrightarrow> store_inv mb \<and> unat (mb_repeatCount mb) \<le> 65535"

text \<open>While a definition is parsed, the start of a pending repeat lies in the macro.\<close>

definition parse_inv :: "macro_buffer \<Rightarrow> bool" where
  "parse_inv mb \<longleftrightarrow> macro_inv mb \<and> (mb_repeatPending mb \<longrightarrow> unat (mb_repeatStart mb) \<le> length (active mb))"

lemmas macro_invs = parse_inv_def macro_inv_def

definition put :: "wstring \<Rightarrow> macro_buffer \<Rightarrow> macro_buffer" where
  "put str mb = mb\<lparr>mb_macros := (mb_macros mb)[mb_activeMacroId mb := active mb @ str],
     mb_spaceUsed := mb_spaceUsed mb + word_of_nat (length str)\<rparr>"

lemma sum_list_length_update:
  "i < length xss \<Longrightarrow> sum_list (map length (xss[i := ys])) + length (xss ! i) = sum_list (map length xss) + length ys"
  by (induction xss arbitrary: i) (auto split: nat.split)

lemma unat_size: "n < 2 ^ 64 \<Longrightarrow> unat (word_of_nat n :: size_t) = n"
  by (simp add: unsigned_of_nat take_bit_nat_eq_self)

lemma MAX_SPACE_nat [simp]: "unat MAX_SPACE = 262144"
  by (simp add: MAX_SPACE_def)

lemma store_inv_active: "store_inv mb \<Longrightarrow> activeMacro mb = Some (active mb)"
  by (simp add: store_inv_def activeMacro_def)

lemma store_inv_available: "store_inv mb \<Longrightarrow> unat (GetSpaceAvailable mb) = 262144 - used mb"
  by (simp add: store_inv_def GetSpaceAvailable_def unat_sub word_le_nat_alt)

lemma length_active: "store_inv mb \<Longrightarrow> length (active mb) \<le> used mb"
proof -
  assume "store_inv mb"
  then have "active mb \<in> set (mb_macros mb)" by (simp add: store_inv_def)
  then show ?thesis unfolding used_def by (intro member_le_sum_list) simp_all
qed

lemma put_simps [simp]:
  "mb_activeMacroId (put str mb) = mb_activeMacroId mb" "mb_parseState (put str mb) = mb_parseState mb"
  "mb_decodedChar (put str mb) = mb_decodedChar mb" "mb_repeatPending (put str mb) = mb_repeatPending mb"
  "mb_repeatCount (put str mb) = mb_repeatCount mb" "mb_repeatStart (put str mb) = mb_repeatStart mb"
  "mb_invokedDepth (put str mb) = mb_invokedDepth mb"
  by (simp_all add: put_def)

lemma active_put [simp]: "store_inv mb \<Longrightarrow> mb_macros (put str mb) ! mb_activeMacroId mb = active mb @ str"
  by (simp add: put_def store_inv_def)

lemma used_put: "store_inv mb \<Longrightarrow> used (put str mb) = used mb + length str"
  using sum_list_length_update [of "mb_activeMacroId mb" "mb_macros mb" "active mb @ str"]
  by (simp add: used_def put_def store_inv_def)

lemma store_inv_put:
  assumes "store_inv mb" "used mb + length str \<le> 262144"
  shows "store_inv (put str mb)"
proof -
  have "unat (word_of_nat (length str) :: size_t) = length str" using assms(2) by (intro unat_size) simp
  then have "unat (mb_spaceUsed (put str mb)) = used mb + length str"
    using assms by (simp add: put_def store_inv_def unat_add_no_wrap)
  then show ?thesis using assms used_put [OF assms(1), of str] by (simp add: store_inv_def put_def)
qed

lemma put_put: "store_inv mb \<Longrightarrow> put b (put a mb) = put (a @ b) mb"
  by (simp add: put_def store_inv_def add.assoc)

lemma put_Nil [simp]: "put [] mb = mb"
  by (simp add: put_def)

lemma store_inv_updates [simp]:
  "store_inv (mb\<lparr>mb_parseState := a\<rparr>) = store_inv mb" "store_inv (mb\<lparr>mb_decodedChar := b\<rparr>) = store_inv mb"
  "store_inv (mb\<lparr>mb_repeatPending := c\<rparr>) = store_inv mb" "store_inv (mb\<lparr>mb_repeatCount := d\<rparr>) = store_inv mb"
  "store_inv (mb\<lparr>mb_repeatStart := d\<rparr>) = store_inv mb" "store_inv (mb\<lparr>mb_invokedDepth := d\<rparr>) = store_inv mb"
  "store_inv (mb\<lparr>mb_invokedSequenceLength := d\<rparr>) = store_inv mb"
  "mb_activeMacroId mb < 64 \<Longrightarrow> i < 64 \<Longrightarrow> store_inv (mb\<lparr>mb_activeMacroId := i\<rparr>) = store_inv mb"
  by (simp_all add: store_inv_def used_def)

lemma append_ok:
  assumes "store_inv mb"
  shows "appendToActiveMacro ch mb = Some (if used mb < 262144 then (True, put [ch] mb) else (False, mb))"
proof -
  have "GetSpaceAvailable mb > 0 \<longleftrightarrow> used mb < 262144"
    using store_inv_available [OF assms] assms by (simp add: word_less_nat_alt)
  then show ?thesis
    using assms by (simp add: appendToActiveMacro_def store_inv_active put_def)
qed

lemma repeat_loop_ok:
  assumes "store_inv mb" "unat (mb_repeatStart mb) \<le> length (active mb)"
    "take (length seg) (drop (unat (mb_repeatStart mb)) (active mb)) = seg" "used mb + n * length seg \<le> 262144"
  shows "repeat_loop n (word_of_nat (length seg)) mb = Some (put (concat (replicate n seg)) mb)"
  using assms
proof (induction n arbitrary: mb)
  case (Suc n)
  let ?mb = "put seg mb"
  have len: "unat (word_of_nat (length seg) :: size_t) = length seg" using Suc.prems(4) by (intro unat_size) simp
  have inv: "store_inv ?mb" using Suc.prems by (intro store_inv_put) simp_all
  have "length seg \<le> length (active mb) - unat (mb_repeatStart mb)"
    using arg_cong [OF Suc.prems(3), of length] by simp
  then have seg: "take (length seg) (drop (unat (mb_repeatStart mb)) (active ?mb)) = seg"
    using Suc.prems(1,3) by simp
  have "repeat_loop (Suc n) (word_of_nat (length seg)) mb = repeat_loop n (word_of_nat (length seg)) ?mb"
    using Suc.prems(1-3) len by (simp add: store_inv_active put_def)
  also have "\<dots> = Some (put (concat (replicate n seg)) ?mb)"
    using Suc.IH [OF inv] seg Suc.prems used_put [OF Suc.prems(1), of seg] by simp
  finally show ?case using Suc.prems(1) by (simp add: put_put)
qed simp

lemma applyPendingRepeat_ok:
  assumes "parse_inv mb" "mb_repeatPending mb"
    "seg = drop (unat (mb_repeatStart mb)) (active mb)" "k = unat (mb_repeatCount mb) - 1"
  shows "applyPendingRepeat mb =
    Some (if used mb + k * length seg \<le> 262144
          then (True, (put (concat (replicate k seg)) mb)\<lparr>mb_repeatPending := False\<rparr>) else (False, mb))"
proof -
  have inv: "store_inv mb" "unat (mb_repeatCount mb) \<le> 65535" "unat (mb_repeatStart mb) \<le> length (active mb)"
    using assms(1,2) by (simp_all add: macro_invs)
  show ?thesis
  proof (cases "mb_repeatCount mb > 1")
    case True
    then have count: "1 < unat (mb_repeatCount mb)" by (simp add: word_less_nat_alt)
    have bound: "length (active mb) \<le> 262144" using length_active [OF inv(1)] inv(1) by (simp add: store_inv_def)
    have seg_len: "length seg \<le> 262144" using bound assms(3) by simp
    have "word_of_nat (length (active mb)) - mb_repeatStart mb = (word_of_nat (length (active mb) - unat (mb_repeatStart mb)) :: size_t)"
      using inv(3) by (simp add: of_nat_diff)
    then have sequence: "word_of_nat (length (active mb)) - mb_repeatStart mb = (word_of_nat (length seg) :: size_t)"
      by (simp add: assms(3))
    have "unat (mb_repeatCount mb - 1) = k"
      using count assms(4) by (simp add: unat_sub word_le_nat_alt)
    moreover have "unat (word_of_nat (length seg) :: size_t) = length seg" using seg_len by (intro unat_size) simp
    moreover have "k * length seg \<le> 65535 * 262144" using inv(2) assms(4) seg_len by (intro mult_le_mono) simp_all
    ultimately have "unat ((mb_repeatCount mb - 1) * word_of_nat (length seg)) = k * length seg"
      by (simp add: unat_word_ariths)
    then have space: "(mb_repeatCount mb - 1) * word_of_nat (length seg) > GetSpaceAvailable mb \<longleftrightarrow> \<not> used mb + k * length seg \<le> 262144"
      using store_inv_available [OF inv(1)] inv(1) by (auto simp: word_less_nat_alt store_inv_def)
    have loop: "used mb + k * length seg \<le> 262144 \<Longrightarrow>
        repeat_loop k (word_of_nat (length seg)) mb = Some (put (concat (replicate k seg)) mb)"
      using inv assms(3) by (intro repeat_loop_ok) simp_all
    show ?thesis
      using True loop assms(4)
      by (simp add: applyPendingRepeat_def store_inv_active [OF inv(1)] sequence space Let_def)
  next
    case False
    then have "k = 0" using assms(4) by (simp add: word_less_nat_alt)
    then show ?thesis using False inv(1) by (simp add: applyPendingRepeat_def store_inv_def)
  qed
qed

lemma used_deleteMacro:
  "i < length (mb_macros mb) \<Longrightarrow> used (deleteMacro i mb) + length (mb_macros mb ! i) = used mb"
  using sum_list_length_update [of i "mb_macros mb" "[]"] by (simp add: used_def deleteMacro_def)

lemma store_inv_deleteMacro:
  assumes "store_inv mb" "i < 64"
  shows "store_inv (deleteMacro i mb)"
proof -
  have used: "used (deleteMacro i mb) + length (mb_macros mb ! i) = used mb"
    using assms by (intro used_deleteMacro) (simp add: store_inv_def)
  then have "length (mb_macros mb ! i) \<le> unat (mb_spaceUsed mb)" using assms(1) by (simp add: store_inv_def)
  moreover have "unat (word_of_nat (length (mb_macros mb ! i)) :: size_t) = length (mb_macros mb ! i)"
    using used assms(1) by (intro unat_size) (simp add: store_inv_def)
  ultimately have "unat (mb_spaceUsed (deleteMacro i mb)) = used mb - length (mb_macros mb ! i)"
    using assms(1) by (simp add: deleteMacro_def unat_sub word_le_nat_alt store_inv_def)
  then show ?thesis using used assms(1) by (simp add: store_inv_def deleteMacro_def)
qed

lemma deleteActive_ok:
  "store_inv mb \<Longrightarrow> \<exists>mb'. deleteActive mb = Some mb' \<and> store_inv mb' \<and> mb_repeatCount mb' = mb_repeatCount mb"
  using store_inv_deleteMacro [of mb "mb_activeMacroId mb"]
  by (simp add: deleteActive_def store_inv_active) (simp add: store_inv_def deleteMacro_def)

lemma decodeHexDigit_frame:
  "\<exists>v. snd (decodeHexDigit ch mb) = mb\<lparr>mb_decodedChar := v\<rparr>"
  by (auto simp: decodeHexDigit_def Let_def)

lemma parse_inv_updates [simp]:
  "macro_inv (mb\<lparr>mb_parseState := a\<rparr>) = macro_inv mb" "macro_inv (mb\<lparr>mb_decodedChar := b\<rparr>) = macro_inv mb"
  "parse_inv (mb\<lparr>mb_parseState := a\<rparr>) = parse_inv mb" "parse_inv (mb\<lparr>mb_decodedChar := b\<rparr>) = parse_inv mb"
  by (simp_all add: macro_invs)

lemma parse_inv_store: "parse_inv mb \<Longrightarrow> store_inv mb" "parse_inv mb \<Longrightarrow> macro_inv mb"
  by (simp_all add: macro_invs)

lemma parse_inv_put:
  assumes "parse_inv mb" "used mb + length str \<le> 262144"
  shows "parse_inv (put str mb)"
  using assms store_inv_put [OF parse_inv_store(1) [OF assms(1)], of str] by (auto simp: macro_invs)

definition parse_step_ok :: "(bool \<times> macro_buffer) option \<Rightarrow> bool" where
  "parse_step_ok r \<longleftrightarrow> (\<exists>ok mb. r = Some (ok, mb) \<and> macro_inv mb \<and> (ok \<longrightarrow> parse_inv mb))"

lemma parse_step_ok_Some [simp]: "parse_step_ok (Some (ok, mb)) \<longleftrightarrow> macro_inv mb \<and> (ok \<longrightarrow> parse_inv mb)"
  by (simp add: parse_step_ok_def)

lemma append_step_ok: "parse_inv mb \<Longrightarrow> parse_step_ok (appendToActiveMacro ch mb)"
  using parse_inv_put [of mb "[ch]"]
  by (auto simp: parse_step_ok_def append_ok [OF parse_inv_store(1)] parse_inv_store)

lemma repeat_step_ok:
  assumes "parse_inv mb" "mb_repeatPending mb"
  shows "parse_step_ok (applyPendingRepeat mb)"
  using applyPendingRepeat_ok [OF assms refl refl] parse_inv_put [OF assms(1)] assms(1)
  by (auto simp: parse_step_ok_def macro_invs length_concat sum_list_replicate)

lemma parse_inv_count: "parse_inv mb \<Longrightarrow> unat n \<le> 65535 \<Longrightarrow> parse_inv (mb\<lparr>mb_repeatCount := n\<rparr>)"
  by (simp add: macro_invs)

lemma parse_char_ok:
  assumes "parse_inv mb"
  shows "parse_step_ok (parse_char ch mb)"
proof (cases "mb_parseState mb")
  case ExpectingText
  then show ?thesis using append_step_ok [OF assms] by (simp add: parse_char_def)
next
  case ExpectingHexDigit
  obtain ok v where d: "decodeHexDigit ch mb = (ok, mb\<lparr>mb_decodedChar := v\<rparr>)"
    using decodeHexDigit_frame [of ch mb] by (cases "decodeHexDigit ch mb") auto
  show ?thesis
    using ExpectingHexDigit assms repeat_step_ok [of "mb\<lparr>mb_decodedChar := v\<rparr>"]
      parse_inv_store [OF assms] parse_inv_count [of "mb\<lparr>mb_decodedChar := v, mb_parseState := ExpectingRepeatCount\<rparr>" 0]
    by (simp add: parse_char_def d parse_inv_store)
next
  case ExpectingSecondHexDigit
  obtain ok v where d: "decodeHexDigit ch mb = (ok, mb\<lparr>mb_decodedChar := v\<rparr>)"
    using decodeHexDigit_frame [of ch mb] by (cases "decodeHexDigit ch mb") auto
  show ?thesis
    using ExpectingSecondHexDigit assms append_step_ok [of "mb\<lparr>mb_decodedChar := v\<rparr>" v]
    by (auto simp: parse_char_def d parse_step_ok_def parse_inv_store)
next
  case ExpectingRepeatCount
  have "unat (min x (65535 :: size_t)) \<le> 65535" for x
    by (simp add: min_def word_le_nat_alt)
  then have count: "parse_inv (mb\<lparr>mb_repeatCount := min x 65535\<rparr>)" for x by (intro parse_inv_count [OF assms])
  have "length (active mb) \<le> 262144"
    using length_active [OF parse_inv_store(1) [OF assms]] parse_inv_store [OF assms] by (simp add: store_inv_def)
  then have "parse_inv (mb\<lparr>mb_repeatPending := True, mb_repeatStart := word_of_nat (length (active mb))\<rparr>)"
    using assms by (simp add: macro_invs unat_size)
  then show ?thesis
    using ExpectingRepeatCount count parse_inv_store [OF assms]
    by (simp add: parse_char_def store_inv_active MAX_PARAMETER_VALUE_def parse_inv_store)
qed

lemma delete_after_ok:
  assumes "parse_step_ok r"
  shows "parse_step_ok (r \<bind> (\<lambda>(ok, mb1). if ok then Some (b, mb1) else deleteActive mb1 \<bind> (\<lambda>mb2. Some (False, mb2))))"
proof -
  obtain ok mb where r: "r = Some (ok, mb)" "macro_inv mb" "ok \<Longrightarrow> parse_inv mb"
    using assms by (auto simp: parse_step_ok_def)
  obtain mb' where "deleteActive mb = Some mb'" "macro_inv mb'"
    using deleteActive_ok [of mb] r(2) by (auto simp: macro_inv_def)
  then show ?thesis using r by (cases ok) simp_all
qed

lemma ParseDefinition_ok:
  assumes "parse_inv mb"
  shows "parse_step_ok (ParseDefinition ch mb)"
proof (cases "ch = AC_ESC")
  case True
  then show ?thesis
    using assms delete_after_ok [OF repeat_step_ok [OF assms], where b = False]
    by (simp add: ParseDefinition_def parse_inv_store)
next
  case False
  then show ?thesis
    using assms delete_after_ok [OF parse_char_ok [OF assms, of ch], where b = True]
    by (simp add: ParseDefinition_def parse_inv_store)
qed

section \<open>Definitions keep the store within its bounds\<close>

text \<open>The parser feeds a definition to the handler until the handler asks for no more.\<close>

fun feed :: "wstring \<Rightarrow> macro_buffer \<Rightarrow> (bool \<times> macro_buffer) option" where
  "feed [] mb = Some (True, mb)"
| "feed (ch # chs) mb = ParseDefinition ch mb \<bind> (\<lambda>(ok, mb1). if ok then feed chs mb1 else Some (False, mb1))"

lemma feed_ok: "parse_inv mb \<Longrightarrow> parse_step_ok (feed chs mb)"
proof (induction chs arbitrary: mb)
  case (Cons ch chs)
  obtain ok mb1 where mb1: "ParseDefinition ch mb = Some (ok, mb1)" "macro_inv mb1" "ok \<Longrightarrow> parse_inv mb1"
    using ParseDefinition_ok [OF Cons.prems, of ch] by (auto simp: parse_step_ok_def)
  then show ?case using Cons.IH by (cases ok) simp_all
qed (simp add: parse_inv_store)

lemma store_inv_MacroBuffer: "store_inv MacroBuffer"
  by (simp add: store_inv_def MacroBuffer_def used_def sum_list_replicate)

lemma store_inv_delete_all: "store_inv mb \<Longrightarrow> list_all (\<lambda>i. i < 64) is \<Longrightarrow> store_inv (fold deleteMacro is mb)"
  by (induction "is" arbitrary: mb) (simp_all add: store_inv_deleteMacro)

lemma delete_all_frame:
  "mb_repeatPending (fold deleteMacro is mb) = mb_repeatPending mb" "mb_repeatCount (fold deleteMacro is mb) = mb_repeatCount mb"
  by (induction "is" arbitrary: mb) (simp_all add: deleteMacro_def)

lemma InitParser_ok:
  assumes "macro_inv mb"
  shows "macro_inv (snd (InitParser macroId deleteControl encoding mb))"
    "fst (InitParser macroId deleteControl encoding mb) \<Longrightarrow> parse_inv (snd (InitParser macroId deleteControl encoding mb))"
proof -
  have mb: "store_inv mb" "length (mb_macros mb) = 64" "mb_activeMacroId mb < 64" "unat (mb_repeatCount mb) \<le> 65535"
    using assms by (simp_all add: macro_inv_def store_inv_def)
  let ?mb = "\<lambda>e. mb\<lparr>mb_activeMacroId := macroId, mb_decodedChar := 0, mb_repeatPending := False, mb_parseState := e\<rparr>"
  have inits: "store_inv (?mb e)" if "macroId < 64" for e using mb that by simp
  have dels: "store_inv (deleteMacro macroId (?mb e))" "store_inv (fold deleteMacro [0..<64] (?mb e))" if "macroId < 64" for e
    using inits [OF that] that by (simp_all add: store_inv_deleteMacro store_inv_delete_all list_all_iff del: upt_Suc)
  show "macro_inv (snd (InitParser macroId deleteControl encoding mb))"
    using mb inits dels
    by (auto simp: InitParser_def Let_def macro_inv_def delete_all_frame deleteMacro_def [of _ "?mb _"] simp del: upt_Suc)
  show "fst (InitParser macroId deleteControl encoding mb) \<Longrightarrow> parse_inv (snd (InitParser macroId deleteControl encoding mb))"
    using mb dels
    by (auto simp: InitParser_def Let_def macro_invs delete_all_frame deleteMacro_def [of _ "?mb _"] simp del: upt_Suc split: if_splits)
qed

section \<open>Definitions mean what they say\<close>

text \<open>
  A definition in hexadecimal is a sequence of pieces: characters below 256, two digits each, and
  repeats of such characters with a decimal count, where no count and a count of zero mean one.
\<close>

definition hex_char :: "nat \<Rightarrow> wchar" where
  "hex_char n = (if n < 10 then 0x30 + word_of_nat n else 0x37 + word_of_nat n)"

definition hex_text :: "wstring \<Rightarrow> wstring" where
  "hex_text str = concat (map (\<lambda>ch. [hex_char (unat ch div 16), hex_char (unat ch mod 16)]) str)"

datatype macro_piece = Plain wstring | Repeat wstring wstring

fun piece_text :: "macro_piece \<Rightarrow> wstring" where
  "piece_text (Plain str) = hex_text str"
| "piece_text (Repeat ds str) = 0x21 # ds @ 0x3B # hex_text str @ [0x3B]"

definition repeat_count :: "wstring \<Rightarrow> nat" where
  "repeat_count ds = min (digits_value 10 0 ds) 65535"

fun piece_meaning :: "macro_piece \<Rightarrow> wstring" where
  "piece_meaning (Plain str) = str"
| "piece_meaning (Repeat ds str) = concat (replicate (max 1 (repeat_count ds)) str)"

definition byte_string :: "wstring \<Rightarrow> bool" where
  "byte_string str \<longleftrightarrow> list_all (\<lambda>ch. unat ch < 256) str"

fun piece_ok :: "macro_piece \<Rightarrow> bool" where
  "piece_ok (Plain str) \<longleftrightarrow> byte_string str"
| "piece_ok (Repeat ds str) \<longleftrightarrow> byte_string str \<and> list_all isNumericParamValue ds"

definition hex_ready :: "macro_buffer \<Rightarrow> bool" where
  "hex_ready mb \<longleftrightarrow> parse_inv mb \<and> mb_parseState mb = ExpectingHexDigit \<and> mb_decodedChar mb = 0"

lemma decode_hex_char:
  assumes "n < 16"
  shows "decodeHexDigit (hex_char n) mb = (True, mb\<lparr>mb_decodedChar := push_bit 4 (mb_decodedChar mb) + word_of_nat n\<rparr>)"
    "\<not> hex_char n < AC_SPC" "hex_char n \<noteq> AC_ESC"
proof -
  have "n \<in> set [0..<16]" using assms by simp
  then have "n = 0 \<or> n = 1 \<or> n = 2 \<or> n = 3 \<or> n = 4 \<or> n = 5 \<or> n = 6 \<or> n = 7 \<or> n = 8 \<or> n = 9 \<or> n = 10 \<or> n = 11
      \<or> n = 12 \<or> n = 13 \<or> n = 14 \<or> n = 15" by (simp add: upt_rec numeral_eq_Suc)
  then show "decodeHexDigit (hex_char n) mb = (True, mb\<lparr>mb_decodedChar := push_bit 4 (mb_decodedChar mb) + word_of_nat n\<rparr>)"
    "\<not> hex_char n < AC_SPC" "hex_char n \<noteq> AC_ESC"
    by (elim disjE; simp add: hex_char_def decodeHexDigit_def Let_def)+
qed

lemma byte_of_digits:
  "push_bit 4 (word_of_nat (unat ch div 16)) + word_of_nat (unat ch mod 16) = (ch :: wchar)"
proof -
  have "push_bit 4 (word_of_nat a) + word_of_nat b = (word_of_nat (a * 16 + b) :: wchar)" for a b
    by (simp add: push_bit_eq_mult)
  then show ?thesis by (simp only: div_mult_mod_eq) simp
qed

lemma feed_hex_char:
  assumes "hex_ready mb" "unat ch < 256" "used mb < 262144"
  shows "feed ([hex_char (unat ch div 16), hex_char (unat ch mod 16)] @ rest) mb = feed rest (put [ch] mb)"
    "hex_ready (put [ch] mb)"
proof -
  have digits: "unat ch div 16 < 16" "unat ch mod 16 < 16" using assms(2) by simp_all
  have inv: "store_inv mb" "parse_inv mb" using assms(1) by (simp_all add: hex_ready_def parse_inv_store)
  let ?mb1 = "mb\<lparr>mb_decodedChar := word_of_nat (unat ch div 16), mb_parseState := ExpectingSecondHexDigit\<rparr>"
  have first: "ParseDefinition (hex_char (unat ch div 16)) mb = Some (True, ?mb1)"
    using assms(1) decode_hex_char(1) [OF digits(1), of mb] decode_hex_char(2,3) [OF digits(1)] by (simp add: ParseDefinition_def parse_char_def hex_ready_def)
  let ?mb2 = "?mb1\<lparr>mb_decodedChar := ch\<rparr>"
  have decode: "decodeHexDigit (hex_char (unat ch mod 16)) ?mb1 = (True, ?mb2)"
    using decode_hex_char(1) [OF digits(2), of ?mb1] by (simp add: byte_of_digits)
  have "used ?mb2 = used mb" by (simp add: used_def)
  then have "appendToActiveMacro ch ?mb2 = Some (True, put [ch] ?mb2)"
    using append_ok [of ?mb2 ch] assms(3) inv(1) by simp
  then have "ParseDefinition (hex_char (unat ch mod 16)) ?mb1 =
      Some (True, (put [ch] ?mb2)\<lparr>mb_decodedChar := 0, mb_parseState := ExpectingHexDigit\<rparr>)"
    using decode decode_hex_char(2,3) [OF digits(2)] by (simp add: ParseDefinition_def parse_char_def)
  moreover have "(put [ch] ?mb2)\<lparr>mb_decodedChar := 0, mb_parseState := ExpectingHexDigit\<rparr> = put [ch] mb"
    using assms(1) by (cases mb) (simp add: put_def hex_ready_def)
  ultimately show "feed ([hex_char (unat ch div 16), hex_char (unat ch mod 16)] @ rest) mb = feed rest (put [ch] mb)"
    using first by simp
  show "hex_ready (put [ch] mb)"
    using assms(1,3) parse_inv_put [OF inv(2), of "[ch]"] by (simp add: hex_ready_def)
qed

lemma feed_hex_text:
  assumes "hex_ready mb" "byte_string str" "used mb + length str \<le> 262144"
  shows "feed (hex_text str @ rest) mb = feed rest (put str mb) \<and> hex_ready (put str mb)"
  using assms
proof (induction str arbitrary: mb)
  case (Cons ch str)
  have inv: "store_inv mb" using Cons.prems(1) by (simp add: hex_ready_def parse_inv_store)
  have ch: "unat ch < 256" "used mb < 262144" using Cons.prems(2,3) by (simp_all add: byte_string_def)
  have "feed (hex_text (ch # str) @ rest) mb = feed (hex_text str @ rest) (put [ch] mb)"
    using feed_hex_char(1) [OF Cons.prems(1) ch, of "hex_text str @ rest"] by (simp add: hex_text_def)
  moreover have "used (put [ch] mb) + length str \<le> 262144" using Cons.prems(3) used_put [OF inv, of "[ch]"] by simp
  ultimately show ?case
    using Cons.IH [OF feed_hex_char(2) [OF Cons.prems(1) ch]] Cons.prems(2) put_put [OF inv, of str "[ch]"]
    by (simp add: byte_string_def)
qed (simp add: hex_text_def)

lemma count_step:
  assumes "isNumericParamValue ch"
  shows "min ((word_of_nat (min v 65535) :: size_t) * 10 + ucast (ch - 0x30)) 65535 =
    word_of_nat (min (v * 10 + digit_ref ch) 65535)"
proof -
  have ch: "48 \<le> unat ch" "unat ch \<le> 57" using assms by (simp_all add: isNumericParamValue_def word_le_nat_alt)
  have "unat (ucast (ch - 0x30) :: size_t) = unat ch - 48"
    using ch by (simp add: ucast_wchar_bound unat_sub word_le_nat_alt)
  moreover have "digit_ref ch = unat ch - 48" using ch by (simp add: digit_ref_def)
  moreover have "(ucast (ch - 0x30) :: size_t) = word_of_nat (unat (ucast (ch - 0x30) :: size_t))" by simp
  ultimately have d: "(ucast (ch - 0x30) :: size_t) = word_of_nat (digit_ref ch)" by (simp only:)
  have "digit_ref ch \<le> 9" "min v 65535 \<le> 65535" using ch by (simp_all add: digit_ref_def)
  then have "min v 65535 * 10 + digit_ref ch \<le> 655359" by linarith
  then have bound: "min v 65535 * 10 + digit_ref ch < 2 ^ 64" by (rule le_less_trans) simp
  have "(word_of_nat (min v 65535) :: size_t) * 10 + ucast (ch - 0x30) = word_of_nat (min v 65535 * 10 + digit_ref ch)"
    by (simp add: d)
  moreover have "min (word_of_nat (min v 65535 * 10 + digit_ref ch) :: size_t) 65535 =
      word_of_nat (min (min v 65535 * 10 + digit_ref ch) 65535)"
    using unat_size [OF bound] by (auto simp: min_def word_le_nat_alt)
  moreover have "min (min v 65535 * 10 + digit_ref ch) 65535 = min (v * 10 + digit_ref ch) 65535"
    by (simp add: min_def)
  ultimately show ?thesis by simp
qed

lemma feed_count:
  assumes "list_all isNumericParamValue ds" "mb_parseState mb = ExpectingRepeatCount" "mb_repeatCount mb = word_of_nat (min v 65535)"
  shows "feed (ds @ rest) mb = feed rest (mb\<lparr>mb_repeatCount := word_of_nat (min (digits_value 10 v ds) 65535)\<rparr>)"
  using assms
proof (induction ds arbitrary: v mb)
  case Nil
  then show ?case by (cases mb) simp
next
  case (Cons ch ds)
  let ?mb = "mb\<lparr>mb_repeatCount := word_of_nat (min (v * 10 + digit_ref ch) 65535)\<rparr>"
  have ch: "isNumericParamValue ch" "ch \<ge> 0x30" "ch \<le> 0x39" using Cons.prems(1) by (simp_all add: isNumericParamValue_def)
  have "ch \<noteq> AC_ESC" "\<not> ch < AC_SPC" using ch(2) by (auto simp: word_le_nat_alt word_less_nat_alt)
  then have "ParseDefinition ch mb = Some (True, ?mb)"
    using Cons.prems(2,3) ch count_step [OF ch(1), of v]
    by (simp add: ParseDefinition_def parse_char_def MAX_PARAMETER_VALUE_def)
  then show ?case using Cons.IH [of ?mb "v * 10 + digit_ref ch"] Cons.prems by simp
qed

definition begin_repeat :: "nat \<Rightarrow> macro_buffer \<Rightarrow> macro_buffer" where
  "begin_repeat n mb = mb\<lparr>mb_repeatCount := word_of_nat n, mb_repeatPending := True,
     mb_repeatStart := word_of_nat (length (active mb))\<rparr>"

lemma feed_repeat_begin:
  assumes "hex_ready mb" "\<not> mb_repeatPending mb" "list_all isNumericParamValue ds"
  shows "feed (0x21 # ds @ 0x3B # rest) mb = feed rest (begin_repeat (repeat_count ds) mb)"
proof -
  have inv: "store_inv mb" using assms(1) by (simp add: hex_ready_def parse_inv_store)
  let ?mb1 = "mb\<lparr>mb_parseState := ExpectingRepeatCount, mb_repeatCount := 0\<rparr>"
  let ?mb2 = "mb\<lparr>mb_parseState := ExpectingRepeatCount, mb_repeatCount := word_of_nat (repeat_count ds)\<rparr>"
  have "decodeHexDigit 0x21 mb = (False, mb\<lparr>mb_decodedChar := 0\<rparr>)" using assms(1) by (simp add: decodeHexDigit_def hex_ready_def)
  then have "ParseDefinition 0x21 mb = Some (True, ?mb1)"
    using assms(1,2) by (cases mb) (simp add: ParseDefinition_def parse_char_def hex_ready_def)
  moreover have "feed (ds @ 0x3B # rest) ?mb1 = feed (0x3B # rest) ?mb2"
    using feed_count [of ds ?mb1 0 "0x3B # rest"] assms(3) by (simp add: repeat_count_def)
  moreover have "activeMacro ?mb2 = Some (active mb)" using store_inv_active [of ?mb2] inv by simp
  then have "ParseDefinition 0x3B ?mb2 = Some (True, (begin_repeat (repeat_count ds) ?mb2)\<lparr>mb_parseState := ExpectingHexDigit\<rparr>)"
    by (simp add: ParseDefinition_def parse_char_def begin_repeat_def)
  moreover have "(begin_repeat (repeat_count ds) ?mb2)\<lparr>mb_parseState := ExpectingHexDigit\<rparr> = begin_repeat (repeat_count ds) mb"
    using assms(1) by (cases mb) (simp add: begin_repeat_def hex_ready_def)
  ultimately show ?thesis by simp
qed

lemma begin_repeat_facts:
  assumes "hex_ready mb" "n \<le> 65535"
  shows "hex_ready (begin_repeat n mb)" "used (begin_repeat n mb) = used mb" "unat (mb_repeatCount (begin_repeat n mb)) = n"
    "unat (mb_repeatStart (begin_repeat n mb)) = length (active mb)" "mb_repeatPending (begin_repeat n mb)"
    "mb_macros (begin_repeat n mb) = mb_macros mb" "mb_activeMacroId (begin_repeat n mb) = mb_activeMacroId mb"
proof -
  have inv: "parse_inv mb" "store_inv mb" using assms(1) by (simp_all add: hex_ready_def parse_inv_store)
  have "length (active mb) \<le> 262144" using length_active [OF inv(2)] inv(2) by (simp add: store_inv_def)
  then have words: "unat (word_of_nat (length (active mb)) :: size_t) = length (active mb)" "unat (word_of_nat n :: size_t) = n"
    using assms(2) by (simp_all add: unat_size)
  then show "hex_ready (begin_repeat n mb)" using assms by (simp add: hex_ready_def macro_invs begin_repeat_def)
  show "used (begin_repeat n mb) = used mb" "unat (mb_repeatCount (begin_repeat n mb)) = n"
    "unat (mb_repeatStart (begin_repeat n mb)) = length (active mb)" "mb_repeatPending (begin_repeat n mb)"
    "mb_macros (begin_repeat n mb) = mb_macros mb" "mb_activeMacroId (begin_repeat n mb) = mb_activeMacroId mb"
    using words by (simp_all add: used_def begin_repeat_def)
qed

lemma feed_repeat_end:
  assumes "hex_ready mb" "mb_repeatPending mb" "str = drop (unat (mb_repeatStart mb)) (active mb)"
    "n = unat (mb_repeatCount mb) - 1" "used mb + n * length str \<le> 262144"
  shows "feed (0x3B # rest) mb = feed rest ((put (concat (replicate n str)) mb)\<lparr>mb_repeatPending := False\<rparr>)"
    "hex_ready ((put (concat (replicate n str)) mb)\<lparr>mb_repeatPending := False\<rparr>)"
proof -
  have inv: "parse_inv mb" using assms(1) by (simp add: hex_ready_def)
  have "decodeHexDigit 0x3B mb = (False, mb)" using assms(1) by (cases mb) (simp add: decodeHexDigit_def hex_ready_def)
  then show "feed (0x3B # rest) mb = feed rest ((put (concat (replicate n str)) mb)\<lparr>mb_repeatPending := False\<rparr>)"
    using applyPendingRepeat_ok [OF inv assms(2-4)] assms(1,2,5) by (simp add: ParseDefinition_def parse_char_def hex_ready_def)
  show "hex_ready ((put (concat (replicate n str)) mb)\<lparr>mb_repeatPending := False\<rparr>)"
    using parse_inv_put [OF inv, of "concat (replicate n str)"] assms(1,5)
    by (simp add: hex_ready_def macro_invs length_concat sum_list_replicate)
qed

text \<open>Between two pieces no repeat is pending.\<close>

abbreviation between :: "macro_buffer \<Rightarrow> bool" where
  "between mb \<equiv> hex_ready mb \<and> \<not> mb_repeatPending mb"

lemma feed_piece:
  assumes "between mb" "piece_ok p" "used mb + length (piece_meaning p) \<le> 262144"
  shows "\<exists>mb'. feed (piece_text p @ rest) mb = feed rest mb' \<and> between mb'
    \<and> mb_macros mb' = mb_macros (put (piece_meaning p) mb) \<and> mb_activeMacroId mb' = mb_activeMacroId mb"
proof (cases p)
  case (Plain str)
  then show ?thesis
    using feed_hex_text [of mb str rest] assms by (intro exI [of _ "put str mb"]) simp
next
  case (Repeat ds str)
  let ?n = "repeat_count ds" and ?m = "piece_meaning (Repeat ds str)"
  let ?mb = "begin_repeat ?n mb"
  have n: "?n \<le> 65535" by (simp add: repeat_count_def)
  note facts = begin_repeat_facts [OF conjunct1 [OF assms(1)] n]
  have inv: "store_inv ?mb" using facts(1) by (simp add: hex_ready_def parse_inv_store)
  have m: "length ?m = max 1 ?n * length str" by (simp add: length_concat sum_list_replicate)
  have "length str \<le> max 1 ?n * length str" by simp
  then have "used ?mb + length str \<le> 262144" using assms(3) [unfolded Repeat] facts(2) m by linarith
  then have hex: "feed (hex_text str @ 0x3B # rest) ?mb = feed (0x3B # rest) (put str ?mb)" "hex_ready (put str ?mb)"
    using feed_hex_text [OF facts(1), of str "0x3B # rest"] assms(2) by (simp_all add: Repeat)
  have str: "str = drop (unat (mb_repeatStart (put str ?mb))) (active (put str ?mb))"
    using active_put [OF inv, of str] facts(4,6,7) by simp
  have space: "used (put str ?mb) + (?n - 1) * length str \<le> 262144"
    using assms(3) used_put [OF inv, of str] facts(2) m by (cases ?n) (simp_all add: Repeat)
  note repeat_end = feed_repeat_end(1) [OF hex(2) _ str _ space, of rest] feed_repeat_end(2) [OF hex(2) _ str _ space]
  define mb' where "mb' = (put (concat (replicate (?n - 1) str)) (put str ?mb))\<lparr>mb_repeatPending := False\<rparr>"
  have "feed (0x3B # rest) (put str ?mb) = feed rest mb'" "hex_ready mb'"
    using repeat_end facts(3,5) unfolding mb'_def by simp_all
  moreover have "feed (piece_text p @ rest) mb = feed (hex_text str @ 0x3B # rest) ?mb"
    using feed_repeat_begin [of mb ds "hex_text str @ 0x3B # rest"] assms(1,2) by (simp add: Repeat)
  moreover have "mb_macros mb' = mb_macros (put (piece_meaning p) mb)"
  proof -
    have "str @ concat (replicate (?n - 1) str) = ?m" by (cases ?n) simp_all
    then have "mb' = (put ?m ?mb)\<lparr>mb_repeatPending := False\<rparr>" using put_put [OF inv] by (simp add: mb'_def)
    then show ?thesis using facts(6,7) by (simp add: put_def Repeat)
  qed
  moreover have "\<not> mb_repeatPending mb'" "mb_activeMacroId mb' = mb_activeMacroId mb" using facts(7) by (simp_all add: mb'_def)
  ultimately show ?thesis using hex(1) by (intro exI [of _ mb']) simp
qed

lemma used_macros: "mb_macros mb' = mb_macros mb \<Longrightarrow> used mb' = used mb"
  by (simp add: used_def)

lemma feed_pieces:
  assumes "between mb" "list_all piece_ok ps" "used mb + length (concat (map piece_meaning ps)) \<le> 262144"
  shows "\<exists>mb'. feed (concat (map piece_text ps) @ rest) mb = feed rest mb' \<and> between mb'
    \<and> mb_macros mb' = mb_macros (put (concat (map piece_meaning ps)) mb)"
  using assms
proof (induction ps arbitrary: mb)
  case (Cons p ps)
  have inv: "store_inv mb" using Cons.prems(1) by (simp add: hex_ready_def parse_inv_store)
  obtain mb1 where mb1: "feed (piece_text p @ concat (map piece_text ps) @ rest) mb = feed (concat (map piece_text ps) @ rest) mb1"
    "between mb1" "mb_macros mb1 = mb_macros (put (piece_meaning p) mb)" "mb_activeMacroId mb1 = mb_activeMacroId mb"
    using feed_piece [OF Cons.prems(1), of p "concat (map piece_text ps) @ rest"] Cons.prems(2,3) by auto
  have "used mb1 = used mb + length (piece_meaning p)"
    using used_macros [OF mb1(3)] used_put [OF inv] by simp
  then obtain mb' where mb': "feed (concat (map piece_text ps) @ rest) mb1 = feed rest mb'" "between mb'"
    "mb_macros mb' = mb_macros (put (concat (map piece_meaning ps)) mb1)"
    using Cons.IH [OF mb1(2)] Cons.prems(2,3) by auto
  have "mb_macros (put (concat (map piece_meaning ps)) mb1) = mb_macros (put (concat (map piece_meaning ps)) (put (piece_meaning p) mb))"
    using mb1(3,4) by (simp add: put_def)
  then show ?case using mb1(1) mb' put_put [OF inv] by auto
qed auto

text \<open>C11:
  Whatever is sent as the definition of a macro, and however it is cut off, the store stays within
  its bounds: there are always sixty-four macros, the space that is used is the length of all of
  them, without wrapping around, and it never exceeds the limit; and no access is out of range.
\<close>

theorem macro_definition_safe:
  assumes "macro_inv mb" "InitParser macroId deleteControl encoding mb = (True, mb0)"
  shows "\<exists>ok mb'. feed chs mb0 = Some (ok, mb') \<and> macro_inv mb' \<and> length (mb_macros mb') = 64
    \<and> unat (mb_spaceUsed mb') = sum_list (map length (mb_macros mb')) \<and> unat (mb_spaceUsed mb') \<le> unat MAX_SPACE"
proof -
  have "parse_inv mb0" using InitParser_ok(2) [OF assms(1), of macroId deleteControl encoding] assms(2) by simp
  then obtain ok mb' where "feed chs mb0 = Some (ok, mb')" "macro_inv mb'"
    using feed_ok [of mb0 chs] by (auto simp: parse_step_ok_def)
  then show ?thesis by (auto simp: macro_inv_def store_inv_def used_def)
qed

theorem macro_definition_safe_witness:
  "\<exists>ok mb'. feed [0x34, 0x31, 0x21, 0x39, 0x3B, 0x5A] (snd (InitParser 3 1 1 MacroBuffer)) = Some (ok, mb') \<and> macro_inv mb'"
proof -
  have "macro_inv MacroBuffer" using store_inv_MacroBuffer by (simp add: macro_inv_def) (simp add: MacroBuffer_def)
  moreover have "InitParser 3 1 1 MacroBuffer = (True, snd (InitParser 3 1 1 MacroBuffer))"
    by (simp add: InitParser_def macro_controls Let_def) (simp add: MacroBuffer_def)
  ultimately show ?thesis using macro_definition_safe by blast
qed

lemma InitParser_hex:
  assumes "macro_inv mb" "mb_invokedDepth mb = 0" "macroId < 64"
  shows "\<exists>mb0. InitParser macroId MacroDeleteControl_DeleteId MacroEncoding_HexPair mb = (True, mb0) \<and> between mb0
    \<and> mb_macros mb0 = (mb_macros mb)[macroId := []] \<and> mb_activeMacroId mb0 = macroId"
proof -
  let ?mb0 = "deleteMacro macroId
    (mb\<lparr>mb_activeMacroId := macroId, mb_decodedChar := 0, mb_repeatPending := False, mb_parseState := ExpectingHexDigit\<rparr>)"
  have "length (mb_macros mb) = 64" using assms(1) by (simp add: macro_inv_def store_inv_def)
  then have init: "InitParser macroId MacroDeleteControl_DeleteId MacroEncoding_HexPair mb = (True, ?mb0)"
    using assms(2,3) by (simp add: InitParser_def Let_def)
  then have "parse_inv ?mb0"
    using InitParser_ok(2) [OF assms(1), of macroId MacroDeleteControl_DeleteId MacroEncoding_HexPair] by simp
  then have "between ?mb0 \<and> mb_macros ?mb0 = (mb_macros mb)[macroId := []] \<and> mb_activeMacroId ?mb0 = macroId"
    by (simp add: hex_ready_def deleteMacro_def)
  from conjI [OF init this] show ?thesis by (rule exI)
qed

text \<open>C12:
  A macro that is defined in hexadecimal, with repeats, is what its definition says, and no other
  macro changes, provided that the new macro fits into the space the others leave.
\<close>

theorem macro_hex_roundtrip:
  assumes "macro_inv mb" "mb_invokedDepth mb = 0" "macroId < 64" "list_all piece_ok ps"
    "sum_list (map length ((mb_macros mb)[macroId := concat (map piece_meaning ps)])) \<le> unat MAX_SPACE"
  shows "\<exists>mb0 mb'. InitParser macroId MacroDeleteControl_DeleteId MacroEncoding_HexPair mb = (True, mb0)
    \<and> feed (concat (map piece_text ps) @ [AC_ESC]) mb0 = Some (False, mb')
    \<and> mb_macros mb' = (mb_macros mb)[macroId := concat (map piece_meaning ps)]"
proof -
  obtain mb0 where mb0: "InitParser macroId MacroDeleteControl_DeleteId MacroEncoding_HexPair mb = (True, mb0)" "between mb0"
    "mb_macros mb0 = (mb_macros mb)[macroId := []]" "mb_activeMacroId mb0 = macroId"
    using InitParser_hex [OF assms(1-3)] by blast
  have len: "length (mb_macros mb) = 64" using assms(1) by (simp add: macro_inv_def store_inv_def)
  have put: "mb_macros (put str mb0) = (mb_macros mb)[macroId := str]" for str
    using mb0(3,4) len assms(3) by (simp add: put_def)
  have inv: "store_inv mb0" using mb0(2) by (simp add: hex_ready_def parse_inv_store)
  have "used mb0 + length (concat (map piece_meaning ps)) \<le> 262144"
    using assms(5) used_put [OF inv, of "concat (map piece_meaning ps)"] put by (simp add: used_def)
  then obtain mb' where "feed (concat (map piece_text ps) @ [AC_ESC]) mb0 = feed [AC_ESC] mb'" "between mb'"
    "mb_macros mb' = mb_macros (put (concat (map piece_meaning ps)) mb0)"
    using feed_pieces [OF mb0(2) assms(4), of "[AC_ESC]"] by blast
  then show ?thesis using mb0(1) put by (simp add: ParseDefinition_def)
qed

theorem macro_hex_roundtrip_witness:
  "\<exists>mb0 mb'. InitParser 5 0 1 MacroBuffer = (True, mb0)
    \<and> feed ([0x34, 0x31, 0x21, 0x33, 0x3B, 0x34, 0x32, 0x3B] @ [AC_ESC]) mb0 = Some (False, mb')
    \<and> mb_macros mb' = (replicate 64 [])[5 := [0x41, 0x42, 0x42, 0x42]]"
proof -
  let ?ps = "[Plain [0x41], Repeat [0x33] [0x42]]"
  have inv: "macro_inv MacroBuffer" using store_inv_MacroBuffer by (simp add: macro_inv_def) (simp add: MacroBuffer_def)
  have buffer: "mb_invokedDepth MacroBuffer = 0" "mb_macros MacroBuffer = replicate 64 []" by (simp_all add: MacroBuffer_def)
  have ok: "list_all piece_ok ?ps" by (simp add: byte_string_def isNumericParamValue_def)
  have texts: "concat (map piece_text ?ps) = [0x34, 0x31, 0x21, 0x33, 0x3B, 0x34, 0x32, 0x3B]"
    by (simp add: hex_text_def hex_char_def)
  have "repeat_count [0x33] = Suc (Suc (Suc 0))" by (simp add: repeat_count_def digit_ref_def)
  then have meanings: "concat (map piece_meaning ?ps) = [0x41, 0x42, 0x42, 0x42]" by simp
  have "sum_list (map length ((mb_macros MacroBuffer)[5 := concat (map piece_meaning ?ps)])) \<le> unat MAX_SPACE"
    using sum_list_length_update [of 5 "replicate 64 []" "[0x41, 0x42, 0x42, 0x42 :: wchar]"]
    unfolding meanings buffer by (simp add: sum_list_replicate)
  from macro_hex_roundtrip [OF inv buffer(1) _ ok this] show ?thesis
    unfolding texts meanings buffer(2) macro_controls by simp
qed

section \<open>Invocations are bounded\<close>

text \<open>
  What the parser does with the macro it is given. It reads the macro from its first character
  to its last. A character may end a sequence that invokes a macro, which is then run through
  the parser before the next character; or a reset, which overwrites the macros in use; or the
  parser may throw. Which of them happens is up to \<open>step\<close>, for any state \<open>'p\<close> of a parser; the number counts
  the characters the parser has read.
\<close>

datatype macro_effect = No_effect | Invokes nat | Clears

lemma InvokeMacro_mono [partial_function_mono]:
  assumes "\<And>i st. mono_option (\<lambda>f. process f i st)"
  shows "mono_option (\<lambda>f. InvokeMacro (process f) macroId st)"
proof (cases "begin_invoke macroId (fst st)")
  case (Pair ok mb)
  have "mono_option (\<lambda>f. process f macroId (mb, snd st) \<bind> (\<lambda>(r, mb1, s1). Some (r, end_invoke mb1, s1)))"
    by (rule bind_mono [OF assms]) (simp add: monotone_on_def option.leq_refl)
  with Pair show ?thesis by (cases ok) (simp_all add: InvokeMacro_def monotone_on_def option.leq_refl)
qed

partial_function (option) run_macro ::
  "(wchar \<Rightarrow> 'p \<Rightarrow> macro_effect outcome \<times> 'p) \<Rightarrow> nat \<Rightarrow> nat \<Rightarrow> macro_buffer \<times> 'p \<times> nat
   \<Rightarrow> (unit outcome \<times> macro_buffer \<times> 'p \<times> nat) option" where
  "run_macro step i macroId st =
     (case st of
        (mb, p, n) \<Rightarrow>
          if i < length (mb_macros mb ! macroId) then
            case step (mb_macros mb ! macroId ! i) p of
              (Threw, p1) \<Rightarrow> Some (Threw, mb, p1, n + 1)
            | (Returned No_effect, p1) \<Rightarrow> run_macro step (i + 1) macroId (mb, p1, n + 1)
            | (Returned Clears, p1) \<Rightarrow> run_macro step (i + 1) macroId (ClearMacrosIfInUse mb, p1, n + 1)
            | (Returned (Invokes m), p1) \<Rightarrow>
                InvokeMacro (\<lambda>m' st'. run_macro step 0 m' st') m (mb, p1, n + 1)
                \<bind> (\<lambda>(r, st1). if r = Threw then Some (Threw, st1) else run_macro step (i + 1) macroId st1)
          else Some (Returned (), st))"

text \<open>The state of the counters inside an invocation.\<close>

definition within :: "nat \<Rightarrow> nat \<Rightarrow> macro_buffer \<Rightarrow> bool" where
  "within depth len mb \<longleftrightarrow> store_inv mb \<and> unat (mb_invokedDepth mb) = depth \<and> unat (mb_invokedSequenceLength mb) = len
     \<and> depth \<le> 16 \<and> len < 262144"

lemma begin_invoke_cases:
  assumes "within depth len mb"
  obtains "begin_invoke macroId mb = (False, mb)"
  | mb1 where "begin_invoke macroId mb = (True, mb1)" "within (Suc depth) (len + length (mb_macros mb ! macroId)) mb1" "depth < 16"
      "mb_macros mb1 = mb_macros mb" "macroId < 64"
proof (cases "macroId < 64 \<and> depth < 16 \<and> length (mb_macros mb ! macroId) < 262144 - len")
  case True
  let ?seq = "mb_macros mb ! macroId"
  let ?mb1 = "mb\<lparr>mb_invokedSequenceLength := mb_invokedSequenceLength mb + word_of_nat (length ?seq),
    mb_invokedDepth := mb_invokedDepth mb + 1\<rparr>"
  have "length ?seq < 262144" using True by linarith
  then have seq: "unat (word_of_nat (length ?seq) :: size_t) = length ?seq" by (intro unat_size) simp
  have "unat (MAX_SPACE - mb_invokedSequenceLength mb) = 262144 - len"
    using assms by (simp add: within_def unat_sub word_le_nat_alt)
  then have "begin_invoke macroId mb = (True, ?mb1)"
    using True assms seq by (simp add: begin_invoke_def within_def store_inv_def word_less_nat_alt Let_def)
  moreover have "len + length ?seq < 262144" using True by linarith
  then have "within (Suc depth) (len + length ?seq) ?mb1"
    using True assms seq by (simp add: within_def unat_add_no_wrap)
  ultimately show thesis using True that(2) [of ?mb1] by simp
next
  case False
  have len: "length (mb_macros mb) = 64" using assms by (simp add: within_def store_inv_def)
  have seq: "unat (word_of_nat (length (mb_macros mb ! macroId)) :: size_t) = length (mb_macros mb ! macroId)" if "macroId < 64"
  proof (rule unat_size)
    have "mb_macros mb ! macroId \<in> set (mb_macros mb)" using that len by simp
    then have "length (mb_macros mb ! macroId) \<le> used mb" unfolding used_def by (intro member_le_sum_list) simp_all
    also have "\<dots> < 2 ^ 64" using assms by (simp add: within_def store_inv_def)
    finally show "length (mb_macros mb ! macroId) < 2 ^ 64" .
  qed
  have "unat (MAX_SPACE - mb_invokedSequenceLength mb) = 262144 - len"
    using assms by (simp add: within_def unat_sub word_le_nat_alt)
  then have "begin_invoke macroId mb = (False, mb)"
    using False assms seq len by (auto simp: begin_invoke_def within_def word_less_nat_alt Let_def)
  then show thesis by (rule that(1))
qed

lemma end_invoke_within:
  assumes "within (Suc depth) len mb"
  shows "within depth (if depth = 0 then 0 else len) (end_invoke mb)" "mb_macros (end_invoke mb) = mb_macros mb"
proof -
  have "unat (mb_invokedDepth mb - 1) = depth" using assms by (simp add: within_def unat_sub word_le_nat_alt)
  moreover from this have "mb_invokedDepth mb - 1 = 0 \<longleftrightarrow> depth = 0" by (simp add: word_unat_eq_iff)
  ultimately show "within depth (if depth = 0 then 0 else len) (end_invoke mb)"
    using assms by (simp add: within_def end_invoke_def Let_def)
  show "mb_macros (end_invoke mb) = mb_macros mb" by (simp add: end_invoke_def Let_def)
qed

text \<open>What may have happened to the macros: nothing, or all of them were overwritten in place.\<close>

definition nuls :: "wstring list \<Rightarrow> wstring list" where
  "nuls macros = map (\<lambda>macro. replicate (length macro) AC_NUL) macros"

definition kept_or_cleared :: "macro_buffer \<Rightarrow> macro_buffer \<Rightarrow> bool" where
  "kept_or_cleared mb mb' \<longleftrightarrow> mb_macros mb' = mb_macros mb \<or> mb_macros mb' = nuls (mb_macros mb)"

lemma nuls_simps [simp]:
  "nuls (nuls macros) = nuls macros" "length (nuls macros) = length macros" "map length (nuls macros) = map length macros"
  by (simp_all add: nuls_def comp_def)

lemma kept_or_cleared_refl: "kept_or_cleared a a"
  by (simp add: kept_or_cleared_def)

lemma kept_or_cleared_trans: "kept_or_cleared a b \<Longrightarrow> kept_or_cleared b c \<Longrightarrow> kept_or_cleared a c"
  by (auto simp: kept_or_cleared_def)

lemma kept_or_cleared_length:
  assumes "kept_or_cleared a b" "i < length (mb_macros a)"
  shows "length (mb_macros b ! i) = length (mb_macros a ! i)"
  using assms by (auto simp: kept_or_cleared_def nuls_def)

lemma ClearMacrosIfInUse_within:
  assumes "within depth len mb"
  shows "within depth len (ClearMacrosIfInUse mb)" "kept_or_cleared mb (ClearMacrosIfInUse mb)"
  using assms nuls_simps [of "mb_macros mb"]
  by (simp_all add: ClearMacrosIfInUse_def kept_or_cleared_def within_def store_inv_def used_def nuls_def comp_def)

text \<open>The characters read are paid for by the length that the invocations are charged, and by \<open>k\<close> more.\<close>

definition ran :: "nat \<Rightarrow> nat \<Rightarrow> nat \<Rightarrow> macro_buffer \<times> 'p \<times> nat \<Rightarrow> (unit outcome \<times> macro_buffer \<times> 'p \<times> nat) option \<Rightarrow> bool" where
  "ran depth len k st result \<longleftrightarrow>
     (\<exists>r mb' p' n' len'. result = Some (r, mb', p', n') \<and> within depth (if depth = 0 then 0 else len') mb'
        \<and> len' < 262144 \<and> n' + len \<le> snd (snd st) + len' + k \<and> kept_or_cleared (fst st) mb')"

lemma ran_trans:
  assumes "ran depth len k (mb, p, n) R" "0 < depth"
    and "\<And>r mb' p' n' len'. R = Some (r, mb', p', n') \<Longrightarrow> within depth len' mb' \<Longrightarrow> kept_or_cleared mb mb'
      \<Longrightarrow> ran depth len' k' (mb', p', n') (F (r, mb', p', n'))"
  shows "ran depth len (k + k') (mb, p, n) (R \<bind> F)"
proof -
  obtain r mb1 p1 n1 len1 where 1: "R = Some (r, mb1, p1, n1)" "within depth len1 mb1" "n1 + len \<le> n + len1 + k" "kept_or_cleared mb mb1"
    using assms(1,2) by (auto simp: ran_def)
  from assms(3) [OF this(1,2,4)] 1 assms(2) show ?thesis
    by (fastforce simp: ran_def intro: kept_or_cleared_trans)
qed

lemma InvokeMacro_ran:
  assumes "within depth len mb" "depth = 0 \<longrightarrow> len = 0"
    and "\<And>macroId mb1. depth < 16 \<Longrightarrow> macroId < 64 \<Longrightarrow> within (Suc depth) (len + length (mb_macros mb1 ! macroId)) mb1 \<Longrightarrow>
      ran (Suc depth) (len + length (mb_macros mb1 ! macroId)) (length (mb_macros mb1 ! macroId)) (mb1, p, n) (process macroId (mb1, p, n))"
  shows "ran depth len 0 (mb, p, n) (InvokeMacro process macroId (mb, p, n))"
proof (rule begin_invoke_cases [OF assms(1), of macroId])
  assume "begin_invoke macroId mb = (False, mb)"
  then show ?thesis
    using assms(1,2) by (auto simp: InvokeMacro_def ran_def within_def kept_or_cleared_def intro!: exI [of _ len])
next
  fix mb1
  let ?len = "length (mb_macros mb ! macroId)"
  assume mb1: "begin_invoke macroId mb = (True, mb1)" "within (Suc depth) (len + ?len) mb1" "depth < 16"
    "mb_macros mb1 = mb_macros mb" "macroId < 64"
  obtain r mb2 p2 n2 len2 where 2: "process macroId (mb1, p, n) = Some (r, mb2, p2, n2)" "within (Suc depth) len2 mb2"
    "n2 + (len + ?len) \<le> n + len2 + ?len" "kept_or_cleared mb1 mb2"
    using assms(3) [of macroId mb1] mb1 by (auto simp: ran_def)
  then show ?thesis
    using mb1(1,4) end_invoke_within [OF 2(2)] by (auto simp: InvokeMacro_def ran_def kept_or_cleared_def within_def)
qed

lemma run_macro_ran:
  assumes "within depth len mb" "0 < depth" "macroId < 64"
  shows "ran depth len (length (mb_macros mb ! macroId) - i) (mb, p, n) (run_macro step i macroId (mb, p, n))"
  using assms
proof (induction "16 - depth" arbitrary: depth len mb macroId i p n rule: less_induct)
  case outer: less
  from outer.prems show ?case
  proof (induction "length (mb_macros mb ! macroId) - i" arbitrary: i len mb p n rule: less_induct)
    case inner: less
    have stop: "ran depth len k (mb, p, n) (Some (r, mb, p', n'))" if "n' \<le> n + k" for k r p' n'
      using that inner.prems(1,2) by (auto simp: ran_def within_def kept_or_cleared_def)
    show ?case
    proof (cases "i < length (mb_macros mb ! macroId)")
      case False
      then show ?thesis using stop [of n 0] by (simp add: run_macro.simps [of step i])
    next
      case True
      let ?k = "length (mb_macros mb ! macroId) - (i + 1)"
      have k: "length (mb_macros mb ! macroId) - i = 1 + ?k" using True by simp
      have 64: "macroId < length (mb_macros mb)" using inner.prems by (simp add: within_def store_inv_def)
      have rest: "ran depth len' ?k (mb', p', n') (run_macro step (i + 1) macroId (mb', p', n'))"
        if "within depth len' mb'" "kept_or_cleared mb mb'" for len' mb' p' n'
        using inner.hyps [of mb' "i + 1" len' p' n'] that inner.prems(2,3) True kept_or_cleared_length [OF that(2) 64] by simp
      have count: "ran depth len (1 + m) (mb, p, n) R" if "ran depth len m (mb', p1, n + 1) R" "kept_or_cleared mb mb'" for m mb' R p1
        using that kept_or_cleared_trans [OF that(2)] by (fastforce simp: ran_def)
      have inv: "ran depth len 0 (mb, p1, n + 1) (InvokeMacro (\<lambda>m' st'. run_macro step 0 m' st') m (mb, p1, n + 1))" for m p1
        using outer.hyps [of "Suc depth" _ _ _ 0] inner.prems(2) by (intro InvokeMacro_ran [OF inner.prems(1)]) simp_all
      have nested: "ran depth len (0 + ?k) (mb, p1, n + 1)
          (InvokeMacro (\<lambda>m' st'. run_macro step 0 m' st') m (mb, p1, n + 1)
           \<bind> (\<lambda>(r, st1). if r = Threw then Some (Threw, st1) else run_macro step (i + 1) macroId st1))" for m p1
        by (rule ran_trans [OF inv inner.prems(2)]) (use rest inner.prems(2) in \<open>auto simp: ran_def within_def kept_or_cleared_def\<close>)
      note clear = ClearMacrosIfInUse_within [OF inner.prems(1)] and refl = kept_or_cleared_refl [of mb]
      obtain r p1 where step: "step (mb_macros mb ! macroId ! i) p = (r, p1)" by fastforce
      show ?thesis
        unfolding k run_macro.simps [of step i]
        using True step stop [of "n + 1" "1 + ?k" Threw p1] count [OF nested refl] count [OF rest [OF inner.prems(1) refl] refl]
          count [OF rest [OF clear] clear(2)]
        by (auto split: outcome.split macro_effect.split)
    qed
  qed
qed

text \<open>C13:
  Invoking a macro always comes to an end, whatever the macros contain, however they invoke each
  other and themselves, and whatever the parser makes of their characters: with all the
  invocations it leads to, the invocation hands fewer than 262144 characters to the parser. When it is over, also when
  the parser threw, the counters are at zero, and the macros are as they were, or, after a reset from
  inside, all overwritten with null characters.
\<close>

theorem invocation_bounded:
  assumes "store_inv mb" "mb_invokedDepth mb = 0" "mb_invokedSequenceLength mb = 0"
  shows "\<exists>r mb' p' n. InvokeMacro (run_macro step 0) macroId (mb, p, 0) = Some (r, mb', p', n)
    \<and> n < unat MAX_SPACE \<and> mb_invokedDepth mb' = 0 \<and> mb_invokedSequenceLength mb' = 0
    \<and> (mb_macros mb' = mb_macros mb \<or> mb_macros mb' = map (\<lambda>macro. replicate (length macro) AC_NUL) (mb_macros mb))"
proof -
  have "within 0 0 mb" using assms by (simp add: within_def)
  then have "ran 0 0 0 (mb, p, 0) (InvokeMacro (run_macro step 0) macroId (mb, p, 0))"
    by (rule InvokeMacro_ran) (simp, use run_macro_ran [of "Suc 0" _ _ _ 0] in simp)
  then show ?thesis
    by (fastforce simp: ran_def within_def kept_or_cleared_def nuls_def word_unat_eq_iff)
qed

theorem invocation_bounded_witness:
  "\<exists>r mb' p' n. InvokeMacro (run_macro (\<lambda>ch p. (Returned (if ch = 0x41 then Invokes 0 else Clears), p)) 0) 0
      (MacroBuffer\<lparr>mb_macros := [0x41, 0x42] # replicate 63 [], mb_spaceUsed := 2\<rparr>, (), 0) = Some (r, mb', p', n)
    \<and> n < 262144 \<and> mb_invokedDepth mb' = 0 \<and> mb_invokedSequenceLength mb' = 0"
proof -
  let ?mb = "MacroBuffer\<lparr>mb_macros := [0x41, 0x42] # replicate 63 [], mb_spaceUsed := 2\<rparr>"
  have "store_inv ?mb" "mb_invokedDepth ?mb = 0" "mb_invokedSequenceLength ?mb = 0"
    by (simp_all add: store_inv_def used_def sum_list_replicate MacroBuffer_def)
  from invocation_bounded [OF this, of "\<lambda>ch p. (Returned (if ch = 0x41 then Invokes 0 else Clears), p)" 0 "()"]
  show ?thesis unfolding MAX_SPACE_nat by blast
qed

lemma checksum_fold: "fold (\<lambda>ch checksum. checksum - ch) macro c = c - sum_list (macro :: wstring)"
  by (induction macro arbitrary: c) (simp_all add: algebra_simps)

lemma checksum_folds:
  "fold (\<lambda>macro checksum. fold (\<lambda>ch checksum. checksum - ch) macro checksum) macros c = c - sum_list (concat macros :: wstring)"
  by (induction macros arbitrary: c) (simp_all add: checksum_fold algebra_simps)

lemma CalculateChecksum_sum: "CalculateChecksum mb + sum_list (concat (mb_macros mb)) = 0"
  by (simp add: CalculateChecksum_def checksum_folds)

end
