(* ===== verification/Text_Attribute.thy ===== *)
theory Text_Attribute
  imports Color_Table Vt_Utils
begin

text \<open>
  Colours and attributes of text, \<^verbatim>\<open>src/src/buffer/out/TextColor.h\<close>,
  \<^verbatim>\<open>src/src/buffer/out/TextColor.cpp\<close>, \<^verbatim>\<open>src/src/buffer/out/TextAttribute.hpp\<close>,
  \<^verbatim>\<open>src/src/buffer/out/TextAttribute.cpp\<close> and \<^verbatim>\<open>src/src/inc/conattrs.hpp\<close>. The lemmas show that the three variants of
  the colour lookup agree and that the attributes of the old console interface survive the
  conversion to text attributes and back.
\<close>

section \<open>Colours of text\<close>

text \<open>The field \<open>tc_index\<close> is the byte that \<^verbatim>\<open>_red\<close> and \<^verbatim>\<open>_index\<close> share in their union.\<close>

datatype ColorType = ColorType_IsDefault | ColorType_IsIndex16 | ColorType_IsIndex256 | ColorType_IsRgb

record TextColor =
  tc_index :: byte
  tc_green :: byte
  tc_blue :: byte
  tc_meta :: ColorType

definition TextColor_default :: TextColor where
  "TextColor_default = \<lparr>tc_index = 0, tc_green = 0, tc_blue = 0, tc_meta = ColorType_IsDefault\<rparr>"

definition TextColor_index :: "byte \<Rightarrow> bool \<Rightarrow> TextColor" where
  "TextColor_index index isIndex256 =
     \<lparr>tc_index = index, tc_green = 0, tc_blue = 0,
      tc_meta = (if isIndex256 then ColorType_IsIndex256 else ColorType_IsIndex16)\<rparr>"

text \<open>The macros \<^verbatim>\<open>GetRValue\<close>, \<^verbatim>\<open>GetGValue\<close> and \<^verbatim>\<open>GetBValue\<close> take the low three bytes of a colour.\<close>

definition TextColor_rgb :: "COLORREF \<Rightarrow> TextColor" where
  "TextColor_rgb c =
     \<lparr>tc_index = ucast c, tc_green = ucast (drop_bit 8 c), tc_blue = ucast (drop_bit 16 c), tc_meta = ColorType_IsRgb\<rparr>"

definition IsIndex16 :: "TextColor \<Rightarrow> bool" where
  "IsIndex16 c \<longleftrightarrow> tc_meta c = ColorType_IsIndex16"

definition IsIndex256 :: "TextColor \<Rightarrow> bool" where
  "IsIndex256 c \<longleftrightarrow> tc_meta c = ColorType_IsIndex256"

definition IsDefault :: "TextColor \<Rightarrow> bool" where
  "IsDefault c \<longleftrightarrow> tc_meta c = ColorType_IsDefault"

definition IsRgb :: "TextColor \<Rightarrow> bool" where
  "IsRgb c \<longleftrightarrow> tc_meta c = ColorType_IsRgb"

definition CanBeBrightened :: "TextColor \<Rightarrow> bool" where
  "CanBeBrightened c \<longleftrightarrow> IsIndex16 c \<or> IsDefault c"

definition TextColor_SetColor :: "COLORREF \<Rightarrow> TextColor \<Rightarrow> TextColor" where
  "TextColor_SetColor rgbColor c =
     c\<lparr>tc_meta := ColorType_IsRgb, tc_index := ucast rgbColor, tc_green := ucast (drop_bit 8 rgbColor),
       tc_blue := ucast (drop_bit 16 rgbColor)\<rparr>"

definition SetIndex :: "byte \<Rightarrow> bool \<Rightarrow> TextColor \<Rightarrow> TextColor" where
  "SetIndex index isIndex256 c =
     c\<lparr>tc_meta := (if isIndex256 then ColorType_IsIndex256 else ColorType_IsIndex16), tc_index := index,
       tc_green := 0, tc_blue := 0\<rparr>"

definition SetDefault :: "TextColor \<Rightarrow> TextColor" where
  "SetDefault c = c\<lparr>tc_meta := ColorType_IsDefault, tc_index := 0, tc_green := 0, tc_blue := 0\<rparr>"

text \<open>The macro \<^verbatim>\<open>RGB\<close> puts three bytes into the low bytes of a colour.\<close>

definition RGB :: "byte \<Rightarrow> byte \<Rightarrow> byte \<Rightarrow> COLORREF" where
  "RGB r g b = ucast r OR push_bit 8 (ucast g) OR push_bit 16 (ucast b)"

definition GetRGB :: "TextColor \<Rightarrow> COLORREF" where
  "GetRGB c = RGB (tc_index c) (tc_green c) (tc_blue c)"

definition TransposeLegacyIndex :: "u64 \<Rightarrow> byte" where
  "TransposeLegacyIndex index =
     (let oneBitSet = (index XOR drop_bit 2 index) AND 1
      in ucast (index XOR oneBitSet XOR push_bit 2 oneBitSet))"

subsection \<open>The colour to display\<close>

text \<open>
  A default colour that is to be brightened is searched among the first eight colours of the
  table, by a loop or, where the compiler offers them, by vector instructions on eight lanes.
\<close>

datatype target = AVX2 | AMD64 | Other_target

definition til_at :: "'a list \<Rightarrow> nat \<Rightarrow> 'a option" where
  "til_at xs i = (if i < length xs then Some (xs ! i) else None)"

fun brighten_loop :: "COLORREF list \<Rightarrow> COLORREF \<Rightarrow> nat list \<Rightarrow> COLORREF option" where
  "brighten_loop colorTable defaultColor [] = Some defaultColor"
| "brighten_loop colorTable defaultColor (i # is) =
     til_at colorTable i \<bind> (\<lambda>c.
       if c = defaultColor then til_at colorTable (i + 8) else brighten_loop colorTable defaultColor is)"

definition cmpeq_epi32 :: "32 word \<Rightarrow> 32 word \<Rightarrow> 32 word" where
  "cmpeq_epi32 a b = (if a = b then 0xffffffff else 0)"

definition movemask_ps :: "32 word list \<Rightarrow> bool list" where
  "movemask_ps lanes = map (\<lambda>l. bit l 31) lanes"

definition brighten_avx2 :: "COLORREF list \<Rightarrow> COLORREF \<Rightarrow> COLORREF option" where
  "brighten_avx2 colorTable defaultColor =
     (let result = map (\<lambda>c. cmpeq_epi32 c defaultColor) (take 8 colorTable);
          mask = movemask_ps result
      in case BitScanForward mask of Some index \<Rightarrow> til_at colorTable (index + 8) | None \<Rightarrow> Some defaultColor)"

text \<open>\<^verbatim>\<open>_mm_packs_epi32\<close> narrows the signed lanes of two vectors, with saturation.\<close>

definition packs_epi32 :: "32 word list \<Rightarrow> 32 word list \<Rightarrow> 16 word list" where
  "packs_epi32 as bs = map (\<lambda>x. word_of_int (max (- 32768) (min 32767 (sint x)))) (as @ bs)"

definition brighten_sse2 :: "COLORREF list \<Rightarrow> COLORREF \<Rightarrow> COLORREF option" where
  "brighten_sse2 colorTable defaultColor =
     (let result1 = map (\<lambda>c. cmpeq_epi32 c defaultColor) (take 4 colorTable);
          result2 = map (\<lambda>c. cmpeq_epi32 c defaultColor) (take 4 (drop 4 colorTable));
          mask = movemask_epi8 (packs_epi32 result1 result2)
      in case BitScanForward mask of
           Some index \<Rightarrow> til_at colorTable (index div 2 + 8) | None \<Rightarrow> Some defaultColor)"

definition GetColor :: "target \<Rightarrow> COLORREF list \<Rightarrow> nat \<Rightarrow> bool \<Rightarrow> TextColor \<Rightarrow> COLORREF option" where
  "GetColor tgt colorTable defaultIndex brighten c =
     (if IsDefault c then
        til_at colorTable defaultIndex \<bind> (\<lambda>defaultColor.
          if brighten then
            (case tgt of
               AVX2 \<Rightarrow> brighten_avx2 colorTable defaultColor
             | AMD64 \<Rightarrow> brighten_sse2 colorTable defaultColor
             | Other_target \<Rightarrow> brighten_loop colorTable defaultColor [0..<8])
          else Some defaultColor)
      else if IsRgb c then Some (GetRGB c)
      else if IsIndex16 c \<and> brighten then til_at colorTable (unat (tc_index c OR 8))
      else til_at colorTable (unat (tc_index c)))"

definition TABLE_SIZE :: nat where
  "TABLE_SIZE = 267"

subsection \<open>The nearest of the sixteen colours\<close>

definition CompressedRgbToIndex16 :: "byte list" where
  "CompressedRgbToIndex16 =
    [0, 1, 1, 9, 0, 0, 1, 1, 2, 1, 1, 1, 2, 8, 1, 9,
     2, 2, 3, 3, 2, 2, 11, 3, 10, 10, 11, 11, 10, 10, 10, 11,
     0, 5, 1, 1, 0, 0, 1, 1, 8, 1, 1, 1, 2, 8, 1, 9,
     2, 2, 3, 3, 2, 2, 11, 3, 10, 10, 10, 11, 10, 10, 10, 11,
     5, 5, 5, 1, 4, 5, 1, 1, 8, 8, 1, 9, 2, 8, 9, 9,
     2, 2, 3, 3, 2, 2, 11, 3, 10, 10, 11, 11, 10, 10, 10, 11,
     4, 5, 5, 1, 4, 5, 5, 1, 8, 5, 5, 1, 8, 8, 9, 9,
     2, 2, 8, 9, 10, 2, 11, 3, 10, 10, 11, 11, 10, 10, 10, 11,
     4, 13, 5, 5, 4, 13, 5, 5, 4, 13, 13, 13, 6, 8, 13, 9,
     6, 8, 8, 9, 10, 10, 11, 3, 10, 10, 11, 11, 10, 10, 10, 11,
     4, 13, 13, 13, 4, 13, 13, 13, 4, 12, 13, 13, 6, 12, 13, 13,
     6, 6, 8, 9, 6, 6, 7, 7, 10, 14, 14, 7, 10, 10, 14, 11,
     4, 12, 13, 13, 4, 12, 13, 13, 4, 12, 13, 13, 6, 12, 12, 13,
     6, 6, 12, 7, 6, 6, 7, 7, 6, 14, 14, 7, 14, 14, 14, 15,
     12, 12, 13, 13, 12, 12, 13, 13, 12, 12, 12, 13, 12, 12, 12, 13,
     6, 12, 12, 7, 6, 6, 7, 7, 6, 14, 14, 7, 14, 14, 14, 15]"

definition Index256ToIndex16 :: "byte list" where
  "Index256ToIndex16 =
    [0, 4, 2, 6, 1, 5, 3, 7, 8, 12, 10, 14, 9, 13, 11, 15,
     0, 1, 1, 1, 9, 9, 2, 1, 1, 1, 1, 1, 2, 2, 3, 3,
     3, 3, 2, 2, 11, 11, 3, 3, 10, 10, 11, 11, 11, 11, 10, 10,
     10, 10, 11, 11, 5, 5, 5, 5, 1, 1, 8, 8, 1, 1, 9, 9,
     2, 2, 3, 3, 3, 3, 2, 2, 11, 11, 3, 3, 10, 10, 11, 11,
     11, 11, 10, 10, 10, 10, 11, 11, 4, 13, 5, 5, 5, 5, 4, 13,
     13, 13, 13, 13, 6, 8, 8, 8, 9, 9, 10, 10, 11, 11, 3, 3,
     10, 10, 11, 11, 11, 11, 10, 10, 10, 10, 11, 11, 4, 13, 13, 13,
     13, 13, 4, 12, 13, 13, 13, 13, 6, 6, 8, 8, 9, 9, 6, 6,
     7, 7, 7, 7, 10, 14, 14, 14, 7, 7, 10, 10, 14, 14, 11, 11,
     4, 12, 13, 13, 13, 13, 4, 12, 13, 13, 13, 13, 6, 6, 12, 12,
     7, 7, 6, 6, 7, 7, 7, 7, 6, 14, 14, 14, 7, 7, 14, 14,
     14, 14, 15, 15, 12, 12, 13, 13, 13, 13, 12, 12, 12, 12, 13, 13,
     6, 12, 12, 12, 7, 7, 6, 6, 7, 7, 7, 7, 6, 14, 14, 14,
     7, 7, 14, 14, 14, 14, 15, 15, 0, 0, 0, 0, 0, 0, 8, 8,
     8, 8, 8, 8, 8, 8, 8, 8, 7, 7, 7, 7, 7, 7, 15, 15]"

text \<open>Both tables have 256 entries, so no byte is out of their range.\<close>

definition GetLegacyIndex :: "byte \<Rightarrow> TextColor \<Rightarrow> byte" where
  "GetLegacyIndex defaultIndex c =
     (if IsDefault c then defaultIndex
      else if IsIndex16 c \<or> IsIndex256 c then Index256ToIndex16 ! unat (tc_index c)
      else let compressedRgb = (tc_index c AND 0xE0) + (drop_bit 3 (tc_green c) AND 0x1C) + (drop_bit 6 (tc_blue c) AND 3)
           in CompressedRgbToIndex16 ! unat compressedRgb)"

section \<open>Attributes of text\<close>

datatype CharacterAttributes = CA_Intense | CA_Italics | CA_Blinking | CA_Invisible | CA_CrossedOut | CA_Faint
  | CA_TopGridline | CA_LeftGridline | CA_RightGridline | CA_Protected | CA_ReverseVideo | CA_BottomGridline

text \<open>
  The flags are single bits; \<^verbatim>\<open>UnderlineStyle\<close> is a field of three bits, and \<^verbatim>\<open>Rendition\<close> is
  everything but the protection.
\<close>

fun flag_value :: "CharacterAttributes \<Rightarrow> 16 word" where
  "flag_value CA_Intense = 0x01"
| "flag_value CA_Italics = 0x02"
| "flag_value CA_Blinking = 0x04"
| "flag_value CA_Invisible = 0x08"
| "flag_value CA_CrossedOut = 0x10"
| "flag_value CA_Faint = 0x20"
| "flag_value CA_TopGridline = 0x400"
| "flag_value CA_LeftGridline = 0x800"
| "flag_value CA_RightGridline = 0x1000"
| "flag_value CA_Protected = 0x2000"
| "flag_value CA_ReverseVideo = 0x4000"
| "flag_value CA_BottomGridline = 0x8000"

definition UnderlineStyle_mask :: "16 word" where
  "UnderlineStyle_mask = 0x1C0"

definition Rendition_mask :: "16 word" where
  "Rendition_mask = 0xFFFF AND NOT 0x2000"

definition UNDERLINE_STYLE_SHIFT :: nat where
  "UNDERLINE_STYLE_SHIFT = 6"

definition FG_ATTRS :: "16 word" where
  "FG_ATTRS = 0x01 OR 0x02 OR 0x04 OR 0x08"

definition BG_ATTRS :: "16 word" where
  "BG_ATTRS = 0x10 OR 0x20 OR 0x40 OR 0x80"

definition USED_META_ATTRS :: "16 word" where
  "USED_META_ATTRS = (0x100 OR 0x200 OR 0x400 OR 0x800 OR 0x1000 OR 0x4000 OR 0x8000) AND NOT (0x100 OR 0x200)"

text \<open>
  An underline style is the number of the enumeration, as a cast may make a style that has no
  name.
\<close>

type_synonym UnderlineStyle = int

definition NoUnderline :: UnderlineStyle where
  "NoUnderline = 0"

definition SinglyUnderlined :: UnderlineStyle where
  "SinglyUnderlined = 1"

definition DoublyUnderlined :: UnderlineStyle where
  "DoublyUnderlined = 2"

definition CurlyUnderlined :: UnderlineStyle where
  "CurlyUnderlined = 3"

definition DottedUnderlined :: UnderlineStyle where
  "DottedUnderlined = 4"

definition DashedUnderlined :: UnderlineStyle where
  "DashedUnderlined = 5"

lemmas underline_styles = NoUnderline_def SinglyUnderlined_def DoublyUnderlined_def CurlyUnderlined_def
  DottedUnderlined_def DashedUnderlined_def

datatype MarkKind = MarkKind_None | MarkKind_Prompt | MarkKind_Command | MarkKind_Output

record TextAttribute =
  ta_attrs :: "16 word"
  ta_hyperlinkId :: "16 word"
  ta_foreground :: TextColor
  ta_background :: TextColor
  ta_underlineColor :: TextColor
  ta_markKind :: MarkKind

definition TextAttribute_default :: TextAttribute where
  "TextAttribute_default = \<lparr>ta_attrs = 0, ta_hyperlinkId = 0, ta_foreground = TextColor_default,
     ta_background = TextColor_default, ta_underlineColor = TextColor_default, ta_markKind = MarkKind_None\<rparr>"

subsection \<open>Flags\<close>

text \<open>
  The macros \<^verbatim>\<open>WI_IsFlagSet\<close>, \<^verbatim>\<open>WI_UpdateFlag\<close> and \<^verbatim>\<open>WI_ToggleFlag\<close> read, write and invert the bit of a
  flag.
\<close>

definition IsFlagSet :: "CharacterAttributes \<Rightarrow> TextAttribute \<Rightarrow> bool" where
  "IsFlagSet f a \<longleftrightarrow> ta_attrs a AND flag_value f \<noteq> 0"

definition UpdateFlag :: "CharacterAttributes \<Rightarrow> bool \<Rightarrow> TextAttribute \<Rightarrow> TextAttribute" where
  "UpdateFlag f b a =
     a\<lparr>ta_attrs := (if b then ta_attrs a OR flag_value f else ta_attrs a AND NOT (flag_value f))\<rparr>"

definition IsIntense :: "TextAttribute \<Rightarrow> bool" where
  "IsIntense a \<longleftrightarrow> IsFlagSet CA_Intense a"

definition IsFaint :: "TextAttribute \<Rightarrow> bool" where
  "IsFaint a \<longleftrightarrow> IsFlagSet CA_Faint a"

definition IsItalic :: "TextAttribute \<Rightarrow> bool" where
  "IsItalic a \<longleftrightarrow> IsFlagSet CA_Italics a"

definition IsBlinking :: "TextAttribute \<Rightarrow> bool" where
  "IsBlinking a \<longleftrightarrow> IsFlagSet CA_Blinking a"

definition IsInvisible :: "TextAttribute \<Rightarrow> bool" where
  "IsInvisible a \<longleftrightarrow> IsFlagSet CA_Invisible a"

definition IsCrossedOut :: "TextAttribute \<Rightarrow> bool" where
  "IsCrossedOut a \<longleftrightarrow> IsFlagSet CA_CrossedOut a"

definition IsOverlined :: "TextAttribute \<Rightarrow> bool" where
  "IsOverlined a \<longleftrightarrow> IsFlagSet CA_TopGridline a"

definition IsReverseVideo :: "TextAttribute \<Rightarrow> bool" where
  "IsReverseVideo a \<longleftrightarrow> IsFlagSet CA_ReverseVideo a"

definition IsProtected :: "TextAttribute \<Rightarrow> bool" where
  "IsProtected a \<longleftrightarrow> IsFlagSet CA_Protected a"

definition GetUnderlineStyle :: "TextAttribute \<Rightarrow> UnderlineStyle" where
  "GetUnderlineStyle a = uint (drop_bit UNDERLINE_STYLE_SHIFT (ta_attrs a AND UnderlineStyle_mask))"

definition SetIntense :: "bool \<Rightarrow> TextAttribute \<Rightarrow> TextAttribute" where
  "SetIntense b a = UpdateFlag CA_Intense b a"

definition SetFaint :: "bool \<Rightarrow> TextAttribute \<Rightarrow> TextAttribute" where
  "SetFaint b a = UpdateFlag CA_Faint b a"

definition SetItalic :: "bool \<Rightarrow> TextAttribute \<Rightarrow> TextAttribute" where
  "SetItalic b a = UpdateFlag CA_Italics b a"

definition SetBlinking :: "bool \<Rightarrow> TextAttribute \<Rightarrow> TextAttribute" where
  "SetBlinking b a = UpdateFlag CA_Blinking b a"

definition SetInvisible :: "bool \<Rightarrow> TextAttribute \<Rightarrow> TextAttribute" where
  "SetInvisible b a = UpdateFlag CA_Invisible b a"

definition SetCrossedOut :: "bool \<Rightarrow> TextAttribute \<Rightarrow> TextAttribute" where
  "SetCrossedOut b a = UpdateFlag CA_CrossedOut b a"

definition SetOverlined :: "bool \<Rightarrow> TextAttribute \<Rightarrow> TextAttribute" where
  "SetOverlined b a = UpdateFlag CA_TopGridline b a"

definition SetReverseVideo :: "bool \<Rightarrow> TextAttribute \<Rightarrow> TextAttribute" where
  "SetReverseVideo b a = UpdateFlag CA_ReverseVideo b a"

definition SetProtected :: "bool \<Rightarrow> TextAttribute \<Rightarrow> TextAttribute" where
  "SetProtected b a = UpdateFlag CA_Protected b a"

definition SetLeftVerticalDisplayed :: "bool \<Rightarrow> TextAttribute \<Rightarrow> TextAttribute" where
  "SetLeftVerticalDisplayed b a = UpdateFlag CA_LeftGridline b a"

definition SetRightVerticalDisplayed :: "bool \<Rightarrow> TextAttribute \<Rightarrow> TextAttribute" where
  "SetRightVerticalDisplayed b a = UpdateFlag CA_RightGridline b a"

lemmas flag_setters = SetIntense_def SetFaint_def SetItalic_def SetBlinking_def SetInvisible_def SetCrossedOut_def
  SetOverlined_def SetReverseVideo_def SetProtected_def SetLeftVerticalDisplayed_def SetRightVerticalDisplayed_def

lemmas flag_getters = IsIntense_def IsFaint_def IsItalic_def IsBlinking_def IsInvisible_def IsCrossedOut_def
  IsOverlined_def IsReverseVideo_def IsProtected_def

text \<open>The style is shifted as an \<^verbatim>\<open>int\<close> and then cut to sixteen bits.\<close>

definition SetUnderlineStyle :: "UnderlineStyle \<Rightarrow> TextAttribute \<Rightarrow> TextAttribute" where
  "SetUnderlineStyle style a =
     a\<lparr>ta_attrs := (ta_attrs a AND NOT UnderlineStyle_mask) OR word_of_int (push_bit UNDERLINE_STYLE_SHIFT style)\<rparr>"

definition Invert :: "TextAttribute \<Rightarrow> TextAttribute" where
  "Invert a = a\<lparr>ta_attrs := ta_attrs a XOR flag_value CA_ReverseVideo\<rparr>"

definition SetDefaultRenditionAttributes :: "TextAttribute \<Rightarrow> TextAttribute" where
  "SetDefaultRenditionAttributes a = a\<lparr>ta_attrs := ta_attrs a AND NOT Rendition_mask\<rparr>"

definition SetStandardErase :: "TextAttribute \<Rightarrow> TextAttribute" where
  "SetStandardErase a = a\<lparr>ta_attrs := 0, ta_hyperlinkId := 0, ta_markKind := MarkKind_None\<rparr>"

definition SetCharacterAttributes :: "16 word \<Rightarrow> TextAttribute \<Rightarrow> TextAttribute" where
  "SetCharacterAttributes attrs a = a\<lparr>ta_attrs := attrs\<rparr>"

definition SetMarkAttributes :: "MarkKind \<Rightarrow> TextAttribute \<Rightarrow> TextAttribute" where
  "SetMarkAttributes k a = a\<lparr>ta_markKind := k\<rparr>"

subsection \<open>Colours\<close>

definition SetForeground :: "TextColor \<Rightarrow> TextAttribute \<Rightarrow> TextAttribute" where
  "SetForeground c a = a\<lparr>ta_foreground := c\<rparr>"

definition SetBackground :: "TextColor \<Rightarrow> TextAttribute \<Rightarrow> TextAttribute" where
  "SetBackground c a = a\<lparr>ta_background := c\<rparr>"

text \<open>A failed assertion is \<open>None\<close>.\<close>

definition SetUnderlineColor :: "TextColor \<Rightarrow> TextAttribute \<Rightarrow> TextAttribute option" where
  "SetUnderlineColor c a = (if IsIndex16 c then None else Some (a\<lparr>ta_underlineColor := c\<rparr>))"

definition SetIndexedForeground :: "byte \<Rightarrow> TextAttribute \<Rightarrow> TextAttribute" where
  "SetIndexedForeground i a = a\<lparr>ta_foreground := TextColor_index i False\<rparr>"

definition SetIndexedBackground :: "byte \<Rightarrow> TextAttribute \<Rightarrow> TextAttribute" where
  "SetIndexedBackground i a = a\<lparr>ta_background := TextColor_index i False\<rparr>"

definition SetIndexedForeground256 :: "byte \<Rightarrow> TextAttribute \<Rightarrow> TextAttribute" where
  "SetIndexedForeground256 i a = a\<lparr>ta_foreground := TextColor_index i True\<rparr>"

definition SetIndexedBackground256 :: "byte \<Rightarrow> TextAttribute \<Rightarrow> TextAttribute" where
  "SetIndexedBackground256 i a = a\<lparr>ta_background := TextColor_index i True\<rparr>"

definition SetColor :: "COLORREF \<Rightarrow> bool \<Rightarrow> TextAttribute \<Rightarrow> TextAttribute" where
  "SetColor rgbColor fIsForeground a =
     (if fIsForeground then SetForeground (TextColor_rgb rgbColor) a else SetBackground (TextColor_rgb rgbColor) a)"

definition SetHyperlinkId :: "16 word \<Rightarrow> TextAttribute \<Rightarrow> TextAttribute" where
  "SetHyperlinkId i a = a\<lparr>ta_hyperlinkId := i\<rparr>"

definition SetDefaultForeground :: "TextAttribute \<Rightarrow> TextAttribute" where
  "SetDefaultForeground a = a\<lparr>ta_foreground := TextColor_default\<rparr>"

definition SetDefaultBackground :: "TextAttribute \<Rightarrow> TextAttribute" where
  "SetDefaultBackground a = a\<lparr>ta_background := TextColor_default\<rparr>"

definition SetDefaultUnderlineColor :: "TextAttribute \<Rightarrow> TextAttribute" where
  "SetDefaultUnderlineColor a = a\<lparr>ta_underlineColor := TextColor_default\<rparr>"

lemmas color_setters = SetForeground_def SetBackground_def SetIndexedForeground_def SetIndexedBackground_def
  SetIndexedForeground256_def SetIndexedBackground256_def SetColor_def SetDefaultForeground_def
  SetDefaultBackground_def SetDefaultUnderlineColor_def

subsection \<open>The attributes of the old interface\<close>

text \<open>
  The static variables of the file: the numbers of the default colours, in the order of the old
  interface and in the ANSI order, and the two maps from numbers to colours. All indices into
  the maps are masked to four bits.
\<close>

record legacy_state =
  ls_legacyDefaultForeground :: byte
  ls_legacyDefaultBackground :: byte
  ls_ansiDefaultForeground :: byte
  ls_ansiDefaultBackground :: byte
  ls_legacyForegroundColorMap :: "TextColor list"
  ls_legacyBackgroundColorMap :: "TextColor list"

definition initLegacyColorMap :: "byte \<Rightarrow> TextColor list" where
  "initLegacyColorMap defaultIndex =
     map (\<lambda>i. if i = unat defaultIndex then TextColor_default else TextColor_index (TransposeLegacyIndex (word_of_nat i)) True)
       [0..<16]"

definition legacy_init :: legacy_state where
  "legacy_init = \<lparr>ls_legacyDefaultForeground = 7, ls_legacyDefaultBackground = 0, ls_ansiDefaultForeground = 7,
     ls_ansiDefaultBackground = 0, ls_legacyForegroundColorMap = initLegacyColorMap 7,
     ls_legacyBackgroundColorMap = initLegacyColorMap 0\<rparr>"

definition SetLegacyDefaultAttributes :: "16 word \<Rightarrow> legacy_state \<Rightarrow> legacy_state" where
  "SetLegacyDefaultAttributes defaultAttributes ls =
     (let fg1 = (ls_legacyForegroundColorMap ls)[unat (ls_legacyDefaultForeground ls) := TextColor_index (ls_ansiDefaultForeground ls) True];
          bg1 = (ls_legacyBackgroundColorMap ls)[unat (ls_legacyDefaultBackground ls) := TextColor_index (ls_ansiDefaultBackground ls) True];
          fg = ucast (defaultAttributes AND FG_ATTRS);
          bg = ucast (drop_bit 4 (defaultAttributes AND BG_ATTRS))
      in \<lparr>ls_legacyDefaultForeground = fg, ls_legacyDefaultBackground = bg,
          ls_ansiDefaultForeground = TransposeLegacyIndex (ucast fg), ls_ansiDefaultBackground = TransposeLegacyIndex (ucast bg),
          ls_legacyForegroundColorMap = fg1[unat fg := TextColor_default],
          ls_legacyBackgroundColorMap = bg1[unat bg := TextColor_default]\<rparr>)"

definition TextAttribute_legacy :: "legacy_state \<Rightarrow> 16 word \<Rightarrow> TextAttribute" where
  "TextAttribute_legacy ls wLegacyAttr =
     \<lparr>ta_attrs = wLegacyAttr AND USED_META_ATTRS, ta_hyperlinkId = 0,
      ta_foreground = ls_legacyForegroundColorMap ls ! unat (wLegacyAttr AND FG_ATTRS),
      ta_background = ls_legacyBackgroundColorMap ls ! unat (drop_bit 4 (wLegacyAttr AND BG_ATTRS)),
      ta_underlineColor = TextColor_default, ta_markKind = MarkKind_None\<rparr>"

definition GetLegacyAttributes :: "legacy_state \<Rightarrow> TextAttribute \<Rightarrow> 16 word" where
  "GetLegacyAttributes ls a =
     (let fgIndex = ucast (GetLegacyIndex (ls_legacyDefaultForeground ls) (ta_foreground a));
          bgIndex = ucast (GetLegacyIndex (ls_legacyDefaultBackground ls) (ta_background a));
          metaAttrs = ta_attrs a AND USED_META_ATTRS;
          brighten = IsIntense a \<and> CanBeBrightened (ta_foreground a)
      in fgIndex OR push_bit 4 bgIndex OR metaAttrs OR (if brighten then 8 else 0))"

section \<open>The variants of the colour lookup agree\<close>

lemma find_map: "List.find P (map f xs) = map_option f (List.find (\<lambda>x. P (f x)) xs)"
  by (induction xs) auto

lemma BitScanForward_find: "BitScanForward bs = List.find (\<lambda>i. bs ! i) [0..<length bs]"
proof (induction bs)
  case (Cons b bs)
  have "[0..<length (b # bs)] = 0 # map Suc [0..<length bs]" by (simp only: length_Cons upt_conv_Cons zero_less_Suc map_Suc_upt)
  then show ?case using Cons by (simp del: upt_Suc add: find_map)
qed simp

lemma brighten_loop_find:
  "list_all (\<lambda>i. i < length t) is \<Longrightarrow> brighten_loop t c is =
     (case List.find (\<lambda>i. t ! i = c) is of Some i \<Rightarrow> til_at t (i + 8) | None \<Rightarrow> Some c)"
  by (induction "is") (simp_all add: til_at_def)

lemma scan_find:
  assumes "16 \<le> length t"
  shows "BitScanForward (map (\<lambda>x. x = c) (take 8 t)) = List.find (\<lambda>i. t ! i = c) [0..<8]"
proof -
  have "List.find (\<lambda>i. map (\<lambda>x. x = c) (take 8 t) ! i) [0..<8] = List.find (\<lambda>i. t ! i = c) [0..<8]"
    using assms by (intro find_cong) simp_all
  moreover have "length (map (\<lambda>x. x = c) (take 8 t)) = 8" using assms by simp
  ultimately show ?thesis by (simp only: BitScanForward_find)
qed

lemma brighten_loop_scan:
  assumes "16 \<le> length t"
  shows "brighten_loop t c [0..<8] =
    (case BitScanForward (map (\<lambda>x. x = c) (take 8 t)) of Some k \<Rightarrow> til_at t (k + 8) | None \<Rightarrow> Some c)"
proof -
  have "list_all (\<lambda>i. i < length t) [0..<8]" using assms by (simp only: list_all_iff set_upt) simp
  then show ?thesis by (simp only: brighten_loop_find scan_find [OF assms])
qed

lemma movemask_ps_cmpeq: "movemask_ps (map (\<lambda>x. cmpeq_epi32 x c) xs) = map (\<lambda>x. x = c) xs"
  by (simp add: movemask_ps_def cmpeq_epi32_def)

lemma brighten_avx2_loop: "16 \<le> length t \<Longrightarrow> brighten_avx2 t c = brighten_loop t c [0..<8]"
  using brighten_loop_scan [of t c] by (simp add: brighten_avx2_def movemask_ps_cmpeq Let_def option.case_eq_if)

lemma packs_epi32_cmpeq:
  "packs_epi32 (map (\<lambda>x. cmpeq_epi32 x c) xs) (map (\<lambda>x. cmpeq_epi32 x c) ys) =
     map (\<lambda>x. if x = c then 0xffff else 0) (xs @ ys)"
  by (simp add: packs_epi32_def cmpeq_epi32_def)

lemma BitScanForward_pairs:
  "BitScanForward (movemask_epi8 (map (\<lambda>x. if P x then 0xffff else 0) xs)) =
     map_option (\<lambda>i. 2 * i) (BitScanForward (map P xs))"
proof (induction xs)
  case (Cons x xs)
  have "movemask_epi8 (map (\<lambda>x. if P x then 0xffff else 0) (x # xs)) =
      [P x, P x] @ movemask_epi8 (map (\<lambda>x. if P x then 0xffff else 0) xs)"
    by (simp add: movemask_epi8_def)
  with Cons show ?case by (simp add: option.map_comp o_def)
qed (simp add: movemask_epi8_def)

lemma brighten_sse2_loop:
  assumes "16 \<le> length t"
  shows "brighten_sse2 t c = brighten_loop t c [0..<8]"
proof -
  have "take 4 t @ take 4 (drop 4 t) = take 8 t" by (simp flip: take_add)
  then show ?thesis
    using brighten_loop_scan [of t c] assms BitScanForward_pairs [of "\<lambda>x. x = c" "take 8 t"]
    by (simp add: brighten_sse2_def packs_epi32_cmpeq option.case_eq_if option.map_sel)
qed

text \<open>C15:
  The variants of the colour lookup for the three kinds of processors agree and stay within the
  table: a default colour that is to be brightened is the bright counterpart of the first of the
  eight dark colours that equals it, and itself otherwise; an RGB colour is itself; and an index is looked up, with
  the bright counterpart of a 16-colour index if it is to be brightened.
\<close>

theorem GetColor_targets:
  assumes "length table = TABLE_SIZE" "defaultIndex < TABLE_SIZE"
  shows "GetColor tgt table defaultIndex brighten c =
    Some (if IsDefault c then
            (case List.find (\<lambda>i. brighten \<and> table ! i = table ! defaultIndex) [0..<8] of
               Some i \<Rightarrow> table ! (i + 8) | None \<Rightarrow> table ! defaultIndex)
          else if IsRgb c then GetRGB c
          else table ! unat (if IsIndex16 c \<and> brighten then tc_index c OR 8 else tc_index c))"
proof -
  have len: "16 \<le> length table" using assms(1) by (simp add: TABLE_SIZE_def)
  have at: "til_at table (unat (b :: byte)) = Some (table ! unat b)" for b
    using unsigned_less [of b, where 'a = nat] assms(1) by (simp add: til_at_def TABLE_SIZE_def)
  have none: "List.find (\<lambda>i. False) (xs :: nat list) = None" for xs by (simp add: find_None_iff)
  have loop: "brighten_loop table d [0..<8] =
      Some (case List.find (\<lambda>i. table ! i = d) [0..<8] of Some i \<Rightarrow> table ! (i + 8) | None \<Rightarrow> d)" for d
  proof (cases "List.find (\<lambda>i. table ! i = d) [0..<8]")
    case (Some i)
    then have "i < 8" by (auto simp: find_Some_iff)
    then have "til_at table (i + 8) = Some (table ! (i + 8))" using len by (simp add: til_at_def)
    then show ?thesis by (simp only: brighten_loop_scan [OF len] scan_find [OF len] Some option.case)
  qed (simp only: brighten_loop_scan [OF len] scan_find [OF len] option.case)
  have default: "GetColor tgt table defaultIndex brighten c =
      Some (case List.find (\<lambda>i. brighten \<and> table ! i = table ! defaultIndex) [0..<8] of
              Some i \<Rightarrow> table ! (i + 8) | None \<Rightarrow> table ! defaultIndex)" if "IsDefault c"
    using assms that
    by (cases tgt; cases brighten)
      (simp_all only: GetColor_def til_at_def [of table defaultIndex] if_True if_False bind.bind_lunit target.case
        brighten_avx2_loop [OF len] brighten_sse2_loop [OF len] loop none simp_thms option.case)
  show ?thesis
  proof (cases "IsDefault c")
    case False
    then show ?thesis by (simp add: GetColor_def at)
  qed (simp only: default if_True)
qed

theorem GetColor_targets_witness:
  "GetColor AMD64 (map word_of_nat [0..<267] :: COLORREF list) 3 True TextColor_default = Some 11"
proof -
  define t :: "COLORREF list" where "t = map word_of_nat [0..<267]"
  have t: "length t = 267" "t ! i = word_of_nat i" if "i < 267" for i
    using that by (simp_all only: t_def length_map length_upt nth_map_upt add_0 diff_zero minus_nat.diff_0)
  have "List.find (\<lambda>i. True \<and> t ! i = t ! 3) [0..<8] = Some 3" by (simp add: upt_rec t(2))
  then show ?thesis
    unfolding t_def [symmetric] using GetColor_targets [of t 3 AMD64 True TextColor_default] t(1) [of 0]
    by (simp add: TABLE_SIZE_def IsDefault_def TextColor_default_def t(2))
qed

section \<open>The attributes of the old interface survive\<close>

definition legacy_inv :: "legacy_state \<Rightarrow> bool" where
  "legacy_inv ls \<longleftrightarrow>
     unat (ls_legacyDefaultForeground ls) < 16 \<and> unat (ls_legacyDefaultBackground ls) < 16
     \<and> ls_ansiDefaultForeground ls = TransposeLegacyIndex (ucast (ls_legacyDefaultForeground ls))
     \<and> ls_ansiDefaultBackground ls = TransposeLegacyIndex (ucast (ls_legacyDefaultBackground ls))
     \<and> ls_legacyForegroundColorMap ls = initLegacyColorMap (ls_legacyDefaultForeground ls)
     \<and> ls_legacyBackgroundColorMap ls = initLegacyColorMap (ls_legacyDefaultBackground ls)"

lemma length_initLegacyColorMap [simp]: "length (initLegacyColorMap d) = 16"
  by (simp only: initLegacyColorMap_def length_map length_upt diff_zero)

lemma nth_initLegacyColorMap:
  "i < 16 \<Longrightarrow> initLegacyColorMap d ! i =
     (if i = unat d then TextColor_default else TextColor_index (TransposeLegacyIndex (word_of_nat i)) True)"
  by (simp only: initLegacyColorMap_def nth_map_upt diff_zero add_0)

lemma ucast_byte_u64: "(word_of_nat (unat (d :: byte)) :: u64) = ucast d"
  by simp

lemma initLegacyColorMap_update:
  assumes "unat d < 16" "unat e < 16"
  shows "(initLegacyColorMap d)[unat d := TextColor_index (TransposeLegacyIndex (ucast d)) True, unat e := TextColor_default] =
    initLegacyColorMap e"
  using assms by (intro nth_equalityI) (auto simp: nth_initLegacyColorMap nth_list_update)

lemma legacy_index_bounds:
  "unat (ucast (w AND FG_ATTRS) :: byte) = unat (w AND FG_ATTRS)" "unat (w AND FG_ATTRS) < 16"
  "unat (ucast (drop_bit 4 (w AND BG_ATTRS)) :: byte) = unat (drop_bit 4 (w AND BG_ATTRS))" "unat (drop_bit 4 (w AND BG_ATTRS)) < 16"
proof -
  have "w AND FG_ATTRS \<le> 15" by (simp add: FG_ATTRS_def word_and_le1)
  then show fg: "unat (w AND FG_ATTRS) < 16" by (simp add: word_le_nat_alt)
  have "w AND BG_ATTRS \<le> 240" by (simp add: BG_ATTRS_def word_and_le1)
  then have "unat (w AND BG_ATTRS) div 16 \<le> 240 div 16" by (intro div_le_mono) (simp add: word_le_nat_alt)
  then show bg: "unat (drop_bit 4 (w AND BG_ATTRS)) < 16" by (simp add: unat_drop_bit_eq drop_bit_eq_div [where 'a = nat] del: drop_bit_and)
  show "unat (ucast (w AND FG_ATTRS) :: byte) = unat (w AND FG_ATTRS)"
    using fg by (simp add: unsigned_ucast_eq take_bit_nat_eq_self)
  show "unat (ucast (drop_bit 4 (w AND BG_ATTRS)) :: byte) = unat (drop_bit 4 (w AND BG_ATTRS))"
    using bg by (simp add: unsigned_ucast_eq take_bit_nat_eq_self del: drop_bit_and)
qed

lemma legacy_inv_Set:
  assumes "legacy_inv ls"
  shows "legacy_inv (SetLegacyDefaultAttributes w ls)"
proof -
  define fg :: byte where "fg = ucast (w AND FG_ATTRS)"
  define bg :: byte where "bg = ucast (drop_bit 4 (w AND BG_ATTRS))"
  have "unat fg < 16" "unat bg < 16" unfolding fg_def bg_def legacy_index_bounds(1,3) by (rule legacy_index_bounds)+
  then show ?thesis
    using assms unfolding legacy_inv_def SetLegacyDefaultAttributes_def Let_def fg_def [symmetric] bg_def [symmetric]
    by (simp add: initLegacyColorMap_update)
qed

lemma legacy_inv_init: "legacy_inv legacy_init"
proof -
  have "TransposeLegacyIndex (ucast (7 :: byte)) = 7" "TransposeLegacyIndex (ucast (0 :: byte)) = 0"
    by (simp_all add: TransposeLegacyIndex_def)
  then show ?thesis by (simp only: legacy_inv_def legacy_init_def legacy_state.simps) simp
qed

lemma legacy_inv_fold: "legacy_inv (fold SetLegacyDefaultAttributes ws legacy_init)"
  by (rule fold_invariant [where Q = "\<lambda>_. True"]) (simp_all add: legacy_inv_Set legacy_inv_init)

lemma Index256ToIndex16_ansi: "take 16 Index256ToIndex16 = [0, 4, 2, 6, 1, 5, 3, 7, 8, 12, 10, 14, 9, 13, 11, 15]"
  by (simp add: Index256ToIndex16_def)

lemma lessThan_16: "{..<16 :: nat} = {0, 1, 2, 3, 4, 5, 6, 7, 8, 9, 10, 11, 12, 13, 14, 15}"
  by (simp add: lessThan_nat_numeral lessThan_Suc) blast

lemma TransposeLegacyIndex_less: "i < 16 \<Longrightarrow> unat (TransposeLegacyIndex (word_of_nat i)) < 16"
proof -
  have "\<forall>i \<in> {..<16}. unat (TransposeLegacyIndex (word_of_nat i)) < 16"
    unfolding lessThan_16 by (simp add: TransposeLegacyIndex_def)
  then show "i < 16 \<Longrightarrow> ?thesis" by blast
qed

lemma Index256ToIndex16_Transpose:
  assumes "i < 16"
  shows "Index256ToIndex16 ! unat (TransposeLegacyIndex (word_of_nat i)) = word_of_nat i"
proof -
  have "\<forall>i \<in> {..<16}. take 16 Index256ToIndex16 ! unat (TransposeLegacyIndex (word_of_nat i)) = word_of_nat i"
    unfolding lessThan_16 Index256ToIndex16_ansi by (simp add: TransposeLegacyIndex_def)
  then have "take 16 Index256ToIndex16 ! unat (TransposeLegacyIndex (word_of_nat i)) = word_of_nat i" using assms by blast
  then show ?thesis by (simp only: nth_take [OF TransposeLegacyIndex_less [OF assms]])
qed

lemma GetLegacyIndex_map:
  assumes "i < 16"
  shows "GetLegacyIndex d (initLegacyColorMap d ! i) = word_of_nat i"
  using Index256ToIndex16_Transpose [OF assms] assms
  by (auto simp: nth_initLegacyColorMap GetLegacyIndex_def TextColor_default_def TextColor_index_def IsDefault_def
      IsIndex16_def IsIndex256_def)

lemma unat_small_byte:
  "n < 16 \<Longrightarrow> unat (ucast (word_of_nat n :: byte) :: 16 word) = n"
  by (simp add: unsigned_ucast_eq unsigned_of_nat take_bit_nat_eq_self)

lemma push_drop_background: "push_bit 4 (drop_bit 4 (w AND BG_ATTRS)) = w AND BG_ATTRS"
proof -
  have bg: "BG_ATTRS = push_bit 4 15" by (simp add: BG_ATTRS_def)
  have "push_bit 4 (drop_bit 4 (w AND push_bit 4 m)) = w AND push_bit 4 m" for m :: "16 word"
    by (rule bit_word_eqI) (auto simp: bit_simps simp del: drop_bit_and push_bit_and)
  then show ?thesis unfolding bg .
qed

text \<open>C14:
  The attributes of the old console interface survive the conversion to text attributes and
  back, with the exception of the three bits that mean nothing to them, whatever default attributes have been set before.
\<close>

theorem legacy_attributes_roundtrip:
  "let ls = fold SetLegacyDefaultAttributes ws legacy_init
   in GetLegacyAttributes ls (TextAttribute_legacy ls w) = w AND NOT (0x0100 OR 0x0200 OR 0x2000)"
proof -
  define ls where "ls = fold SetLegacyDefaultAttributes ws legacy_init"
  have inv: "legacy_inv ls" unfolding ls_def by (rule legacy_inv_fold)
  let ?a = "TextAttribute_legacy ls w"
  have fg: "GetLegacyIndex (ls_legacyDefaultForeground ls) (ta_foreground ?a) = word_of_nat (unat (w AND FG_ATTRS))"
    and bg: "GetLegacyIndex (ls_legacyDefaultBackground ls) (ta_background ?a) = word_of_nat (unat (drop_bit 4 (w AND BG_ATTRS)))"
    using inv legacy_index_bounds(2,4) [of w]
    by (simp_all only: TextAttribute_legacy_def TextAttribute.simps legacy_inv_def GetLegacyIndex_map)
  have small: "ucast (word_of_nat (unat (w AND FG_ATTRS)) :: byte) = w AND FG_ATTRS"
    "ucast (word_of_nat (unat (drop_bit 4 (w AND BG_ATTRS))) :: byte) = drop_bit 4 (w AND BG_ATTRS)"
    by (simp_all only: word_unat_eq_iff unat_small_byte [OF legacy_index_bounds(2)] unat_small_byte [OF legacy_index_bounds(4)])
  have "USED_META_ATTRS AND 1 = 0" by (simp add: USED_META_ATTRS_def)
  then have "\<not> IsIntense ?a"
    by (simp only: TextAttribute_legacy_def IsIntense_def IsFlagSet_def TextAttribute.simps flag_value.simps and.assoc and_zero_eq)
  then have "GetLegacyAttributes ls ?a = (w AND FG_ATTRS) OR (w AND BG_ATTRS) OR ((w AND USED_META_ATTRS) AND USED_META_ATTRS)"
    unfolding GetLegacyAttributes_def fg bg Let_def
    by (simp only: small if_False simp_thms or.right_neutral TextAttribute_legacy_def TextAttribute.simps push_drop_background or.assoc)
  also have "\<dots> = w AND (FG_ATTRS OR BG_ATTRS OR USED_META_ATTRS)"
    by (simp only: and.assoc and.idem bit.conj_disj_distrib)
  also have "FG_ATTRS OR BG_ATTRS OR USED_META_ATTRS = NOT (0x0100 OR 0x0200 OR 0x2000)"
    by (simp add: FG_ATTRS_def BG_ATTRS_def USED_META_ATTRS_def)
  finally show ?thesis by (simp only: ls_def Let_def)
qed

end
