(* ===== verification/Sgr_Stack.thy ===== *)
theory Sgr_Stack
  imports Text_Attribute Dispatch_Types
begin

text \<open>
  The stack of saved text attributes, \<^verbatim>\<open>src/src/types/sgrStack.cpp\<close> and
  \<^verbatim>\<open>src/src/types/inc/sgrStack.hpp\<close>, with the part of \<^verbatim>\<open>src/src/inc/til/enumset.h\<close> it uses. The stack is
  a ring of ten slots. The lemmas show that it refines a stack that forgets its bottom when
  it grows beyond ten entries.
\<close>

section \<open>Definitions\<close>

text \<open>A set of enumerators is a word with a bit for each; its width is that of \<^verbatim>\<open>uintptr_t\<close>.\<close>

definition enumset_set :: "nat \<Rightarrow> u64 \<Rightarrow> u64" where
  "enumset_set pos data = data OR push_bit pos 1"

definition enumset_test :: "u64 \<Rightarrow> nat \<Rightarrow> bool" where
  "enumset_test data pos \<longleftrightarrow> data AND push_bit pos 1 \<noteq> 0"

datatype SgrSaveRestoreStackOptions = SR_All | SR_Intense | SR_Faintness | SR_Italics | SR_Underline | SR_Blink
  | SR_Negative | SR_Invisible | SR_CrossedOut | SR_DoublyUnderlined | SR_SaveForegroundColor | SR_SaveBackgroundColor

fun option_position :: "SgrSaveRestoreStackOptions \<Rightarrow> nat" where
  "option_position SR_All = 0"
| "option_position SR_Intense = 1"
| "option_position SR_Faintness = 2"
| "option_position SR_Italics = 3"
| "option_position SR_Underline = 4"
| "option_position SR_Blink = 5"
| "option_position SR_Negative = 7"
| "option_position SR_Invisible = 8"
| "option_position SR_CrossedOut = 9"
| "option_position SR_DoublyUnderlined = 21"
| "option_position SR_SaveForegroundColor = 30"
| "option_position SR_SaveBackgroundColor = 31"

abbreviation valid_part :: "u64 \<Rightarrow> SgrSaveRestoreStackOptions \<Rightarrow> bool" where
  "valid_part validParts opt \<equiv> enumset_test validParts (option_position opt)"

record SavedSgrAttributes =
  saved_TextAttributes :: TextAttribute
  saved_ValidParts :: u64

record SgrStack =
  sgr_nextPushIndex :: nat
  sgr_numSavedAttrs :: nat
  sgr_stored :: "SavedSgrAttributes list"

definition c_MaxStoredSgrPushes :: nat where
  "c_MaxStoredSgrPushes = 10"

definition SgrStack_init :: SgrStack where
  "SgrStack_init = \<lparr>sgr_nextPushIndex = 0, sgr_numSavedAttrs = 0,
     sgr_stored = replicate c_MaxStoredSgrPushes \<lparr>saved_TextAttributes = TextAttribute_default, saved_ValidParts = 0\<rparr>\<rparr>"

text \<open>The loop over the options; those out of range are skipped.\<close>

definition valid_parts :: "VTParameters \<Rightarrow> u64" where
  "valid_parts options =
     (if vp_params options = [] then enumset_set (option_position SR_All) 0
      else fold (\<lambda>i parts.
             let option = value_or (VTParameters_at options i) 0
             in if option > int (option_position SR_All) \<and> option \<le> int (option_position SR_SaveBackgroundColor)
                then enumset_set (nat option) parts else parts)
           [0..<VTParameters_size options] 0)"

text \<open>\<^verbatim>\<open>at\<close> throws when the index is out of range, which ends the program in a \<^verbatim>\<open>noexcept\<close> function.\<close>

definition Push :: "TextAttribute \<Rightarrow> VTParameters \<Rightarrow> SgrStack \<Rightarrow> SgrStack option" where
  "Push currentAttributes options st =
     (let validParts = valid_parts options;
          st1 = (if sgr_numSavedAttrs st < length (sgr_stored st)
                 then st\<lparr>sgr_numSavedAttrs := sgr_numSavedAttrs st + 1\<rparr> else st)
      in if sgr_nextPushIndex st1 < length (sgr_stored st1)
         then Some (st1\<lparr>sgr_stored := (sgr_stored st1)[sgr_nextPushIndex st1 :=
                          \<lparr>saved_TextAttributes = currentAttributes, saved_ValidParts = validParts\<rparr>],
                        sgr_nextPushIndex := (sgr_nextPushIndex st1 + 1) mod length (sgr_stored st1)\<rparr>)
         else None)"

definition combine_underline :: "TextAttribute \<Rightarrow> u64 \<Rightarrow> TextAttribute \<Rightarrow> TextAttribute" where
  "combine_underline savedAttribute validParts result =
     (let isUnderlinedValid = valid_part validParts SR_Underline;
          isDoublyUnderlinedValid = valid_part validParts SR_DoublyUnderlined
      in if isUnderlinedValid \<and> isDoublyUnderlinedValid
         then SetUnderlineStyle (GetUnderlineStyle savedAttribute) result
         else if isUnderlinedValid then
           (let savedUl = GetUnderlineStyle savedAttribute
            in if savedUl \<noteq> NoUnderline \<and> savedUl \<noteq> DoublyUnderlined then SetUnderlineStyle savedUl result
               else if GetUnderlineStyle result \<noteq> DoublyUnderlined then SetUnderlineStyle NoUnderline result
               else result)
         else if isDoublyUnderlinedValid then
           (if GetUnderlineStyle savedAttribute = DoublyUnderlined then SetUnderlineStyle DoublyUnderlined result
            else if GetUnderlineStyle result = DoublyUnderlined then SetUnderlineStyle NoUnderline result
            else result)
         else result)"

text \<open>The fail-fast check at the start is \<open>None\<close>.\<close>

definition CombineWithCurrentAttributes :: "TextAttribute \<Rightarrow> TextAttribute \<Rightarrow> u64 \<Rightarrow> TextAttribute option" where
  "CombineWithCurrentAttributes currentAttributes savedAttribute validParts =
     (if valid_part validParts SR_All then None
      else
        let r0 = currentAttributes;
            r1 = (if valid_part validParts SR_Intense then SetIntense (IsIntense savedAttribute) r0 else r0);
            r2 = (if valid_part validParts SR_Faintness then SetFaint (IsFaint savedAttribute) r1 else r1);
            r3 = (if valid_part validParts SR_Italics then SetItalic (IsItalic savedAttribute) r2 else r2);
            r4 = combine_underline savedAttribute validParts r3;
            r5 = (if valid_part validParts SR_Blink then SetBlinking (IsBlinking savedAttribute) r4 else r4);
            r6 = (if valid_part validParts SR_Negative then SetReverseVideo (IsReverseVideo savedAttribute) r5 else r5);
            r7 = (if valid_part validParts SR_Invisible then SetInvisible (IsInvisible savedAttribute) r6 else r6);
            r8 = (if valid_part validParts SR_CrossedOut then SetCrossedOut (IsCrossedOut savedAttribute) r7 else r7);
            r9 = (if valid_part validParts SR_SaveForegroundColor then SetForeground (ta_foreground savedAttribute) r8 else r8);
            r10 = (if valid_part validParts SR_SaveBackgroundColor then SetBackground (ta_background savedAttribute) r9 else r9)
        in Some r10)"

definition Pop :: "TextAttribute \<Rightarrow> SgrStack \<Rightarrow> (TextAttribute \<times> SgrStack) option" where
  "Pop currentAttributes st =
     (if sgr_numSavedAttrs st > 0 then
        let st1 = st\<lparr>sgr_numSavedAttrs := sgr_numSavedAttrs st - 1,
                     sgr_nextPushIndex := (if sgr_nextPushIndex st = 0 then length (sgr_stored st) - 1
                                           else sgr_nextPushIndex st - 1)\<rparr>
        in if sgr_nextPushIndex st1 < length (sgr_stored st1) then
             let restoreMe = sgr_stored st1 ! sgr_nextPushIndex st1
             in if valid_part (saved_ValidParts restoreMe) SR_All
                then Some (saved_TextAttributes restoreMe, st1)
                else map_option (\<lambda>a. (a, st1))
                       (CombineWithCurrentAttributes currentAttributes (saved_TextAttributes restoreMe) (saved_ValidParts restoreMe))
           else None
      else Some (currentAttributes, st))"

section \<open>A stack that forgets its bottom\<close>

text \<open>
  What a program does with the stack and with the current attributes: save them, restore them,
  change them. The reference keeps a list and cuts it to its capacity.
\<close>

datatype ('o, 'c) stack_op = Save 'o | Restore | Change "'c \<Rightarrow> 'c"

fun run_ops :: "('c \<Rightarrow> 'o \<Rightarrow> 's \<Rightarrow> 's option) \<Rightarrow> ('c \<Rightarrow> 's \<Rightarrow> ('c \<times> 's) option) \<Rightarrow> ('o, 'c) stack_op list \<Rightarrow> 'c \<times> 's \<Rightarrow> ('c \<times> 's) option" where
  "run_ops push pop [] cs = Some cs"
| "run_ops push pop (Save opts # os) cs = push (fst cs) opts (snd cs) \<bind> (\<lambda>s. run_ops push pop os (fst cs, s))"
| "run_ops push pop (Restore # os) cs = pop (fst cs) (snd cs) \<bind> run_ops push pop os"
| "run_ops push pop (Change f # os) cs = run_ops push pop os (f (fst cs), snd cs)"

fun ref_ops :: "nat \<Rightarrow> ('c \<Rightarrow> 'o \<Rightarrow> 'a) \<Rightarrow> ('a \<Rightarrow> 'c \<Rightarrow> 'c) \<Rightarrow> ('o, 'c) stack_op list \<Rightarrow> 'c \<times> 'a list \<Rightarrow> 'c \<times> 'a list" where
  "ref_ops cap save restore [] cs = cs"
| "ref_ops cap save restore (Save opts # os) (c, xs) = ref_ops cap save restore os (c, take cap (save c opts # xs))"
| "ref_ops cap save restore (Restore # os) (c, []) = ref_ops cap save restore os (c, [])"
| "ref_ops cap save restore (Restore # os) (c, x # xs) = ref_ops cap save restore os (restore x c, xs)"
| "ref_ops cap save restore (Change f # os) (c, xs) = ref_ops cap save restore os (f c, xs)"

locale bounded_stack =
  fixes stack_inv :: "'s \<Rightarrow> bool" and stack_abs :: "'s \<Rightarrow> 'a list" and cap :: nat
    and push :: "'c \<Rightarrow> 'o \<Rightarrow> 's \<Rightarrow> 's option" and pop :: "'c \<Rightarrow> 's \<Rightarrow> ('c \<times> 's) option"
    and save :: "'c \<Rightarrow> 'o \<Rightarrow> 'a" and restore :: "'a \<Rightarrow> 'c \<Rightarrow> 'c"
  assumes push_ok: "stack_inv s \<Longrightarrow>
      \<exists>s'. push c opts s = Some s' \<and> stack_inv s' \<and> stack_abs s' = take cap (save c opts # stack_abs s)"
    and pop_empty: "stack_inv s \<Longrightarrow> stack_abs s = [] \<Longrightarrow> pop c s = Some (c, s)"
    and pop_ok: "stack_inv s \<Longrightarrow> stack_abs s = x # xs \<Longrightarrow>
      \<exists>s'. pop c s = Some (restore x c, s') \<and> stack_inv s' \<and> stack_abs s' = xs"
begin

lemma run_refines:
  "stack_inv s \<Longrightarrow> \<exists>c' s'. run_ops push pop os (c, s) = Some (c', s') \<and> stack_inv s'
     \<and> ref_ops cap save restore os (c, stack_abs s) = (c', stack_abs s')"
proof (induction os arbitrary: c s)
  case (Cons a os)
  show ?case
  proof (cases a)
    case (Save opts)
    then show ?thesis using push_ok [OF Cons.prems, of c opts] Cons.IH by fastforce
  next
    case Restore
    show ?thesis
    proof (cases "stack_abs s")
      case Nil
      then show ?thesis using Restore pop_empty [OF Cons.prems Nil, of c] Cons.IH [OF Cons.prems, of c] by simp
    next
      case (Cons x xs)
      then show ?thesis using Restore pop_ok [OF Cons.prems Cons, of c] Cons.IH by fastforce
    qed
  next
    case (Change f)
    then show ?thesis using Cons.IH [OF Cons.prems, of "f c"] by simp
  qed
qed simp

end

definition stack_wf :: "SgrStack \<Rightarrow> bool" where
  "stack_wf st \<longleftrightarrow> length (sgr_stored st) = 10 \<and> sgr_nextPushIndex st < 10 \<and> sgr_numSavedAttrs st \<le> 10"

text \<open>The entries of the ring, the latest first.\<close>

definition entries :: "SgrStack \<Rightarrow> SavedSgrAttributes list" where
  "entries st = map (\<lambda>k. sgr_stored st ! ((sgr_nextPushIndex st + 9 - k) mod 10)) [0..<sgr_numSavedAttrs st]"

definition saved_entry :: "TextAttribute \<Rightarrow> VTParameters \<Rightarrow> SavedSgrAttributes" where
  "saved_entry a options = \<lparr>saved_TextAttributes = a, saved_ValidParts = valid_parts options\<rparr>"

definition restored :: "SavedSgrAttributes \<Rightarrow> TextAttribute \<Rightarrow> TextAttribute" where
  "restored saved a =
     (if valid_part (saved_ValidParts saved) SR_All then saved_TextAttributes saved
      else case CombineWithCurrentAttributes a (saved_TextAttributes saved) (saved_ValidParts saved) of Some r \<Rightarrow> r | None \<Rightarrow> a)"

lemma length_entries [simp]: "length (entries st) = sgr_numSavedAttrs st"
  by (simp add: entries_def)

lemma entries_nth: "k < sgr_numSavedAttrs st \<Longrightarrow> entries st ! k = sgr_stored st ! ((sgr_nextPushIndex st + 9 - k) mod 10)"
  by (simp add: entries_def)

lemma ring_index_neq: "n < 10 \<Longrightarrow> 0 < k \<Longrightarrow> k < 10 \<Longrightarrow> (n + 10 - k) mod 10 \<noteq> (n :: nat)"
  by (cases "k \<le> n") (auto simp: mod_if)

lemma Push_ok:
  assumes "stack_wf st"
  shows "\<exists>st'. Push a options st = Some st' \<and> stack_wf st' \<and> entries st' = take c_MaxStoredSgrPushes (saved_entry a options # entries st)"
proof -
  let ?n = "sgr_nextPushIndex st" and ?m = "sgr_numSavedAttrs st"
  define st' where "st' = st\<lparr>sgr_numSavedAttrs := min 10 (Suc ?m), sgr_stored := (sgr_stored st)[?n := saved_entry a options],
    sgr_nextPushIndex := Suc ?n mod 10\<rparr>"
  have wf: "length (sgr_stored st) = 10" "?n < 10" "?m \<le> 10" using assms by (simp_all add: stack_wf_def)
  have push: "Push a options st = Some st'"
    using wf by (auto simp: Push_def st'_def Let_def saved_entry_def min_def)
  have "entries st' ! k = (saved_entry a options # entries st) ! k" if "k < min 10 (Suc ?m)" for k
  proof (cases k)
    case 0
    have "(Suc ?n mod 10 + 9) mod 10 = ?n" using wf(2) by (simp add: mod_add_left_eq)
    then show ?thesis using 0 that wf by (simp add: entries_nth st'_def)
  next
    case (Suc j)
    have "(Suc ?n mod 10 + 9 - k) mod 10 = (?n + 10 - k) mod 10"
      using that wf(2) by (cases "Suc ?n < 10") (auto simp: mod_if)
    moreover have "(?n + 10 - k) mod 10 \<noteq> ?n" using ring_index_neq [of ?n k] that Suc wf(2) by simp
    moreover have "?n + 10 - k = ?n + 9 - j" using Suc by simp
    ultimately show ?thesis using that wf Suc by (simp add: entries_nth st'_def)
  qed
  moreover have "length (entries st') = min 10 (Suc ?m)" by (simp add: st'_def)
  ultimately have "entries st' = take c_MaxStoredSgrPushes (saved_entry a options # entries st)"
    by (intro nth_equalityI) (simp_all del: take_Cons_numeral add: c_MaxStoredSgrPushes_def)
  moreover have "stack_wf st'" using wf by (simp add: stack_wf_def st'_def)
  ultimately show ?thesis using push by blast
qed

lemma Pop_ok:
  assumes "stack_wf st" "entries st = x # xs"
  shows "\<exists>st'. Pop a st = Some (restored x a, st') \<and> stack_wf st' \<and> entries st' = xs"
proof -
  let ?n = "sgr_nextPushIndex st" and ?m = "sgr_numSavedAttrs st"
  define n' where "n' = (if ?n = 0 then 9 else ?n - 1)"
  define st' where "st' = st\<lparr>sgr_numSavedAttrs := ?m - 1, sgr_nextPushIndex := n'\<rparr>"
  have wf: "length (sgr_stored st) = 10" "?n < 10" "?m \<le> 10" using assms(1) by (simp_all add: stack_wf_def)
  have m: "?m = Suc (length xs)" using arg_cong [OF assms(2), of length] by simp
  have n': "n' < 10" "n' = (?n + 9) mod 10" using wf(2) by (auto simp: n'_def mod_if)
  have x: "x = sgr_stored st ! n'" using entries_nth [of 0 st] assms(2) m n'(2) by simp
  have "CombineWithCurrentAttributes a b p = Some (case CombineWithCurrentAttributes a b p of Some r \<Rightarrow> r | None \<Rightarrow> a)"
    if "\<not> valid_part p SR_All" for b p
    using that by (simp add: CombineWithCurrentAttributes_def Let_def)
  then have combine: "map_option (\<lambda>r. (r, st')) (CombineWithCurrentAttributes a b p) =
      Some (case CombineWithCurrentAttributes a b p of Some r \<Rightarrow> r | None \<Rightarrow> a, st')" if "\<not> valid_part p SR_All" for b p
    using that by (metis option.simps(9))
  have index: "(if ?n = 0 then length (sgr_stored st) - 1 else ?n - 1) = n'" using wf(1) by (simp add: n'_def)
  have "Pop a st =
      (if valid_part (saved_ValidParts x) SR_All then Some (saved_TextAttributes x, st')
       else map_option (\<lambda>r. (r, st')) (CombineWithCurrentAttributes a (saved_TextAttributes x) (saved_ValidParts x)))"
    using wf m n'(1) unfolding Pop_def index x st'_def Let_def by simp
  then have "Pop a st = Some (restored x a, st')" using combine by (simp add: restored_def)
  moreover have "entries st' ! k = xs ! k" if "k < length xs" for k
  proof -
    have "(n' + 9 - k) mod 10 = (?n + 9 - Suc k) mod 10"
      using that m wf by (auto simp: n'_def mod_if)
    then show ?thesis using that m assms(2) entries_nth [of "Suc k" st] by (simp add: entries_nth st'_def)
  qed
  then have "entries st' = xs" using m by (intro nth_equalityI) (simp_all add: st'_def)
  moreover have "stack_wf st'" using wf n'(1) by (simp add: stack_wf_def st'_def)
  ultimately show ?thesis by blast
qed

interpretation sgr: bounded_stack stack_wf entries c_MaxStoredSgrPushes Push Pop saved_entry restored
proof
  fix c opts s
  show "stack_wf s \<Longrightarrow> \<exists>s'. Push c opts s = Some s' \<and> stack_wf s' \<and> entries s' = take c_MaxStoredSgrPushes (saved_entry c opts # entries s)"
    by (rule Push_ok)
  show "stack_wf s \<Longrightarrow> entries s = [] \<Longrightarrow> Pop c s = Some (c, s)"
    using length_entries [of s] by (simp add: Pop_def)
  show "stack_wf s \<Longrightarrow> entries s = x # xs \<Longrightarrow> \<exists>s'. Pop c s = Some (restored x c, s') \<and> stack_wf s' \<and> entries s' = xs" for x xs
    by (rule Pop_ok)
qed

text \<open>C10:
  The ring of saved attributes refines a stack of at most ten entries that forgets its bottom:
  whatever is saved, restored and changed in whatever order, no slot out of range is touched, the
  fail-fast check never fires, and the current attributes are always those of the reference stack.
\<close>

theorem SgrStack_refines:
  "\<exists>a' st'. run_ops Push Pop os (a, SgrStack_init) = Some (a', st') \<and>
     ref_ops 10 saved_entry restored os (a, []) = (a', entries st') \<and> length (entries st') \<le> 10"
proof -
  have "stack_wf SgrStack_init" "entries SgrStack_init = []"
    by (simp_all add: stack_wf_def SgrStack_init_def entries_def c_MaxStoredSgrPushes_def)
  then obtain a' st' where "run_ops Push Pop os (a, SgrStack_init) = Some (a', st')" "stack_wf st'"
    "ref_ops 10 saved_entry restored os (a, []) = (a', entries st')"
    using sgr.run_refines [of SgrStack_init os a] by (auto simp: c_MaxStoredSgrPushes_def)
  then show ?thesis by (auto simp: stack_wf_def)
qed

end
