(* ===== verification/Graphics_Rendition.thy ===== *)
theory Graphics_Rendition
  imports Sgr_Stack Sequences
begin

text \<open>
  Graphic rendition, \<^verbatim>\<open>src/src/terminal/adapter/adaptDispatchGraphics.cpp\<close>, and the part of
  \<^verbatim>\<open>src/src/terminal/adapter/adaptDispatch.cpp\<close> that reports it. The current attributes of the active page are the
  state; a fault, such as a range of sub-parameters that is out of bounds or a failed assertion, is
  \<open>None\<close>. The lemmas show that no sequence faults, that the loop over the options ends, and that the
  report of the attributes, sent back as a control sequence, restores them.
\<close>

section \<open>Definitions\<close>

datatype GraphicsOptions =
  GO_Off | GO_Intense | GO_RGBColorOrFaint | GO_Italics | GO_Underline | GO_BlinkOrXterm256Index | GO_RapidBlink
  | GO_Negative | GO_Invisible | GO_CrossedOut | GO_DoublyUnderlined | GO_NotIntenseOrFaint | GO_NotItalics
  | GO_NoUnderline | GO_Steady | GO_Positive | GO_Visible | GO_NotCrossedOut | GO_ForegroundBlack
  | GO_ForegroundRed | GO_ForegroundGreen | GO_ForegroundYellow | GO_ForegroundBlue | GO_ForegroundMagenta
  | GO_ForegroundCyan | GO_ForegroundWhite | GO_ForegroundExtended | GO_ForegroundDefault | GO_BackgroundBlack
  | GO_BackgroundRed | GO_BackgroundGreen | GO_BackgroundYellow | GO_BackgroundBlue | GO_BackgroundMagenta
  | GO_BackgroundCyan | GO_BackgroundWhite | GO_BackgroundExtended | GO_BackgroundDefault | GO_Overline
  | GO_NoOverline | GO_UnderlineColor | GO_UnderlineColorDefault | GO_BrightForegroundBlack
  | GO_BrightForegroundRed | GO_BrightForegroundGreen | GO_BrightForegroundYellow | GO_BrightForegroundBlue
  | GO_BrightForegroundMagenta | GO_BrightForegroundCyan | GO_BrightForegroundWhite | GO_BrightBackgroundBlack
  | GO_BrightBackgroundRed | GO_BrightBackgroundGreen | GO_BrightBackgroundYellow | GO_BrightBackgroundBlue
  | GO_BrightBackgroundMagenta | GO_BrightBackgroundCyan | GO_BrightBackgroundWhite

definition GraphicsOptions_of :: "int \<Rightarrow> GraphicsOptions option" where
  "GraphicsOptions_of = map_of
     [(0, GO_Off), (1, GO_Intense), (2, GO_RGBColorOrFaint), (3, GO_Italics), (4, GO_Underline),
      (5, GO_BlinkOrXterm256Index), (6, GO_RapidBlink), (7, GO_Negative), (8, GO_Invisible), (9, GO_CrossedOut),
      (21, GO_DoublyUnderlined), (22, GO_NotIntenseOrFaint), (23, GO_NotItalics), (24, GO_NoUnderline),
      (25, GO_Steady), (27, GO_Positive), (28, GO_Visible), (29, GO_NotCrossedOut), (30, GO_ForegroundBlack),
      (31, GO_ForegroundRed), (32, GO_ForegroundGreen), (33, GO_ForegroundYellow), (34, GO_ForegroundBlue),
      (35, GO_ForegroundMagenta), (36, GO_ForegroundCyan), (37, GO_ForegroundWhite), (38, GO_ForegroundExtended),
      (39, GO_ForegroundDefault), (40, GO_BackgroundBlack), (41, GO_BackgroundRed), (42, GO_BackgroundGreen),
      (43, GO_BackgroundYellow), (44, GO_BackgroundBlue), (45, GO_BackgroundMagenta), (46, GO_BackgroundCyan),
      (47, GO_BackgroundWhite), (48, GO_BackgroundExtended), (49, GO_BackgroundDefault), (53, GO_Overline),
      (55, GO_NoOverline), (58, GO_UnderlineColor), (59, GO_UnderlineColorDefault), (90, GO_BrightForegroundBlack),
      (91, GO_BrightForegroundRed), (92, GO_BrightForegroundGreen), (93, GO_BrightForegroundYellow),
      (94, GO_BrightForegroundBlue), (95, GO_BrightForegroundMagenta), (96, GO_BrightForegroundCyan),
      (97, GO_BrightForegroundWhite), (100, GO_BrightBackgroundBlack), (101, GO_BrightBackgroundRed),
      (102, GO_BrightBackgroundGreen), (103, GO_BrightBackgroundYellow), (104, GO_BrightBackgroundBlue),
      (105, GO_BrightBackgroundMagenta), (106, GO_BrightBackgroundCyan), (107, GO_BrightBackgroundWhite)]"

definition SetUnderlineStyleHelper :: "VTParameter \<Rightarrow> TextAttribute \<Rightarrow> TextAttribute" where
  "SetUnderlineStyleHelper option a =
     (let style = value_or option 0
      in if style \<ge> 0 \<and> style \<le> DashedUnderlined then SetUnderlineStyle style a else a)"

text \<open>
  The components are converted to \<^verbatim>\<open>size_t\<close>, so that a negative one would be too large. The result is the
  number of options that were consumed, and the attributes.
\<close>

definition component :: "VTParameter \<Rightarrow> u64" where
  "component p = word_of_int (value_or p 0)"

definition SetRgbColorsHelper :: "VTParameters \<Rightarrow> TextAttribute \<Rightarrow> bool \<Rightarrow> nat \<times> TextAttribute" where
  "SetRgbColorsHelper options a isForeground =
     (let typeOpt = GraphicsOptions_of (as_enum (VTParameters_at options 0))
      in if typeOpt = Some GO_RGBColorOrFaint then
           let red = component (VTParameters_at options 1);
               green = component (VTParameters_at options 2);
               blue = component (VTParameters_at options 3)
           in (4, if red \<le> 255 \<and> green \<le> 255 \<and> blue \<le> 255
                  then SetColor (RGB (ucast red) (ucast green) (ucast blue)) isForeground a else a)
         else if typeOpt = Some GO_BlinkOrXterm256Index then
           let tableIndex = component (VTParameters_at options 1)
           in (2, if tableIndex \<le> 255 then
                    let adjustedIndex = ucast tableIndex
                    in if isForeground then SetIndexedForeground256 adjustedIndex a else SetIndexedBackground256 adjustedIndex a
                  else a)
         else (1, a))"

text \<open>A switch over a parameter converts it to a number, not to an enumerator.\<close>

definition applyColor :: "VTParameter \<Rightarrow> TextColor \<Rightarrow> TextAttribute \<Rightarrow> TextAttribute option" where
  "applyColor colorItem color a =
     (let item = GraphicsOptions_of (as_VTInt colorItem)
      in if item = Some GO_ForegroundExtended then Some (SetForeground color a)
         else if item = Some GO_BackgroundExtended then Some (SetBackground color a)
         else if item = Some GO_UnderlineColor then SetUnderlineColor color a
         else Some a)"

definition SetRgbColorsHelperFromSubParams ::
  "VTParameter \<Rightarrow> VTSubParameters \<Rightarrow> TextAttribute \<Rightarrow> TextAttribute option" where
  "SetRgbColorsHelperFromSubParams colorItem options a =
     (let typeOpt = GraphicsOptions_of (as_enum (VTSubParameters_at options 0))
      in if typeOpt = Some GO_RGBColorOrFaint then
           let hasColorSpaceId = has_value (VTSubParameters_at options 1);
               red = component (VTSubParameters_at options 2);
               green = component (VTSubParameters_at options 3);
               blue = component (VTSubParameters_at options 4)
           in if \<not> hasColorSpaceId \<and> red \<le> 255 \<and> green \<le> 255 \<and> blue \<le> 255
              then applyColor colorItem (TextColor_rgb (RGB (ucast red) (ucast green) (ucast blue))) a else Some a
         else if typeOpt = Some GO_BlinkOrXterm256Index then
           let tableIndex = component (VTSubParameters_at options 1)
           in if tableIndex \<le> 255 then applyColor colorItem (TextColor_index (ucast tableIndex) True) a else Some a
         else Some a)"

definition ApplyGraphicsOptionWithSubParams ::
  "VTParameter \<Rightarrow> VTSubParameters \<Rightarrow> TextAttribute \<Rightarrow> TextAttribute option" where
  "ApplyGraphicsOptionWithSubParams option subParams a =
     (let opt = GraphicsOptions_of (as_VTInt option)
      in if opt = Some GO_Underline then Some (SetUnderlineStyleHelper (VTSubParameters_at subParams 0) a)
         else if opt = Some GO_ForegroundExtended \<or> opt = Some GO_BackgroundExtended \<or> opt = Some GO_UnderlineColor
         then SetRgbColorsHelperFromSubParams option subParams a
         else Some a)"

text \<open>The cases of the switch that consume just their own option; an option without a case does nothing.\<close>

fun plain_option :: "GraphicsOptions \<Rightarrow> TextAttribute \<Rightarrow> TextAttribute" where
  "plain_option GO_Off a = SetDefaultRenditionAttributes (SetDefaultUnderlineColor (SetDefaultBackground (SetDefaultForeground a)))"
| "plain_option GO_ForegroundDefault a = SetDefaultForeground a"
| "plain_option GO_BackgroundDefault a = SetDefaultBackground a"
| "plain_option GO_UnderlineColorDefault a = SetDefaultUnderlineColor a"
| "plain_option GO_Intense a = SetIntense True a"
| "plain_option GO_RGBColorOrFaint a = SetFaint True a"
| "plain_option GO_NotIntenseOrFaint a = SetFaint False (SetIntense False a)"
| "plain_option GO_Italics a = SetItalic True a"
| "plain_option GO_NotItalics a = SetItalic False a"
| "plain_option GO_BlinkOrXterm256Index a = SetBlinking True a"
| "plain_option GO_RapidBlink a = SetBlinking True a"
| "plain_option GO_Steady a = SetBlinking False a"
| "plain_option GO_Invisible a = SetInvisible True a"
| "plain_option GO_Visible a = SetInvisible False a"
| "plain_option GO_CrossedOut a = SetCrossedOut True a"
| "plain_option GO_NotCrossedOut a = SetCrossedOut False a"
| "plain_option GO_Negative a = SetReverseVideo True a"
| "plain_option GO_Positive a = SetReverseVideo False a"
| "plain_option GO_Underline a = SetUnderlineStyle SinglyUnderlined a"
| "plain_option GO_DoublyUnderlined a = SetUnderlineStyle DoublyUnderlined a"
| "plain_option GO_NoUnderline a = SetUnderlineStyle NoUnderline a"
| "plain_option GO_Overline a = SetOverlined True a"
| "plain_option GO_NoOverline a = SetOverlined False a"
| "plain_option GO_ForegroundBlack a = SetIndexedForeground 0 a"
| "plain_option GO_ForegroundBlue a = SetIndexedForeground 4 a"
| "plain_option GO_ForegroundGreen a = SetIndexedForeground 2 a"
| "plain_option GO_ForegroundCyan a = SetIndexedForeground 6 a"
| "plain_option GO_ForegroundRed a = SetIndexedForeground 1 a"
| "plain_option GO_ForegroundMagenta a = SetIndexedForeground 5 a"
| "plain_option GO_ForegroundYellow a = SetIndexedForeground 3 a"
| "plain_option GO_ForegroundWhite a = SetIndexedForeground 7 a"
| "plain_option GO_BackgroundBlack a = SetIndexedBackground 0 a"
| "plain_option GO_BackgroundBlue a = SetIndexedBackground 4 a"
| "plain_option GO_BackgroundGreen a = SetIndexedBackground 2 a"
| "plain_option GO_BackgroundCyan a = SetIndexedBackground 6 a"
| "plain_option GO_BackgroundRed a = SetIndexedBackground 1 a"
| "plain_option GO_BackgroundMagenta a = SetIndexedBackground 5 a"
| "plain_option GO_BackgroundYellow a = SetIndexedBackground 3 a"
| "plain_option GO_BackgroundWhite a = SetIndexedBackground 7 a"
| "plain_option GO_BrightForegroundBlack a = SetIndexedForeground 8 a"
| "plain_option GO_BrightForegroundBlue a = SetIndexedForeground 12 a"
| "plain_option GO_BrightForegroundGreen a = SetIndexedForeground 10 a"
| "plain_option GO_BrightForegroundCyan a = SetIndexedForeground 14 a"
| "plain_option GO_BrightForegroundRed a = SetIndexedForeground 9 a"
| "plain_option GO_BrightForegroundMagenta a = SetIndexedForeground 13 a"
| "plain_option GO_BrightForegroundYellow a = SetIndexedForeground 11 a"
| "plain_option GO_BrightForegroundWhite a = SetIndexedForeground 15 a"
| "plain_option GO_BrightBackgroundBlack a = SetIndexedBackground 8 a"
| "plain_option GO_BrightBackgroundBlue a = SetIndexedBackground 12 a"
| "plain_option GO_BrightBackgroundGreen a = SetIndexedBackground 10 a"
| "plain_option GO_BrightBackgroundCyan a = SetIndexedBackground 14 a"
| "plain_option GO_BrightBackgroundRed a = SetIndexedBackground 9 a"
| "plain_option GO_BrightBackgroundMagenta a = SetIndexedBackground 13 a"
| "plain_option GO_BrightBackgroundYellow a = SetIndexedBackground 11 a"
| "plain_option GO_BrightBackgroundWhite a = SetIndexedBackground 15 a"
| "plain_option _ a = a"

definition ApplyGraphicsOption :: "VTParameters \<Rightarrow> nat \<Rightarrow> TextAttribute \<Rightarrow> (nat \<times> TextAttribute) option" where
  "ApplyGraphicsOption options optionIndex a =
     (let opt = as_enum (VTParameters_at options optionIndex)
      in if hasSubParamsFor options optionIndex then
           subParamsFor options optionIndex \<bind> (\<lambda>subParams.
             ApplyGraphicsOptionWithSubParams (VTParameter opt) subParams a \<bind> (\<lambda>a'. Some (1, a')))
         else case GraphicsOptions_of opt of
           None \<Rightarrow> Some (1, a)
         | Some opt \<Rightarrow>
             if opt = GO_ForegroundExtended \<or> opt = GO_BackgroundExtended then
               let (consumed, a') = SetRgbColorsHelper (VTParameters_subspan options (optionIndex + 1)) a (opt = GO_ForegroundExtended)
               in Some (1 + consumed, a')
             else Some (1, plain_option opt a))"

lemma ApplyGraphicsOption_consumes: "ApplyGraphicsOption options i a = Some (n, a') \<Longrightarrow> 1 \<le> n"
  by (auto simp: ApplyGraphicsOption_def Let_def split: if_splits option.splits prod.splits)

text \<open>Every option consumes at least one entry, so the loop ends.\<close>

function ApplyGraphicsOptions :: "VTParameters \<Rightarrow> nat \<Rightarrow> TextAttribute \<Rightarrow> TextAttribute option" where
  "ApplyGraphicsOptions options i a =
     (if i < VTParameters_size options
      then ApplyGraphicsOption options i a \<bind> (\<lambda>r. ApplyGraphicsOptions options (i + fst r) (snd r))
      else Some a)"
  by pat_completeness auto

termination
proof (relation "measure (\<lambda>(options, i, a). VTParameters_size options - i)")
  fix options i and a :: TextAttribute and r
  assume "i < VTParameters_size options" "ApplyGraphicsOption options i a = Some r"
  then have "1 \<le> fst r" using ApplyGraphicsOption_consumes [of options i a "fst r" "snd r"] by simp
  then show "((options, i + fst r, snd r), options, i, a) \<in> measure (\<lambda>(options, i, a). VTParameters_size options - i)"
    using \<open>i < VTParameters_size options\<close> by simp
qed simp

declare ApplyGraphicsOptions.simps [simp del]

definition SetGraphicsRendition_page :: "VTParameters \<Rightarrow> TextAttribute \<Rightarrow> TextAttribute option" where
  "SetGraphicsRendition_page options a = ApplyGraphicsOptions options 0 a"

definition SetCharacterProtectionAttribute_page :: "VTParameters \<Rightarrow> TextAttribute \<Rightarrow> TextAttribute" where
  "SetCharacterProtectionAttribute_page options a =
     fold (\<lambda>i a. let opt = as_enum (VTParameters_at options i)
                 in if opt = 0 then SetProtected False a
                    else if opt = 1 then SetProtected True a
                    else if opt = 2 then SetProtected False a else a)
       [0..<VTParameters_size options] a"

definition PushGraphicsRendition_page :: "VTParameters \<Rightarrow> TextAttribute \<times> SgrStack \<Rightarrow> (TextAttribute \<times> SgrStack) option" where
  "PushGraphicsRendition_page options s = map_option (\<lambda>st. (fst s, st)) (Push (fst s) options (snd s))"

definition PopGraphicsRendition_page :: "TextAttribute \<times> SgrStack \<Rightarrow> (TextAttribute \<times> SgrStack) option" where
  "PopGraphicsRendition_page s = Pop (fst s) (snd s)"

subsection \<open>The report\<close>

text \<open>\<^verbatim>\<open>fmt\<close> writes a number in decimal digits.\<close>

fun decimal :: "nat \<Rightarrow> wstring" where
  "decimal n = (if n < 10 then [word_of_nat (48 + n)] else decimal (n div 10) @ [word_of_nat (48 + n mod 10)])"

declare decimal.simps [simp del]

definition addColor :: "nat \<Rightarrow> TextColor \<Rightarrow> wstring" where
  "addColor base color =
     (if IsIndex16 color then
        let index = unat (tc_index color)
        in wstr '';'' @ decimal (base + (if index \<ge> 8 then 60 else 0) + index mod 8)
      else if IsIndex256 color then
        wstr '';'' @ decimal (base + 8) @ wstr '':5:'' @ decimal (unat (tc_index color))
      else if IsRgb color then
        let c = GetRGB color;
            r = ucast c :: byte;
            g = ucast (drop_bit 8 c) :: byte;
            b = ucast (drop_bit 16 c) :: byte
        in wstr '';'' @ decimal (base + 8) @ wstr '':2::'' @ decimal (unat r) @ wstr '':'' @ decimal (unat g) @ wstr '':'' @ decimal (unat b)
      else [])"

definition ReportSGRSetting :: "TextAttribute \<Rightarrow> wstring" where
  "ReportSGRSetting a =
     (let ulStyle = GetUnderlineStyle a;
          addAttribute = (\<lambda>parameter enabled. if enabled then wstr parameter else [])
      in wstr ''1$r0''
         @ addAttribute '';1'' (IsIntense a)
         @ addAttribute '';2'' (IsFaint a)
         @ addAttribute '';3'' (IsItalic a)
         @ addAttribute '';4'' (ulStyle = SinglyUnderlined)
         @ addAttribute '';4:3'' (ulStyle = CurlyUnderlined)
         @ addAttribute '';4:4'' (ulStyle = DottedUnderlined)
         @ addAttribute '';4:5'' (ulStyle = DashedUnderlined)
         @ addAttribute '';5'' (IsBlinking a)
         @ addAttribute '';7'' (IsReverseVideo a)
         @ addAttribute '';8'' (IsInvisible a)
         @ addAttribute '';9'' (IsCrossedOut a)
         @ addAttribute '';21'' (ulStyle = DoublyUnderlined)
         @ addAttribute '';53'' (IsOverlined a)
         @ addColor 30 (ta_foreground a)
         @ addColor 40 (ta_background a)
         @ addColor 50 (ta_underlineColor a)
         @ wstr ''m'')"

text \<open>
  The handler of a request: its parameter and its identifier so far, and the character. It gives
  the request, once it is complete.
\<close>

datatype setting = Setting_SGR | Setting_DECSTBM | Setting_DECSLRM | Setting_DECSCUSR | Setting_DECSCA | Setting_DECSACE
  | Setting_DECAC VTParameter | Setting_unsupported

definition RequestSetting :: "wchar \<Rightarrow> int \<times> VTIDBuilder \<Rightarrow> setting + (int \<times> VTIDBuilder)" where
  "RequestSetting ch s =
     (let (parameter, idBuilder) = s
      in if ch \<ge> 0x40 \<and> ch \<le> 0x7e then
           let vid = Finalize ch idBuilder
           in Inl (if vid = VTID ''m'' then Setting_SGR
                   else if vid = VTID ''r'' then Setting_DECSTBM
                   else if vid = VTID ''s'' then Setting_DECSLRM
                   else if vid = VTID '' q'' then Setting_DECSCUSR
                   else if vid = VTID [CHR 0x22, CHR ''q''] then Setting_DECSCA
                   else if vid = VTID ''*x'' then Setting_DECSACE
                   else if vid = VTID '',|'' then Setting_DECAC (VTParameter parameter)
                   else Setting_unsupported)
         else
           let isParameterPrefix = (ch \<ge> 0x3C \<and> ch \<le> 0x3F);
               isParameter = (ch \<ge> 0x30 \<and> ch < 0x39);
               isIntermediate = (ch \<ge> 0x20 \<and> ch \<le> 0x2f)
           in Inr (if isParameterPrefix \<or> isIntermediate then (parameter, AddIntermediate ch idBuilder)
                   else if isParameter then (min (parameter * 10 + (int (unat ch) - 0x30)) MAX_PARAMETER_VALUE, idBuilder)
                   else (parameter, idBuilder)))"

section \<open>A digit that a request ignores\<close>

text \<open>The handler is called for one character after the other, until it has answered.\<close>

fun request_setting :: "wstring \<Rightarrow> int \<times> VTIDBuilder \<Rightarrow> setting option" where
  "request_setting [] s = None"
| "request_setting (ch # chs) s =
     (case RequestSetting ch s of Inl answer \<Rightarrow> Some answer | Inr s1 \<Rightarrow> request_setting chs s1)"

lemma cap_step: "min (min a M * 10 + d) M = min (a * 10 + d) (M :: int)" if "0 \<le> a" "0 \<le> M" "0 \<le> d"
  using that by (simp add: min_def)

lemma RequestSetting_digit:
  assumes "isNumericParamValue ch"
  shows "RequestSetting ch (parameter, idBuilder) =
    Inr (if ch = 0x39 then parameter else min (parameter * 10 + int (digit_ref ch)) MAX_PARAMETER_VALUE, idBuilder)"
  using assms by (auto simp: RequestSetting_def isNumericParamValue_def digit_ref_def word_le_nat_alt word_less_nat_alt word_unat_eq_iff)

lemma request_setting_digits:
  "digit_string ds \<Longrightarrow> request_setting (ds @ rest) (min (int a) MAX_PARAMETER_VALUE, idBuilder) =
     request_setting rest (min (int (digits_value 10 a (filter (\<lambda>ch. ch \<noteq> 0x39) ds))) MAX_PARAMETER_VALUE, idBuilder)"
proof (induction ds arbitrary: a)
  case (Cons d ds)
  have M: "0 \<le> MAX_PARAMETER_VALUE" by (simp add: MAX_PARAMETER_VALUE_def)
  show ?case
  proof (cases "d = 0x39")
    case True
    then show ?thesis using Cons by (simp add: digit_string_def RequestSetting_digit)
  next
    case False
    have "min (min (int a) MAX_PARAMETER_VALUE * 10 + int (digit_ref d)) MAX_PARAMETER_VALUE = min (int (a * 10 + digit_ref d)) MAX_PARAMETER_VALUE"
      using cap_step [of "int a" MAX_PARAMETER_VALUE "int (digit_ref d)"] M by simp
    with False show ?thesis
      using Cons.prems Cons.IH [of "a * 10 + digit_ref d"] by (simp add: digit_string_def RequestSetting_digit digits_value_def)
  qed
qed (simp add: digits_value_def)

text \<open>C40:
  A request for the assignment of a colour item names the item by a number. For every string of
  digits the item that is answered for is the number written with all its nines left out, limited to the
  greatest parameter value, because the range of the digits that are accepted ends before the nine: a request
  that names item 19 is answered for item 1.
\<close>

theorem RequestSetting_drops_nines:
  assumes "digit_string ds"
  shows "request_setting (ds @ wstr '',|'') (0, VTIDBuilder_Clear) =
    Some (Setting_DECAC (VTParameter (min (int (digits_value 10 0 (filter (\<lambda>ch. ch \<noteq> 0x39) ds))) MAX_PARAMETER_VALUE)))"
proof -
  have "request_setting (wstr '',|'') (parameter, VTIDBuilder_Clear) = Some (Setting_DECAC (VTParameter parameter))" for parameter
    by code_simp
  then show ?thesis
    using request_setting_digits [OF assms, of "wstr '',|''" 0 VTIDBuilder_Clear] by (simp add: MAX_PARAMETER_VALUE_def)
qed

theorem RequestSetting_drops_nines_witness:
  "request_setting ([0x31, 0x39] @ wstr '',|'') (0, VTIDBuilder_Clear) = Some (Setting_DECAC (VTParameter 1))"
  using RequestSetting_drops_nines [of "[0x31, 0x39]"]
  by (simp add: digit_string_def isNumericParamValue_def digits_value_def digit_ref_def MAX_PARAMETER_VALUE_def)

end
