(* ===== verification/Graphics_Safety.thy ===== *)
theory Graphics_Safety
  imports Graphics_Rendition
begin

text \<open>
  Graphic rendition never faults and keeps attributes well-formed: a colour uses only the bytes its
  kind has, an underline has one of the six styles, and an underline colour is never one of the
  sixteen colours. Protection, hyperlink and mark are not its business and stay as they are.
\<close>

section \<open>Well-formed attributes\<close>

definition color_wf :: "TextColor \<Rightarrow> bool" where
  "color_wf c \<longleftrightarrow>
     (IsDefault c \<longrightarrow> c = TextColor_default) \<and> (IsIndex16 c \<longrightarrow> c = TextColor_index (tc_index c) False \<and> tc_index c < 16)
     \<and> (IsIndex256 c \<longrightarrow> c = TextColor_index (tc_index c) True)"

definition attr_wf :: "TextAttribute \<Rightarrow> bool" where
  "attr_wf a \<longleftrightarrow> color_wf (ta_foreground a) \<and> color_wf (ta_background a) \<and> color_wf (ta_underlineColor a)
     \<and> \<not> IsIndex16 (ta_underlineColor a) \<and> GetUnderlineStyle a \<in> {NoUnderline..DashedUnderlined}"

definition untouched :: "TextAttribute \<Rightarrow> TextAttribute \<Rightarrow> bool" where
  "untouched a b \<longleftrightarrow> IsProtected b = IsProtected a \<and> ta_hyperlinkId b = ta_hyperlinkId a \<and> ta_markKind b = ta_markKind a"

definition rendition_step :: "TextAttribute \<Rightarrow> TextAttribute \<Rightarrow> bool" where
  "rendition_step a b \<longleftrightarrow> (attr_wf a \<longrightarrow> attr_wf b) \<and> untouched a b"

lemma rendition_step_refl [simp]: "rendition_step a a"
  by (simp add: rendition_step_def untouched_def)

lemma rendition_step_trans: "rendition_step a b \<Longrightarrow> rendition_step b c \<Longrightarrow> rendition_step a c"
  by (simp add: rendition_step_def untouched_def)

lemma color_wf_simps [simp]:
  "color_wf TextColor_default" "color_wf (TextColor_rgb c)" "color_wf (TextColor_index i True)"
  "color_wf (TextColor_index i False) \<longleftrightarrow> i < 16" "\<not> IsIndex16 TextColor_default" "\<not> IsIndex16 (TextColor_rgb c)"
  "\<not> IsIndex16 (TextColor_index i True)"
  by (simp_all add: color_wf_def TextColor_default_def TextColor_rgb_def TextColor_index_def IsDefault_def IsIndex16_def IsIndex256_def)

declare drop_bit_and [simp del]

subsection \<open>The bits of the flags and of the underline style\<close>

lemma underline_mask_flag: "flag_value f AND UnderlineStyle_mask = 0" "NOT (flag_value f) AND UnderlineStyle_mask = UnderlineStyle_mask"
  by (cases f; simp add: UnderlineStyle_mask_def)+

lemma GetUnderlineStyle_UpdateFlag [simp]: "GetUnderlineStyle (UpdateFlag f b a) = GetUnderlineStyle a"
  using underline_mask_flag [of f]
  by (simp add: GetUnderlineStyle_def UpdateFlag_def bit.conj_disj_distrib2 and.assoc)

lemma flag_values_disjoint: "f \<noteq> g \<Longrightarrow> flag_value f AND flag_value g = 0"
  by (cases f; cases g; simp)

lemma flag_value_nonzero [simp]: "flag_value f \<noteq> 0"
  by (cases f; simp)

lemma IsFlagSet_UpdateFlag: "IsFlagSet g (UpdateFlag f b a) = (if f = g then b else IsFlagSet g a)"
proof -
  have "NOT (flag_value f) AND flag_value g = (if f = g then 0 else flag_value g)"
    by (cases f; cases g; simp)
  then show ?thesis
    using flag_values_disjoint [of f g]
    by (cases "f = g"; cases b) (simp_all add: IsFlagSet_def UpdateFlag_def bit.conj_disj_distrib2 and.assoc)
qed

lemma style_cases:
  assumes "k \<in> {NoUnderline..DashedUnderlined}"
  obtains "k = 0" | "k = 1" | "k = 2" | "k = 3" | "k = 4" | "k = 5"
proof -
  have "k = 0 \<or> k = 1 \<or> k = 2 \<or> k = 3 \<or> k = 4 \<or> k = 5" using assms by (simp add: underline_styles) arith
  then show thesis using that by blast
qed

lemma GetUnderlineStyle_SetUnderlineStyle:
  assumes "k \<in> {NoUnderline..DashedUnderlined}"
  shows "GetUnderlineStyle (SetUnderlineStyle k a) = k"
proof -
  have m: "(ta_attrs a AND NOT UnderlineStyle_mask) AND UnderlineStyle_mask = 0" by (simp add: and.assoc)
  have "GetUnderlineStyle (SetUnderlineStyle k a) =
      uint (drop_bit UNDERLINE_STYLE_SHIFT (word_of_int (push_bit UNDERLINE_STYLE_SHIFT k) AND UnderlineStyle_mask))"
    by (simp add: GetUnderlineStyle_def SetUnderlineStyle_def bit.conj_disj_distrib2 m)
  also from assms have "\<dots> = k"
    by (cases rule: style_cases) (simp_all add: UnderlineStyle_mask_def UNDERLINE_STYLE_SHIFT_def)
  finally show ?thesis .
qed

lemma IsProtected_SetUnderlineStyle:
  assumes "k \<in> {NoUnderline..DashedUnderlined}"
  shows "IsProtected (SetUnderlineStyle k a) = IsProtected a"
proof -
  have "NOT UnderlineStyle_mask AND flag_value CA_Protected = flag_value CA_Protected" by (simp add: UnderlineStyle_mask_def)
  moreover have "word_of_int (push_bit UNDERLINE_STYLE_SHIFT k) AND flag_value CA_Protected = 0"
    using assms by (cases rule: style_cases) (simp_all add: UNDERLINE_STYLE_SHIFT_def)
  ultimately show ?thesis
    by (simp add: IsProtected_def IsFlagSet_def SetUnderlineStyle_def bit.conj_disj_distrib2 and.assoc)
qed

section \<open>Every setter keeps them\<close>

lemma step_UpdateFlag: "f \<noteq> CA_Protected \<Longrightarrow> rendition_step a (UpdateFlag f b a)"
  using IsFlagSet_UpdateFlag [of CA_Protected f b a]
  by (auto simp: rendition_step_def attr_wf_def untouched_def IsProtected_def) (simp_all add: UpdateFlag_def)

lemma step_flags [simp]:
  "rendition_step a (SetIntense b a)" "rendition_step a (SetFaint b a)" "rendition_step a (SetItalic b a)"
  "rendition_step a (SetBlinking b a)" "rendition_step a (SetInvisible b a)" "rendition_step a (SetCrossedOut b a)"
  "rendition_step a (SetOverlined b a)" "rendition_step a (SetReverseVideo b a)"
  by (simp_all add: flag_setters step_UpdateFlag)

lemma GetUnderlineStyle_colors [simp]:
  "GetUnderlineStyle (a\<lparr>ta_foreground := c\<rparr>) = GetUnderlineStyle a" "GetUnderlineStyle (a\<lparr>ta_background := c\<rparr>) = GetUnderlineStyle a"
  "GetUnderlineStyle (a\<lparr>ta_underlineColor := c\<rparr>) = GetUnderlineStyle a"
  by (simp_all add: GetUnderlineStyle_def)

lemma IsFlagSet_colors [simp]:
  "IsFlagSet f (a\<lparr>ta_foreground := c\<rparr>) = IsFlagSet f a" "IsFlagSet f (a\<lparr>ta_background := c\<rparr>) = IsFlagSet f a"
  "IsFlagSet f (a\<lparr>ta_underlineColor := c\<rparr>) = IsFlagSet f a"
  by (simp_all add: IsFlagSet_def)

lemma step_colors [simp]:
  "color_wf c \<Longrightarrow> rendition_step a (SetForeground c a)" "color_wf c \<Longrightarrow> rendition_step a (SetBackground c a)"
  "i < 16 \<Longrightarrow> rendition_step a (SetIndexedForeground i a)" "i < 16 \<Longrightarrow> rendition_step a (SetIndexedBackground i a)"
  "rendition_step a (SetIndexedForeground256 i a)" "rendition_step a (SetIndexedBackground256 i a)"
  "rendition_step a (SetColor c32 b a)"
  "rendition_step a (SetDefaultForeground a)" "rendition_step a (SetDefaultBackground a)" "rendition_step a (SetDefaultUnderlineColor a)"
  "color_wf c \<Longrightarrow> \<not> IsIndex16 c \<Longrightarrow> rendition_step a (a\<lparr>ta_underlineColor := c\<rparr>)"
  by (simp_all add: rendition_step_def attr_wf_def untouched_def color_setters IsProtected_def)

lemma step_underline [simp]: "k \<in> {NoUnderline..DashedUnderlined} \<Longrightarrow> rendition_step a (SetUnderlineStyle k a)"
  using GetUnderlineStyle_SetUnderlineStyle [of k a] IsProtected_SetUnderlineStyle [of k a]
  by (simp add: rendition_step_def attr_wf_def untouched_def) (simp add: SetUnderlineStyle_def)

lemma step_default [simp]: "rendition_step a (SetDefaultRenditionAttributes a)"
proof -
  have "NOT Rendition_mask AND UnderlineStyle_mask = 0" "NOT Rendition_mask AND flag_value CA_Protected = flag_value CA_Protected"
    by (simp_all add: Rendition_mask_def UnderlineStyle_mask_def)
  then show ?thesis
    by (simp add: rendition_step_def attr_wf_def untouched_def SetDefaultRenditionAttributes_def GetUnderlineStyle_def
        IsProtected_def IsFlagSet_def and.assoc underline_styles)
qed

lemma step_plain: "rendition_step a (plain_option opt a)"
proof (cases "opt = GO_Off \<or> opt = GO_NotIntenseOrFaint")
  case True
  then show ?thesis by (auto intro!: rendition_step_trans [OF _ step_default] rendition_step_trans [OF _ step_flags(2)]
      rendition_step_trans [OF _ step_colors(10)] rendition_step_trans [OF _ step_colors(9)])
next
  case False
  then show ?thesis by (cases opt) (simp_all add: underline_styles)
qed

section \<open>The whole sequence\<close>

text \<open>The ranges of sub-parameters that the parser hands over.\<close>

definition ranges_ok :: "VTParameters \<Rightarrow> bool" where
  "ranges_ok options \<longleftrightarrow> ranges_from 0 (vp_subParamRanges options) (length (vp_subParams options))"

lemma ranges_from_nth:
  "ranges_from a rs n \<Longrightarrow> i < length rs \<Longrightarrow> unat (fst (rs ! i)) \<le> unat (snd (rs ! i)) \<and> unat (snd (rs ! i)) \<le> n"
proof (induction a rs n arbitrary: i rule: ranges_from.induct)
  case (2 a r rs n)
  then show ?case using ranges_from_le [of "unat (snd r)" rs n] by (cases i) auto
qed simp

lemma subParamsFor_ok:
  assumes "ranges_ok options"
  shows "\<exists>sps. subParamsFor options i = Some sps"
proof (cases "i < length (vp_subParamRanges options)")
  case True
  then show ?thesis
    using ranges_from_nth [of 0 "vp_subParamRanges options" "length (vp_subParams options)" i] assms
    by (simp add: ranges_ok_def subParamsFor_def VTSubParameters_subspan_def word_le_nat_alt Let_def diff_le_mono)
qed (simp add: subParamsFor_def)

lemma applyColor_ok:
  "color_wf c \<Longrightarrow> \<not> IsIndex16 c \<Longrightarrow> \<exists>b. applyColor p c a = Some b \<and> rendition_step a b"
  by (simp add: applyColor_def SetUnderlineColor_def Let_def)

lemma SetRgbColorsHelperFromSubParams_ok: "\<exists>b. SetRgbColorsHelperFromSubParams p sps a = Some b \<and> rendition_step a b"
  by (simp add: SetRgbColorsHelperFromSubParams_def Let_def applyColor_ok)

lemma ApplyGraphicsOptionWithSubParams_ok: "\<exists>b. ApplyGraphicsOptionWithSubParams p sps a = Some b \<and> rendition_step a b"
  using SetRgbColorsHelperFromSubParams_ok [of p sps a]
  by (auto simp: ApplyGraphicsOptionWithSubParams_def SetUnderlineStyleHelper_def Let_def NoUnderline_def)

lemma SetRgbColorsHelper_ok: "rendition_step a (snd (SetRgbColorsHelper options a b))"
  by (simp add: SetRgbColorsHelper_def Let_def)

lemma ApplyGraphicsOption_ok:
  assumes "ranges_ok options"
  shows "\<exists>n b. ApplyGraphicsOption options i a = Some (n, b) \<and> rendition_step a b"
proof (cases "hasSubParamsFor options i")
  case True
  then show ?thesis
    using subParamsFor_ok [OF assms, of i] ApplyGraphicsOptionWithSubParams_ok [of "VTParameter (as_enum (VTParameters_at options i))" _ a]
    by (fastforce simp: ApplyGraphicsOption_def Let_def)
next
  case False
  then show ?thesis
    using SetRgbColorsHelper_ok
    by (cases "GraphicsOptions_of (as_enum (VTParameters_at options i))")
      (simp_all add: ApplyGraphicsOption_def Let_def split_beta step_plain)
qed

lemma ApplyGraphicsOptions_ok:
  "ranges_ok options \<Longrightarrow> \<exists>b. ApplyGraphicsOptions options i a = Some b \<and> rendition_step a b"
proof (induction options i a rule: ApplyGraphicsOptions.induct)
  case (1 options i a)
  obtain n b where b: "ApplyGraphicsOption options i a = Some (n, b)" "rendition_step a b"
    using ApplyGraphicsOption_ok [OF "1.prems"] by blast
  then show ?case
    using "1.IH" [of "(n, b)"] "1.prems"
    by (subst ApplyGraphicsOptions.simps) (auto intro: rendition_step_trans)
qed

text \<open>C9:
  Whatever parameters and sub-parameters the parser has collected, the graphic rendition function
  returns, leaves the attributes well-formed and touches neither the protection nor the hyperlink
  nor the mark of the text.
\<close>

theorem SetGraphicsRendition_well_typed:
  assumes "sm_inv s" "sm_state s \<noteq> Ground" "sm_state s \<noteq> Vt52Param" "attr_wf a"
  shows "\<exists>b. SetGraphicsRendition_page (CsiParameters s) a = Some b \<and> attr_wf b \<and> IsProtected b = IsProtected a
    \<and> ta_hyperlinkId b = ta_hyperlinkId a \<and> ta_markKind b = ta_markKind a"
proof -
  have "ranges_ok (CsiParameters s)" using assms(1-3) by (simp add: ranges_ok_def sm_inv_def params_wf_def CsiParameters_def)
  then show ?thesis
    using ApplyGraphicsOptions_ok [of "CsiParameters s" 0 a] assms(4)
    by (auto simp: SetGraphicsRendition_page_def rendition_step_def untouched_def)
qed

theorem SetGraphicsRendition_well_typed_witness:
  "\<exists>b. SetGraphicsRendition_page (CsiParameters (EnterCsiEntry (EnterEscape (StateMachine () False 0 0 False :: (unit, unit, unit) sm))))
     TextAttribute_default = Some b \<and> attr_wf b \<and> IsProtected b = IsProtected TextAttribute_default
     \<and> ta_hyperlinkId b = ta_hyperlinkId TextAttribute_default \<and> ta_markKind b = ta_markKind TextAttribute_default"
proof (rule SetGraphicsRendition_well_typed)
  show "attr_wf TextAttribute_default"
    by (simp add: attr_wf_def TextAttribute_default_def GetUnderlineStyle_def underline_styles)
  show "sm_inv (EnterCsiEntry (EnterEscape (StateMachine () False 0 0 False :: (unit, unit, unit) sm)))" by simp
qed (simp_all add: EnterCsiEntry_def ActionClear_def)

end
