(* ===== verification/Graphics_Report.thy ===== *)
theory Graphics_Report
  imports Graphics_Safety
begin

text \<open>
  The report of the current attributes is a list of parameters, and the graphic rendition function
  applied to these parameters restores the attributes.
\<close>

section \<open>Parameters, one after the other\<close>

lemma sub_ranges_nth:
  "i < length ns \<Longrightarrow> sub_ranges a ns ! i =
     (word_of_nat (a + sum_list (take i ns)), word_of_nat (a + sum_list (take i ns) + ns ! i))"
proof (induction ns arbitrary: a i)
  case (Cons n ns)
  then show ?case by (cases i) (simp_all add: add.assoc)
qed simp

lemma length_sub_ranges [simp]: "length (sub_ranges a ns) = length ns"
  by (induction ns arbitrary: a) simp_all

lemma params_of_at: "i < length ps \<Longrightarrow> VTParameters_at (params_of ps) i = number (fst (ps ! i))"
  by (simp add: VTParameters_at_def params_of_def)

lemma params_of_sub:
  assumes "i < length ps" "sum_list (map (\<lambda>p. length (snd p)) ps) < 256"
  shows "hasSubParamsFor (params_of ps) i \<longleftrightarrow> snd (ps ! i) \<noteq> []"
    "subParamsFor (params_of ps) i = Some (map number (snd (ps ! i)))"
proof -
  let ?n = "sum_list (map (\<lambda>p. length (snd p)) (take i ps))" and ?k = "length (snd (ps ! i))"
  have split: "ps = take i ps @ ps ! i # drop (Suc i) ps" using assms(1) by (rule id_take_nth_drop)
  have "sum_list (map (\<lambda>p. length (snd p)) ps) = ?n + ?k + sum_list (map (\<lambda>p. length (snd p)) (drop (Suc i) ps))"
    by (subst split) simp
  then have n: "unat (word_of_nat ?n :: byte) = ?n" "unat (word_of_nat (?n + ?k) :: byte) = ?n + ?k"
    using assms(2) by (simp_all only: unat_byte_of_nat)
  have range: "vp_subParamRanges (params_of ps) ! i = (word_of_nat ?n, word_of_nat (?n + ?k))"
    using assms(1) sub_ranges_nth [of i "map (\<lambda>p. length (snd p)) ps" 0] by (simp add: params_of_def take_map)
  have len: "i < length (vp_subParamRanges (params_of ps))" using assms(1) by (simp add: params_of_def)
  show "hasSubParamsFor (params_of ps) i \<longleftrightarrow> snd (ps ! i) \<noteq> []"
    using len n by (simp only: hasSubParamsFor_def range if_True word_less_nat_alt fst_conv snd_conv) simp
  have subs: "vp_subParams (params_of ps) = concat (map (\<lambda>p. map number (snd p)) (take i ps)) @ map number (snd (ps ! i))
      @ concat (map (\<lambda>p. map number (snd p)) (drop (Suc i) ps))"
    by (subst split) (simp add: params_of_def)
  have pre: "length (concat (map (\<lambda>p. map number (snd p)) (take i ps))) = ?n"
    by (simp add: length_concat comp_def)
  have "VTSubParameters_subspan (vp_subParams (params_of ps)) ?n ?k = Some (map number (snd (ps ! i)))"
    unfolding VTSubParameters_subspan_def subs by (simp add: pre [simplified])
  then show "subParamsFor (params_of ps) i = Some (map number (snd (ps ! i)))"
    using len n by (simp only: subParamsFor_def range if_True word_le_nat_alt fst_conv snd_conv Let_def) simp
qed

definition apply_param :: "csi_param \<Rightarrow> TextAttribute \<Rightarrow> TextAttribute option" where
  "apply_param p a =
     (let opt = as_enum (number (fst p))
      in if snd p \<noteq> [] then ApplyGraphicsOptionWithSubParams (VTParameter opt) (map number (snd p)) a
         else case GraphicsOptions_of opt of None \<Rightarrow> Some a | Some opt \<Rightarrow> Some (plain_option opt a))"

fun apply_params :: "csi_param list \<Rightarrow> TextAttribute \<Rightarrow> TextAttribute option" where
  "apply_params [] a = Some a"
| "apply_params (p # ps) a = apply_param p a \<bind> apply_params ps"

text \<open>An extended colour takes its components from its sub-parameters.\<close>

definition self_contained :: "csi_param \<Rightarrow> bool" where
  "self_contained p \<longleftrightarrow> snd p \<noteq> [] \<or> GraphicsOptions_of (as_enum (number (fst p))) \<notin> {Some GO_ForegroundExtended, Some GO_BackgroundExtended}"

lemma ApplyGraphicsOption_param:
  assumes "i < length ps" "sum_list (map (\<lambda>p. length (snd p)) ps) < 256" "self_contained (ps ! i)"
  shows "ApplyGraphicsOption (params_of ps) i a = apply_param (ps ! i) a \<bind> (\<lambda>b. Some (1, b))"
  using assms(3) params_of_sub [OF assms(1,2)]
  by (auto simp: ApplyGraphicsOption_def apply_param_def params_of_at [OF assms(1)] self_contained_def Let_def split: option.split)

lemma ApplyGraphicsOptions_params:
  assumes "sum_list (map (\<lambda>p. length (snd p)) ps) < 256" "list_all self_contained ps" "ps \<noteq> []" "i \<le> length ps"
  shows "ApplyGraphicsOptions (params_of ps) i a = apply_params (drop i ps) a"
  using assms(4)
proof (induction "length ps - i" arbitrary: i a)
  case 0
  moreover have "VTParameters_size (params_of ps) = length ps"
    using assms(3) by (cases ps) (simp_all add: VTParameters_size_def params_of_def)
  ultimately show ?case by (simp add: ApplyGraphicsOptions.simps)
next
  case (Suc n)
  then have i: "i < length ps" "n = length ps - Suc i" by simp_all
  have size: "VTParameters_size (params_of ps) = length ps"
    using assms(3) by (cases ps) (simp_all add: VTParameters_size_def params_of_def)
  have "self_contained (ps ! i)" using assms(2) i(1) by (simp add: list_all_length)
  note step = ApplyGraphicsOption_param [OF i(1) assms(1) this, of a]
  have "ApplyGraphicsOptions (params_of ps) i a = apply_param (ps ! i) a \<bind> (\<lambda>b. ApplyGraphicsOptions (params_of ps) (Suc i) b)"
    using i(1) by (subst ApplyGraphicsOptions.simps) (simp add: size step)
  also have "\<dots> = apply_param (ps ! i) a \<bind> apply_params (drop (Suc i) ps)"
    using Suc.hyps(1) [OF i(2)] i(1) by (cases "apply_param (ps ! i) a") simp_all
  finally show ?case using Cons_nth_drop_Suc [OF i(1)] by (metis apply_params.simps(2))
qed

lemma apply_params_append: "apply_params (ps @ qs) a = apply_params ps a \<bind> apply_params qs"
  by (induction ps arbitrary: a) (simp_all split: Option.bind_split)

lemma apply_params_done [simp]: "r \<bind> apply_params [] = r"
  by (cases r) simp_all

section \<open>Numbers\<close>

lemma decimal_digits: "digits_value 10 0 (decimal n) = n \<and> digit_string (decimal n) \<and> decimal n \<noteq> []"
proof (induction n rule: decimal.induct)
  case (1 n)
  have digit: "digit_ref (word_of_nat (48 + k)) = k" "isNumericParamValue (word_of_nat (48 + k))" if "k < 10" for k
  proof -
    have "unat (word_of_nat (48 + k) :: wchar) = 48 + k" using that by (simp add: unsigned_of_nat take_bit_nat_eq_self del: of_nat_add)
    then show "isNumericParamValue (word_of_nat (48 + k))" using that by (simp add: isNumericParamValue_def word_le_nat_alt)
    then show "digit_ref (word_of_nat (48 + k)) = k"
      using digit_ref_numeric \<open>unat (word_of_nat (48 + k) :: wchar) = 48 + k\<close> by simp
  qed
  show ?case
  proof (cases "n < 10")
    case True
    then show ?thesis using digit [of n] by (simp add: decimal.simps [of n] digits_value_def digit_string_def)
  next
    case False
    then show ?thesis
      using "1.IH" digit [of "n mod 10"] by (simp add: decimal.simps [of n] digits_value_snoc digit_string_def)
  qed
qed

lemma number_decimal: "n \<le> 65535 \<Longrightarrow> number (decimal n) = VTParameter (int n)"
  using decimal_digits [of n] by (simp add: number_def MAX_PARAMETER_VALUE_def)

lemma digit_string_decimal [simp]: "digit_string (decimal n)"
  using decimal_digits by blast

section \<open>The parameters of the report\<close>

definition color_params :: "nat \<Rightarrow> TextColor \<Rightarrow> csi_param list" where
  "color_params base c =
     (if IsIndex16 c then [(decimal (base + (if unat (tc_index c) \<ge> 8 then 60 else 0) + unat (tc_index c) mod 8), [])]
      else if IsIndex256 c then [(decimal (base + 8), [wstr ''5'', decimal (unat (tc_index c))])]
      else if IsRgb c then [(decimal (base + 8), [wstr ''2'', [], decimal (unat (tc_index c)), decimal (unat (tc_green c)), decimal (unat (tc_blue c))])]
      else [])"

definition flag_params :: "string \<Rightarrow> bool \<Rightarrow> csi_param list" where
  "flag_params digits enabled = (if enabled then [(wstr digits, [])] else [])"

definition style_params :: "string \<Rightarrow> bool \<Rightarrow> csi_param list" where
  "style_params digits enabled = (if enabled then [(wstr ''4'', [wstr digits])] else [])"

definition report_parts :: "TextAttribute \<Rightarrow> csi_param list list" where
  "report_parts a =
     [flag_params ''1'' (IsIntense a), flag_params ''2'' (IsFaint a), flag_params ''3'' (IsItalic a),
      flag_params ''4'' (GetUnderlineStyle a = SinglyUnderlined), style_params ''3'' (GetUnderlineStyle a = CurlyUnderlined),
      style_params ''4'' (GetUnderlineStyle a = DottedUnderlined), style_params ''5'' (GetUnderlineStyle a = DashedUnderlined),
      flag_params ''5'' (IsBlinking a), flag_params ''7'' (IsReverseVideo a), flag_params ''8'' (IsInvisible a),
      flag_params ''9'' (IsCrossedOut a), flag_params ''21'' (GetUnderlineStyle a = DoublyUnderlined),
      flag_params ''53'' (IsOverlined a),
      color_params 30 (ta_foreground a), color_params 40 (ta_background a), color_params 50 (ta_underlineColor a)]"

definition report_params :: "TextAttribute \<Rightarrow> csi_param list" where
  "report_params a = (wstr ''0'', []) # concat (report_parts a)"

definition rendered :: "csi_param list \<Rightarrow> wstring" where
  "rendered ps = concat (map (\<lambda>p. 0x3B # render_param p) ps)"

lemma rendered_append [simp]: "rendered (ps @ qs) = rendered ps @ rendered qs"
  by (simp add: rendered_def)

lemma render_params_Cons: "render_params (p # ps) = render_param p @ rendered ps"
  by (simp add: render_params_def rendered_def join_tokens_concat comp_def)

lemma wstr_append: "wstr (s @ t) = wstr s @ wstr t"
  by (simp add: wstr_def)

lemma rendered_flag: "(if b then wstr (CHR '';'' # digits) else []) = rendered (flag_params digits b)"
  by (simp add: rendered_def flag_params_def render_param_def wstr_def wch_def)

lemma rendered_style: "(if b then wstr (CHR '';'' # CHR ''4'' # CHR '':'' # digits) else []) = rendered (style_params digits b)"
  by (simp add: rendered_def style_params_def render_param_def wstr_def wch_def)

lemma RGB_bytes:
  "(ucast (RGB r g b) :: byte) = r" "(ucast (drop_bit 8 (RGB r g b)) :: byte) = g" "(ucast (drop_bit 16 (RGB r g b)) :: byte) = b"
  by (rule bit_word_eqI; auto simp: RGB_def bit_simps dest: bit_imp_le_length)+

lemma rendered_color: "addColor base c = rendered (color_params base c)"
  by (simp add: addColor_def color_params_def rendered_def render_param_def GetRGB_def RGB_bytes Let_def wstr_def wch_def)

lemma ReportSGRSetting_params: "ReportSGRSetting a = wstr ''1$r'' @ render_params (report_params a) @ [wch (CHR ''m'')]"
proof -
  have "render_params (report_params a) = wstr ''0'' @ rendered (tl (report_params a))"
    by (simp add: report_params_def render_params_Cons render_param_def)
  then show ?thesis
    unfolding ReportSGRSetting_def Let_def rendered_style
    unfolding rendered_flag rendered_color report_params_def list.sel report_parts_def concat.simps rendered_append append_Nil2
    by (simp add: wstr_def)
qed

lemma digit_string_wstr: "digit_string (wstr ''0'')" "digit_string (wstr ''1'')" "digit_string (wstr ''2'')" "digit_string (wstr ''3'')"
  "digit_string (wstr ''4'')" "digit_string (wstr ''5'')" "digit_string (wstr ''7'')" "digit_string (wstr ''8'')" "digit_string (wstr ''9'')"
  "digit_string (wstr ''21'')" "digit_string (wstr ''53'')" "digit_string []"
  by (simp_all add: digit_string_def wstr_def wch_def isNumericParamValue_def)

lemma csi_param_ok_report: "list_all csi_param_ok (report_params a)"
  by (simp add: report_params_def report_parts_def flag_params_def style_params_def color_params_def csi_param_ok_def digit_string_wstr MAX_SUBPARAMETER_COUNT_def)

lemma report_parts_small: "list_all (\<lambda>ps. length ps \<le> 1 \<and> list_all (\<lambda>p. length (snd p) \<le> 5) ps) (report_parts a)"
  by (simp add: report_parts_def flag_params_def style_params_def color_params_def)

lemma length_concat_small: "list_all (\<lambda>xs. length xs \<le> 1) xss \<Longrightarrow> length (concat xss) \<le> length xss"
  by (induction xss) auto

lemma sum_small: "list_all (\<lambda>x. f x \<le> k) xs \<Longrightarrow> sum_list (map f xs) \<le> k * length (xs :: 'a list)" for f :: "'a \<Rightarrow> nat"
  by (induction xs) auto

lemma length_report: "length (report_params a) \<le> 17"
  using length_concat_small [of "report_parts a"] report_parts_small [of a]
  by (simp add: report_params_def list_all_iff) (simp add: report_parts_def)

lemma sub_params_report: "sum_list (map (\<lambda>p. length (snd p)) (report_params a)) < 256"
proof -
  have "list_all (\<lambda>p. length (snd p) \<le> 5) (report_params a)"
    using report_parts_small [of a] by (auto simp: report_params_def list_all_iff)
  then have "sum_list (map (\<lambda>p. length (snd p)) (report_params a)) \<le> 5 * length (report_params a)" by (rule sum_small)
  then show ?thesis using length_report [of a] by linarith
qed

section \<open>What the parameters do\<close>

lemma report_numbers:
  "number (wstr ''0'') = VTParameter 0" "number (wstr ''1'') = VTParameter 1" "number (wstr ''2'') = VTParameter 2"
  "number (wstr ''3'') = VTParameter 3" "number (wstr ''4'') = VTParameter 4" "number (wstr ''5'') = VTParameter 5"
  "number (wstr ''7'') = VTParameter 7" "number (wstr ''8'') = VTParameter 8" "number (wstr ''9'') = VTParameter 9"
  "number (wstr ''21'') = VTParameter 21" "number (wstr ''53'') = VTParameter 53"
  by (simp_all add: number_def digits_value_def digit_ref_def wstr_def wch_def MAX_PARAMETER_VALUE_def)

lemma param_conversions [simp]:
  "as_enum (VTParameter (int n)) = int n" "as_VTInt (VTParameter (int n)) = (if n = 0 then 1 else int n)"
  "0 \<le> k \<Longrightarrow> as_enum (VTParameter k) = k" "0 < k \<Longrightarrow> as_VTInt (VTParameter k) = k"
  by (simp_all add: as_enum_def as_VTInt_def value_or_def)

lemma apply_flag_params:
  "apply_params (flag_params digits b) x =
     (if b then (case GraphicsOptions_of (as_enum (number (wstr digits))) of None \<Rightarrow> Some x | Some opt \<Rightarrow> Some (plain_option opt x)) else Some x)"
  by (simp add: flag_params_def apply_param_def split: option.split)

lemma apply_style_params:
  "number (wstr digits) = VTParameter k \<Longrightarrow> k \<in> {NoUnderline..DashedUnderlined} \<Longrightarrow>
   apply_params (style_params digits b) x = Some (if b then SetUnderlineStyle k x else x)"
  by (simp add: style_params_def apply_param_def report_numbers ApplyGraphicsOptionWithSubParams_def GraphicsOptions_of_def
      SetUnderlineStyleHelper_def VTSubParameters_at_def value_or_def underline_styles)

lemma index16_params:
  assumes "k < 16"
  shows "GraphicsOptions_of (int (30 + (if k \<ge> 8 then 60 else 0) + k mod 8)) = Some opt \<Longrightarrow>
      plain_option opt x = x\<lparr>ta_foreground := TextColor_index (word_of_nat k) False\<rparr> \<and> opt \<noteq> GO_ForegroundExtended \<and> opt \<noteq> GO_BackgroundExtended"
    "GraphicsOptions_of (int (40 + (if k \<ge> 8 then 60 else 0) + k mod 8)) = Some opt \<Longrightarrow>
      plain_option opt x = x\<lparr>ta_background := TextColor_index (word_of_nat k) False\<rparr> \<and> opt \<noteq> GO_ForegroundExtended \<and> opt \<noteq> GO_BackgroundExtended"
    "GraphicsOptions_of (int (30 + (if k \<ge> 8 then 60 else 0) + k mod 8)) \<noteq> None"
    "GraphicsOptions_of (int (40 + (if k \<ge> 8 then 60 else 0) + k mod 8)) \<noteq> None"
proof -
  have k: "k \<in> {0, 1, 2, 3, 4, 5, 6, 7, 8, 9, 10, 11, 12, 13, 14, 15}" using assms unfolding lessThan_16 [symmetric] by simp
  show "GraphicsOptions_of (int (30 + (if k \<ge> 8 then 60 else 0) + k mod 8)) = Some opt \<Longrightarrow>
      plain_option opt x = x\<lparr>ta_foreground := TextColor_index (word_of_nat k) False\<rparr> \<and> opt \<noteq> GO_ForegroundExtended \<and> opt \<noteq> GO_BackgroundExtended"
    using k by (elim insertE emptyE) (auto simp: GraphicsOptions_of_def SetIndexedForeground_def)
  show "GraphicsOptions_of (int (40 + (if k \<ge> 8 then 60 else 0) + k mod 8)) = Some opt \<Longrightarrow>
      plain_option opt x = x\<lparr>ta_background := TextColor_index (word_of_nat k) False\<rparr> \<and> opt \<noteq> GO_ForegroundExtended \<and> opt \<noteq> GO_BackgroundExtended"
    using k by (elim insertE emptyE) (auto simp: GraphicsOptions_of_def SetIndexedBackground_def)
  show "GraphicsOptions_of (int (30 + (if k \<ge> 8 then 60 else 0) + k mod 8)) \<noteq> None"
    using k by (elim insertE emptyE) (simp_all add: GraphicsOptions_of_def)
  show "GraphicsOptions_of (int (40 + (if k \<ge> 8 then 60 else 0) + k mod 8)) \<noteq> None"
    using k by (elim insertE emptyE) (simp_all add: GraphicsOptions_of_def)
qed

lemma component_byte:
  "component (number (decimal (unat (b :: byte)))) \<le> 255" "(ucast (component (number (decimal (unat b)))) :: byte) = b"
proof -
  have b: "unat b < 256" using unsigned_less [of b, where 'a = nat] by simp
  then have c: "component (number (decimal (unat b))) = word_of_nat (unat b)"
    by (simp add: number_decimal component_def value_or_def)
  show "component (number (decimal (unat b))) \<le> 255" using b by (simp add: c word_le_nat_alt unsigned_ucast_eq take_bit_nat_eq_self)
  show "(ucast (component (number (decimal (unat b)))) :: byte) = b" unfolding c by (rule bit_word_eqI) (simp add: bit_simps)
qed

definition color_item :: "nat \<Rightarrow> bool" where
  "color_item base \<longleftrightarrow> base = 30 \<or> base = 40 \<or> base = 50"

definition set_color :: "nat \<Rightarrow> TextColor \<Rightarrow> TextAttribute \<Rightarrow> TextAttribute" where
  "set_color base c x = (if base = 30 then x\<lparr>ta_foreground := c\<rparr> else if base = 40 then x\<lparr>ta_background := c\<rparr> else x\<lparr>ta_underlineColor := c\<rparr>)"

lemma extended_options:
  "GraphicsOptions_of 38 = Some GO_ForegroundExtended" "GraphicsOptions_of 48 = Some GO_BackgroundExtended"
  "GraphicsOptions_of 58 = Some GO_UnderlineColor" "GraphicsOptions_of 2 = Some GO_RGBColorOrFaint"
  "GraphicsOptions_of 5 = Some GO_BlinkOrXterm256Index"
  by (simp_all add: GraphicsOptions_of_def)

lemma applyColor_item:
  assumes "color_item base" "\<not> IsIndex16 c"
  shows "applyColor (VTParameter (int (base + 8))) c x = Some (set_color base c x)"
    "GraphicsOptions_of (int (base + 8)) \<in> {Some GO_ForegroundExtended, Some GO_BackgroundExtended, Some GO_UnderlineColor}"
  using assms unfolding color_item_def
  by (elim disjE; simp add: applyColor_def extended_options set_color_def SetForeground_def SetBackground_def SetUnderlineColor_def)+

lemma apply_extended:
  assumes "color_item base" "subs \<noteq> []"
  shows "apply_params [(decimal (base + 8), subs)] x =
    SetRgbColorsHelperFromSubParams (VTParameter (int (base + 8))) (map number subs) x"
proof -
  have "number (decimal (base + 8)) = VTParameter (int (base + 8))"
    using assms(1) by (intro number_decimal) (auto simp: color_item_def)
  then show ?thesis
    using assms applyColor_item(2) [OF assms(1), of TextColor_default]
    by (auto simp: apply_param_def ApplyGraphicsOptionWithSubParams_def)
qed

lemma apply_index256:
  assumes "color_item base"
  shows "apply_params [(decimal (base + 8), [wstr ''5'', decimal (unat i)])] x = Some (set_color base (TextColor_index i True) x)"
  using component_byte [of i] applyColor_item(1) [OF assms, of "TextColor_index i True" x]
  unfolding apply_extended [OF assms list.distinct(2)]
  by (simp add: SetRgbColorsHelperFromSubParams_def VTSubParameters_at_def report_numbers
      extended_options Let_def)

lemma apply_rgb:
  assumes "color_item base"
  shows "apply_params [(decimal (base + 8), [wstr ''2'', [], decimal (unat r), decimal (unat g), decimal (unat b)])] x =
    Some (set_color base (TextColor_rgb (RGB r g b)) x)"
  using component_byte [of r] component_byte [of g] component_byte [of b] applyColor_item(1) [OF assms, of "TextColor_rgb (RGB r g b)" x]
  unfolding apply_extended [OF assms list.distinct(2)]
  by (simp add: SetRgbColorsHelperFromSubParams_def VTSubParameters_at_def report_numbers
      extended_options Let_def has_value_def VTParameter_default_def)

lemma color_wf_cases:
  assumes "color_wf c"
  obtains "c = TextColor_default" | i where "c = TextColor_index (word_of_nat i) False" "i < 16"
  | i where "c = TextColor_index i True" | r g b where "c = TextColor_rgb (RGB r g b)"
proof (cases "tc_meta c")
  case ColorType_IsIndex16
  then have "c = TextColor_index (word_of_nat (unat (tc_index c))) False" "unat (tc_index c) < 16"
    using assms by (simp_all add: color_wf_def IsIndex16_def word_less_nat_alt)
  then show thesis using that(2) by blast
next
  case ColorType_IsRgb
  then have "c = TextColor_rgb (RGB (tc_index c) (tc_green c) (tc_blue c))" by (simp add: TextColor_rgb_def RGB_bytes)
  then show thesis using that(4) by blast
qed (use assms that in \<open>auto simp: color_wf_def IsDefault_def IsIndex256_def\<close>)

lemma color_params_kinds [simp]:
  "color_params base TextColor_default = []"
  "i < 16 \<Longrightarrow> color_params base (TextColor_index (word_of_nat i) False) = [(decimal (base + (if i \<ge> 8 then 60 else 0) + i mod 8), [])]"
  "color_params base (TextColor_index j True) = [(decimal (base + 8), [wstr ''5'', decimal (unat j)])]"
  "color_params base (TextColor_rgb (RGB r g b)) = [(decimal (base + 8), [wstr ''2'', [], decimal (unat r), decimal (unat g), decimal (unat b)])]"
  by (simp_all add: color_params_def TextColor_default_def TextColor_index_def TextColor_rgb_def IsDefault_def IsIndex16_def
      IsIndex256_def IsRgb_def RGB_bytes unat_byte_of_nat)

lemma apply_color_params:
  assumes "color_wf c" "color_item base" "base = 50 \<longrightarrow> \<not> IsIndex16 c"
  shows "apply_params (color_params base c) x = Some (if c = TextColor_default then x else set_color base c x)"
    "list_all self_contained (color_params base c)"
proof -
  have neq: "TextColor_index j k \<noteq> TextColor_default" "TextColor_rgb w \<noteq> TextColor_default" for j k w
    by (simp_all add: TextColor_index_def TextColor_rgb_def TextColor_default_def)
  have "apply_params (color_params base c) x = Some (if c = TextColor_default then x else set_color base c x)
    \<and> list_all self_contained (color_params base c)"
    using assms(1)
  proof (cases rule: color_wf_cases)
    case (2 i)
    let ?n = "base + (if i \<ge> 8 then 60 else 0) + i mod 8"
    have base: "base = 30 \<or> base = 40" using assms(2,3) 2(1) by (auto simp: color_item_def IsIndex16_def TextColor_index_def)
    have n: "number (decimal ?n) = VTParameter (int ?n)" using base by (intro number_decimal) auto
    obtain opt where opt: "GraphicsOptions_of (int ?n) = Some opt" using index16_params(3,4) [OF 2(2)] base by blast
    have "plain_option opt x = set_color base c x \<and> opt \<noteq> GO_ForegroundExtended \<and> opt \<noteq> GO_BackgroundExtended"
      using base index16_params(1,2) [OF 2(2), of opt x] opt 2(1) by (auto simp: set_color_def)
    then show ?thesis using 2 n opt neq by (simp add: apply_param_def self_contained_def)
  next
    case (3 i)
    then show ?thesis using apply_index256 [OF assms(2), of i x] neq by (simp add: self_contained_def)
  next
    case (4 r g b)
    then show ?thesis using apply_rgb [OF assms(2), of r g b x] neq by (simp add: self_contained_def)
  qed simp
  then show "apply_params (color_params base c) x = Some (if c = TextColor_default then x else set_color base c x)"
    "list_all self_contained (color_params base c)" by blast+
qed

section \<open>The report restores the attributes\<close>

definition or_attrs :: "16 word \<Rightarrow> TextAttribute \<Rightarrow> TextAttribute" where
  "or_attrs m x = x\<lparr>ta_attrs := ta_attrs x OR m\<rparr>"

lemma or_attrs_simps [simp]: "or_attrs m (or_attrs n x) = or_attrs (n OR m) x" "ta_attrs (or_attrs m x) = ta_attrs x OR m"
  by (simp_all add: or_attrs_def or.assoc)

lemma flag_exp: "\<exists>k. flag_value f = push_bit k 1"
proof (cases f)
  case CA_Intense then show ?thesis by (intro exI [of _ 0]) simp next
  case CA_Italics then show ?thesis by (intro exI [of _ 1]) simp next
  case CA_Blinking then show ?thesis by (intro exI [of _ 2]) simp next
  case CA_Invisible then show ?thesis by (intro exI [of _ 3]) simp next
  case CA_CrossedOut then show ?thesis by (intro exI [of _ 4]) simp next
  case CA_Faint then show ?thesis by (intro exI [of _ 5]) simp next
  case CA_TopGridline then show ?thesis by (intro exI [of _ 10]) simp next
  case CA_LeftGridline then show ?thesis by (intro exI [of _ 11]) simp next
  case CA_RightGridline then show ?thesis by (intro exI [of _ 12]) simp next
  case CA_Protected then show ?thesis by (intro exI [of _ 13]) simp next
  case CA_ReverseVideo then show ?thesis by (intro exI [of _ 14]) simp next
  case CA_BottomGridline then show ?thesis by (intro exI [of _ 15]) simp
qed

lemma and_flag: "(w :: 16 word) AND flag_value f = (if w AND flag_value f = 0 then 0 else flag_value f)"
proof -
  have "w AND push_bit k 1 = (if bit w k then push_bit k 1 else 0)" for k
    by (rule bit_word_eqI) (auto simp: bit_simps)
  then show ?thesis using flag_exp [of f] by (metis (full_types))
qed

lemma copy_flag: "(if IsFlagSet f a then UpdateFlag f True x else x) = or_attrs (ta_attrs a AND flag_value f) x"
  by (subst and_flag) (auto simp: IsFlagSet_def UpdateFlag_def or_attrs_def)

lemma style_bits: "word_of_int (push_bit UNDERLINE_STYLE_SHIFT (GetUnderlineStyle a)) = ta_attrs a AND UnderlineStyle_mask"
proof -
  have mask: "UnderlineStyle_mask = push_bit 6 7" by (simp add: UnderlineStyle_mask_def)
  have shift: "push_bit 6 (drop_bit 6 (w AND push_bit 6 m)) = w AND push_bit 6 m" for w m :: "16 word"
    by (rule bit_word_eqI) (auto simp: bit_simps simp del: push_bit_and)
  have "word_of_int (push_bit 6 (uint w)) = push_bit 6 w" for w :: "16 word"
    by (rule bit_word_eqI) (auto simp: bit_simps)
  then show ?thesis unfolding GetUnderlineStyle_def UNDERLINE_STYLE_SHIFT_def mask by (simp only: shift)
qed

lemma copy_style:
  assumes "GetUnderlineStyle a = k" "ta_attrs x AND UnderlineStyle_mask = 0"
  shows "SetUnderlineStyle k x = or_attrs (ta_attrs a AND UnderlineStyle_mask) x"
proof -
  have "ta_attrs x AND NOT UnderlineStyle_mask = ta_attrs x"
  proof -
    have "ta_attrs x = (ta_attrs x AND UnderlineStyle_mask) OR (ta_attrs x AND NOT UnderlineStyle_mask)"
      by (simp flip: bit.conj_disj_distrib)
    then show ?thesis using assms(2) by simp
  qed
  then show ?thesis using style_bits [of a] assms(1) by (simp add: SetUnderlineStyle_def or_attrs_def)
qed

lemma style_disjoint: "(w AND flag_value f) AND UnderlineStyle_mask = 0"
  by (simp add: and.assoc underline_mask_flag)

lemma report_options:
  "GraphicsOptions_of 0 = Some GO_Off" "GraphicsOptions_of 1 = Some GO_Intense" "GraphicsOptions_of 3 = Some GO_Italics"
  "GraphicsOptions_of 4 = Some GO_Underline" "GraphicsOptions_of 7 = Some GO_Negative" "GraphicsOptions_of 8 = Some GO_Invisible"
  "GraphicsOptions_of 9 = Some GO_CrossedOut" "GraphicsOptions_of 21 = Some GO_DoublyUnderlined" "GraphicsOptions_of 53 = Some GO_Overline"
  by (simp_all add: GraphicsOptions_of_def)

lemma apply_report_flags:
  "apply_params (flag_params ''1'' (IsIntense a)) x = Some (or_attrs (ta_attrs a AND flag_value CA_Intense) x)"
  "apply_params (flag_params ''2'' (IsFaint a)) x = Some (or_attrs (ta_attrs a AND flag_value CA_Faint) x)"
  "apply_params (flag_params ''3'' (IsItalic a)) x = Some (or_attrs (ta_attrs a AND flag_value CA_Italics) x)"
  "apply_params (flag_params ''5'' (IsBlinking a)) x = Some (or_attrs (ta_attrs a AND flag_value CA_Blinking) x)"
  "apply_params (flag_params ''7'' (IsReverseVideo a)) x = Some (or_attrs (ta_attrs a AND flag_value CA_ReverseVideo) x)"
  "apply_params (flag_params ''8'' (IsInvisible a)) x = Some (or_attrs (ta_attrs a AND flag_value CA_Invisible) x)"
  "apply_params (flag_params ''9'' (IsCrossedOut a)) x = Some (or_attrs (ta_attrs a AND flag_value CA_CrossedOut) x)"
  "apply_params (flag_params ''53'' (IsOverlined a)) x = Some (or_attrs (ta_attrs a AND flag_value CA_TopGridline) x)"
  by (simp_all only: apply_flag_params report_numbers param_conversions zero_le_numeral zero_le_one report_options extended_options option.case
      plain_option.simps flag_setters flag_getters copy_flag [symmetric] split: if_split) simp_all

lemma apply_report_styles:
  "apply_params (flag_params ''4'' b) x = Some (if b then SetUnderlineStyle SinglyUnderlined x else x)"
  "apply_params (flag_params ''21'' b) x = Some (if b then SetUnderlineStyle DoublyUnderlined x else x)"
  "apply_params (style_params ''3'' b) x = Some (if b then SetUnderlineStyle CurlyUnderlined x else x)"
  "apply_params (style_params ''4'' b) x = Some (if b then SetUnderlineStyle DottedUnderlined x else x)"
  "apply_params (style_params ''5'' b) x = Some (if b then SetUnderlineStyle DashedUnderlined x else x)"
  by (simp_all add: apply_flag_params report_numbers report_options apply_style_params underline_styles)

lemma self_contained_report:
  assumes "attr_wf a"
  shows "list_all self_contained (report_params a)"
proof -
  have "list_all self_contained (flag_params ''1'' b1)" "list_all self_contained (flag_params ''2'' b2)"
    "list_all self_contained (flag_params ''3'' b3)" "list_all self_contained (flag_params ''4'' b4)"
    "list_all self_contained (flag_params ''5'' b5)" "list_all self_contained (flag_params ''7'' b7)"
    "list_all self_contained (flag_params ''8'' b8)" "list_all self_contained (flag_params ''9'' b9)"
    "list_all self_contained (flag_params ''21'' b21)" "list_all self_contained (flag_params ''53'' b53)"
    "list_all self_contained (style_params d b)" "self_contained (wstr ''0'', [])"
    for b b1 b2 b3 b4 b5 b7 b8 b9 b21 b53 d
    by (simp_all add: flag_params_def style_params_def self_contained_def report_numbers report_options extended_options)
  then show ?thesis
    using assms apply_color_params(2) [of "ta_foreground a" 30] apply_color_params(2) [of "ta_background a" 40]
      apply_color_params(2) [of "ta_underlineColor a" 50]
    by (simp add: report_params_def report_parts_def attr_wf_def color_item_def)
qed

text \<open>The bits of the attributes that a report mentions: all but the protection and three of the grid lines.\<close>

definition reported_bits :: "16 word" where
  "reported_bits = 0x45FF"

lemma reported_bits_flags:
  "reported_bits = flag_value CA_Intense OR flag_value CA_Faint OR flag_value CA_Italics OR UnderlineStyle_mask OR flag_value CA_Blinking
     OR flag_value CA_ReverseVideo OR flag_value CA_Invisible OR flag_value CA_CrossedOut OR flag_value CA_TopGridline"
  by (simp add: reported_bits_def UnderlineStyle_mask_def)

lemma SetUnderlineStyle_zero: "GetUnderlineStyle a = 0 \<Longrightarrow> ta_attrs a AND UnderlineStyle_mask = 0"
  using style_bits [of a] by simp

lemma apply_report_attrs:
  assumes "GetUnderlineStyle a \<in> {NoUnderline..DashedUnderlined}" "ta_attrs x AND UnderlineStyle_mask = 0"
  shows "apply_params (concat (take 13 (report_parts a))) x = Some (or_attrs (ta_attrs a AND reported_bits) x)"
proof -
  note clear = assms(2) bit.conj_disj_distrib2 style_disjoint
  from assms(1) show ?thesis
    unfolding report_parts_def reported_bits_flags
    by (cases rule: style_cases)
      (simp_all add: apply_params_append apply_report_flags apply_report_styles underline_styles copy_style [of a] clear
        bit.conj_disj_distrib SetUnderlineStyle_zero or.assoc or.left_commute or.commute del: flag_value.simps)
qed

lemma apply_Off: "apply_param (wstr ''0'', []) b = Some (plain_option GO_Off b)"
  by (simp add: apply_param_def report_numbers report_options del: plain_option.simps)

lemma Off_attrs:
  "ta_attrs (plain_option GO_Off b) = ta_attrs b AND flag_value CA_Protected"
  "ta_foreground (plain_option GO_Off b) = TextColor_default" "ta_background (plain_option GO_Off b) = TextColor_default"
  "ta_underlineColor (plain_option GO_Off b) = TextColor_default" "ta_hyperlinkId (plain_option GO_Off b) = ta_hyperlinkId b"
  "ta_markKind (plain_option GO_Off b) = ta_markKind b"
proof -
  have "NOT Rendition_mask = flag_value CA_Protected" by (simp add: Rendition_mask_def)
  then show "ta_attrs (plain_option GO_Off b) = ta_attrs b AND flag_value CA_Protected"
    by (simp add: SetDefaultRenditionAttributes_def color_setters)
qed (simp_all add: SetDefaultRenditionAttributes_def color_setters)

lemma report_restores:
  assumes "attr_wf a"
  shows "SetGraphicsRendition_page (params_of (report_params a)) b =
    Some (a\<lparr>ta_attrs := (ta_attrs a AND reported_bits) OR (ta_attrs b AND flag_value CA_Protected),
            ta_hyperlinkId := ta_hyperlinkId b, ta_markKind := ta_markKind b\<rparr>)"
proof -
  define x where "x = plain_option GO_Off b"
  have off: "ta_attrs x AND UnderlineStyle_mask = 0" by (simp add: x_def Off_attrs style_disjoint del: plain_option.simps flag_value.simps)
  have parts: "concat (report_parts a) = concat (take 13 (report_parts a)) @ color_params 30 (ta_foreground a)
      @ color_params 40 (ta_background a) @ color_params 50 (ta_underlineColor a)"
    by (simp add: report_parts_def)
  have "SetGraphicsRendition_page (params_of (report_params a)) b = apply_params (report_params a) b"
    using ApplyGraphicsOptions_params [OF sub_params_report self_contained_report [OF assms], of 0 b]
    by (simp add: SetGraphicsRendition_page_def report_params_def)
  also have "\<dots> = apply_params (concat (report_parts a)) x"
    by (simp add: report_params_def apply_Off x_def del: plain_option.simps)
  also have "\<dots> = Some (a\<lparr>ta_attrs := (ta_attrs a AND reported_bits) OR (ta_attrs b AND flag_value CA_Protected),
            ta_hyperlinkId := ta_hyperlinkId b, ta_markKind := ta_markKind b\<rparr>)"
    unfolding parts apply_params_append
    using assms apply_report_attrs [OF _ off, of a] Off_attrs [of b, folded x_def]
    by (cases x) (auto simp: attr_wf_def apply_color_params color_item_def apply_params_append set_color_def or_attrs_def or.commute
        simp del: flag_value.simps)
  finally show ?thesis .
qed

end
