(* ===== verification/Spec2Isabelle.thy ===== *)
theory Spec2Isabelle
  imports Terminal Macro_Buffer Graphics_Report
begin

text \<open>
  Verification of the virtual terminal core of the Windows console and terminal code base. Text
  that an application writes goes through three parts, and so does the development:

  \<^item> the \<^emph>\<open>parser\<close> (\<^verbatim>\<open>src/src/terminal/parser/stateMachine.cpp\<close>) takes escape sequences apart and calls an engine;
  \<^item> the \<^emph>\<open>output engine\<close> (\<^verbatim>\<open>src/src/terminal/parser/OutputStateMachineEngine.cpp\<close>) maps sequences to calls of a dispatcher;
  \<^item> the \<^emph>\<open>dispatcher\<close> (\<^verbatim>\<open>src/src/terminal/adapter\<close>) carries the calls out; of it, graphic rendition and macros are modelled.

  \<^bold>\<open>Conventions.\<close> A definition has the name of the C++ function it translates, without the leading
  underscore, and a C++ class is a record. Members that a function changes are passed and returned.
  \<open>None\<close> stands for undefined behaviour, an escaping exception, a failed assertion, or an endless
  loop, so a theorem that something is \<open>Some\<close> excludes all of them. Code units, bytes, colours,
  flags, identifiers and the sizes of the macro buffer are words of their width. Parameters
  (\<^verbatim>\<open>VTInt\<close>) are integers; the parser keeps them between -1 and 65535. Loops are
  recursive functions with a proof that they end; three are not. The flush of a cached sequence calls
  an engine that may refuse it again, and a macro that is run may invoke itself, so these are partial functions, which lemmas
  show to return. The
  token loop of \<^verbatim>\<open>Til_String\<close> has fuel, one round more than the string has characters, which is shown to be enough.
  Code that is not part of the repository is an argument: the conversion
  from UTF-8 of what base64 decodes to (\<open>u8u16\<close>); so is the dispatcher of the output engine.

  \<^bold>\<open>Theories.\<close>
  \<^item> \<^verbatim>\<open>Prelude\<close>: machine types, outcomes of calls that may throw, collections of rewrite rules, generic lemmas.
  \<^item> \<^verbatim>\<open>Dispatch_Types\<close> (\<^verbatim>\<open>DispatchTypes.hpp\<close>): identifiers of sequences, their builder, parameters and
    sub-parameters. Built identifiers equal literal ones; overlong ones match nothing.
  \<^item> \<^verbatim>\<open>Vt_Utils\<close>, \<^verbatim>\<open>Utils_Text\<close>, \<^verbatim>\<open>Color_Utils\<close> (\<^verbatim>\<open>types/utils.cpp\<close>): the search for control characters, scalar and
    vectorised; splitting, numbers, filtering of pasted text; colour specifications.
  \<^item> \<^verbatim>\<open>Til_String\<close> (\<^verbatim>\<open>inc/til/string.h\<close>), \<^verbatim>\<open>Base64\<close> (\<^verbatim>\<open>parser/base64.cpp\<close>), \<^verbatim>\<open>Color_Table\<close> (\<^verbatim>\<open>types/colorTable.cpp\<close>): libraries,
    with round trips and equivalences to reference definitions.
  \<^item> \<^verbatim>\<open>State_Machine\<close> (\<^verbatim>\<open>stateMachine.cpp\<close>): the parser, over a record of engine operations.
    \<^verbatim>\<open>Vt_Engine\<close> states what the parser relies on as the locale \<open>vt_engine\<close> and the parser's invariant \<open>sm_inv\<close>;
    \<^verbatim>\<open>Parser_Safety\<close> shows that every event keeps it and never faults.
  \<^item> \<^verbatim>\<open>Term_Dispatch\<close> (\<^verbatim>\<open>ITermDispatch.hpp\<close>, \<^verbatim>\<open>termDispatch.hpp\<close>), \<^verbatim>\<open>Action_Codes\<close>, \<^verbatim>\<open>Output_Engine\<close>: the calls of the dispatcher as
    data, the identifiers of the dispatch tables, and the engine. \<^verbatim>\<open>Output_Safety\<close> shows that the engine is a
    \<open>vt_engine\<close> whenever the dispatcher is a \<open>term_dispatch\<close>: its string handlers, which the parser calls outside of
    \<^verbatim>\<open>_SafeExecute\<close>, must not throw, while every other call may.
  \<^item> \<^verbatim>\<open>Sequences\<close>: the parser takes every rendered sequence for exactly what was written. \<^verbatim>\<open>Chunking\<close>: how text
    is cut into strings does not matter. \<^verbatim>\<open>Terminal\<close>: both together, for whole scripts, with the dispatcher that records its calls.
  \<^item> \<^verbatim>\<open>Text_Attribute\<close> (\<^verbatim>\<open>buffer/out/TextColor.cpp\<close>, \<^verbatim>\<open>TextAttribute.cpp\<close>), \<^verbatim>\<open>Sgr_Stack\<close> (\<^verbatim>\<open>types/sgrStack.cpp\<close>), \<^verbatim>\<open>Graphics_Rendition\<close>
    (\<^verbatim>\<open>adaptDispatchGraphics.cpp\<close> and the report in \<^verbatim>\<open>adaptDispatch.cpp\<close>): attributes, the ring of saved
    attributes as an instance of the locale \<open>bounded_stack\<close>, and graphic rendition. \<^verbatim>\<open>Graphics_Safety\<close> shows
    that no parameters make it fault, \<^verbatim>\<open>Graphics_Report\<close> that a report restores the attributes.
  \<^item> \<^verbatim>\<open>Macro_Buffer\<close> (\<^verbatim>\<open>adapter/MacroBuffer.cpp\<close>): the store of macros, its bounds, and the proof that invocations
    end, for any parser that the macros are handed to, with the bound on what it is handed.

  The properties below span these parts.

  \<^bold>\<open>Not modelled.\<close> The rest of the dispatcher works on the text buffer, whose rows live in memory
  that is committed on demand and whose glyph widths come from generated Unicode tables. The input
  engine and the encoding of keys depend on the keyboard layout of the operating system. Sixel images
  and soft fonts are data for the renderers. The console host and server, the renderers, windows,
  settings and the terminal application are interfaces to the operating system. Of the modelled files,
  tracing, the ARM NEON path of the control character search, accessors of the engine objects, conversions with floating point numbers (hue, lightness
  and saturation), and functions that only wrap operating system calls (handles, pipes, linguistic
  comparison) are left out.
\<close>

section \<open>The terminal\<close>

text \<open>C2:
  A terminal built from the parser, the output engine and any dispatcher that keeps its contract
  survives every sequence of strings. The contract, the locale term_dispatch, says that the dispatcher changes
  the parser only through the functions offered for it, that its string handlers, which the parser
  calls without a guard, do not throw, and that its completion callbacks return; every other call
  may throw. Then no undefined behaviour is reached, no exception escapes, every call returns, and afterwards the parser satisfies
  its invariant. In particular every stored number is between 0 and 65535 or omitted, and, outside
  the ground state and the parameters of VT52 mode, at most 32 parameters are stored.
\<close>

theorem terminal_never_faults:
  assumes "term_dispatch d"
  shows "\<exists>s. ProcessStrings (OutputStateMachineEngine d u8u16) strs (StateMachine (OutputEngine_init d0) False i j k) = Some s
    \<and> sm_inv s \<and> list_all param_ok (sm_parameters s) \<and> list_all param_ok (sm_subParameters s)
    \<and> 0 \<le> sm_oscParameter s \<and> sm_oscParameter s \<le> MAX_PARAMETER_VALUE
    \<and> (sm_state s \<noteq> Ground \<and> sm_state s \<noteq> Vt52Param \<longrightarrow> length (sm_parameters s) \<le> MAX_PARAMETER_COUNT)"
proof -
  obtain s where s: "ProcessStrings (OutputStateMachineEngine d u8u16) strs (StateMachine (OutputEngine_init d0) False i j k) = Some s"
    "sm_inv s"
    using term_dispatch.ProcessStrings_ok [OF assms, of "StateMachine (OutputEngine_init d0) False i j k" u8u16 strs] by auto
  from s(2) show ?thesis by (intro exI [of _ s] conjI s) (simp_all add: sm_inv_def params_wf_def)
qed

theorem terminal_never_faults_witness:
  "\<forall>u8u16 strs. \<exists>s. ProcessStrings (OutputStateMachineEngine Recorder u8u16) strs
     (StateMachine (OutputEngine_init []) False 0 0 False) = Some s \<and> sm_inv s"
  using terminal_never_faults [OF recorder.term_dispatch_axioms] by blast

text \<open>C1:
  The meaning of what an application writes: for every script of printed texts, control
  characters, escape sequences, control sequences and operating system commands, the calls the
  dispatcher gets are exactly those the script stands for, in order, however the text of the script is cut into
  strings.
\<close>

theorem script_dispatch:
  assumes "list_all item_ok is" "concat strs = concat (map item_text is)"
  shows "terminal_events u8u16 strs = Some (concat (map call_events (script_calls u8u16 AC_NUL is)))"
  using ready_script [OF ready_terminal assms(1), of u8u16] assms(2) by (auto simp: terminal_events_ProcessCharacters)

theorem script_dispatch_witness:
  "\<forall>u8u16. terminal_events u8u16 [[0x48, 0x69, 0x1B], [0x5B, 0x33], [0x3B, 0x35, 0x48, 0x0D]] =
     Some [Called (DC_Text (Print 0x48)), Called (DC_Text (Print 0x69)), Called (DC_Cursor (CursorPosition 3 5)),
           Called (DC_Cursor CarriageReturn)]"
proof
  fix u8u16
  let ?is = "[Text [0x48, 0x69], Control_seq '''' [([0x33], []), ([0x35], [])] '''' (CHR ''H''), Control_char AC_CR]"
  have ok: "list_all item_ok ?is" by code_simp
  have cut: "concat [[0x48, 0x69, 0x1B], [0x5B, 0x33], [0x3B, 0x35, 0x48, 0x0D]] = concat (map item_text ?is)" by code_simp
  have "csi_accepted (VTID ''H'') (params_of [([0x33], []), ([0x35], [])])" by code_simp
  moreover have "num_at (params_of [([0x33], []), ([0x35], [])]) 0 = 3" "num_at (params_of [([0x33], []), ([0x35], [])]) (Suc 0) = 5"
    by code_simp+
  then have "csi_calls 0x69 (VTID ''H'') (params_of [([0x33], []), ([0x35], [])]) = [DC_Cursor (CursorPosition 3 5)]"
    by (simp add: csi_lookup)
  moreover have "execute_calls AC_CR = [DC_Cursor CarriageReturn]" by code_simp
  ultimately have "concat (map call_events (script_calls u8u16 AC_NUL ?is)) =
     [Called (DC_Text (Print 0x48)), Called (DC_Text (Print 0x69)), Called (DC_Cursor (CursorPosition 3 5)),
      Called (DC_Cursor CarriageReturn)]" by simp
  then show "terminal_events u8u16 [[0x48, 0x69, 0x1B], [0x5B, 0x33], [0x3B, 0x35, 0x48, 0x0D]] =
     Some [Called (DC_Text (Print 0x48)), Called (DC_Text (Print 0x69)), Called (DC_Cursor (CursorPosition 3 5)),
           Called (DC_Cursor CarriageReturn)]"
    using script_dispatch [OF ok cut, of u8u16] by simp
qed

text \<open>C4:
  Pieces do not matter: for every dispatcher that does not look at the parser's bookkeeping and
  prints a text by printing its parts, processing strings one after the other and processing
  their concatenation both succeed and lead to the same state of parser, engine and dispatcher.
\<close>

theorem pieces_do_not_matter:
  assumes "chunk_dispatch d" "sm_inv s" "\<not> sm_isEngineForInput s"
  shows "\<exists>s' t'. ProcessStrings (OutputStateMachineEngine d u8u16) strs s = Some s' \<and>
    ProcessString (OutputStateMachineEngine d u8u16) (concat strs) s = Some t' \<and> core s' = core t'"
  using chunk_dispatch.ProcessStrings_concat [OF assms, of u8u16 strs] by (simp add: same_def)

theorem pieces_do_not_matter_witness:
  "\<forall>u8u16 strs. \<exists>s' t'. ProcessStrings (OutputStateMachineEngine Recorder u8u16) strs terminal = Some s' \<and>
    ProcessString (OutputStateMachineEngine Recorder u8u16) (concat strs) terminal = Some t' \<and> core s' = core t'"
  using pieces_do_not_matter [OF recorder.chunk_dispatch_axioms, of terminal] by simp

text \<open>C3:
  Refinement: for every dispatcher as above, processing a string, with its runs of printable
  characters, its cached partial sequences and its injected sequences, has the effect of the
  abstract terminal that takes one character after the other and prints one character at a time.
\<close>

theorem ProcessString_refines_vt_run:
  assumes "chunk_dispatch d" "sm_inv s" "\<not> sm_isEngineForInput s"
  shows "map_option core (ProcessString (OutputStateMachineEngine d u8u16) str s) =
    map_option core (vt_run (OutputStateMachineEngine d u8u16) str s)"
  using chunk_dispatch.ProcessStrings_vt_run [OF assms, of u8u16 "[str]"]
  by (auto simp: option_rel_Some2 same_def bind_eq_Some_conv)

theorem ProcessString_refines_vt_run_witness:
  "\<forall>print u8u16 str. map_option core (ProcessString (OutputStateMachineEngine (TermDispatch print (fold print)) u8u16) str
      (StateMachine (OutputEngine_init (0 :: nat)) False 0 0 False :: (nat, unit, unit) osm)) =
    map_option core (vt_run (OutputStateMachineEngine (TermDispatch print (fold print)) u8u16) str
      (StateMachine (OutputEngine_init 0) False 0 0 False))"
  by (intro allI ProcessString_refines_vt_run tdc.chunk_dispatch_axioms) simp_all

lemma cancel_ready:
  assumes "sm_inv s" "\<not> sm_isEngineForInput s" "Ansi \<in> sm_parserMode s"
  shows "\<exists>t es. ProcessCharacter (recording u8u16) AC_CAN s = Some t \<and> ready (oe_dispatch (sm_engine s) @ es) AC_NUL t"
proof -
  have "\<exists>t es. ActionInterrupt (recording u8u16) s = Some t \<and> oe_dispatch (sm_engine t) = oe_dispatch (sm_engine s) @ es
      \<and> \<not> sm_isEngineForInput t \<and> Ansi \<in> sm_parserMode t"
    using assms
    by (auto simp: ActionInterrupt_def sm_inv_def OutputStateMachineEngine_def Recorder_def update_dispatch_def)
  then obtain t es where t: "ActionInterrupt (recording u8u16) s = Some t" "oe_dispatch (sm_engine t) = oe_dispatch (sm_engine s) @ es"
    "\<not> sm_isEngineForInput t" "Ansi \<in> sm_parserMode t" by blast
  have "ActionExecute (recording u8u16) AC_CAN t = Some (ClearLastChar (update_dispatch (\<lambda>es. es @ []) t))"
    using Recorder_dispatch_and_clear [of u8u16 "execute_calls AC_CAN" t]
    by (simp add: ActionExecute_def OutputStateMachineEngine_def out_ActionExecute_def execute_calls_def)
  then show ?thesis
    using t assms(2)
    by (cases "sm_engine t") (auto simp: ProcessCharacter.simps [of _ AC_CAN s] ready_def EnterGround_def ClearLastChar_def update_dispatch_def)
qed

text \<open>C7:
  Resynchronisation: whatever the parser is in the middle of, a CAN character brings it back.
  From then on the calls are exactly those of the script that follows, so no prefix of the output
  can change the meaning of what comes after a CAN.
\<close>

theorem cancel_resynchronises:
  assumes "sm_inv s" "\<not> sm_isEngineForInput s" "Ansi \<in> sm_parserMode s"
  shows "\<exists>es. \<forall>is strs. list_all item_ok is \<and> concat strs = AC_CAN # concat (map item_text is) \<longrightarrow>
    map_option (\<lambda>t. oe_dispatch (sm_engine t)) (ProcessStrings (OutputStateMachineEngine Recorder u8u16) strs s) =
    Some (oe_dispatch (sm_engine s) @ es @ concat (map call_events (script_calls u8u16 AC_NUL is)))"
proof -
  obtain t es where t: "ProcessCharacter (recording u8u16) AC_CAN s = Some t" "ready (oe_dispatch (sm_engine s) @ es) AC_NUL t"
    using cancel_ready [OF assms] by blast
  show ?thesis
  proof (intro exI [of _ es] allI impI)
    fix "is" strs
    assume "list_all item_ok is \<and> concat strs = AC_CAN # concat (map item_text is)"
    then show "map_option (\<lambda>t. oe_dispatch (sm_engine t)) (ProcessStrings (recording u8u16) strs s) =
      Some (oe_dispatch (sm_engine s) @ es @ concat (map call_events (script_calls u8u16 AC_NUL is)))"
      using ready_script [OF t(2), of "is" u8u16] rec.ProcessStrings_ProcessCharacters [OF assms(1,2), of u8u16 strs] t(1)
      by (auto dest: same_core_fields(1))
  qed
qed

theorem cancel_resynchronises_witness:
  "\<forall>u8u16. \<exists>es. map_option (\<lambda>t. oe_dispatch (sm_engine t))
      (ProcessStrings (OutputStateMachineEngine Recorder u8u16) [[AC_CAN], [0x41]] (EnterOscString (EnterOscParam (EnterEscape terminal)))) =
    Some (es @ [Called (DC_Text (Print 0x41))])"
proof
  fix u8u16
  let ?s = "EnterOscString (EnterOscParam (EnterEscape terminal))"
  have s: "sm_inv ?s" "\<not> sm_isEngineForInput ?s" "Ansi \<in> sm_parserMode ?s" "oe_dispatch (sm_engine ?s) = []"
    using terminal_simps
    by (simp_all add: EnterOscString_def EnterOscParam_def EnterEscape_def ActionClear_def sm_inv_def params_wf_def id_ok_def
        VTIDBuilder_Clear_def OutputEngine_init_def)
  have ok: "list_all item_ok [Text [0x41]]" "concat [[AC_CAN], [0x41]] = AC_CAN # concat (map item_text [Text [0x41]])"
    by code_simp+
  obtain es where es: "\<forall>is strs. list_all item_ok is \<and> concat strs = AC_CAN # concat (map item_text is) \<longrightarrow>
    map_option (\<lambda>t. oe_dispatch (sm_engine t)) (ProcessStrings (OutputStateMachineEngine Recorder u8u16) strs ?s) =
    Some (oe_dispatch (sm_engine ?s) @ es @ concat (map call_events (script_calls u8u16 AC_NUL is)))"
    using cancel_resynchronises [OF s(1-3), of u8u16] by blast
  show "\<exists>es. map_option (\<lambda>t. oe_dispatch (sm_engine t))
      (ProcessStrings (OutputStateMachineEngine Recorder u8u16) [[AC_CAN], [0x41]] ?s) = Some (es @ [Called (DC_Text (Print 0x41))])"
    using es [rule_format, of "[Text [0x41]]" "[[AC_CAN], [0x41]]"] ok s(4) by (intro exI [of _ es]) simp
qed

section \<open>Graphic rendition through the terminal\<close>

text \<open>C8:
  The report of the text attributes restores them: the parameters of the report of any well-formed
  attributes, written back to the terminal as a control sequence and cut into strings in any way, lead to exactly one call
  of the graphic rendition function, and that call gives whatever attributes are current then the
  colours of the reported attributes and all flags that a report mentions, and leaves their
  protection, hyperlink and mark alone.
\<close>

theorem sgr_report_roundtrip:
  assumes "attr_wf a" "concat strs = AC_ESC # 0x5B # drop 3 (ReportSGRSetting a)"
  shows "\<exists>options. terminal_events u8u16 strs = Some [Called (DC_Mode (SetGraphicsRendition options))] \<and>
    SetGraphicsRendition_page options b =
      Some (a\<lparr>ta_attrs := (ta_attrs a AND reported_bits) OR (ta_attrs b AND flag_value CA_Protected),
              ta_hyperlinkId := ta_hyperlinkId b, ta_markKind := ta_markKind b\<rparr>)"
proof -
  let ?i = "Control_seq '''' (report_params a) '''' (CHR ''m'')"
  have "report_params a \<noteq> [([], [])]" by (simp add: report_params_def wstr_def)
  then have ok: "list_all item_ok [?i]"
    using csi_param_ok_report [of a] length_report [of a]
    by (simp add: marker_text_def MAX_PARAMETER_COUNT_def wch_def wstr_def)
  have "concat strs = concat (map item_text [?i])"
    using assms(2) by (simp add: ReportSGRSetting_params csi_text_def wstr_def)
  moreover have "item_calls u8u16 AC_NUL ?i = [DC_Mode (SetGraphicsRendition (params_of (report_params a)))]"
    by (simp add: csi_accepted_def CanSeqAcceptSubParam_def csi_lookup)
  ultimately have "terminal_events u8u16 strs = Some [Called (DC_Mode (SetGraphicsRendition (params_of (report_params a))))]"
    using ready_script [OF ready_terminal ok, of u8u16] by (auto simp: terminal_events_ProcessCharacters)
  then show ?thesis using report_restores [OF assms(1), of b] by blast
qed

theorem sgr_report_roundtrip_witness:
  "\<exists>options. terminal_events (\<lambda>_. None) [AC_ESC # 0x5B # drop 3 (ReportSGRSetting TextAttribute_default)] =
      Some [Called (DC_Mode (SetGraphicsRendition options))] \<and>
    SetGraphicsRendition_page options (SetItalic True TextAttribute_default) = Some TextAttribute_default"
proof -
  have wf: "attr_wf TextAttribute_default"
    by (simp add: attr_wf_def TextAttribute_default_def GetUnderlineStyle_def underline_styles)
  have "ta_attrs (SetItalic True TextAttribute_default) AND flag_value CA_Protected = 0"
    by (simp add: SetItalic_def UpdateFlag_def TextAttribute_default_def)
  then show ?thesis
    using sgr_report_roundtrip [OF wf, of "[AC_ESC # 0x5B # drop 3 (ReportSGRSetting TextAttribute_default)]" "\<lambda>_. None"
        "SetItalic True TextAttribute_default"]
    by (simp add: SetItalic_def UpdateFlag_def TextAttribute_default_def)
qed

section \<open>Characters the parser mistakes\<close>

text \<open>C38:
  A control character among the parameters of a device control string is not ignored, as it is
  in the two neighbouring states and as the documentation of the state says: it is taken as the
  final character and dispatched.
\<close>

theorem DcsParam_dispatches_controls:
  assumes "isC0Code wc \<or> isDelete wc"
  shows "EventDcsParam ops wc s = ActionDcsDispatch ops wc s \<and> EventDcsEntry ops wc s = Some s
    \<and> EventDcsIntermediate ops wc s = Some s"
proof -
  have "\<not> isNumericParamValue wc \<and> \<not> isParameterDelimiter wc \<and> \<not> isIntermediate wc \<and> \<not> isParameterInvalid wc \<and> \<not> isSubParameterDelimiter wc"
    using assms by (auto simp: char_defs word_le_nat_alt)
  then show ?thesis
    using assms by (auto simp: EventDcsParam_def EventDcsEntry_def EventDcsIntermediate_def ActionIgnore_def)
qed

theorem DcsParam_dispatches_controls_witness:
  "\<forall>u8u16 s. EventDcsParam (OutputStateMachineEngine Recorder u8u16) AC_BEL s = ActionDcsDispatch (OutputStateMachineEngine Recorder u8u16) AC_BEL s
     \<and> EventDcsEntry (OutputStateMachineEngine Recorder u8u16) AC_BEL s = Some s"
proof -
  have "isC0Code AC_BEL \<or> isDelete AC_BEL" by (simp add: isC0Code_def)
  from DcsParam_dispatches_controls [OF this] show ?thesis by blast
qed

text \<open>C39:
  A final character beyond a byte is taken apart into several characters of the identifier: the
  escape sequence of the single CJK character U+3823 is dispatched as the screen alignment
  pattern, whose two characters have the codes 23 and 38.
\<close>

theorem wide_final_character_aliases:
  "terminal_events u8u16 [[AC_ESC, 0x3823]] = Some [Called (DC_Text ScreenAlignmentPattern)]"
proof -
  have start: "ProcessCharacter (recording u8u16) AC_ESC terminal = Some (EnterEscape terminal)"
    by (simp add: ProcessCharacter.simps [of _ AC_ESC] ActionInterrupt_def isEscape_def)
  have esc: "sm_state (EnterEscape terminal) = Escape" "\<not> sm_isEngineForInput (EnterEscape terminal)" "Ansi \<in> sm_parserMode (EnterEscape terminal)"
    "sm_identifier (EnterEscape terminal) = VTIDBuilder_Clear" "sm_engine (EnterEscape terminal) = OutputEngine_init []"
    using terminal_simps by (simp_all add: EnterEscape_def ActionClear_def)
  have final: "Finalize 0x3823 VTIDBuilder_Clear = DECALN_ScreenAlignmentPattern"
    by (simp add: Finalize_def VTIDBuilder_Clear_def VTID_of_value_def DECALN_ScreenAlignmentPattern_def VTID_def)
  have "ProcessCharacter (recording u8u16) 0x3823 (EnterEscape terminal) =
      map_option EnterGround (ActionEscDispatch (recording u8u16) 0x3823 (EnterEscape terminal))"
    using esc by (simp add: ProcessCharacter_Event EventEscape_def char_defs)
  also have "ActionEscDispatch (recording u8u16) 0x3823 (EnterEscape terminal) =
      execute_action (recording u8u16) (dispatch_and_clear Recorder (esc_calls DECALN_ScreenAlignmentPattern)) (EnterEscape terminal)"
    using esc(4) final by (simp add: ActionEscDispatch_def OutputStateMachineEngine_def out_ActionEscDispatch_def)
  finally show ?thesis
    using start esc(5)
    by (simp add: terminal_events_ProcessCharacters Recorder_dispatch_and_clear EnterGround_def ClearLastChar_def update_dispatch_def
        OutputEngine_init_def esc_calls_def esc_table_def action_codes VTID_inject)
qed

end
